(* ===== verification/Prelude.thy ===== *)
theory Prelude
  imports Main "HOL-Library.Word" "HOL-Library.Sublist" "HOL-Library.Char_ord"
    "HOL-Library.List_Lexorder"
begin

text \<open>
  Shared vocabulary of the development: the machine integers of the Rust source with their
  checked operations, the byte strings and the predicates of the Rust standard library the
  source uses on them (\<open>trim\<close>, \<open>is_control\<close>, the ASCII classes), decimal printing, lists of
  reasons, the
  \<open>Result\<close> type with its \<open>?\<close> operator, and the state-and-error computations in which the
  operations of the SQLite ledger are written, with the rules that carry a frame or an
  invariant through such a computation. The collection \<open>sx_simps\<close> unfolds the computations
  and the locale \<open>frame_relation\<close> holds the composition rules.
\<close>

named_theorems sx_simps "unfolding of state-and-error computations"

section \<open>Machine integers\<close>

type_synonym u32 = "32 word"
type_synonym u64 = "64 word"

text \<open>\<open>checked_add\<close>, \<open>checked_sub\<close>, \<open>saturating_add\<close>, \<open>saturating_sub\<close> of the Rust integer types.\<close>

definition checked_add :: "'a::len word \<Rightarrow> 'a word \<Rightarrow> 'a word option" where
  "checked_add a b = (if unat a + unat b < 2 ^ LENGTH('a) then Some (a + b) else None)"

definition checked_sub :: "'a::len word \<Rightarrow> 'a word \<Rightarrow> 'a word option" where
  "checked_sub a b = (if b \<le> a then Some (a - b) else None)"

definition saturating_add :: "'a::len word \<Rightarrow> 'a word \<Rightarrow> 'a word" where
  "saturating_add a b = (case checked_add a b of None \<Rightarrow> - 1 | Some c \<Rightarrow> c)"

definition saturating_sub :: "'a::len word \<Rightarrow> 'a word \<Rightarrow> 'a word" where
  "saturating_sub a b = (if b \<le> a then a - b else 0)"

text \<open>\<open>NonZeroU64::new\<close> and \<open>NonZeroU32::new\<close>.\<close>

definition nonzero :: "'a::len word \<Rightarrow> 'a word option" where
  "nonzero n = (if n = 0 then None else Some n)"

lemma unat_add_no_wrap:
  fixes a b :: "'a::len word"
  assumes "unat a + unat b < 2 ^ LENGTH('a)"
  shows "unat (a + b) = unat a + unat b"
  using assms by (simp add: unat_word_ariths)

lemma checked_add_code [code]:
  "checked_add (a :: 'a::len word) b =
     (if uint a + uint b < 2 ^ LENGTH('a) then Some (a + b) else None)"
proof -
  have "unat a + unat b < 2 ^ LENGTH('a) \<longleftrightarrow> int (unat a + unat b) < int (2 ^ LENGTH('a))"
    by (simp only: of_nat_less_iff)
  then show ?thesis by (simp add: checked_add_def)
qed

lemma checked_add_Some:
  "checked_add a b = Some c \<Longrightarrow> c = a + b \<and> unat c = unat a + unat b"
  by (auto simp: checked_add_def unat_add_no_wrap split: if_splits)

lemma checked_add_Some_less:
  fixes a c :: "'a::len word"
  assumes "checked_add a 1 = Some c"
  shows "a < c"
proof -
  from checked_add_Some [OF assms] have "unat c = unat a + unat (1 :: 'a word)" by (rule conjunct2)
  then show ?thesis unfolding word_less_nat_alt by (simp only: unat_1)
qed

lemma checked_add_one_nonzero:
  "checked_add a 1 = Some c \<Longrightarrow> c \<noteq> 0"
  by (drule checked_add_Some_less) auto

lemma checked_add_one_inj:
  "checked_add a 1 = Some c \<Longrightarrow> checked_add b 1 = Some c \<Longrightarrow> a = b"
  by (auto simp: checked_add_def split: if_splits)

lemma checked_add_uint:
  fixes a c :: "'a::len word"
  assumes "checked_add a 1 = Some c"
  shows "uint c = uint a + 1"
proof -
  from checked_add_Some [OF assms] have u: "unat c = unat a + unat (1 :: 'a word)" by (rule conjunct2)
  show ?thesis unfolding uint_nat u unat_1 by simp
qed

lemma nonzero_Some [simp]: "nonzero n = Some m \<longleftrightarrow> n = m \<and> m \<noteq> 0"
  by (auto simp: nonzero_def)

lemma nonzero_None [simp]: "nonzero n = None \<longleftrightarrow> n = 0"
  by (auto simp: nonzero_def)

section \<open>Byte strings\<close>

text \<open>
  A Rust \<open>str\<close> is UTF-8 encoded; a \<open>string\<close> here is its list of bytes, so \<open>length\<close> is
  \<open>str::len\<close>. \<open>ws_encodings\<close> holds the UTF-8 encodings of the characters with the Unicode
  property White\_Space, which is what \<open>str::trim\<close> removes.
\<close>

definition byte :: "char \<Rightarrow> nat" where
  "byte c = of_char c"

text \<open>Conversions between bytes and characters for evaluation, without the bit operations of
  every semiring.\<close>

definition to_char :: "nat \<Rightarrow> char" where
  "to_char n = char_of n"

lemma to_char_code [code]:
  "to_char n = Char (n mod 2 = 1) (n div 2 mod 2 = 1) (n div 4 mod 2 = 1) (n div 8 mod 2 = 1)
    (n div 16 mod 2 = 1) (n div 32 mod 2 = 1) (n div 64 mod 2 = 1) (n div 128 mod 2 = 1)"
  by (simp add: to_char_def char_of_def bit_iff_odd odd_iff_mod_2_eq_one)

lemma char_of_code [code_unfold]: "(char_of :: nat \<Rightarrow> char) = to_char"
  by (rule ext) (simp add: to_char_def)

lemma byte_code [code]:
  "byte (Char b0 b1 b2 b3 b4 b5 b6 b7) =
     (if b0 then 1 else 0) + (if b1 then 2 else 0) + (if b2 then 4 else 0) + (if b3 then 8 else 0) +
     (if b4 then 16 else 0) + (if b5 then 32 else 0) + (if b6 then 64 else 0) + (if b7 then 128 else 0)"
  by (simp add: byte_def of_bool_def)

definition is_ascii_digit :: "char \<Rightarrow> bool" where
  "is_ascii_digit c \<longleftrightarrow> 48 \<le> byte c \<and> byte c \<le> 57"

definition is_ascii_uppercase :: "char \<Rightarrow> bool" where
  "is_ascii_uppercase c \<longleftrightarrow> 65 \<le> byte c \<and> byte c \<le> 90"

definition is_ascii_alphanumeric :: "char \<Rightarrow> bool" where
  "is_ascii_alphanumeric c \<longleftrightarrow>
     is_ascii_digit c \<or> is_ascii_uppercase c \<or> 97 \<le> byte c \<and> byte c \<le> 122"

definition is_lower_hex :: "char \<Rightarrow> bool" where
  "is_lower_hex c \<longleftrightarrow> is_ascii_digit c \<or> 97 \<le> byte c \<and> byte c \<le> 102"

definition to_ascii_lowercase :: "string \<Rightarrow> string" where
  "to_ascii_lowercase = map (\<lambda>c. if is_ascii_uppercase c then char_of (byte c + 32) else c)"

definition ws_encodings :: "string list" where
  "ws_encodings =
     [[CHR 0x09], [CHR 0x0A], [CHR 0x0B], [CHR 0x0C], [CHR 0x0D], [CHR 0x20],
      [CHR 0xC2, CHR 0x85], [CHR 0xC2, CHR 0xA0], [CHR 0xE1, CHR 0x9A, CHR 0x80],
      [CHR 0xE2, CHR 0x80, CHR 0x80], [CHR 0xE2, CHR 0x80, CHR 0x81],
      [CHR 0xE2, CHR 0x80, CHR 0x82], [CHR 0xE2, CHR 0x80, CHR 0x83],
      [CHR 0xE2, CHR 0x80, CHR 0x84], [CHR 0xE2, CHR 0x80, CHR 0x85],
      [CHR 0xE2, CHR 0x80, CHR 0x86], [CHR 0xE2, CHR 0x80, CHR 0x87],
      [CHR 0xE2, CHR 0x80, CHR 0x88], [CHR 0xE2, CHR 0x80, CHR 0x89],
      [CHR 0xE2, CHR 0x80, CHR 0x8A], [CHR 0xE2, CHR 0x80, CHR 0xA8],
      [CHR 0xE2, CHR 0x80, CHR 0xA9], [CHR 0xE2, CHR 0x80, CHR 0xAF],
      [CHR 0xE2, CHR 0x81, CHR 0x9F], [CHR 0xE3, CHR 0x80, CHR 0x80]]"

function trim_by :: "string list \<Rightarrow> string \<Rightarrow> string" where
  "trim_by ws s =
     (case find (\<lambda>w. w \<noteq> [] \<and> take (length w) s = w) ws of
        None \<Rightarrow> s
      | Some w \<Rightarrow> trim_by ws (drop (length w) s))"
  by pat_completeness auto
termination
proof (relation "measure (\<lambda>(ws, s). length s)", simp)
  fix ws s w
  assume "find (\<lambda>w. w \<noteq> [] \<and> take (length w) s = w) ws = Some w"
  then have "w \<noteq> []" and "take (length w) s = w"
    by (auto simp: find_Some_iff)
  then show "((ws, drop (length w) s), ws, s) \<in> measure (\<lambda>(ws, s). length s)"
    by (cases s) auto
qed

declare trim_by.simps [simp del]

definition trim_start :: "string \<Rightarrow> string" where
  "trim_start = trim_by ws_encodings"

definition trim_end :: "string \<Rightarrow> string" where
  "trim_end s = rev (trim_by (map rev ws_encodings) (rev s))"

definition trim :: "string \<Rightarrow> string" where
  "trim s = trim_end (trim_start s)"

text \<open>\<open>value.trim().is_empty()\<close>\<close>

definition blank :: "string \<Rightarrow> bool" where
  "blank s \<longleftrightarrow> trim s = []"

text \<open>\<open>value.chars().any(char::is_control)\<close>: the general category Cc is U+0000--U+001F and
  U+007F--U+009F, the latter from U+0080 on encoded as the byte 0xC2 and a continuation byte.\<close>

fun has_control :: "string \<Rightarrow> bool" where
  "has_control [] = False"
| "has_control (c # s) =
     (byte c < 32 \<or> byte c = 127 \<or>
      (byte c = 194 \<and> (case s of [] \<Rightarrow> False | d # _ \<Rightarrow> 128 \<le> byte d \<and> byte d \<le> 159)) \<or>
      has_control s)"

lemma trim_by_keeps:
  "\<forall>w \<in> set ws. x \<notin> set w \<Longrightarrow> x \<in> set s \<Longrightarrow> x \<in> set (trim_by ws s)"
proof (induction ws s rule: trim_by.induct)
  case (1 ws s)
  show ?case
  proof (cases "find (\<lambda>w. w \<noteq> [] \<and> take (length w) s = w) ws")
    case None
    then show ?thesis using "1.prems" by (subst trim_by.simps) simp
  next
    case (Some w)
    then have w: "w \<in> set ws" "take (length w) s = w"
      by (auto simp: find_Some_iff)
    have "x \<in> set (take (length w) s) \<union> set (drop (length w) s)"
      using "1.prems" by (metis append_take_drop_id set_append)
    with w "1.prems"(1) have "x \<in> set (drop (length w) s)" by (metis Un_iff)
    with Some "1.IH" "1.prems"(1) show ?thesis by (subst trim_by.simps) simp
  qed
qed

text \<open>A string with a printable ASCII byte is not blank; the rule decides \<open>blank\<close> on literals.\<close>

lemma ws_encodings_not_graphic:
  assumes "33 \<le> byte c" "byte c \<le> 126" "w \<in> set ws_encodings"
  shows "c \<notin> set w"
proof -
  have "\<forall>w \<in> set ws_encodings. \<forall>d \<in> set w. byte d < 33 \<or> 126 < byte d"
    by (simp add: ws_encodings_def byte_def)
  with assms show ?thesis by fastforce
qed

lemma trim_keeps_graphic:
  assumes "33 \<le> byte c" "byte c \<le> 126" "c \<in> set s"
  shows "c \<in> set (trim s)"
proof -
  have "c \<in> set (trim_start s)"
    unfolding trim_start_def
    using assms ws_encodings_not_graphic by (intro trim_by_keeps) auto
  moreover have "\<forall>w \<in> set (map rev ws_encodings). c \<notin> set w"
    using assms(1,2) ws_encodings_not_graphic by auto
  ultimately show ?thesis
    by (simp add: trim_def trim_end_def trim_by_keeps)
qed

lemma not_blank_graphic [simp]:
  "33 \<le> byte c \<Longrightarrow> byte c \<le> 126 \<Longrightarrow> \<not> blank (c # s)"
  using trim_keeps_graphic [of c "c # s"] by (auto simp: blank_def)

lemma blank_Nil [simp]: "blank []"
  by (simp add: blank_def trim_def trim_end_def trim_start_def trim_by.simps ws_encodings_def)

lemma not_blank_not_Nil: "\<not> blank s \<Longrightarrow> s \<noteq> []"
  by auto

section \<open>Decimal printing\<close>

definition digit_char :: "nat \<Rightarrow> char" where
  "digit_char d = char_of (48 + d)"

fun show_nat :: "nat \<Rightarrow> string" where
  "show_nat n = (if n < 10 then [digit_char n] else show_nat (n div 10) @ [digit_char (n mod 10)])"

declare show_nat.simps [simp del]

text \<open>\<open>Display\<close> of \<open>u32\<close> and \<open>u64\<close>.\<close>

definition show_word :: "'a::len word \<Rightarrow> string" where
  "show_word w = show_nat (unat w)"

definition read_digits :: "string \<Rightarrow> nat" where
  "read_digits = foldl (\<lambda>a c. 10 * a + (byte c - 48)) 0"

lemma byte_digit_char: "d < 10 \<Longrightarrow> byte (digit_char d) = 48 + d"
  by (simp add: byte_def digit_char_def)

lemma read_digits_snoc: "read_digits (s @ [c]) = 10 * read_digits s + (byte c - 48)"
  by (simp add: read_digits_def)

lemma read_digits_show_nat [simp]: "read_digits (show_nat n) = n"
proof (induction n rule: show_nat.induct)
  case (1 n)
  show ?case
  proof (cases "n < 10")
    case True
    then show ?thesis
      by (subst show_nat.simps) (simp add: read_digits_def byte_digit_char)
  next
    case False
    with "1.IH" show ?thesis
      by (subst show_nat.simps) (simp add: read_digits_snoc byte_digit_char)
  qed
qed

lemma show_nat_inj [simp]: "show_nat m = show_nat n \<longleftrightarrow> m = n"
  by (metis read_digits_show_nat)

lemma show_word_inj [simp]: "show_word v = show_word w \<longleftrightarrow> v = w"
  by (simp add: show_word_def word_unat_eq_iff)

lemma show_nat_digits: "c \<in> set (show_nat n) \<Longrightarrow> is_ascii_digit c"
proof (induction n rule: show_nat.induct)
  case (1 n)
  have last: "is_ascii_digit (digit_char d)" if "d < 10" for d
    using that by (simp add: is_ascii_digit_def byte_digit_char)
  show ?case
  proof (cases "n < 10")
    case True
    with "1.prems" show ?thesis by (subst (asm) show_nat.simps) (simp add: last)
  next
    case False
    with "1.prems" have "c \<in> set (show_nat (n div 10)) \<or> c = digit_char (n mod 10)"
      by (subst (asm) show_nat.simps) auto
    with False "1.IH" show ?thesis by (auto simp: last)
  qed
qed

lemma show_word_digits: "c \<in> set (show_word w) \<Longrightarrow> is_ascii_digit c"
  unfolding show_word_def by (rule show_nat_digits)

section \<open>Lists of reasons\<close>

text \<open>The source collects reasons by pushing one whenever its condition holds. \<open>only\<close> keeps such
  a chain of pushes a flat concatenation under simplification.\<close>

definition only :: "bool \<Rightarrow> 'b \<Rightarrow> 'b list" where
  "only c b = (if c then [b] else [])"

definition block_if :: "bool \<Rightarrow> 'b \<Rightarrow> 'b list \<Rightarrow> 'b list" where
  "block_if condition blocker blockers = (if condition then blockers @ [blocker] else blockers)"

lemma block_if_only: "block_if c b bs = bs @ only c b"
  by (simp add: block_if_def only_def)

lemma filter_only: "filter P (b # bs) = only (P b) b @ filter P bs" "filter P [] = []"
  by (simp_all add: only_def)

lemma only_eq_Nil [simp]: "only c b = [] \<longleftrightarrow> \<not> c"
  by (simp add: only_def)

lemma set_only [simp]: "x \<in> set (only c b) \<longleftrightarrow> c \<and> x = b"
  by (auto simp: only_def)

section \<open>Separators\<close>

text \<open>A field that contains no separator is determined by the text up to the separator.\<close>

lemma append_sep_inj:
  assumes "xs @ x # ys = xs' @ x # ys'" "x \<notin> set xs" "x \<notin> set xs'"
  shows "xs = xs' \<and> ys = ys'"
  using assms
proof (induction xs arbitrary: xs')
  case Nil
  then show ?case by (cases xs') auto
next
  case (Cons a xs)
  then show ?case by (cases xs') auto
qed

section \<open>Results\<close>

text \<open>\<open>Result<T, E>\<close> is \<open>'e + 'a\<close> with \<open>Inl\<close> the error; \<open>rbind\<close> is the \<open>?\<close> operator.\<close>

definition rbind :: "'e + 'a \<Rightarrow> ('a \<Rightarrow> 'e + 'b) \<Rightarrow> 'e + 'b" where
  "rbind r f = (case r of Inl e \<Rightarrow> Inl e | Inr a \<Rightarrow> f a)"

definition ok_or :: "'a option \<Rightarrow> 'e \<Rightarrow> 'e + 'a" where
  "ok_or x e = (case x of None \<Rightarrow> Inl e | Some a \<Rightarrow> Inr a)"

definition reject_if :: "bool \<Rightarrow> 'e \<Rightarrow> 'e + unit" where
  "reject_if b e = (if b then Inl e else Inr ())"

definition map_err :: "('e \<Rightarrow> 'f) \<Rightarrow> 'e + 'a \<Rightarrow> 'f + 'a" where
  "map_err g r = (case r of Inl e \<Rightarrow> Inl (g e) | Inr a \<Rightarrow> Inr a)"

fun rmap :: "('a \<Rightarrow> 'e + 'b) \<Rightarrow> 'a list \<Rightarrow> 'e + 'b list" where
  "rmap f [] = Inr []"
| "rmap f (x # xs) = rbind (f x) (\<lambda>y. rbind (rmap f xs) (\<lambda>ys. Inr (y # ys)))"

lemma rbind_simps [simp]: "rbind (Inl e) f = Inl e" "rbind (Inr a) f = f a"
  by (simp_all add: rbind_def)

lemma rbind_eq_Inr [simp]: "rbind r f = Inr b \<longleftrightarrow> (\<exists>a. r = Inr a \<and> f a = Inr b)"
  by (cases r) simp_all

lemma rbind_eq_Inl: "rbind r f = Inl e \<longleftrightarrow> r = Inl e \<or> (\<exists>a. r = Inr a \<and> f a = Inl e)"
  by (cases r) simp_all

lemma ok_or_simps [simp]: "ok_or None e = Inl e" "ok_or (Some a) e = Inr a"
  by (simp_all add: ok_or_def)

lemma ok_or_eq_Inr [simp]: "ok_or x e = Inr a \<longleftrightarrow> x = Some a"
  by (cases x) simp_all

lemma ok_or_eq_Inl [simp]: "ok_or x e = Inl e' \<longleftrightarrow> x = None \<and> e' = e"
  by (cases x) auto

lemma reject_if_simps [simp]:
  "reject_if True e = Inl e" "reject_if False e = Inr ()"
  "reject_if b e = Inr u \<longleftrightarrow> \<not> b" "reject_if b e = Inl e' \<longleftrightarrow> b \<and> e' = e"
  by (auto simp: reject_if_def)

lemma map_err_simps [simp]:
  "map_err g (Inl e) = Inl (g e)" "map_err g (Inr a) = Inr a"
  "map_err g r = Inr a \<longleftrightarrow> r = Inr a"
  "map_err g r = Inl f \<longleftrightarrow> (\<exists>e. r = Inl e \<and> f = g e)"
  by (auto simp: map_err_def split: sum.splits)

lemma rmap_eq_Inr: "rmap f xs = Inr ys \<longleftrightarrow> list_all2 (\<lambda>x y. f x = Inr y) xs ys"
  by (induction xs arbitrary: ys) (auto simp: list_all2_Cons1)

section \<open>State-and-error computations\<close>

text \<open>
  An operation of the ledger reads and writes the database and may return early with an
  error. It is a function from the database to a result and the database it leaves behind;
  on an error the writes made before it are still in place, unless they were made inside a
  transaction: \<open>stransaction\<close> is \<open>transaction\<close>, body, \<open>commit\<close>, and dropping the
  \<open>Transaction\<close> on an early return rolls every write of the body back.
\<close>

type_synonym ('s, 'e, 'a) smonad = "'s \<Rightarrow> ('e + 'a) \<times> 's"

definition sreturn :: "'a \<Rightarrow> ('s, 'e, 'a) smonad" where
  [sx_simps]: "sreturn a = (\<lambda>s. (Inr a, s))"

definition sfail :: "'e \<Rightarrow> ('s, 'e, 'a) smonad" where
  [sx_simps]: "sfail e = (\<lambda>s. (Inl e, s))"

definition sbind :: "('s, 'e, 'a) smonad \<Rightarrow> ('a \<Rightarrow> ('s, 'e, 'b) smonad) \<Rightarrow> ('s, 'e, 'b) smonad" where
  "sbind m f = (\<lambda>s. case m s of (Inl e, s') \<Rightarrow> (Inl e, s') | (Inr a, s') \<Rightarrow> f a s')"

definition sread :: "('s \<Rightarrow> 'a) \<Rightarrow> ('s, 'e, 'a) smonad" where
  [sx_simps]: "sread f = (\<lambda>s. (Inr (f s), s))"

definition slift :: "'e + 'a \<Rightarrow> ('s, 'e, 'a) smonad" where
  [sx_simps]: "slift r = (\<lambda>s. (r, s))"

definition squery :: "('s \<Rightarrow> 'e + 'a) \<Rightarrow> ('s, 'e, 'a) smonad" where
  [sx_simps]: "squery f = (\<lambda>s. (f s, s))"

definition smodify :: "('s \<Rightarrow> 's) \<Rightarrow> ('s, 'e, unit) smonad" where
  [sx_simps]: "smodify f = (\<lambda>s. (Inr (), f s))"

definition sreject_if :: "bool \<Rightarrow> 'e \<Rightarrow> ('s, 'e, unit) smonad" where
  "sreject_if b e = (if b then sfail e else sreturn ())"

definition stransaction :: "('s, 'e, 'a) smonad \<Rightarrow> ('s, 'e, 'a) smonad" where
  "stransaction m = (\<lambda>s. case m s of (Inl e, _) \<Rightarrow> (Inl e, s) | (Inr a, s') \<Rightarrow> (Inr a, s'))"

fun sfor :: "'x list \<Rightarrow> ('x \<Rightarrow> ('s, 'e, unit) smonad) \<Rightarrow> ('s, 'e, unit) smonad" where
  "sfor [] f = sreturn ()"
| "sfor (x # xs) f = sbind (f x) (\<lambda>_. sfor xs f)"

lemma sbind_Inr [simp]:
  "sbind m f s = (Inr b, t) \<longleftrightarrow> (\<exists>a s'. m s = (Inr a, s') \<and> f a s' = (Inr b, t))"
  by (auto simp: sbind_def split: prod.splits sum.splits)

lemma sbind_Inl:
  "sbind m f s = (Inl e, t) \<longleftrightarrow>
     m s = (Inl e, t) \<or> (\<exists>a s'. m s = (Inr a, s') \<and> f a s' = (Inl e, t))"
  by (auto simp: sbind_def split: prod.splits sum.splits)

lemma sbind_run: "m s = (Inr a, s') \<Longrightarrow> sbind m f s = f a s'"
  by (simp add: sbind_def)

lemma sreturn_run [simp]: "sreturn a s = (Inr a, s)"
  by (simp add: sx_simps)

lemma sfail_run [simp]: "sfail e s = (Inl e, s)"
  by (simp add: sx_simps)

lemma sread_run [simp]: "sread f s = (Inr (f s), s)"
  by (simp add: sx_simps)

lemma slift_run [simp]: "slift r s = (r, s)"
  by (simp add: sx_simps)

lemma squery_run [simp]: "squery f s = (f s, s)"
  by (simp add: sx_simps)

lemma smodify_run [simp]: "smodify f s = (Inr (), f s)"
  by (simp add: sx_simps)

lemma sbind_slift: "sbind (slift (Inr a)) f s = f a s"
  and sbind_sread: "sbind (sread g) f s = f (g s) s"
  by (simp_all add: sbind_def)

lemma sreject_if_run [simp]:
  "sreject_if b e s = (if b then Inl e else Inr (), s)"
  by (simp add: sreject_if_def)

lemma if_reject [simp]:
  "(if b then Inl e else Inr ()) = (Inr u :: 'e + unit) \<longleftrightarrow> \<not> b"
  "(if b then Inl e else Inr ()) = (Inl e' :: 'e + unit) \<longleftrightarrow> b \<and> e' = e"
  by auto

lemma sbind_eval [sx_simps]:
  "sbind m f s = (case m s of (Inl e, s') \<Rightarrow> (Inl e, s') | (Inr a, s') \<Rightarrow> f a s')"
  by (simp add: sbind_def)

lemma stransaction_eval [sx_simps]:
  "stransaction m s = (case m s of (Inl e, _) \<Rightarrow> (Inl e, s) | (Inr a, s') \<Rightarrow> (Inr a, s'))"
  by (simp add: stransaction_def)

lemma stransaction_Inr [simp]: "stransaction m s = (Inr a, t) \<longleftrightarrow> m s = (Inr a, t)"
  by (auto simp: stransaction_def split: prod.splits sum.splits)

lemma stransaction_Inl: "stransaction m s = (Inl e, t) \<longleftrightarrow> fst (m s) = Inl e \<and> t = s"
  by (auto simp: stransaction_def split: prod.splits sum.splits)

text \<open>A computation that leaves the database alone when it fails.\<close>

definition satomic :: "('s, 'e, 'a) smonad \<Rightarrow> bool" where
  "satomic m \<longleftrightarrow> (\<forall>s e t. m s = (Inl e, t) \<longrightarrow> t = s)"

text \<open>A computation that never writes.\<close>

definition sreadonly :: "('s, 'e, 'a) smonad \<Rightarrow> bool" where
  "sreadonly m \<longleftrightarrow> (\<forall>s. snd (m s) = s)"

lemma sreadonly_basic [simp, intro]:
  "sreadonly (sreturn a)" "sreadonly (sfail e)" "sreadonly (sread f)" "sreadonly (slift r)"
  "sreadonly (squery q)" "sreadonly (sreject_if b e)"
  by (simp_all add: sreadonly_def)

lemma sreadonlyD: "sreadonly m \<Longrightarrow> m s = (r, t) \<Longrightarrow> t = s"
  by (metis sreadonly_def snd_conv)

lemma satomic_transaction [simp, intro]: "satomic (stransaction m)"
  by (auto simp: satomic_def stransaction_Inl)

lemma satomic_readonly [intro]: "sreadonly m \<Longrightarrow> satomic m"
  by (auto simp: satomic_def dest: sreadonlyD)

text \<open>Reads before an atomic computation keep it atomic.\<close>

lemma satomic_bind [intro]:
  assumes "sreadonly m" "\<And>a. satomic (f a)"
  shows "satomic (sbind m f)"
  using assms by (auto simp: satomic_def sbind_Inl dest: sreadonlyD)

lemma satomicD: "satomic m \<Longrightarrow> m s = (Inl e, t) \<Longrightarrow> t = s"
  by (auto simp: satomic_def)

section \<open>Frames\<close>

text \<open>
  \<open>steps R m\<close>: however \<open>m\<close> ends, the database it leaves is related by \<open>R\<close> to the one it
  started from. For a reflexive and transitive \<open>R\<close> the rules of the locale carry this through
  every way a computation is put together, so that a property of a whole operation follows
  from its single writes. Append-only tables and invariants are both such relations.
\<close>

definition steps :: "('s \<Rightarrow> 's \<Rightarrow> bool) \<Rightarrow> ('s, 'e, 'a) smonad \<Rightarrow> bool" where
  "steps R m \<longleftrightarrow> (\<forall>s r t. m s = (r, t) \<longrightarrow> R s t)"

lemma stepsD: "steps R m \<Longrightarrow> m s = (r, t) \<Longrightarrow> R s t"
  by (auto simp: steps_def)

lemma stepsI: "(\<And>s r t. m s = (r, t) \<Longrightarrow> R s t) \<Longrightarrow> steps R m"
  by (auto simp: steps_def)

locale frame_relation =
  fixes R :: "'s \<Rightarrow> 's \<Rightarrow> bool"
  assumes R_refl: "R s s"
    and R_trans: "R s t \<Longrightarrow> R t u \<Longrightarrow> R s u"
begin

lemma steps_readonly: "sreadonly m \<Longrightarrow> steps R m"
  by (auto simp: steps_def R_refl dest: sreadonlyD)

lemma steps_basic:
  "steps R (sreturn a)" "steps R (sfail e)" "steps R (sread f)" "steps R (slift r)"
  "steps R (squery q)" "steps R (sreject_if b e)"
  by (simp_all add: steps_readonly)

lemma steps_modify: "(\<And>s. R s (f s)) \<Longrightarrow> steps R (smodify f)"
  by (simp add: steps_def)

lemma steps_bind:
  assumes "steps R m" "\<And>a. steps R (f a)"
  shows "steps R (sbind m f)"
proof (rule stepsI)
  fix s r t
  assume run: "sbind m f s = (r, t)"
  obtain r' s' where m: "m s = (r', s')" by (cases "m s")
  then have "R s s'" by (rule stepsD [OF assms(1)])
  show "R s t"
  proof (cases r')
    case (Inl e)
    with run m \<open>R s s'\<close> show ?thesis by (simp add: sbind_def)
  next
    case (Inr a)
    with run m have "f a s' = (r, t)" by (simp add: sbind_def)
    then have "R s' t" by (rule stepsD [OF assms(2)])
    with \<open>R s s'\<close> show ?thesis by (rule R_trans)
  qed
qed

text \<open>What a check has established is known behind it.\<close>

lemma steps_checked: "(\<not> b \<Longrightarrow> steps R (f ())) \<Longrightarrow> steps R (sbind (sreject_if b e) f)"
  by (auto simp: steps_def sbind_def R_refl)

lemma steps_lifted: "(\<And>a. r = Inr a \<Longrightarrow> steps R (f a)) \<Longrightarrow> steps R (sbind (slift r) f)"
  by (auto simp: steps_def sbind_def R_refl split: sum.splits)

lemma steps_queried: "(\<And>a s. q s = Inr a \<Longrightarrow> steps R (f a)) \<Longrightarrow> steps R (sbind (squery q) f)"
  by (auto simp: steps_def sbind_def R_refl split: sum.splits)

lemma steps_transaction:
  assumes "steps R m"
  shows "steps R (stransaction m)"
proof (rule stepsI)
  fix s r t
  assume "stransaction m s = (r, t)"
  with assms show "R s t"
    by (cases r) (auto simp: stransaction_Inl R_refl dest: stepsD)
qed

lemma steps_for: "(\<And>x. x \<in> set xs \<Longrightarrow> steps R (f x)) \<Longrightarrow> steps R (sfor xs f)"
  by (induction xs) (auto intro!: steps_bind steps_basic)

lemma steps_if: "(b \<Longrightarrow> steps R m) \<Longrightarrow> (\<not> b \<Longrightarrow> steps R n) \<Longrightarrow> steps R (if b then m else n)"
  by simp

lemma steps_option:
  "(x = None \<Longrightarrow> steps R m) \<Longrightarrow> (\<And>a. x = Some a \<Longrightarrow> steps R (f a)) \<Longrightarrow>
     steps R (case x of None \<Rightarrow> m | Some a \<Rightarrow> f a)"
  by (cases x) simp_all

lemma steps_prod: "(\<And>a b. x = (a, b) \<Longrightarrow> steps R (f a b)) \<Longrightarrow> steps R (case x of (a, b) \<Rightarrow> f a b)"
  by (cases x) simp

lemmas steps_rules = steps_basic steps_bind steps_transaction steps_for steps_if steps_option
  steps_prod

end

text \<open>An invariant is a frame relation: it holds after if it held before.\<close>

interpretation keep: frame_relation "\<lambda>s t. P s \<longrightarrow> P t" for P
  by unfold_locales auto

text \<open>An append-only table is one: the rows before are a prefix of the rows after.\<close>

interpretation appends: frame_relation "\<lambda>s t. prefix (rows s) (rows t)" for rows
  by unfold_locales auto

text \<open>So is keeping a part of the state as it is.\<close>

interpretation same: frame_relation "\<lambda>s t. part t = part s" for part
  by unfold_locales auto

section \<open>Tables whose rows develop\<close>

text \<open>
  The rows of a table after an operation: those of before, in their order and each related to
  what it was, and rows added behind them. For a reflexive and transitive relation of rows this
  is a frame relation of states.
\<close>

definition rows_evolve :: "('r \<Rightarrow> 'r \<Rightarrow> bool) \<Rightarrow> 'r list \<Rightarrow> 'r list \<Rightarrow> bool" where
  "rows_evolve R xs ys \<longleftrightarrow> (\<exists>old new. ys = old @ new \<and> list_all2 R xs old)"

locale row_relation =
  fixes R :: "'r \<Rightarrow> 'r \<Rightarrow> bool"
  assumes row_refl: "R r r"
    and row_trans: "R a b \<Longrightarrow> R b c \<Longrightarrow> R a c"
begin

lemma evolve_append: "rows_evolve R xs (xs @ ys)"
  unfolding rows_evolve_def using list_all2_refl [of R] row_refl by blast

lemma evolve_refl: "rows_evolve R xs xs"
  using evolve_append [of xs "[]"] by simp

lemma evolve_trans:
  assumes "rows_evolve R xs ys" "rows_evolve R ys zs"
  shows "rows_evolve R xs zs"
proof -
  from assms obtain old new old' new' where
    ys: "ys = old @ new" "list_all2 R xs old" and zs: "zs = old' @ new'" "list_all2 R (old @ new) old'"
    by (auto simp: rows_evolve_def)
  from zs(2) obtain a b where "old' = a @ b" "list_all2 R old a"
    by (auto simp: list_all2_append1)
  moreover from ys(2) this(2) have "list_all2 R xs a"
    using list_all2_trans [of R R R] row_trans by blast
  ultimately show ?thesis using zs(1) by (auto simp: rows_evolve_def)
qed

lemma evolve_map: "(\<And>x. x \<in> set xs \<Longrightarrow> R x (f x)) \<Longrightarrow> rows_evolve R xs (map f xs)"
  unfolding rows_evolve_def by (rule exI [of _ "map f xs"]) (simp add: list_all2_conv_all_nth)

lemma evolve_row:
  assumes "rows_evolve R xs ys" "x \<in> set xs"
  obtains y where "y \<in> set ys" "R x y"
proof -
  from assms obtain old new where ys: "ys = old @ new" and all: "list_all2 R xs old"
    by (auto simp: rows_evolve_def)
  from assms(2) obtain i where "i < length xs" "xs ! i = x" by (auto simp: in_set_conv_nth)
  with all have "R x (old ! i)" "old ! i \<in> set old" by (auto simp: list_all2_conv_all_nth)
  with ys show ?thesis by (intro that) auto
qed

end

sublocale row_relation \<subseteq> evolving: frame_relation "\<lambda>s t. rows_evolve R (get s) (get t)" for get
  by unfold_locales (blast intro: evolve_refl evolve_trans)+

end
