(* ===== verification/Domain.thy ===== *)
theory Domain
  imports Prelude
begin

text \<open>
  The identifiers of \<open>pip-core/src/domain.rs\<close>. A \<open>nonzero_id!\<close> newtype is a one-constructor
  datatype over the primitive it wraps; that the primitive is not zero is the predicate the
  constructor \<open>NonZero::new\<close> checks, and \<open>wf_case_id\<close> states it of a whole case identity. The
  textual identifiers are their validated text. The lemmas show that printing and parsing are
  inverse and that the printed case identity, which is the primary key of the ledger, is unique.
\<close>

section \<open>Definitions\<close>

datatype IdentifierError = IdentifierError string string

definition valid_slug :: "string \<Rightarrow> bool" where
  "valid_slug value \<longleftrightarrow> value \<noteq> [] \<and>
     list_all (\<lambda>b. is_ascii_alphanumeric b \<or> b \<in> {CHR ''.'', CHR ''_'', CHR ''-''}) value"

text \<open>\<open>str::split\<close> at a one-byte separator: never empty, one more piece than separators.\<close>

fun split_on :: "char \<Rightarrow> string \<Rightarrow> string list" where
  "split_on sep [] = [[]]"
| "split_on sep (c # s) =
     (if c = sep then [] # split_on sep s
      else case split_on sep s of [] \<Rightarrow> [[c]] | p # ps \<Rightarrow> (c # p) # ps)"

datatype RepositorySlug = RepositorySlug string

definition RepositorySlug_from_str :: "string \<Rightarrow> IdentifierError + RepositorySlug" where
  "RepositorySlug_from_str value =
     (let parts = split_on (CHR ''/'') value;
          owner = (case parts of [] \<Rightarrow> [] | p # _ \<Rightarrow> p);
          repository = (case parts of _ # q # _ \<Rightarrow> q | _ \<Rightarrow> [])
      in if \<not> valid_slug owner \<or> \<not> valid_slug repository \<or> 2 < length parts
         then Inl (IdentifierError ''repository slug'' value)
         else Inr (RepositorySlug value))"

fun RepositorySlug_to_string :: "RepositorySlug \<Rightarrow> string" where
  "RepositorySlug_to_string (RepositorySlug s) = s"

datatype IssueNumber = IssueNumber (issue_number_get: u64)
datatype RepositoryId = RepositoryId (repository_id_get: u64)
datatype ActorId = ActorId (actor_id_get: u64)
datatype PullRequestNumber = PullRequestNumber (pr_number_get: u64)
datatype WorkflowVersion = WorkflowVersion (workflow_version_get: u32)
datatype PolicyRevision = PolicyRevision (policy_revision_get: u64)
datatype StateRevision = StateRevision (state_revision_get: u64)
datatype PlanVersion = PlanVersion (plan_version_get: u32)

record CaseId =
  cid_repository :: RepositoryId
  cid_issue :: IssueNumber
  cid_workflow :: WorkflowVersion

text \<open>The \<open>NonZero\<close> fields of a case identity.\<close>

definition wf_case_id :: "CaseId \<Rightarrow> bool" where
  "wf_case_id c \<longleftrightarrow> repository_id_get (cid_repository c) \<noteq> 0 \<and>
     issue_number_get (cid_issue c) \<noteq> 0 \<and> workflow_version_get (cid_workflow c) \<noteq> 0"

definition CaseId_to_string :: "CaseId \<Rightarrow> string" where
  "CaseId_to_string c =
     ''repo:'' @ show_word (repository_id_get (cid_repository c)) @
     ''#'' @ show_word (issue_number_get (cid_issue c)) @
     ''@'' @ show_word (workflow_version_get (cid_workflow c))"

datatype RunId = RunId string
datatype FindingId = FindingId string
datatype EventId = EventId string

definition textual_from_str :: "(string \<Rightarrow> 'a) \<Rightarrow> string \<Rightarrow> string \<Rightarrow> IdentifierError + 'a" where
  "textual_from_str mk kind value =
     (if \<not> valid_slug value then Inl (IdentifierError kind value) else Inr (mk value))"

definition RunId_from_str :: "string \<Rightarrow> IdentifierError + RunId" where
  "RunId_from_str = textual_from_str RunId ''run ID''"

definition FindingId_from_str :: "string \<Rightarrow> IdentifierError + FindingId" where
  "FindingId_from_str = textual_from_str FindingId ''finding ID''"

definition EventId_from_str :: "string \<Rightarrow> IdentifierError + EventId" where
  "EventId_from_str = textual_from_str EventId ''event ID''"

fun EventId_to_string :: "EventId \<Rightarrow> string" where
  "EventId_to_string (EventId s) = s"

datatype ObservedAt = ObservedAt (unix_seconds: u64)

definition StateRevision_checked_next :: "StateRevision \<Rightarrow> StateRevision option" where
  "StateRevision_checked_next r =
     map_option StateRevision (Option.bind (checked_add (state_revision_get r) 1) nonzero)"

datatype GitSha = GitSha string

definition GitSha_from_str :: "string \<Rightarrow> IdentifierError + GitSha" where
  "GitSha_from_str value =
     (if length value \<noteq> 40 \<or> \<not> list_all is_lower_hex value
      then Inl (IdentifierError ''Git SHA'' value) else Inr (GitSha value))"

fun GitSha_to_string :: "GitSha \<Rightarrow> string" where
  "GitSha_to_string (GitSha s) = s"

section \<open>Parsing and printing\<close>

lemma GitSha_from_str_iff:
  "GitSha_from_str s = Inr h \<longleftrightarrow> h = GitSha s \<and> length s = 40 \<and> list_all is_lower_hex s"
  by (auto simp: GitSha_from_str_def)

lemma GitSha_parse_print: "GitSha_from_str s = Inr h \<Longrightarrow> GitSha_to_string h = s"
  by (simp add: GitSha_from_str_iff)

lemma EventId_from_str_iff: "EventId_from_str s = Inr e \<longleftrightarrow> e = EventId s \<and> valid_slug s"
  by (auto simp: EventId_from_str_def textual_from_str_def)

lemma GitSha_to_string_inj [simp]: "GitSha_to_string a = GitSha_to_string b \<longleftrightarrow> a = b"
  by (cases a; cases b) simp

lemma split_on_not_Nil [simp]: "split_on sep s \<noteq> []"
  by (induction s) (auto split: list.splits)

lemma split_on_none: "sep \<notin> set s \<Longrightarrow> split_on sep s = [s]"
  by (induction s) auto

lemma split_on_append: "sep \<notin> set a \<Longrightarrow> split_on sep (a @ sep # b) = a # split_on sep b"
  by (induction a) auto

lemma split_on_pieces: "p \<in> set (split_on sep s) \<Longrightarrow> sep \<notin> set p"
  by (induction s arbitrary: p) (auto split: list.splits if_splits)

lemma split_on_two: "split_on sep s = [a, b] \<Longrightarrow> s = a @ sep # b"
proof (induction s arbitrary: a)
  case Nil
  then show ?case by simp
next
  case (Cons c s)
  show ?case
  proof (cases "c = sep")
    case True
    with Cons.prems have "a = []" "split_on sep s = [b]" by auto
    moreover have "s = b" if "split_on sep s = [b]" for b
      using that by (induction s arbitrary: b) (auto split: list.splits if_splits)
    ultimately show ?thesis using True by simp
  next
    case False
    with Cons show ?thesis by (auto split: list.splits)
  qed
qed

lemma valid_slug_no_slash: "valid_slug s \<Longrightarrow> CHR ''/'' \<notin> set s"
  by (auto simp: valid_slug_def list_all_iff is_ascii_alphanumeric_def is_ascii_digit_def
      is_ascii_uppercase_def byte_def)

text \<open>Exactly the texts \<open>owner/name\<close> with two valid segments are repository slugs.\<close>

lemma RepositorySlug_from_str_iff:
  "RepositorySlug_from_str s = Inr r \<longleftrightarrow>
     r = RepositorySlug s \<and> (\<exists>owner name. s = owner @ ''/'' @ name \<and> valid_slug owner \<and> valid_slug name)"
proof
  assume ok: "RepositorySlug_from_str s = Inr r"
  obtain a ps where ps: "split_on (CHR ''/'') s = a # ps" by (meson split_on_not_Nil list.exhaust)
  from ok ps obtain b where "split_on (CHR ''/'') s = [a, b]" "valid_slug a" "valid_slug b"
    by (cases ps; cases "tl ps") (auto simp: RepositorySlug_from_str_def Let_def valid_slug_def
        split: if_splits)
  with ok show "r = RepositorySlug s \<and>
      (\<exists>owner name. s = owner @ ''/'' @ name \<and> valid_slug owner \<and> valid_slug name)"
    by (auto simp: RepositorySlug_from_str_def Let_def dest: split_on_two split: if_splits)
next
  assume "r = RepositorySlug s \<and>
    (\<exists>owner name. s = owner @ ''/'' @ name \<and> valid_slug owner \<and> valid_slug name)"
  then obtain owner name where r: "r = RepositorySlug s" and s: "s = owner @ CHR ''/'' # name"
    and v: "valid_slug owner" "valid_slug name" by auto
  have "split_on (CHR ''/'') s = [owner, name]"
    using v by (simp add: s split_on_append split_on_none valid_slug_no_slash)
  with r v show "RepositorySlug_from_str s = Inr r"
    by (simp add: RepositorySlug_from_str_def)
qed

lemma digit_not_sep: "is_ascii_digit c \<Longrightarrow> c \<noteq> CHR ''#'' \<and> c \<noteq> CHR ''@''"
  by (auto simp: is_ascii_digit_def byte_def)

lemma show_word_no_sep [simp]: "CHR ''#'' \<notin> set (show_word w)" "CHR ''@'' \<notin> set (show_word w)"
  using show_word_digits digit_not_sep by blast+

lemma CaseId_to_string_fields:
  assumes "CaseId_to_string a = CaseId_to_string b"
  shows "cid_repository a = cid_repository b \<and> cid_issue a = cid_issue b \<and>
    cid_workflow a = cid_workflow b"
proof -
  let ?r = "\<lambda>c. show_word (repository_id_get (cid_repository c))"
  let ?i = "\<lambda>c. show_word (issue_number_get (cid_issue c))"
  let ?w = "\<lambda>c. show_word (workflow_version_get (cid_workflow c))"
  from assms have all: "?r a @ CHR ''#'' # (?i a @ CHR ''@'' # ?w a) = ?r b @ CHR ''#'' # (?i b @ CHR ''@'' # ?w b)"
    by (simp add: CaseId_to_string_def)
  have r: "?r a = ?r b" and iw: "?i a @ CHR ''@'' # ?w a = ?i b @ CHR ''@'' # ?w b"
    using append_sep_inj [OF all] by simp_all
  have "?i a = ?i b" "?w a = ?w b"
    using append_sep_inj [OF iw] by simp_all
  with r show ?thesis
    by (simp add: RepositoryId.expand IssueNumber.expand WorkflowVersion.expand)
qed

lemma CaseId_to_string_inj [simp]: "CaseId_to_string a = CaseId_to_string b \<longleftrightarrow> a = b"
  using CaseId_to_string_fields [of a b] by auto

lemma CaseId_to_string_not_blank [simp]: "\<not> blank (CaseId_to_string c)"
  by (simp add: CaseId_to_string_def byte_def)

lemma checked_next_Some:
  "StateRevision_checked_next r = Some r' \<longleftrightarrow>
     checked_add (state_revision_get r) 1 = Some (state_revision_get r')"
  by (cases r') (auto simp: StateRevision_checked_next_def bind_eq_Some_conv
      dest: checked_add_one_nonzero)

end
