(* ===== verification/StateMachine.thy ===== *)
theory StateMachine
  imports Domain
begin

text \<open>
  The transition engine of \<open>pip-core/src/state_machine.rs\<close>: the states of a case, the events
  that move it, the effects a transition asks for, and \<open>transition\<close> itself, arm by arm in the
  order of the source. The \<open>string_enum!\<close> tables are the wire forms the ledger stores. On top
  of the function stands the step relation \<open>case_step\<close> of one case under a fixed context shape,
  its runs \<open>case_run\<close>, and the invariants of runs: a shadow case never comes near a merge, a
  terminal case stays terminal, and readiness needs CI, both reviews and the final review.
\<close>

section \<open>States, events, effects\<close>

datatype CaseState =
    Planning | WaitingHuman | ReadyToBuild | Building | WaitingCi | Reviewing | Remediating |
    FinalReview | ShadowReady | ReadyToMerge | Merging | Completed | Blocked | Escalated |
    Abandoned | TakenOver

fun is_terminal :: "CaseState \<Rightarrow> bool" where
  "is_terminal s = (s \<in> {Completed, Abandoned, TakenOver})"

datatype Event =
    PlanRecorded | Proceed | WaitingForIssueCreator | NeedsHumanScopeDecision |
    RootCauseDifferentScope | CrossRepoDependency | AlreadyFixed | NotReproducible |
    Duplicate | Abandon | HumanNarrowedScope | HumanApprovedStaleBase | HumanClarified |
    HumanFeedbackReceived | BuilderDispatched | NativeReviewRetryAuthorized |
    ReviewCoordinationRecoveryAuthorized | InfrastructureRecoveryAuthorized |
    RemediationBudgetExtended | FollowUpRecoveryAuthorized | PublicationRetryAuthorized |
    BuildRecorded | ReviewReady | ReturnToPlanning | Blocked | HumanReaffirmedScope |
    CiAccepted | CiFailed | ReviewRecorded | ReviewsApproved | ReviewsPublished |
    FinalPreflightAccepted | RequestChanges | Ready | ReturnToBuild | ReturnToReview |
    WaitForIssueCreator | HumanMerged | PrerequisiteResolved | BlockedUnexpectedModel |
    MergeStarted | MergeVerified | HumanTookOver | AuthorizationRemoved |
    OperationalBoundReached | HumanResumed | HumanAbandoned

definition Event_ALL :: "Event list" where
  "Event_ALL =
     [PlanRecorded, Proceed, WaitingForIssueCreator, NeedsHumanScopeDecision,
      RootCauseDifferentScope, CrossRepoDependency, AlreadyFixed, NotReproducible, Duplicate,
      Abandon, HumanNarrowedScope, HumanApprovedStaleBase, HumanClarified,
      HumanFeedbackReceived, BuilderDispatched, NativeReviewRetryAuthorized,
      ReviewCoordinationRecoveryAuthorized, InfrastructureRecoveryAuthorized,
      RemediationBudgetExtended, FollowUpRecoveryAuthorized, PublicationRetryAuthorized,
      BuildRecorded, ReviewReady, ReturnToPlanning, Event.Blocked, HumanReaffirmedScope,
      CiAccepted, CiFailed, ReviewRecorded, ReviewsApproved, ReviewsPublished,
      FinalPreflightAccepted, RequestChanges, Ready, ReturnToBuild, ReturnToReview,
      WaitForIssueCreator, HumanMerged, PrerequisiteResolved, BlockedUnexpectedModel,
      MergeStarted, MergeVerified, HumanTookOver, AuthorizationRemoved,
      OperationalBoundReached, HumanResumed, HumanAbandoned]"

datatype ParseDomainValueError = ParseDomainValueError string string

text \<open>The \<open>string_enum!\<close> macro: a table of wire texts gives \<open>FromStr\<close> and \<open>Display\<close>.\<close>

definition enum_from_str ::
  "string \<Rightarrow> (string \<times> 'a) list \<Rightarrow> string \<Rightarrow> ParseDomainValueError + 'a" where
  "enum_from_str kind table value = ok_or (map_of table value) (ParseDomainValueError kind value)"

definition CaseState_wire :: "(string \<times> CaseState) list" where
  "CaseState_wire =
     [(''PLANNING'', Planning), (''WAITING_HUMAN'', WaitingHuman),
      (''READY_TO_BUILD'', ReadyToBuild), (''BUILDING'', Building),
      (''WAITING_CI'', WaitingCi), (''REVIEWING'', Reviewing), (''REMEDIATING'', Remediating),
      (''FINAL_REVIEW'', FinalReview), (''SHADOW_READY'', ShadowReady),
      (''READY_TO_MERGE'', ReadyToMerge), (''MERGING'', Merging), (''COMPLETED'', Completed),
      (''BLOCKED'', CaseState.Blocked), (''ESCALATED'', Escalated), (''ABANDONED'', Abandoned),
      (''TAKEN_OVER'', TakenOver)]"

definition CaseState_from_str :: "string \<Rightarrow> ParseDomainValueError + CaseState" where
  "CaseState_from_str = enum_from_str ''case state'' CaseState_wire"

fun CaseState_to_string :: "CaseState \<Rightarrow> string" where
  "CaseState_to_string Planning = ''PLANNING''"
| "CaseState_to_string WaitingHuman = ''WAITING_HUMAN''"
| "CaseState_to_string ReadyToBuild = ''READY_TO_BUILD''"
| "CaseState_to_string Building = ''BUILDING''"
| "CaseState_to_string WaitingCi = ''WAITING_CI''"
| "CaseState_to_string Reviewing = ''REVIEWING''"
| "CaseState_to_string Remediating = ''REMEDIATING''"
| "CaseState_to_string FinalReview = ''FINAL_REVIEW''"
| "CaseState_to_string ShadowReady = ''SHADOW_READY''"
| "CaseState_to_string ReadyToMerge = ''READY_TO_MERGE''"
| "CaseState_to_string Merging = ''MERGING''"
| "CaseState_to_string Completed = ''COMPLETED''"
| "CaseState_to_string CaseState.Blocked = ''BLOCKED''"
| "CaseState_to_string Escalated = ''ESCALATED''"
| "CaseState_to_string Abandoned = ''ABANDONED''"
| "CaseState_to_string TakenOver = ''TAKEN_OVER''"

definition Event_wire :: "(string \<times> Event) list" where
  "Event_wire =
     [(''PLAN_RECORDED'', PlanRecorded), (''PROCEED'', Proceed),
      (''WAITING_FOR_ISSUE_CREATOR'', WaitingForIssueCreator),
      (''NEEDS_HUMAN_SCOPE_DECISION'', NeedsHumanScopeDecision),
      (''ROOT_CAUSE_DIFFERENT_SCOPE'', RootCauseDifferentScope),
      (''CROSS_REPO_DEPENDENCY'', CrossRepoDependency), (''ALREADY_FIXED'', AlreadyFixed),
      (''NOT_REPRODUCIBLE'', NotReproducible), (''DUPLICATE'', Duplicate),
      (''ABANDON'', Abandon), (''HUMAN_NARROWED_SCOPE'', HumanNarrowedScope),
      (''HUMAN_APPROVED_STALE_BASE'', HumanApprovedStaleBase),
      (''HUMAN_CLARIFIED'', HumanClarified),
      (''HUMAN_FEEDBACK_RECEIVED'', HumanFeedbackReceived),
      (''BUILDER_DISPATCHED'', BuilderDispatched),
      (''NATIVE_REVIEW_RETRY_AUTHORIZED'', NativeReviewRetryAuthorized),
      (''REVIEW_COORDINATION_RECOVERY_AUTHORIZED'', ReviewCoordinationRecoveryAuthorized),
      (''INFRASTRUCTURE_RECOVERY_AUTHORIZED'', InfrastructureRecoveryAuthorized),
      (''REMEDIATION_BUDGET_EXTENDED'', RemediationBudgetExtended),
      (''FOLLOW_UP_RECOVERY_AUTHORIZED'', FollowUpRecoveryAuthorized),
      (''PUBLICATION_RETRY_AUTHORIZED'', PublicationRetryAuthorized),
      (''BUILD_RECORDED'', BuildRecorded), (''REVIEW_READY'', ReviewReady),
      (''RETURN_TO_PLANNING'', ReturnToPlanning), (''BLOCKED'', Event.Blocked),
      (''HUMAN_REAFFIRMED_SCOPE'', HumanReaffirmedScope), (''CI_ACCEPTED'', CiAccepted),
      (''CI_FAILED'', CiFailed), (''REVIEW_RECORDED'', ReviewRecorded),
      (''REVIEWS_APPROVED'', ReviewsApproved), (''REVIEWS_PUBLISHED'', ReviewsPublished),
      (''FINAL_PREFLIGHT_ACCEPTED'', FinalPreflightAccepted),
      (''REQUEST_CHANGES'', RequestChanges), (''READY'', Ready),
      (''RETURN_TO_BUILD'', ReturnToBuild), (''RETURN_TO_REVIEW'', ReturnToReview),
      (''WAIT_FOR_ISSUE_CREATOR'', WaitForIssueCreator), (''HUMAN_MERGED'', HumanMerged),
      (''PREREQUISITE_RESOLVED'', PrerequisiteResolved),
      (''BLOCKED_UNEXPECTED_MODEL'', BlockedUnexpectedModel),
      (''MERGE_STARTED'', MergeStarted), (''MERGE_VERIFIED'', MergeVerified),
      (''HUMAN_TOOK_OVER'', HumanTookOver), (''AUTHORIZATION_REMOVED'', AuthorizationRemoved),
      (''OPERATIONAL_BOUND_REACHED'', OperationalBoundReached),
      (''HUMAN_RESUMED'', HumanResumed), (''HUMAN_ABANDONED'', HumanAbandoned)]"

definition Event_from_str :: "string \<Rightarrow> ParseDomainValueError + Event" where
  "Event_from_str = enum_from_str ''event'' Event_wire"

primrec Event_to_string :: "Event \<Rightarrow> string" where
  "Event_to_string PlanRecorded = ''PLAN_RECORDED''"
| "Event_to_string Proceed = ''PROCEED''"
| "Event_to_string WaitingForIssueCreator = ''WAITING_FOR_ISSUE_CREATOR''"
| "Event_to_string NeedsHumanScopeDecision = ''NEEDS_HUMAN_SCOPE_DECISION''"
| "Event_to_string RootCauseDifferentScope = ''ROOT_CAUSE_DIFFERENT_SCOPE''"
| "Event_to_string CrossRepoDependency = ''CROSS_REPO_DEPENDENCY''"
| "Event_to_string AlreadyFixed = ''ALREADY_FIXED''"
| "Event_to_string NotReproducible = ''NOT_REPRODUCIBLE''"
| "Event_to_string Duplicate = ''DUPLICATE''"
| "Event_to_string Abandon = ''ABANDON''"
| "Event_to_string HumanNarrowedScope = ''HUMAN_NARROWED_SCOPE''"
| "Event_to_string HumanApprovedStaleBase = ''HUMAN_APPROVED_STALE_BASE''"
| "Event_to_string HumanClarified = ''HUMAN_CLARIFIED''"
| "Event_to_string HumanFeedbackReceived = ''HUMAN_FEEDBACK_RECEIVED''"
| "Event_to_string BuilderDispatched = ''BUILDER_DISPATCHED''"
| "Event_to_string NativeReviewRetryAuthorized = ''NATIVE_REVIEW_RETRY_AUTHORIZED''"
| "Event_to_string ReviewCoordinationRecoveryAuthorized = ''REVIEW_COORDINATION_RECOVERY_AUTHORIZED''"
| "Event_to_string InfrastructureRecoveryAuthorized = ''INFRASTRUCTURE_RECOVERY_AUTHORIZED''"
| "Event_to_string RemediationBudgetExtended = ''REMEDIATION_BUDGET_EXTENDED''"
| "Event_to_string FollowUpRecoveryAuthorized = ''FOLLOW_UP_RECOVERY_AUTHORIZED''"
| "Event_to_string PublicationRetryAuthorized = ''PUBLICATION_RETRY_AUTHORIZED''"
| "Event_to_string BuildRecorded = ''BUILD_RECORDED''"
| "Event_to_string ReviewReady = ''REVIEW_READY''"
| "Event_to_string ReturnToPlanning = ''RETURN_TO_PLANNING''"
| "Event_to_string Event.Blocked = ''BLOCKED''"
| "Event_to_string HumanReaffirmedScope = ''HUMAN_REAFFIRMED_SCOPE''"
| "Event_to_string CiAccepted = ''CI_ACCEPTED''"
| "Event_to_string CiFailed = ''CI_FAILED''"
| "Event_to_string ReviewRecorded = ''REVIEW_RECORDED''"
| "Event_to_string ReviewsApproved = ''REVIEWS_APPROVED''"
| "Event_to_string ReviewsPublished = ''REVIEWS_PUBLISHED''"
| "Event_to_string FinalPreflightAccepted = ''FINAL_PREFLIGHT_ACCEPTED''"
| "Event_to_string RequestChanges = ''REQUEST_CHANGES''"
| "Event_to_string Ready = ''READY''"
| "Event_to_string ReturnToBuild = ''RETURN_TO_BUILD''"
| "Event_to_string ReturnToReview = ''RETURN_TO_REVIEW''"
| "Event_to_string WaitForIssueCreator = ''WAIT_FOR_ISSUE_CREATOR''"
| "Event_to_string HumanMerged = ''HUMAN_MERGED''"
| "Event_to_string PrerequisiteResolved = ''PREREQUISITE_RESOLVED''"
| "Event_to_string BlockedUnexpectedModel = ''BLOCKED_UNEXPECTED_MODEL''"
| "Event_to_string MergeStarted = ''MERGE_STARTED''"
| "Event_to_string MergeVerified = ''MERGE_VERIFIED''"
| "Event_to_string HumanTookOver = ''HUMAN_TOOK_OVER''"
| "Event_to_string AuthorizationRemoved = ''AUTHORIZATION_REMOVED''"
| "Event_to_string OperationalBoundReached = ''OPERATIONAL_BOUND_REACHED''"
| "Event_to_string HumanResumed = ''HUMAN_RESUMED''"
| "Event_to_string HumanAbandoned = ''HUMAN_ABANDONED''"

datatype MergeMode = Shadow | Guarded

record TransitionContext =
  remediation_round :: u32
  max_remediation_rounds :: u32
  merge_mode :: MergeMode
  resume_target :: "CaseState option"

definition TransitionContext_default :: TransitionContext where
  "TransitionContext_default =
     \<lparr>remediation_round = 0, max_remediation_rounds = 3, merge_mode = Shadow, resume_target = None\<rparr>"

datatype Effect =
    DispatchPlanner | PublishPlan | DispatchBuilder | PublishDraftPullRequest | ObserveCi |
    DispatchReviewers | PublishReviews | ObserveFinalPreflight | DispatchFinalReviewer |
    HoldForHuman | NotifyShadowReady | BeginMerge | ExecuteMerge | RecordCompletion |
    RecordAbandonment | RecordBlock | RecordTakeover | Escalate

record TransitionDecision =
  next_state :: CaseState
  effects :: "Effect list"

datatype TransitionError =
    InvalidLoopBound
  | TerminalState CaseState
  | InvalidTransition CaseState Event

section \<open>The transition function\<close>

definition decision :: "CaseState \<Rightarrow> Effect list \<Rightarrow> TransitionError + TransitionDecision" where
  "decision s fx = Inr \<lparr>next_state = s, effects = fx\<rparr>"

text \<open>The final \<open>match (state, event)\<close>, its arms in order; \<open>spent\<close> is the guard
  \<open>remediation_round >= max_remediation_rounds\<close>.\<close>

definition transition_match ::
  "CaseState \<Rightarrow> Event \<Rightarrow> TransitionContext \<Rightarrow> TransitionError + TransitionDecision" where
  "transition_match s e c =
    (let spent = remediation_round c \<ge> max_remediation_rounds c in
     if s \<in> {Planning, WaitingHuman, ReadyToBuild, WaitingCi, Reviewing, Remediating, FinalReview,
         ShadowReady} \<and> e = HumanFeedbackReceived
       then if spent then decision Escalated [Escalate] else decision Planning [DispatchPlanner]
     else if s = Planning \<and> e = PlanRecorded then decision Planning [PublishPlan]
     else if s = Planning \<and> e = Proceed then decision ReadyToBuild [DispatchBuilder]
     else if s = Planning \<and> e \<in> {WaitingForIssueCreator, NeedsHumanScopeDecision,
         RootCauseDifferentScope} then decision WaitingHuman [HoldForHuman]
     else if s = Planning \<and> e \<in> {CrossRepoDependency, Event.Blocked}
       then decision CaseState.Blocked [RecordBlock]
     else if s = Planning \<and> e \<in> {AlreadyFixed, NotReproducible, Duplicate}
       then decision Completed [RecordCompletion]
     else if s = Planning \<and> e = Abandon then decision Abandoned [RecordAbandonment]
     else if s = Planning \<and> e \<in> {HumanNarrowedScope, HumanApprovedStaleBase}
         \<or> s \<in> {WaitingHuman, Escalated} \<and> e = HumanClarified
       then decision Planning [DispatchPlanner]
     else if s = ReadyToBuild \<and> e = BuilderDispatched then decision Building []
     else if s = Escalated \<and> e = NativeReviewRetryAuthorized then decision WaitingCi [ObserveCi]
     else if s \<in> {Reviewing, Escalated} \<and> e = ReviewCoordinationRecoveryAuthorized
       then decision WaitingCi [ObserveCi]
     else if s = Escalated \<and> e = RemediationBudgetExtended then decision WaitingCi [ObserveCi]
     else if s \<in> {Escalated, CaseState.Blocked} \<and> e = InfrastructureRecoveryAuthorized
         \<and> remediation_round c < max_remediation_rounds c
       then decision Remediating [DispatchBuilder]
     else if s \<in> {WaitingCi, Reviewing, FinalReview} \<and> e = PublicationRetryAuthorized
       then decision Building [PublishDraftPullRequest]
     else if s \<in> {Building, Remediating} \<and> e = BuildRecorded
       then decision s [PublishDraftPullRequest]
     else if s \<in> {Building, Remediating} \<and> e = ReviewReady then decision WaitingCi [ObserveCi]
     else if s \<in> {Building, Remediating} \<and> e = ReturnToPlanning
       then decision Planning [DispatchPlanner]
     else if s = Building \<and> e = HumanReaffirmedScope then decision ReadyToBuild [DispatchBuilder]
     else if s = WaitingCi \<and> e = CiAccepted then decision Reviewing [DispatchReviewers]
     else if s = WaitingCi \<and> e = CiFailed \<and> spent then decision Escalated [Escalate]
     else if s = WaitingCi \<and> e = CiFailed then decision Remediating [DispatchBuilder]
     else if s = Reviewing \<and> e = ReviewRecorded then decision Reviewing []
     else if s = Reviewing \<and> e = ReviewsApproved then decision FinalReview [PublishReviews]
     else if s = FinalReview \<and> e = ReviewsPublished
       then decision FinalReview [ObserveFinalPreflight]
     else if s = Remediating \<and> e = ReviewsPublished then decision Remediating [DispatchBuilder]
     else if s = FinalReview \<and> e = FinalPreflightAccepted
       then decision FinalReview [DispatchFinalReviewer]
     else if s = Reviewing \<and> e = RequestChanges \<and> spent
       then decision Escalated [PublishReviews, Escalate]
     else if s = Reviewing \<and> e = RequestChanges then decision Remediating [PublishReviews]
     else if s = FinalReview \<and> e = Ready \<and> merge_mode c = Shadow
       then decision ShadowReady [NotifyShadowReady]
     else if s = FinalReview \<and> e = Ready then decision ReadyToMerge [BeginMerge]
     else if s = FinalReview \<and> e \<in> {ReturnToBuild, ReturnToReview, ReturnToPlanning,
         WaitForIssueCreator} \<and> spent then decision Escalated [Escalate]
     else if s = FinalReview \<and> e = ReturnToBuild then decision Remediating [DispatchBuilder]
     else if s = FinalReview \<and> e = ReturnToReview then decision Reviewing [DispatchReviewers]
     else if s = FinalReview \<and> e = ReturnToPlanning then decision Planning [DispatchPlanner]
     else if s = FinalReview \<and> e = WaitForIssueCreator then decision WaitingHuman [HoldForHuman]
     else if s = ShadowReady \<and> e = HumanMerged then decision Completed [RecordCompletion]
     else if s = ReadyToMerge \<and> e = MergeStarted \<and> merge_mode c = Guarded
       then decision Merging [ExecuteMerge]
     else if s = Merging \<and> e = MergeVerified \<and> merge_mode c = Guarded
       then decision Completed [RecordCompletion]
     else if s = CaseState.Blocked \<and> e = PrerequisiteResolved
       then decision Planning [DispatchPlanner]
     else if s \<in> {Building, WaitingCi, Reviewing, Remediating, FinalReview, ShadowReady,
         ReadyToMerge, Merging} \<and> e = Event.Blocked then decision CaseState.Blocked [RecordBlock]
     else if s \<in> {Building, Remediating, FinalReview} \<and> e = Abandon
       then decision Abandoned [RecordAbandonment]
     else Inl (InvalidTransition s e))"

definition parked :: "CaseState \<Rightarrow> bool" where
  "parked s \<longleftrightarrow> s \<in> {Escalated, CaseState.Blocked, WaitingHuman}"

text \<open>The dispatch a \<open>HumanResumed\<close> asks for, by the state it restarts in.\<close>

definition resume_dispatch :: "CaseState option \<Rightarrow> Effect option" where
  "resume_dispatch target =
     (case target of
        Some Planning \<Rightarrow> Some DispatchPlanner
      | Some ReadyToBuild \<Rightarrow> Some DispatchBuilder
      | Some Remediating \<Rightarrow> Some DispatchBuilder
      | Some WaitingCi \<Rightarrow> Some ObserveCi
      | _ \<Rightarrow> None)"

definition transition ::
  "CaseState \<Rightarrow> Event \<Rightarrow> TransitionContext \<Rightarrow> TransitionError + TransitionDecision" where
  "transition s e c =
    (if max_remediation_rounds c = 0 then Inl InvalidLoopBound
     else if s = TakenOver \<and> e = HumanMerged then decision Completed [RecordCompletion]
     else if s = TakenOver \<and> e = FollowUpRecoveryAuthorized
       then decision Planning [DispatchPlanner]
     else if is_terminal s then Inl (TerminalState s)
     else if e = HumanTookOver then decision TakenOver [RecordTakeover]
     else if e = AuthorizationRemoved then decision Abandoned [RecordAbandonment]
     else if e = BlockedUnexpectedModel then decision CaseState.Blocked [RecordBlock]
     else if e = OperationalBoundReached then decision Escalated [Escalate]
     else if e = HumanAbandoned \<and> parked s then decision Abandoned [RecordAbandonment]
     else if e = HumanResumed \<and> parked s then
       (case resume_dispatch (resume_target c) of
          None \<Rightarrow> Inl (InvalidTransition s e)
        | Some fx \<Rightarrow>
            decision (case resume_target c of None \<Rightarrow> s | Some target \<Rightarrow> target) [fx])
     else transition_match s e c)"

section \<open>Wire texts\<close>

lemma decision_Inr [simp]: "decision s fx = Inr d \<longleftrightarrow> d = \<lparr>next_state = s, effects = fx\<rparr>"
  by (auto simp: decision_def)

lemma enum_from_str_Inr:
  "enum_from_str kind table w = Inr v \<longleftrightarrow> map_of table w = Some v"
  by (simp add: enum_from_str_def)

lemma CaseState_wire_sound: "\<forall>(w, v) \<in> set CaseState_wire. CaseState_to_string v = w"
  by (simp add: CaseState_wire_def)

lemma Event_wire_sound: "\<forall>(w, v) \<in> set Event_wire. Event_to_string v = w"
  by (simp add: Event_wire_def)

lemma CaseState_from_str_iff [simp]: "CaseState_from_str w = Inr s \<longleftrightarrow> w = CaseState_to_string s"
proof
  assume "CaseState_from_str w = Inr s"
  then have "(w, s) \<in> set CaseState_wire"
    unfolding CaseState_from_str_def enum_from_str_Inr by (rule map_of_SomeD)
  with CaseState_wire_sound show "w = CaseState_to_string s" by fastforce
next
  assume "w = CaseState_to_string s"
  then show "CaseState_from_str w = Inr s"
    by (cases s) (simp_all add: CaseState_from_str_def enum_from_str_def CaseState_wire_def)
qed

lemma CaseState_to_string_inj [simp]: "CaseState_to_string s = CaseState_to_string t \<longleftrightarrow> s = t"
  using CaseState_from_str_iff by (metis sum.inject(2))

lemma Event_from_str_iff: "Event_from_str w = Inr e \<longleftrightarrow> w = Event_to_string e"
proof
  assume "Event_from_str w = Inr e"
  then have "(w, e) \<in> set Event_wire"
    unfolding Event_from_str_def enum_from_str_Inr by (rule map_of_SomeD)
  with Event_wire_sound show "w = Event_to_string e" by fastforce
next
  have "list_all (\<lambda>e. Event_from_str (Event_to_string e) = Inr e) Event_ALL" by code_simp
  moreover have "e \<in> set Event_ALL" by (cases e) (simp_all add: Event_ALL_def)
  ultimately show "Event_from_str w = Inr e" if "w = Event_to_string e" using that by (simp add: list_all_iff)
qed

lemma Event_to_string_inj [simp]: "Event_to_string e = Event_to_string f \<longleftrightarrow> e = f"
  using Event_from_str_iff by (metis sum.inject(2))

lemma Event_to_string_not_blank [simp]: "\<not> blank (Event_to_string e)"
  by (cases e) (simp_all add: byte_def)

text \<open>The wire forms of states and events are exact: parsing accepts precisely the printed
  text of a value and returns that value, so a state or event stored in the ledger is read back
  as the one written and no other text is accepted.\<close>

theorem wire_forms_exact:
  "(CaseState_from_str w = Inr s \<longleftrightarrow> w = CaseState_to_string s) \<and>
   (Event_from_str v = Inr e \<longleftrightarrow> v = Event_to_string e) \<and>
   set Event_ALL = UNIV \<and> distinct Event_ALL"
proof -
  have "e' \<in> set Event_ALL" for e'
    by (cases e') (simp_all add: Event_ALL_def)
  then have "set Event_ALL = UNIV" by blast
  moreover have "distinct Event_ALL" by (simp add: Event_ALL_def)
  ultimately show ?thesis by (simp add: Event_from_str_iff)
qed

section \<open>Which arm a transition took\<close>

lemma resume_dispatch_Some:
  "resume_dispatch t = Some fx \<longleftrightarrow>
     t = Some Planning \<and> fx = DispatchPlanner \<or>
     t \<in> {Some ReadyToBuild, Some Remediating} \<and> fx = DispatchBuilder \<or>
     t = Some WaitingCi \<and> fx = ObserveCi"
  by (auto simp: resume_dispatch_def split: option.splits CaseState.splits)

text \<open>The arms before the final match; every fact about \<open>transition\<close> is a case split on them.\<close>

lemma transition_cases [consumes 1, case_names fix_merge recover stop abandon resume work]:
  assumes "transition s e c = Inr d"
  obtains
    "s = TakenOver" "e = HumanMerged" "d = \<lparr>next_state = Completed, effects = [RecordCompletion]\<rparr>"
  | "s = TakenOver" "e = FollowUpRecoveryAuthorized"
    "d = \<lparr>next_state = Planning, effects = [DispatchPlanner]\<rparr>"
  | "\<not> is_terminal s"
    "(e, d) \<in> {(HumanTookOver, \<lparr>next_state = TakenOver, effects = [RecordTakeover]\<rparr>),
       (AuthorizationRemoved, \<lparr>next_state = Abandoned, effects = [RecordAbandonment]\<rparr>),
       (BlockedUnexpectedModel, \<lparr>next_state = CaseState.Blocked, effects = [RecordBlock]\<rparr>),
       (OperationalBoundReached, \<lparr>next_state = Escalated, effects = [Escalate]\<rparr>)}"
  | "parked s" "e = HumanAbandoned" "d = \<lparr>next_state = Abandoned, effects = [RecordAbandonment]\<rparr>"
  | target fx where "parked s" "e = HumanResumed" "resume_target c = Some target"
    "resume_dispatch (Some target) = Some fx" "d = \<lparr>next_state = target, effects = [fx]\<rparr>"
  | "\<not> is_terminal s" "transition_match s e c = Inr d"
  using assms by (auto simp: transition_def resume_dispatch_def split: if_splits option.splits)

lemma transition_max_positive: "transition s e c = Inr d \<Longrightarrow> max_remediation_rounds c \<noteq> 0"
  by (auto simp: transition_def)

text \<open>The arms of the match are taken apart one by one.\<close>

lemma if_arm:
  "(if b then x else y) = z \<Longrightarrow> (b \<Longrightarrow> x = z \<Longrightarrow> P) \<Longrightarrow> (\<not> b \<Longrightarrow> y = z \<Longrightarrow> P) \<Longrightarrow> P"
  by (cases b) simp_all

text \<open>What an arm of the match asks for, by the state it enters.\<close>

definition enters :: "CaseState \<Rightarrow> CaseState \<Rightarrow> Event \<Rightarrow> TransitionContext \<Rightarrow> bool" where
  "enters next s e c =
    (case next of
       Reviewing \<Rightarrow>
         (s, e) \<in> {(WaitingCi, CiAccepted), (Reviewing, ReviewRecorded), (FinalReview, ReturnToReview)}
     | FinalReview \<Rightarrow>
         (s, e) \<in> {(Reviewing, ReviewsApproved), (FinalReview, ReviewsPublished),
           (FinalReview, FinalPreflightAccepted)}
     | ShadowReady \<Rightarrow> s = FinalReview \<and> e = Ready \<and> merge_mode c = Shadow
     | ReadyToMerge \<Rightarrow> s = FinalReview \<and> e = Ready \<and> merge_mode c = Guarded
     | Merging \<Rightarrow> s = ReadyToMerge \<and> e = MergeStarted \<and> merge_mode c = Guarded
     | Remediating \<Rightarrow> s = Remediating \<or> remediation_round c < max_remediation_rounds c
     | _ \<Rightarrow> True)"

lemma not_shadow: "m \<noteq> Shadow \<longleftrightarrow> m = Guarded"
  by (cases m) simp_all

lemma match_enters: "transition_match s e c = Inr d \<Longrightarrow> enters (next_state d) s e c"
  unfolding transition_match_def Let_def
  by (elim if_arm) (auto simp: enters_def not_le not_shadow)

lemmas match_into = match_enters [unfolded enters_def]

text \<open>The only ways into the states on the path to readiness.\<close>

lemma transition_into:
  assumes "transition s e c = Inr d"
  shows "next_state d = Reviewing \<Longrightarrow>
      (s, e) \<in> {(WaitingCi, CiAccepted), (Reviewing, ReviewRecorded), (FinalReview, ReturnToReview)}"
    and "next_state d = FinalReview \<Longrightarrow>
      (s, e) \<in> {(Reviewing, ReviewsApproved), (FinalReview, ReviewsPublished),
        (FinalReview, FinalPreflightAccepted)}"
    and "next_state d = ShadowReady \<Longrightarrow> s = FinalReview \<and> e = Ready \<and> merge_mode c = Shadow"
    and "next_state d = ReadyToMerge \<Longrightarrow> s = FinalReview \<and> e = Ready \<and> merge_mode c = Guarded"
    and "next_state d = Merging \<Longrightarrow> s = ReadyToMerge \<and> e = MergeStarted \<and> merge_mode c = Guarded"
  using assms
  by (cases rule: transition_cases; auto simp: resume_dispatch_Some dest: match_into)+

text \<open>Into the builder: from elsewhere only below the round limit, or on a human's resume.\<close>

lemma transition_remediating:
  assumes "transition s e c = Inr d" "next_state d = Remediating"
  shows "s = Remediating \<or> e = HumanResumed \<or> remediation_round c < max_remediation_rounds c"
  using assms by (cases rule: transition_cases) (auto dest: match_into)

section \<open>Single transitions\<close>

text \<open>A terminal case accepts exactly the two bookkeeping corrections of a taken-over case,
  the merge that was misread as a takeover and the operator's recovery of a false takeover;
  every other event on a terminal state is refused.\<close>

theorem terminal_exits:
  assumes "is_terminal s" "transition s e c = Inr d"
  shows "s = TakenOver \<and>
    (e = HumanMerged \<and> d = \<lparr>next_state = Completed, effects = [RecordCompletion]\<rparr> \<or>
     e = FollowUpRecoveryAuthorized \<and> d = \<lparr>next_state = Planning, effects = [DispatchPlanner]\<rparr>)"
  using assms(2) by (cases rule: transition_cases) (use assms(1) in \<open>auto simp: parked_def\<close>)

theorem terminal_exits_witness:
  "is_terminal TakenOver \<and>
   transition TakenOver HumanMerged TransitionContext_default =
     Inr \<lparr>next_state = Completed, effects = [RecordCompletion]\<rparr> \<and>
   \<not> (\<exists>d. transition TakenOver CiAccepted TransitionContext_default = Inr d)"
proof -
  let ?d = "\<lparr>next_state = Completed, effects = [RecordCompletion]\<rparr>"
  have t: "is_terminal TakenOver" by simp
  have m: "transition TakenOver HumanMerged TransitionContext_default = Inr ?d"
    by (simp add: transition_def TransitionContext_default_def)
  show ?thesis
    using t m terminal_exits [OF t m] terminal_exits [OF t, of CiAccepted TransitionContext_default]
    by auto
qed

definition human_or_operator :: "Event \<Rightarrow> bool" where
  "human_or_operator e \<longleftrightarrow> e \<in> {HumanResumed, HumanClarified, HumanFeedbackReceived,
     NativeReviewRetryAuthorized, ReviewCoordinationRecoveryAuthorized, RemediationBudgetExtended,
     InfrastructureRecoveryAuthorized, PrerequisiteResolved}"

lemma match_parked:
  "parked s \<Longrightarrow> transition_match s e c = Inr d \<Longrightarrow> human_or_operator e"
  unfolding transition_match_def Let_def parked_def human_or_operator_def
  by (elim if_arm; auto)

text \<open>A parked case is restarted only by a human or by an operator's authorization. Whatever a
  worker, CI or a reviewer reports, a case that waits for a human stays parked or ends.\<close>

theorem parked_needs_human:
  assumes "parked s" "transition s e c = Inr d" "\<not> parked (next_state d)"
    "\<not> is_terminal (next_state d)"
  shows "human_or_operator e"
  using assms(2)
proof (cases rule: transition_cases)
  case work
  with assms(1) show ?thesis by (blast intro: match_parked)
next
  case stop
  with assms(3,4) show ?thesis by (auto simp: parked_def)
qed (use assms in \<open>auto simp: parked_def human_or_operator_def\<close>)

theorem parked_needs_human_witness:
  "\<exists>d. parked Escalated \<and>
     transition Escalated HumanClarified TransitionContext_default = Inr d \<and>
     \<not> parked (next_state d) \<and> \<not> is_terminal (next_state d) \<and> human_or_operator HumanClarified"
proof -
  let ?d = "\<lparr>next_state = Planning, effects = [DispatchPlanner]\<rparr>"
  have p: "parked Escalated" by (simp add: parked_def)
  have t: "transition Escalated HumanClarified TransitionContext_default = Inr ?d"
    by (simp add: transition_def transition_match_def TransitionContext_default_def parked_def)
  have n: "\<not> parked (next_state ?d)" "\<not> is_terminal (next_state ?d)" by (simp_all add: parked_def)
  show ?thesis using p t n parked_needs_human [OF p t n] by blast
qed

definition effect_state :: "Effect \<Rightarrow> CaseState set" where
  "effect_state fx = (case fx of
      DispatchPlanner \<Rightarrow> {Planning} | PublishPlan \<Rightarrow> {Planning}
    | DispatchBuilder \<Rightarrow> {ReadyToBuild, Remediating}
    | PublishDraftPullRequest \<Rightarrow> {Building, Remediating}
    | ObserveCi \<Rightarrow> {WaitingCi}
    | DispatchReviewers \<Rightarrow> {Reviewing}
    | PublishReviews \<Rightarrow> {FinalReview, Remediating, Escalated}
    | ObserveFinalPreflight \<Rightarrow> {FinalReview} | DispatchFinalReviewer \<Rightarrow> {FinalReview}
    | HoldForHuman \<Rightarrow> {WaitingHuman} | NotifyShadowReady \<Rightarrow> {ShadowReady}
    | BeginMerge \<Rightarrow> {ReadyToMerge} | ExecuteMerge \<Rightarrow> {Merging}
    | RecordCompletion \<Rightarrow> {Completed} | RecordAbandonment \<Rightarrow> {Abandoned}
    | RecordBlock \<Rightarrow> {CaseState.Blocked} | RecordTakeover \<Rightarrow> {TakenOver}
    | Escalate \<Rightarrow> {Escalated})"

lemma match_effect_state:
  "transition_match s e c = Inr d \<Longrightarrow> fx \<in> set (effects d) \<Longrightarrow> next_state d \<in> effect_state fx"
  unfolding transition_match_def Let_def
  by (elim if_arm; auto simp: effect_state_def)

lemma transition_effect_state:
  assumes "transition s e c = Inr d" "fx \<in> set (effects d)"
  shows "next_state d \<in> effect_state fx"
  using assms(1)
  by (cases rule: transition_cases)
    (use assms(2) match_effect_state in \<open>auto simp: effect_state_def resume_dispatch_Some\<close>)

text \<open>Every dispatch goes with the state that waits for it: a planner is dispatched only into
  planning, a builder only into building or remediation, reviewers only into review, the final
  reviewer only into final review, and CI is observed only in \<open>WaitingCi\<close>.\<close>

theorem effects_fit_state:
  "transition s e c = Inr d \<Longrightarrow> \<forall>fx \<in> set (effects d). next_state d \<in> effect_state fx"
  using transition_effect_state by blast

theorem effects_fit_state_witness:
  "\<exists>d. transition WaitingCi CiAccepted TransitionContext_default = Inr d \<and>
     DispatchReviewers \<in> set (effects d) \<and> next_state d \<in> effect_state DispatchReviewers"
proof -
  let ?d = "\<lparr>next_state = Reviewing, effects = [DispatchReviewers]\<rparr>"
  have t: "transition WaitingCi CiAccepted TransitionContext_default = Inr ?d"
    by (simp add: transition_def transition_match_def TransitionContext_default_def parked_def)
  have f: "DispatchReviewers \<in> set (effects ?d)" by simp
  show ?thesis using t f effects_fit_state [OF t] by blast
qed

section \<open>Runs of a case\<close>

text \<open>One step of a case under some context with the given merge mode, and the runs of a new
  case: the events it has seen, newest last, and the state they led to.\<close>

inductive case_step :: "MergeMode \<Rightarrow> CaseState \<Rightarrow> Event \<Rightarrow> CaseState \<Rightarrow> bool" for m where
  step: "transition s e c = Inr d \<Longrightarrow> merge_mode c = m \<Longrightarrow> case_step m s e (next_state d)"

inductive case_run :: "MergeMode \<Rightarrow> Event list \<Rightarrow> CaseState \<Rightarrow> bool" for m where
  start: "case_run m [] Planning"
| event: "case_run m es s \<Longrightarrow> case_step m s e t \<Longrightarrow> case_run m (es @ [e]) t"

inductive_cases case_stepE: "case_step m s e t"

lemma shadow_run_states:
  "case_run m es s \<Longrightarrow> m = Shadow \<Longrightarrow> s \<noteq> ReadyToMerge \<and> s \<noteq> Merging"
  by (induction rule: case_run.induct) (auto elim!: case_stepE dest: transition_into)

text \<open>In shadow mode, which is the configured mode, no sequence of events whatever brings a new
  case to a merge: it is never ready to merge or merging, and no transition out of a state it
  can be in asks for a merge to begin or be executed.\<close>

theorem shadow_never_merges:
  assumes "case_run Shadow es s"
  shows "s \<notin> {ReadyToMerge, Merging} \<and>
    (\<forall>e c d. transition s e c = Inr d \<longrightarrow> merge_mode c = Shadow \<longrightarrow>
      {BeginMerge, ExecuteMerge} \<inter> set (effects d) = {})"
proof (intro conjI allI impI)
  from shadow_run_states [OF assms] show "s \<notin> {ReadyToMerge, Merging}" by simp
  fix e c d
  assume t: "transition s e c = Inr d" "merge_mode c = Shadow"
  have "next_state d \<noteq> ReadyToMerge" "next_state d \<noteq> Merging"
    using t transition_into(4,5) [OF t(1)] by auto
  then show "{BeginMerge, ExecuteMerge} \<inter> set (effects d) = {}"
    using transition_effect_state [OF t(1), of BeginMerge]
      transition_effect_state [OF t(1), of ExecuteMerge]
    by (auto simp: effect_state_def)
qed

theorem shadow_never_merges_witness:
  "case_run Shadow [HumanNarrowedScope] Planning \<and> Planning \<notin> {ReadyToMerge, Merging}"
proof -
  have "transition Planning HumanNarrowedScope TransitionContext_default =
      Inr \<lparr>next_state = Planning, effects = [DispatchPlanner]\<rparr>"
    by (simp add: transition_def transition_match_def TransitionContext_default_def parked_def)
  then have "case_step Shadow Planning HumanNarrowedScope
      (next_state \<lparr>next_state = Planning, effects = [DispatchPlanner]\<rparr>)"
    by (rule case_step.step) (simp add: TransitionContext_default_def)
  then have r: "case_run Shadow [HumanNarrowedScope] Planning"
    using case_run.event [OF case_run.start] by fastforce
  show ?thesis using r shadow_never_merges [OF r] by simp
qed

text \<open>\<open>since_build k es\<close>: after the last new head of \<open>es\<close> was published for review, the events
  \<open>k\<close> happened, in this order.\<close>

definition since_build :: "Event list \<Rightarrow> Event list \<Rightarrow> bool" where
  "since_build k es \<longleftrightarrow> (\<exists>xs ys. es = xs @ ys \<and> ReviewReady \<notin> set ys \<and> subseq k ys)"

lemma since_build_keep:
  assumes "since_build k es" "e \<noteq> ReviewReady"
  shows "since_build k (es @ [e])"
proof -
  from assms(1) obtain xs ys where "es = xs @ ys" "ReviewReady \<notin> set ys" "subseq k ys"
    by (auto simp: since_build_def)
  with assms(2) have "es @ [e] = xs @ (ys @ [e])" "ReviewReady \<notin> set (ys @ [e])" "subseq k (ys @ [e])"
    by (auto intro: list_emb_append2)
  then show ?thesis unfolding since_build_def by blast
qed

lemma since_build_add:
  assumes "since_build k es" "e \<noteq> ReviewReady"
  shows "since_build (k @ [e]) (es @ [e])"
proof -
  from assms(1) obtain xs ys where "es = xs @ ys" "ReviewReady \<notin> set ys" "subseq k ys"
    by (auto simp: since_build_def)
  with assms(2) have "es @ [e] = xs @ (ys @ [e])" "ReviewReady \<notin> set (ys @ [e])"
    "subseq (k @ [e]) (ys @ [e])"
    by (auto intro: list_emb_append_mono)
  then show ?thesis unfolding since_build_def by blast
qed

lemma since_build_prefix:
  assumes "since_build (k @ l) es"
  shows "since_build k es"
proof -
  have "subseq k (k @ l)" using list_emb_append_mono [of "(=)" k k "[]" l] by simp
  then show ?thesis using assms unfolding since_build_def by (blast intro: subseq_order.trans)
qed

lemma since_build_Nil: "since_build [] es"
  unfolding since_build_def by (rule exI [of _ es], rule exI [of _ "[]"]) simp

definition progress :: "CaseState \<Rightarrow> Event list" where
  "progress s = (if s = Reviewing then [CiAccepted]
     else if s = FinalReview then [CiAccepted, ReviewsApproved]
     else if s \<in> {ShadowReady, ReadyToMerge, Merging} then [CiAccepted, ReviewsApproved, Ready]
     else [])"

lemma progress_step:
  assumes "transition s e c = Inr d" "since_build (progress s) es"
  shows "since_build (progress (next_state d)) (es @ [e])"
proof (cases "progress (next_state d) = []")
  case True
  then show ?thesis by (simp add: since_build_Nil)
next
  case False
  then consider "next_state d = Reviewing" | "next_state d = FinalReview" | "next_state d = ShadowReady"
    | "next_state d = ReadyToMerge" | "next_state d = Merging"
    by (auto simp: progress_def split: if_splits)
  then show ?thesis
    using transition_into [OF assms(1)] since_build_keep [OF assms(2), of e]
      since_build_add [OF assms(2), of e] since_build_prefix [of "[CiAccepted]" "[ReviewsApproved]" "es @ [e]"]
    by cases (auto simp: progress_def)
qed

lemma run_progress: "case_run m es s \<Longrightarrow> since_build (progress s) es"
proof (induction rule: case_run.induct)
  case start
  show ?case by (simp add: progress_def since_build_Nil)
next
  case (event es s e t)
  then show ?case by (auto elim!: case_stepE intro: progress_step)
qed

text \<open>C35: a case becomes ready, in shadow or for a guarded merge, only after its newest head passed
  everything: whatever events the case has seen, after the last event that published a new head
  for review there are, in this order, an accepted CI observation, the approval of all required
  reviews and the final reviewer's \<open>Ready\<close>.\<close>

theorem readiness_order:
  assumes "case_run m es s" "s \<in> {ShadowReady, ReadyToMerge, Merging}"
  shows "\<exists>xs ys. es = xs @ ys \<and> ReviewReady \<notin> set ys \<and>
    subseq [CiAccepted, ReviewsApproved, Ready] ys"
proof -
  have "progress s = [CiAccepted, ReviewsApproved, Ready]" using assms(2) by (auto simp: progress_def)
  then show ?thesis using run_progress [OF assms(1)] by (simp add: since_build_def)
qed

lemma case_run_default:
  assumes "case_run Shadow es s" "transition s e TransitionContext_default = Inr d"
  shows "case_run Shadow (es @ [e]) (next_state d)"
  using assms case_run.event case_step.step [of s e TransitionContext_default d Shadow]
  by (simp add: TransitionContext_default_def)

lemmas default_step = transition_def transition_match_def TransitionContext_default_def parked_def
  decision_def

theorem readiness_order_witness:
  "\<exists>es. case_run Shadow es ShadowReady \<and>
     (\<exists>xs ys. es = xs @ ys \<and> ReviewReady \<notin> set ys \<and>
        subseq [CiAccepted, ReviewsApproved, Ready] ys)"
proof -
  have "case_run Shadow [Proceed] ReadyToBuild"
    using case_run_default [OF case_run.start, of Proceed] by (simp add: default_step)
  then have "case_run Shadow [Proceed, BuilderDispatched] Building"
    using case_run_default [of _ _ BuilderDispatched] by (fastforce simp: default_step)
  then have "case_run Shadow [Proceed, BuilderDispatched, ReviewReady] WaitingCi"
    using case_run_default [of _ _ ReviewReady] by (fastforce simp: default_step)
  then have "case_run Shadow [Proceed, BuilderDispatched, ReviewReady, CiAccepted] Reviewing"
    using case_run_default [of _ _ CiAccepted] by (fastforce simp: default_step)
  then have "case_run Shadow [Proceed, BuilderDispatched, ReviewReady, CiAccepted, ReviewsApproved]
      FinalReview"
    using case_run_default [of _ _ ReviewsApproved] by (fastforce simp: default_step)
  then have r: "case_run Shadow [Proceed, BuilderDispatched, ReviewReady, CiAccepted, ReviewsApproved,
      Ready] ShadowReady"
    using case_run_default [of _ _ Ready] by (fastforce simp: default_step)
  show ?thesis using r readiness_order [OF r] by blast
qed

end
