(* ===== verification/Intake.thy ===== *)
theory Intake
  imports Domain
begin

text \<open>
  Intake of issues, \<open>pip-core/src/policy.rs\<close>: the policy, the observation of an issue, and
  \<open>evaluate_intake\<close>, which reports every reason that keeps the issue out. The reference
  definition \<open>blocked_by\<close> says of each reason when it applies; the decision is shown to list
  exactly these reasons, each once, in the order of \<open>IntakeBlocker::ALL\<close>.
\<close>

record IntakePolicy =
  ip_revision :: PolicyRevision
  intake_enabled :: bool
  dispatch_enabled :: bool
  global_paused :: bool
  repository_paused :: bool
  required_label :: string
  trusted_actor_ids :: "ActorId set"
  repository_active_limit :: u32
  global_active_limit :: u32

record IssueObservation =
  io_open :: bool
  io_is_pull_request :: bool
  io_labels :: "string set"
  latest_label_actor_id :: "ActorId option"
  io_excluded :: bool
  io_held :: bool
  already_owned :: bool
  assigned_to_other :: bool
  repository_active_cases :: u32
  global_active_cases :: u32

datatype IntakeBlocker =
    IntakeDisabled | GlobalPaused | RepositoryPaused | DispatchDisabled | IssueClosed |
    PullRequest | RequiredLabelMissing | UntrustedLabelActor | Excluded | Held | AlreadyOwned |
    AssignedToOther | RepositoryLimitReached | GlobalLimitReached

definition IntakeBlocker_ALL :: "IntakeBlocker list" where
  "IntakeBlocker_ALL =
     [IntakeDisabled, GlobalPaused, RepositoryPaused, DispatchDisabled, IssueClosed, PullRequest,
      RequiredLabelMissing, UntrustedLabelActor, Excluded, Held, AlreadyOwned, AssignedToOther,
      RepositoryLimitReached, GlobalLimitReached]"

fun IntakeBlocker_to_string :: "IntakeBlocker \<Rightarrow> string" where
  "IntakeBlocker_to_string IntakeDisabled = ''INTAKE_DISABLED''"
| "IntakeBlocker_to_string GlobalPaused = ''GLOBAL_PAUSED''"
| "IntakeBlocker_to_string RepositoryPaused = ''REPOSITORY_PAUSED''"
| "IntakeBlocker_to_string DispatchDisabled = ''DISPATCH_DISABLED''"
| "IntakeBlocker_to_string IssueClosed = ''ISSUE_CLOSED''"
| "IntakeBlocker_to_string PullRequest = ''PULL_REQUEST''"
| "IntakeBlocker_to_string RequiredLabelMissing = ''REQUIRED_LABEL_MISSING''"
| "IntakeBlocker_to_string UntrustedLabelActor = ''UNTRUSTED_LABEL_ACTOR''"
| "IntakeBlocker_to_string Excluded = ''EXCLUDED''"
| "IntakeBlocker_to_string Held = ''HELD''"
| "IntakeBlocker_to_string AlreadyOwned = ''ALREADY_OWNED''"
| "IntakeBlocker_to_string AssignedToOther = ''ASSIGNED_TO_OTHER''"
| "IntakeBlocker_to_string RepositoryLimitReached = ''REPOSITORY_LIMIT_REACHED''"
| "IntakeBlocker_to_string GlobalLimitReached = ''GLOBAL_LIMIT_REACHED''"

datatype IntakeDecision = Eligible | Ineligible "IntakeBlocker list"

text \<open>\<open>block_if\<close> of the prelude is the closure of the same name.\<close>

definition evaluate_intake :: "IntakePolicy \<Rightarrow> IssueObservation \<Rightarrow> IntakeDecision" where
  "evaluate_intake policy observation =
    (let b = [];
         b = block_if (\<not> intake_enabled policy) IntakeDisabled b;
         b = block_if (global_paused policy) GlobalPaused b;
         b = block_if (repository_paused policy) RepositoryPaused b;
         b = block_if (\<not> dispatch_enabled policy) DispatchDisabled b;
         b = block_if (\<not> io_open observation) IssueClosed b;
         b = block_if (io_is_pull_request observation) PullRequest b;
         label_present = (required_label policy \<in> io_labels observation);
         b = block_if (\<not> label_present) RequiredLabelMissing b;
         b = block_if (label_present \<and>
               (case latest_label_actor_id observation of
                  None \<Rightarrow> True
                | Some actor \<Rightarrow> actor \<notin> trusted_actor_ids policy)) UntrustedLabelActor b;
         b = block_if (io_excluded observation) Excluded b;
         b = block_if (io_held observation) Held b;
         b = block_if (already_owned observation) AlreadyOwned b;
         b = block_if (assigned_to_other observation) AssignedToOther b;
         b = block_if (repository_active_cases observation \<ge> repository_active_limit policy)
               RepositoryLimitReached b;
         b = block_if (global_active_cases observation \<ge> global_active_limit policy)
               GlobalLimitReached b
     in if b = [] then Eligible else Ineligible b)"

section \<open>The reasons, one by one\<close>

definition authorized_label :: "IntakePolicy \<Rightarrow> IssueObservation \<Rightarrow> bool" where
  "authorized_label p i \<longleftrightarrow> required_label p \<in> io_labels i \<and>
     (\<exists>actor \<in> trusted_actor_ids p. latest_label_actor_id i = Some actor)"

fun blocked_by :: "IntakePolicy \<Rightarrow> IssueObservation \<Rightarrow> IntakeBlocker \<Rightarrow> bool" where
  "blocked_by p i IntakeDisabled = (\<not> intake_enabled p)"
| "blocked_by p i GlobalPaused = global_paused p"
| "blocked_by p i RepositoryPaused = repository_paused p"
| "blocked_by p i DispatchDisabled = (\<not> dispatch_enabled p)"
| "blocked_by p i IssueClosed = (\<not> io_open i)"
| "blocked_by p i PullRequest = io_is_pull_request i"
| "blocked_by p i RequiredLabelMissing = (required_label p \<notin> io_labels i)"
| "blocked_by p i UntrustedLabelActor =
     (required_label p \<in> io_labels i \<and> \<not> authorized_label p i)"
| "blocked_by p i Excluded = io_excluded i"
| "blocked_by p i Held = io_held i"
| "blocked_by p i AlreadyOwned = already_owned i"
| "blocked_by p i AssignedToOther = assigned_to_other i"
| "blocked_by p i RepositoryLimitReached =
     (unat (repository_active_limit p) \<le> unat (repository_active_cases i))"
| "blocked_by p i GlobalLimitReached =
     (unat (global_active_limit p) \<le> unat (global_active_cases i))"

lemma set_IntakeBlocker_ALL: "set IntakeBlocker_ALL = UNIV"
proof -
  have "b \<in> set IntakeBlocker_ALL" for b by (cases b) (simp_all add: IntakeBlocker_ALL_def)
  then show ?thesis by blast
qed

lemma untrusted_iff:
  "(case latest_label_actor_id i of None \<Rightarrow> True | Some actor \<Rightarrow> actor \<notin> trusted_actor_ids p)
     \<longleftrightarrow> \<not> (\<exists>actor \<in> trusted_actor_ids p. latest_label_actor_id i = Some actor)"
  by (auto split: option.splits)

lemma evaluate_intake_filter:
  "evaluate_intake p i =
     (let bs = filter (blocked_by p i) IntakeBlocker_ALL
      in if bs = [] then Eligible else Ineligible bs)"
  unfolding evaluate_intake_def IntakeBlocker_ALL_def Let_def untrusted_iff block_if_only
    filter_only blocked_by.simps authorized_label_def word_le_nat_alt de_Morgan_conj
  by (simp only: append_Nil append_Nil2 append_assoc conj_disj_distribL simp_thms)

text \<open>Intake reports exactly what keeps an issue out. An issue is eligible if and only if no
  reason applies to it; otherwise the reported list holds every reason that applies and no
  other, each once, in the order of \<open>IntakeBlocker::ALL\<close>.\<close>

theorem intake_complete:
  "(evaluate_intake p i = Eligible \<longleftrightarrow> (\<forall>b. \<not> blocked_by p i b)) \<and>
   (evaluate_intake p i = Ineligible bs \<longrightarrow>
      (\<forall>b. b \<in> set bs \<longleftrightarrow> blocked_by p i b) \<and> bs \<noteq> [] \<and> distinct bs \<and>
      subseq bs IntakeBlocker_ALL)"
proof (intro conjI impI)
  show "evaluate_intake p i = Eligible \<longleftrightarrow> (\<forall>b. \<not> blocked_by p i b)"
    using set_IntakeBlocker_ALL by (auto simp: evaluate_intake_filter Let_def filter_empty_conv)
next
  assume "evaluate_intake p i = Ineligible bs"
  then have bs: "bs = filter (blocked_by p i) IntakeBlocker_ALL" and ne: "bs \<noteq> []"
    by (simp_all add: evaluate_intake_filter Let_def split: if_splits)
  show "\<forall>b. b \<in> set bs \<longleftrightarrow> blocked_by p i b" by (simp add: bs set_IntakeBlocker_ALL)
  show "bs \<noteq> []" by (rule ne)
  have "distinct IntakeBlocker_ALL" by (simp add: IntakeBlocker_ALL_def)
  then show "distinct bs" by (simp add: bs)
  show "subseq bs IntakeBlocker_ALL" unfolding bs by (rule subseq_filter_left)
qed

definition sample_policy :: IntakePolicy where
  "sample_policy =
     \<lparr>ip_revision = PolicyRevision 1, intake_enabled = True, dispatch_enabled = True,
      global_paused = False, repository_paused = False, required_label = ''pip'',
      trusted_actor_ids = {ActorId 7}, repository_active_limit = 2, global_active_limit = 4\<rparr>"

definition sample_issue :: IssueObservation where
  "sample_issue =
     \<lparr>io_open = True, io_is_pull_request = False, io_labels = {''pip''},
      latest_label_actor_id = Some (ActorId 8), io_excluded = False, io_held = False,
      already_owned = False, assigned_to_other = False, repository_active_cases = 2,
      global_active_cases = 2\<rparr>"

theorem intake_complete_witness:
  "evaluate_intake sample_policy sample_issue =
     Ineligible [UntrustedLabelActor, RepositoryLimitReached] \<and>
   blocked_by sample_policy sample_issue UntrustedLabelActor \<and>
   \<not> blocked_by sample_policy sample_issue Held"
proof -
  have e: "evaluate_intake sample_policy sample_issue =
      Ineligible [UntrustedLabelActor, RepositoryLimitReached]"
    by (simp add: evaluate_intake_filter IntakeBlocker_ALL_def sample_policy_def sample_issue_def
        authorized_label_def Let_def)
  have "blocked_by sample_policy sample_issue b \<longleftrightarrow> b \<in> {UntrustedLabelActor, RepositoryLimitReached}" for b
    using conjunct2 [OF intake_complete, THEN mp, OF e] by simp
  with e show ?thesis by blast
qed

text \<open>C37: no issue is taken in without a human's authorization: an eligible issue carries the
  required label, put there by a trusted actor, it is an open issue that nobody else holds, and
  both concurrency limits still leave room for it.\<close>

theorem intake_authorized:
  "evaluate_intake p i = Eligible \<Longrightarrow>
     authorized_label p i \<and> io_open i \<and> \<not> io_is_pull_request i \<and> \<not> already_owned i \<and>
     \<not> assigned_to_other i \<and> \<not> io_held i \<and>
     unat (repository_active_cases i) < unat (repository_active_limit p) \<and>
     unat (global_active_cases i) < unat (global_active_limit p)"
proof -
  assume e: "evaluate_intake p i = Eligible"
  have free: "\<not> blocked_by p i b" for b
    using e set_IntakeBlocker_ALL
    by (auto simp: evaluate_intake_filter Let_def filter_empty_conv split: if_splits)
  show ?thesis
    using free [of RequiredLabelMissing] free [of UntrustedLabelActor] free [of IssueClosed]
      free [of PullRequest] free [of AlreadyOwned] free [of AssignedToOther] free [of Held]
      free [of RepositoryLimitReached] free [of GlobalLimitReached]
    by simp
qed

theorem intake_authorized_witness:
  "\<exists>i. evaluate_intake sample_policy i = Eligible \<and> authorized_label sample_policy i"
proof -
  let ?i = "sample_issue \<lparr>latest_label_actor_id := Some (ActorId 7), repository_active_cases := 1\<rparr>"
  have e: "evaluate_intake sample_policy ?i = Eligible"
    by (simp add: evaluate_intake_filter IntakeBlocker_ALL_def sample_policy_def sample_issue_def
        authorized_label_def Let_def)
  show ?thesis using e intake_authorized [OF e] by blast
qed

end
