(* ===== verification/Revision.thy ===== *)
theory Revision
  imports StateMachine
begin

text \<open>
  Optimistic concurrency of cases, \<open>pip-core/src/revision.rs\<close>: a command names the case, the
  revision of it the sender saw and the policy it was accepted under, and
  \<open>evaluate_case_command\<close> refuses it unless all of them are current.
\<close>

record CasePolicy =
  cp_revision :: PolicyRevision
  cp_merge_mode :: MergeMode
  cp_max_remediation_rounds :: u32

record CaseSnapshot =
  cs_case_id :: CaseId
  cs_state :: CaseState
  cs_state_revision :: StateRevision
  cs_policy_revision :: PolicyRevision
  cs_remediation_round :: u32

record CaseCommand =
  cc_case_id :: CaseId
  cc_event_id :: EventId
  cc_observed_at :: ObservedAt
  cc_expected_state_revision :: StateRevision
  cc_accepted_policy_revision :: PolicyRevision
  cc_event :: Event
  cc_resume_target :: "CaseState option"

record CaseCommandDecision =
  cd_case_id :: CaseId
  cd_event_id :: EventId
  cd_observed_at :: ObservedAt
  cd_from_revision :: StateRevision
  cd_to_revision :: StateRevision
  cd_transition :: TransitionDecision

datatype CommandError =
    CaseMismatch
  | StaleStateRevision StateRevision StateRevision
  | CommandPolicyRevisionMismatch
  | PolicyRevisionUnavailable
  | StateRevisionExhausted
  | CommandInvalidTransition TransitionError

definition command_context :: "CaseSnapshot \<Rightarrow> CaseCommand \<Rightarrow> CasePolicy \<Rightarrow> TransitionContext" where
  "command_context snapshot command policy =
     \<lparr>remediation_round = cs_remediation_round snapshot,
      max_remediation_rounds = cp_max_remediation_rounds policy,
      merge_mode = cp_merge_mode policy,
      resume_target = cc_resume_target command\<rparr>"

definition evaluate_case_command ::
  "CaseSnapshot \<Rightarrow> CaseCommand \<Rightarrow> CasePolicy \<Rightarrow> CommandError + CaseCommandDecision" where
  "evaluate_case_command snapshot command policy =
    (if cc_case_id command \<noteq> cs_case_id snapshot then Inl CaseMismatch
     else if cc_expected_state_revision command \<noteq> cs_state_revision snapshot then
       Inl (StaleStateRevision (cc_expected_state_revision command) (cs_state_revision snapshot))
     else if cc_accepted_policy_revision command \<noteq> cs_policy_revision snapshot then
       Inl CommandPolicyRevisionMismatch
     else if cp_revision policy \<noteq> cs_policy_revision snapshot then Inl PolicyRevisionUnavailable
     else
       rbind (ok_or (StateRevision_checked_next (cs_state_revision snapshot)) StateRevisionExhausted)
         (\<lambda>to_revision.
       rbind (map_err CommandInvalidTransition
                (transition (cs_state snapshot) (cc_event command)
                   (command_context snapshot command policy))) (\<lambda>decision.
       Inr \<lparr>cd_case_id = cs_case_id snapshot,
            cd_event_id = cc_event_id command,
            cd_observed_at = cc_observed_at command,
            cd_from_revision = cs_state_revision snapshot,
            cd_to_revision = to_revision,
            cd_transition = decision\<rparr>)))"

text \<open>A command that is current for a snapshot and a policy.\<close>

definition current_command :: "CaseSnapshot \<Rightarrow> CaseCommand \<Rightarrow> CasePolicy \<Rightarrow> bool" where
  "current_command snapshot command policy \<longleftrightarrow>
     cc_case_id command = cs_case_id snapshot \<and>
     cc_expected_state_revision command = cs_state_revision snapshot \<and>
     cc_accepted_policy_revision command = cs_policy_revision snapshot \<and>
     cp_revision policy = cs_policy_revision snapshot"

lemma evaluate_case_command_Inr:
  "evaluate_case_command snapshot command policy = Inr d \<longleftrightarrow>
     current_command snapshot command policy \<and>
     cd_case_id d = cs_case_id snapshot \<and> cd_event_id d = cc_event_id command \<and>
     cd_observed_at d = cc_observed_at command \<and>
     cd_from_revision d = cs_state_revision snapshot \<and>
     StateRevision_checked_next (cs_state_revision snapshot) = Some (cd_to_revision d) \<and>
     transition (cs_state snapshot) (cc_event command) (command_context snapshot command policy)
       = Inr (cd_transition d)"
  by (cases d) (auto simp: evaluate_case_command_def current_command_def)

text \<open>A case command is accepted exactly when it is current and its event is a legal step. It
  must name this case, the revision the case really has and the policy the case was accepted
  under; an accepted command takes one step of the state machine and raises the revision by
  exactly one, without wrap-around.\<close>

theorem case_command_accepted:
  "(\<exists>d. evaluate_case_command snapshot command policy = Inr d) \<longleftrightarrow>
     current_command snapshot command policy \<and>
     unat (state_revision_get (cs_state_revision snapshot)) + 1 < 2 ^ 64 \<and>
     (\<exists>t. transition (cs_state snapshot) (cc_event command)
        (command_context snapshot command policy) = Inr t)"
proof -
  let ?r = "cs_state_revision snapshot"
  have next_revision: "(\<exists>r'. StateRevision_checked_next ?r = Some r') \<longleftrightarrow> unat (state_revision_get ?r) + 1 < 2 ^ 64"
    (is "?next \<longleftrightarrow> ?room")
  proof
    assume ?next
    then show ?room by (auto simp: checked_next_Some checked_add_def split: if_splits)
  next
    assume ?room
    then have "StateRevision_checked_next ?r = Some (StateRevision (state_revision_get ?r + 1))"
      by (simp add: checked_next_Some checked_add_def)
    then show ?next ..
  qed
  show ?thesis
  proof
    assume "\<exists>d. evaluate_case_command snapshot command policy = Inr d"
    with next_revision show "current_command snapshot command policy \<and>
      unat (state_revision_get ?r) + 1 < 2 ^ 64 \<and>
      (\<exists>t. transition (cs_state snapshot) (cc_event command) (command_context snapshot command policy) = Inr t)"
      unfolding evaluate_case_command_Inr by blast
  next
    assume "current_command snapshot command policy \<and> unat (state_revision_get ?r) + 1 < 2 ^ 64 \<and>
      (\<exists>t. transition (cs_state snapshot) (cc_event command) (command_context snapshot command policy) = Inr t)"
    with next_revision obtain r' t where
      "current_command snapshot command policy" "StateRevision_checked_next ?r = Some r'"
      "transition (cs_state snapshot) (cc_event command) (command_context snapshot command policy) = Inr t"
      by auto
    then show "\<exists>d. evaluate_case_command snapshot command policy = Inr d"
      by (auto simp: evaluate_case_command_def current_command_def)
  qed
qed

text \<open>Of two commands that were both decided against the same snapshot at most one can be
  applied: after the first, the case has a new revision and the second, which still expects
  the old one, is refused as stale.\<close>

theorem second_command_stale:
  assumes "evaluate_case_command snapshot first policy = Inr d"
    and "cc_case_id second = cs_case_id snapshot"
    and "cc_expected_state_revision second = cs_state_revision snapshot"
    and "cs_case_id snapshot' = cs_case_id snapshot" "cs_state_revision snapshot' = cd_to_revision d"
  shows "evaluate_case_command snapshot' second policy' =
    Inl (StaleStateRevision (cs_state_revision snapshot) (cd_to_revision d))"
proof -
  have "checked_add (state_revision_get (cs_state_revision snapshot)) 1 =
      Some (state_revision_get (cd_to_revision d))"
    using assms(1) by (simp add: evaluate_case_command_Inr checked_next_Some)
  then have "cs_state_revision snapshot \<noteq> cd_to_revision d"
    by (auto dest: checked_add_Some_less)
  with assms(2-5) show ?thesis by (simp add: evaluate_case_command_def)
qed

definition sample_snapshot :: CaseSnapshot where
  "sample_snapshot =
     \<lparr>cs_case_id = \<lparr>cid_repository = RepositoryId 1, cid_issue = IssueNumber 2,
        cid_workflow = WorkflowVersion 1\<rparr>,
      cs_state = WaitingCi, cs_state_revision = StateRevision 4,
      cs_policy_revision = PolicyRevision 1, cs_remediation_round = 0\<rparr>"

definition sample_command :: "Event \<Rightarrow> CaseCommand" where
  "sample_command e =
     \<lparr>cc_case_id = cs_case_id sample_snapshot, cc_event_id = EventId ''e1'',
      cc_observed_at = ObservedAt 10, cc_expected_state_revision = StateRevision 4,
      cc_accepted_policy_revision = PolicyRevision 1, cc_event = e, cc_resume_target = None\<rparr>"

theorem second_command_stale_witness:
  "evaluate_case_command
      (sample_snapshot \<lparr>cs_state := Reviewing, cs_state_revision := StateRevision 5\<rparr>)
      (sample_command CiFailed)
      \<lparr>cp_revision = PolicyRevision 1, cp_merge_mode = Shadow, cp_max_remediation_rounds = 3\<rparr> =
    Inl (StaleStateRevision (StateRevision 4) (StateRevision 5))"
proof -
  let ?policy = "\<lparr>cp_revision = PolicyRevision 1, cp_merge_mode = Shadow,
    cp_max_remediation_rounds = 3\<rparr>"
  let ?d = "\<lparr>cd_case_id = cs_case_id sample_snapshot, cd_event_id = EventId ''e1'',
    cd_observed_at = ObservedAt 10, cd_from_revision = StateRevision 4,
    cd_to_revision = StateRevision 5,
    cd_transition = \<lparr>next_state = Reviewing, effects = [DispatchReviewers]\<rparr>\<rparr>"
  have first: "evaluate_case_command sample_snapshot (sample_command CiAccepted) ?policy = Inr ?d"
    by (simp add: evaluate_case_command_Inr current_command_def sample_snapshot_def
        sample_command_def command_context_def checked_next_Some checked_add_def default_step)
  show ?thesis
    using second_command_stale [OF first, of "sample_command CiFailed"
        "sample_snapshot \<lparr>cs_state := Reviewing, cs_state_revision := StateRevision 5\<rparr>" ?policy]
    by (simp add: sample_command_def sample_snapshot_def)
qed

end
