(* ===== verification/ExactHead.thy ===== *)
theory ExactHead
  imports Domain
begin

text \<open>
  The exact-head join of \<open>pip-core/src/exact_head.rs\<close>: the evidence of the builder, of CI, of
  both reviewers and of every finding is accepted only when it is bound to the head commit that
  is about to be declared ready. \<open>evaluate_exact_head\<close> lists what is missing; the theorem says
  that it finds nothing missing exactly when every piece of evidence is bound to this head.
\<close>

datatype ReviewRole = General | SecurityPerformance

definition ReviewRole_from_str :: "string \<Rightarrow> string + ReviewRole" where
  "ReviewRole_from_str value =
     (if value = ''reviewer-general'' then Inr General
      else if value = ''reviewer-secperf'' then Inr SecurityPerformance
      else Inl ''unknown mandatory review role'')"

fun ReviewRole_to_string :: "ReviewRole \<Rightarrow> string" where
  "ReviewRole_to_string General = ''reviewer-general''"
| "ReviewRole_to_string SecurityPerformance = ''reviewer-secperf''"

record HeadBinding =
  hb_case_id :: CaseId
  hb_pr_number :: PullRequestNumber
  hb_plan_version :: PlanVersion
  hb_head_sha :: GitSha

record BuilderEvidence =
  be_binding :: HeadBinding
  ci_head_sha :: GitSha
  be_ci_green :: bool

record CiEvidence =
  ci_ev_head_sha :: GitSha
  ci_completed :: bool
  ci_hollow :: bool
  ci_rate_limited :: bool
  required_checks_green :: bool

record ReviewEvidence =
  re_binding :: HeadBinding
  re_role :: ReviewRole
  re_approved :: bool
  blocking_findings :: "FindingId list"

record FindingEvidence =
  fe_id :: FindingId
  fe_origin :: ReviewRole
  reviewed_head_sha :: GitSha
  resolution_head_sha :: "GitSha option"
  fe_mandatory :: bool
  origin_confirmed :: bool

record ExactHeadObservation =
  eh_expected :: HeadBinding
  eh_builder :: BuilderEvidence
  eh_ci :: CiEvidence
  general_review :: ReviewEvidence
  secperf_review :: ReviewEvidence
  eh_findings :: "FindingEvidence list"
  open_blocking_threads :: u32
  pip_owned :: bool
  mergeable :: bool
  authorization_valid :: bool

datatype JoinBlocker =
    BuilderBindingMismatch | BuilderHeadMismatch | BuilderCiHeadMismatch | BuilderCiNotGreen |
    CiHeadMismatch | CiIncomplete | CiHollow | CiRateLimited | CiNotGreen |
    GeneralReviewBindingMismatch | GeneralReviewRoleMismatch | GeneralReviewHeadMismatch |
    GeneralReviewNotApproved | GeneralReviewHasBlockingFindings |
    SecperfReviewBindingMismatch | SecperfReviewRoleMismatch | SecperfReviewHeadMismatch |
    SecperfReviewNotApproved | SecperfReviewHasBlockingFindings |
    FindingResolutionMissing | FindingResolutionHeadMismatch | FindingNotOriginConfirmed |
    BlockingThreadsOpen | ForeignOwnership | NotMergeable | AuthorizationInvalid

record ExactHeadDecision =
  ready :: bool
  blockers :: "JoinBlocker list"

definition same_identity :: "HeadBinding \<Rightarrow> HeadBinding \<Rightarrow> bool" where
  "same_identity left right \<longleftrightarrow>
     hb_case_id left = hb_case_id right \<and> hb_pr_number left = hb_pr_number right \<and>
     hb_plan_version left = hb_plan_version right"

fun review_blockers ::
  "ReviewRole \<Rightarrow> JoinBlocker \<times> JoinBlocker \<times> JoinBlocker \<times> JoinBlocker \<times> JoinBlocker" where
  "review_blockers General =
     (GeneralReviewBindingMismatch, GeneralReviewRoleMismatch, GeneralReviewHeadMismatch,
      GeneralReviewNotApproved, GeneralReviewHasBlockingFindings)"
| "review_blockers SecurityPerformance =
     (SecperfReviewBindingMismatch, SecperfReviewRoleMismatch, SecperfReviewHeadMismatch,
      SecperfReviewNotApproved, SecperfReviewHasBlockingFindings)"

definition check_review ::
  "HeadBinding \<Rightarrow> ReviewEvidence \<Rightarrow> ReviewRole \<Rightarrow> JoinBlocker list \<Rightarrow> JoinBlocker list" where
  "check_review expected evidence role bs =
    (case review_blockers role of (binding, role_mismatch, head, approval, findings) \<Rightarrow>
      let bs = block_if (\<not> same_identity expected (re_binding evidence)) binding bs;
          bs = block_if (re_role evidence \<noteq> role) role_mismatch bs;
          bs = block_if (hb_head_sha (re_binding evidence) \<noteq> hb_head_sha expected) head bs;
          bs = block_if (\<not> re_approved evidence) approval bs
      in block_if (blocking_findings evidence \<noteq> []) findings bs)"

text \<open>The body of the loop over the mandatory findings.\<close>

definition check_finding :: "HeadBinding \<Rightarrow> FindingEvidence \<Rightarrow> JoinBlocker list \<Rightarrow> JoinBlocker list" where
  "check_finding expected finding bs =
    (let bs = (case resolution_head_sha finding of
                 None \<Rightarrow> bs @ [FindingResolutionMissing]
               | Some head \<Rightarrow> block_if (head \<noteq> hb_head_sha expected) FindingResolutionHeadMismatch bs)
     in block_if (\<not> origin_confirmed finding) FindingNotOriginConfirmed bs)"

definition evaluate_exact_head :: "ExactHeadObservation \<Rightarrow> ExactHeadDecision" where
  "evaluate_exact_head observation =
    (let expected = eh_expected observation;
         builder = eh_builder observation;
         ci = eh_ci observation;
         bs = block_if (\<not> same_identity expected (be_binding builder)) BuilderBindingMismatch [];
         bs = block_if (hb_head_sha (be_binding builder) \<noteq> hb_head_sha expected)
                BuilderHeadMismatch bs;
         bs = block_if (ci_head_sha builder \<noteq> hb_head_sha expected) BuilderCiHeadMismatch bs;
         bs = block_if (\<not> be_ci_green builder) BuilderCiNotGreen bs;
         bs = block_if (ci_ev_head_sha ci \<noteq> hb_head_sha expected) CiHeadMismatch bs;
         bs = block_if (\<not> ci_completed ci) CiIncomplete bs;
         bs = block_if (ci_hollow ci) CiHollow bs;
         bs = block_if (ci_rate_limited ci) CiRateLimited bs;
         bs = block_if (\<not> required_checks_green ci) CiNotGreen bs;
         bs = check_review expected (general_review observation) General bs;
         bs = check_review expected (secperf_review observation) SecurityPerformance bs;
         bs = fold (check_finding expected) (filter fe_mandatory (eh_findings observation)) bs;
         bs = block_if (0 < open_blocking_threads observation) BlockingThreadsOpen bs;
         bs = block_if (\<not> pip_owned observation) ForeignOwnership bs;
         bs = block_if (\<not> mergeable observation) NotMergeable bs;
         bs = block_if (\<not> authorization_valid observation) AuthorizationInvalid bs
     in \<lparr>ready = (bs = []), blockers = bs\<rparr>)"

section \<open>What readiness means\<close>

definition review_accepts :: "HeadBinding \<Rightarrow> ReviewRole \<Rightarrow> ReviewEvidence \<Rightarrow> bool" where
  "review_accepts expected role r \<longleftrightarrow>
     re_binding r = expected \<and> re_role r = role \<and> re_approved r \<and> blocking_findings r = []"

definition finding_closed :: "HeadBinding \<Rightarrow> FindingEvidence \<Rightarrow> bool" where
  "finding_closed expected f \<longleftrightarrow>
     resolution_head_sha f = Some (hb_head_sha expected) \<and> origin_confirmed f"

definition head_accepted :: "ExactHeadObservation \<Rightarrow> bool" where
  "head_accepted ob \<longleftrightarrow>
    (let expected = eh_expected ob; builder = eh_builder ob; ci = eh_ci ob in
     be_binding builder = expected \<and> ci_head_sha builder = hb_head_sha expected \<and>
     be_ci_green builder \<and>
     ci_ev_head_sha ci = hb_head_sha expected \<and> ci_completed ci \<and> \<not> ci_hollow ci \<and>
     \<not> ci_rate_limited ci \<and> required_checks_green ci \<and>
     review_accepts expected General (general_review ob) \<and>
     review_accepts expected SecurityPerformance (secperf_review ob) \<and>
     (\<forall>f \<in> set (eh_findings ob). fe_mandatory f \<longrightarrow> finding_closed expected f) \<and>
     open_blocking_threads ob = 0 \<and> pip_owned ob \<and> mergeable ob \<and> authorization_valid ob)"

lemma same_binding:
  "same_identity a b \<and> hb_head_sha b = hb_head_sha a \<longleftrightarrow> (b :: HeadBinding) = a"
  by (cases a; cases b) (auto simp: same_identity_def)

lemma block_if_Nil [simp]: "block_if c b bs = [] \<longleftrightarrow> \<not> c \<and> bs = []"
  by (auto simp: block_if_def)

lemma check_review_Nil:
  "check_review expected r role bs = [] \<longleftrightarrow> review_accepts expected role r \<and> bs = []"
  using same_binding [of expected "re_binding r"]
  by (cases role) (auto simp: check_review_def review_accepts_def)

lemma check_finding_Nil:
  "check_finding expected f bs = [] \<longleftrightarrow> finding_closed expected f \<and> bs = []"
  by (auto simp: check_finding_def finding_closed_def split: option.splits)

lemma check_findings_Nil:
  "fold (check_finding expected) fs bs = [] \<longleftrightarrow> list_all (finding_closed expected) fs \<and> bs = []"
  by (induction fs arbitrary: bs) (auto simp: check_finding_Nil)

text \<open>C36: the exact-head join declares a head ready if and only if all evidence is about this very
  head: the builder's and both reviewers' bindings are the expected case, pull request, plan
  version and commit, CI completed and green on this commit (not hollow, not rate limited),
  both mandatory roles approved without blocking findings, every mandatory finding was
  resolved at this commit and confirmed by its origin, and no thread, ownership, merge or
  authorization obstacle is left. It reports ready exactly when it reports no blocker.\<close>

theorem exact_head_ready:
  "(ready (evaluate_exact_head ob) \<longleftrightarrow> head_accepted ob) \<and>
   (ready (evaluate_exact_head ob) \<longleftrightarrow> blockers (evaluate_exact_head ob) = [])"
proof -
  have thr: "\<not> 0 < open_blocking_threads ob \<longleftrightarrow> open_blocking_threads ob = 0"
    by (simp add: word_gt_0)
  have bind: "(\<not> \<not> same_identity (eh_expected ob) (be_binding (eh_builder ob))) \<and>
      \<not> hb_head_sha (be_binding (eh_builder ob)) \<noteq> hb_head_sha (eh_expected ob) \<longleftrightarrow>
      be_binding (eh_builder ob) = eh_expected ob"
    using same_binding [of "eh_expected ob" "be_binding (eh_builder ob)"] by simp
  show ?thesis
    unfolding evaluate_exact_head_def Let_def ExactHeadDecision.simps block_if_Nil check_review_Nil
      check_findings_Nil head_accepted_def thr
    using bind by (auto simp: list_all_iff)
qed

end
