(* ===== verification/Json.thy ===== *)
theory Json
  imports Prelude
begin

text \<open>
  The JSON values of \<open>serde_json\<close> as the source uses them. An object is the list of its members
  in the order they are written: a \<open>Value\<close> keeps its members sorted by key (the \<open>BTreeMap\<close>
  representation, no \<open>preserve_order\<close> feature), which \<open>object_insert\<close> maintains, and a derived
  \<open>Serialize\<close> writes the fields of a struct in declaration order. The text of a value, parsing
  it back and the SHA-256 digest are third-party code: they are the fields of a \<open>codec\<close> that
  every operation using them takes as an argument.
\<close>

datatype json =
    JNull
  | JBool bool
  | JPos u64          \<comment> \<open>\<open>Number\<close>: a non-negative integer\<close>
  | JNeg int          \<comment> \<open>\<open>Number\<close>: a negative integer\<close>
  | JFloat "64 word"  \<comment> \<open>\<open>Number\<close>: the bits of an \<open>f64\<close>\<close>
  | JStr string
  | JArr "json list"
  | JObj "(string \<times> json) list"

type_synonym json_object = "(string \<times> json) list"

fun is_object :: "json \<Rightarrow> bool" where
  "is_object (JObj _) = True"
| "is_object _ = False"

fun as_u64 :: "json \<Rightarrow> u64 option" where
  "as_u64 (JPos n) = Some n"
| "as_u64 _ = None"

fun as_str :: "json \<Rightarrow> string option" where
  "as_str (JStr s) = Some s"
| "as_str _ = None"

fun as_array :: "json \<Rightarrow> json list option" where
  "as_array (JArr vs) = Some vs"
| "as_array _ = None"

text \<open>\<open>Value::get\<close> and the index operator, which reads \<open>Null\<close> where there is no such member.\<close>

fun json_get :: "json \<Rightarrow> string \<Rightarrow> json option" where
  "json_get (JObj ms) k = map_of ms k"
| "json_get _ k = None"

definition json_at :: "json \<Rightarrow> string \<Rightarrow> json" where
  "json_at v k = (case json_get v k of None \<Rightarrow> JNull | Some w \<Rightarrow> w)"

text \<open>\<open>Map::insert\<close> on the sorted members.\<close>

fun object_insert :: "string \<Rightarrow> json \<Rightarrow> json_object \<Rightarrow> json_object" where
  "object_insert k v [] = [(k, v)]"
| "object_insert k v ((j, w) # ms) =
     (if k = j then (k, v) # ms
      else if k < j then (k, v) # (j, w) # ms
      else (j, w) # object_insert k v ms)"

text \<open>\<open>json!(x)\<close> for an \<open>Option\<close>.\<close>

definition json_opt :: "('a \<Rightarrow> json) \<Rightarrow> 'a option \<Rightarrow> json" where
  "json_opt f x = (case x of None \<Rightarrow> JNull | Some a \<Rightarrow> f a)"

definition json_u32 :: "u32 \<Rightarrow> json" where
  "json_u32 n = JPos (ucast n)"

text \<open>A value of SQLite: what its JSON functions and aggregates return.\<close>

datatype sql_value = SqlNull | SqlInt int | SqlReal "64 word" | SqlText string

text \<open>
  Third-party code: \<open>serde_json\<close> printing and parsing, the SHA-256 digest in hexadecimal, and the
  JSON functions, the comparison operators, the aggregates \<open>MAX\<close> and \<open>SUM\<close> (\<open>None\<close> is its integer
  overflow) and the addition of SQLite. \<open>json_extract\<close>
  and its companions take the stored text and a path. They are applied to text that
  \<open>serde_json\<close> wrote, so that SQLite's error on malformed text does not arise. \<open>sql_eq\<close> and
  \<open>sql_less\<close> say that the comparison is true, which it never is with a null operand.
\<close>

record codec =
  json_to_string :: "json \<Rightarrow> string"
  json_from_str :: "string \<Rightarrow> json option"
  sha256_hex :: "string \<Rightarrow> string"
  json_extract :: "string \<Rightarrow> string \<Rightarrow> sql_value"
  json_each :: "string \<Rightarrow> string \<Rightarrow> sql_value list"
  json_type :: "string \<Rightarrow> string \<Rightarrow> string option"
  sql_eq :: "sql_value \<Rightarrow> sql_value \<Rightarrow> bool"
  sql_less :: "sql_value \<Rightarrow> sql_value \<Rightarrow> bool"
  sql_max :: "sql_value list \<Rightarrow> sql_value"
  sql_sum :: "sql_value list \<Rightarrow> sql_value option"
  sql_plus :: "sql_value \<Rightarrow> int \<Rightarrow> sql_value"

text \<open>The values \<open>serde_json\<close> itself builds: sorted objects and numbers in range.\<close>

fun wf_json :: "json \<Rightarrow> bool" where
  "wf_json (JNeg n) = (- (2 ^ 63) \<le> n \<and> n < 0)"
| "wf_json (JArr vs) = list_all wf_json vs"
| "wf_json (JObj ms) = (sorted_wrt (<) (map fst ms) \<and> list_all (\<lambda>m. wf_json (snd m)) ms)"
| "wf_json (JFloat _) = False"
| "wf_json _ = True"

text \<open>What the ledger relies on: a value it wrote is read back as written. Floating-point
  numbers, whose text may be rounded, are left out.\<close>

definition codec_ok :: "codec \<Rightarrow> bool" where
  "codec_ok C \<longleftrightarrow> (\<forall>v. wf_json v \<longrightarrow> json_from_str C (json_to_string C v) = Some v)"

lemma map_of_object_insert [simp]:
  "map_of (object_insert k v ms) = (map_of ms)(k \<mapsto> v)"
  by (induction k v ms rule: object_insert.induct) auto

lemma set_object_insert: "fst ` set (object_insert k v ms) = insert k (fst ` set ms)"
  by (induction k v ms rule: object_insert.induct) auto

text \<open>Insertion keeps the members strictly sorted by key, so that no key is written twice.\<close>

lemma sorted_object_insert:
  "sorted_wrt (<) (map fst ms) \<Longrightarrow> sorted_wrt (<) (map fst (object_insert k v ms))"
proof (induction k v ms rule: object_insert.induct)
  case (1 k v)
  then show ?case by simp
next
  case (2 k v j w ms)
  have set: "fst ` set (object_insert k v ms) = insert k (fst ` set ms)"
    by (rule set_object_insert)
  show ?case
  proof (cases "k = j \<or> k < j")
    case True
    with "2.prems" show ?thesis by force
  next
    case False
    with 2 have "sorted_wrt (<) (map fst (object_insert k v ms))" by simp
    moreover have "\<forall>x \<in> fst ` set (object_insert k v ms). j < x"
      using "2.prems" False set by auto
    ultimately show ?thesis using False by auto
  qed
qed

lemma json_at_simps [simp]:
  "json_at (JObj ms) k = (case map_of ms k of None \<Rightarrow> JNull | Some w \<Rightarrow> w)"
  by (simp add: json_at_def)

lemma json_at_object_insert [simp]:
  "json_at (JObj (object_insert k v ms)) j = (if j = k then v else json_at (JObj ms) j)"
  by simp

lemma as_u64_Some [simp]: "as_u64 v = Some n \<longleftrightarrow> v = JPos n"
  by (cases v) auto

lemma as_str_Some [simp]: "as_str v = Some s \<longleftrightarrow> v = JStr s"
  by (cases v) auto

lemma json_opt_simps [simp]: "json_opt f None = JNull" "json_opt f (Some a) = f a"
  by (simp_all add: json_opt_def)

section \<open>A codec\<close>

text \<open>
  An executable instance of the parameter: a prefix code for JSON values with its parser. It
  shows that what the ledger relies on of \<open>serde_json\<close> can hold, and lets the sample ledgers be
  evaluated. A text is written as its characters, each after a dot, and ends with a semicolon.
\<close>

fun put_str :: "string \<Rightarrow> string" where
  "put_str [] = '';''"
| "put_str (c # s) = CHR ''.'' # c # put_str s"

fun get_str :: "string \<Rightarrow> (string \<times> string) option" where
  "get_str (a # rest) =
     (if a = CHR '';'' then Some ([], rest)
      else case rest of
        [] \<Rightarrow> None
      | c # rest \<Rightarrow> map_option (\<lambda>(s, rest). (c # s, rest)) (get_str rest))"
| "get_str [] = None"

fun put_json :: "json \<Rightarrow> string" where
  "put_json JNull = ''n''"
| "put_json (JBool b) = (if b then ''t'' else ''f'')"
| "put_json (JPos n) = CHR ''+'' # put_str (show_nat (unat n))"
| "put_json (JNeg n) = CHR ''-'' # put_str (show_nat (nat (- n)))"
| "put_json (JFloat b) = CHR ''r'' # put_str (show_nat (unat b))"
| "put_json (JStr s) = CHR ''s'' # put_str s"
| "put_json (JArr vs) = CHR ''['' # concat (map (\<lambda>v. CHR '','' # put_json v) vs) @ '']''"
| "put_json (JObj ms) =
     CHR ''{'' # concat (map (\<lambda>m. CHR '','' # put_str (fst m) @ put_json (snd m)) ms) @ ''}''"

fun get_json :: "nat \<Rightarrow> string \<Rightarrow> (json \<times> string) option"
  and get_items :: "nat \<Rightarrow> string \<Rightarrow> (json list \<times> string) option"
  and get_members :: "nat \<Rightarrow> string \<Rightarrow> (json_object \<times> string) option" where
  "get_json (Suc n) (c # rest) =
    (if c = CHR ''n'' then Some (JNull, rest)
     else if c = CHR ''t'' then Some (JBool True, rest)
     else if c = CHR ''f'' then Some (JBool False, rest)
     else if c = CHR ''['' then map_option (\<lambda>(vs, rest). (JArr vs, rest)) (get_items n rest)
     else if c = CHR ''{'' then map_option (\<lambda>(ms, rest). (JObj ms, rest)) (get_members n rest)
     else Option.bind (get_str rest) (\<lambda>(s, rest).
       if c = CHR ''+'' then Some (JPos (of_nat (read_digits s)), rest)
       else if c = CHR ''-'' then Some (JNeg (- int (read_digits s)), rest)
       else if c = CHR ''r'' then Some (JFloat (of_nat (read_digits s)), rest)
       else Some (JStr s, rest)))"
| "get_json 0 text = None"
| "get_json n [] = None"
| "get_items (Suc n) (c # rest) =
    (if c = CHR '']'' then Some ([], rest)
     else Option.bind (get_json n rest) (\<lambda>(v, rest).
       map_option (\<lambda>(vs, rest). (v # vs, rest)) (get_items n rest)))"
| "get_items 0 text = None"
| "get_items n [] = None"
| "get_members (Suc n) (c # rest) =
    (if c = CHR ''}'' then Some ([], rest)
     else Option.bind (get_str rest) (\<lambda>(k, rest).
       Option.bind (get_json n rest) (\<lambda>(v, rest).
       map_option (\<lambda>(ms, rest). ((k, v) # ms, rest)) (get_members n rest))))"
| "get_members 0 text = None"
| "get_members n [] = None"

definition read_json :: "string \<Rightarrow> json option" where
  "read_json text =
     (case get_json (Suc (length text)) text of Some (v, []) \<Rightarrow> Some v | _ \<Rightarrow> None)"

lemma get_put_str [simp]: "get_str (put_str s @ rest) = Some (s, rest)"
  by (induction s) simp_all

lemma get_put_items:
  assumes "\<And>v n rest. v \<in> set vs \<Longrightarrow> length (put_json v) < n \<Longrightarrow> get_json n (put_json v @ rest) = Some (v, rest)"
    and "length (concat (map (\<lambda>v. CHR '','' # put_json v) vs)) < n"
  shows "get_items n (concat (map (\<lambda>v. CHR '','' # put_json v) vs) @ CHR '']'' # rest) = Some (vs, rest)"
  using assms
proof (induction vs arbitrary: n)
  case Nil
  then show ?case by (cases n) simp_all
next
  case (Cons v vs)
  then obtain m where n: "n = Suc m" by (cases n) auto
  show ?case using Cons.prems Cons.IH [of m] by (simp add: n)
qed

lemma get_put_members:
  assumes "\<And>m n rest. m \<in> set ms \<Longrightarrow> length (put_json (snd m)) < n \<Longrightarrow>
      get_json n (put_json (snd m) @ rest) = Some (snd m, rest)"
    and "length (concat (map (\<lambda>m. CHR '','' # put_str (fst m) @ put_json (snd m)) ms)) < n"
  shows "get_members n (concat (map (\<lambda>m. CHR '','' # put_str (fst m) @ put_json (snd m)) ms) @
      CHR ''}'' # rest) = Some (ms, rest)"
  using assms
proof (induction ms arbitrary: n)
  case Nil
  then show ?case by (cases n) simp_all
next
  case (Cons m ms)
  then obtain n' where n: "n = Suc n'" by (cases n) auto
  show ?case using Cons.prems Cons.IH [of n'] by (simp add: n)
qed

lemma get_put_json:
  "wf_json v \<Longrightarrow> length (put_json v) < n \<Longrightarrow> get_json n (put_json v @ rest) = Some (v, rest)"
proof (induction v arbitrary: n rest)
  case (JArr vs)
  then obtain m where n: "n = Suc m" by (cases n) auto
  have "get_items m (concat (map (\<lambda>v. CHR '','' # put_json v) vs) @ CHR '']'' # rest) = Some (vs, rest)"
    using JArr by (intro get_put_items) (auto simp: n list_all_iff)
  then show ?case by (simp add: n)
next
  case (JObj ms)
  then obtain m where n: "n = Suc m" by (cases n) auto
  have "get_members m (concat (map (\<lambda>m. CHR '','' # put_str (fst m) @ put_json (snd m)) ms) @
      CHR ''}'' # rest) = Some (ms, rest)"
    using JObj by (intro get_put_members) (auto simp: n list_all_iff snds.simps)
  then show ?case by (simp add: n)
qed (case_tac n; simp)+

lemma read_put_json: "wf_json v \<Longrightarrow> read_json (put_json v) = Some v"
  using get_put_json [of v "Suc (length (put_json v))" "[]"] by (simp add: read_json_def)

end
