(* ===== verification/Contracts.thy ===== *)
theory Contracts
  imports Json Domain
begin

text \<open>
  The worker contracts of \<open>pip-contracts/src/lib.rs\<close>: the results that planners, builders,
  reviewers and the final reviewer hand in, their validation, the check of a result against the
  immutable binding of its task, and \<open>fill_binding\<close>, with which the controller writes the
  fields it owns into a worker's JSON. Every \<open>validate\<close> returns the first contract error in
  the order of the source. The lemmas characterise what an accepted result guarantees.
\<close>

section \<open>Data\<close>

definition CONTRACT_VERSION :: u32 where
  "CONTRACT_VERSION = 2"

datatype ContractError =
    UnsupportedContractVersion | InvalidIdentity | WorkflowVersionMismatch | RoleMismatch |
    UnexpectedModel | InvalidCommit | InvalidDigest | InvalidTimestampOrder | EmptyRequiredField |
    InvalidOutcomeEvidence | CiHeadMismatch | ApprovalHasBlockingFindings |
    ApprovalHasOpenConfirmation | BindingMismatch

datatype WorkerRole = Planner | Builder | ReviewerGeneral | ReviewerSecperf | FinalReviewer

fun WorkerRole_wire :: "WorkerRole \<Rightarrow> string" where
  "WorkerRole_wire Planner = ''planner''"
| "WorkerRole_wire Builder = ''builder''"
| "WorkerRole_wire ReviewerGeneral = ''reviewer-general''"
| "WorkerRole_wire ReviewerSecperf = ''reviewer-secperf''"
| "WorkerRole_wire FinalReviewer = ''final-reviewer''"

datatype ReviewMode = Required | Advisory | ShadowMode

fun ReviewMode_wire :: "ReviewMode \<Rightarrow> string" where
  "ReviewMode_wire Required = ''required''"
| "ReviewMode_wire Advisory = ''advisory''"
| "ReviewMode_wire ShadowMode = ''shadow''"

record CaseIdentity =
  ci_repository_id :: u64
  ci_issue_number :: u64
  ci_workflow_version :: u32

record WorkerBinding =
  wb_case :: CaseIdentity
  wb_task_id :: string
  wb_role :: WorkerRole
  wb_reviewer_id :: "string option"
  wb_review_mode :: "ReviewMode option"
  wb_requested_model :: string
  wb_skills_repository_commit :: string
  wb_plan_version :: u32
  wb_pr_number :: "u64 option"
  wb_expected_head_sha :: "string option"

record CommonResult =
  cr_contract_version :: u32
  cr_workflow_version :: u32
  cr_case :: CaseIdentity
  cr_task_id :: string
  cr_role :: WorkerRole
  cr_requested_model :: string
  cr_actual_model :: string
  cr_skills_repository_commit :: string
  cr_started_at_unix :: u64
  cr_completed_at_unix :: u64
  cr_evidence :: json_object

datatype PlannerOutcome =
    Proceed | AlreadyFixed | NotReproducible | Duplicate | RootCauseDifferentScope |
    CrossRepoDependency | WaitingForIssueCreator | NeedsHumanScopeDecision | Abandon | Blocked |
    BlockedUnexpectedModel

datatype SensitiveScope =
    Cryptography | MlsCgka | KeyHandling | TrustAnchor | MembershipAuthorization |
    AdminAuthorization | PushPayloadContext

record PlannerResult =
  plr_common :: CommonResult
  plr_outcome :: PlannerOutcome
  plr_plan_version :: u32
  plr_planned_base_sha :: string
  plr_root_cause :: string
  plr_authorized_scope :: string
  plr_sensitive_scope :: "SensitiveScope list"
  plr_dependencies :: "json list"
  plr_open_decisions :: "string list"
  plr_plan_artifact :: string

datatype BuilderOutcome = ReviewReady | ReturnToPlanning | Blocked | Abandon | BlockedUnexpectedModel

record FindingResolution =
  fr_finding_id :: string
  fr_resolution_commit :: string
  fr_resolved_head_sha :: string
  fr_resolution_summary :: string
  fr_tests :: "string list"

record BuilderResult =
  blr_common :: CommonResult
  blr_outcome :: BuilderOutcome
  blr_plan_version :: u32
  blr_build_round :: u32
  blr_head_sha :: "string option"
  blr_local_checks :: "string list"
  blr_finding_resolutions :: "FindingResolution list"

datatype ReviewOutcome = Approve | RequestChanges | Blocked | BlockedUnexpectedModel

record BlockingFinding =
  bf_id :: string
  bf_summary :: string
  bf_defect :: string
  bf_consequence :: string
  bf_corrective_direction :: string
  bf_required_evidence :: "string list"

record Suggestion =
  sg_summary :: string
  sg_rationale :: string

datatype ConfirmationStatus = ConfirmedResolved | StillOpen

record FindingConfirmation =
  fc_finding_id :: string
  fc_status :: ConfirmationStatus
  fc_reviewed_fix_sha :: string
  fc_evidence :: "string list"

record ReviewResult =
  rvr_common :: CommonResult
  rvr_reviewer_id :: string
  rvr_outcome :: ReviewOutcome
  rvr_plan_version :: u32
  rvr_review_round :: u32
  rvr_pr_number :: u64
  rvr_reviewed_head_sha :: string
  rvr_blocking_findings :: "BlockingFinding list"
  rvr_suggestions :: "Suggestion list"
  rvr_finding_confirmations :: "FindingConfirmation list"

datatype FinalOutcome =
    Ready | ReturnToBuild | ReturnToReview | ReturnToPlanning | WaitForIssueCreator | Blocked |
    Abandon | BlockedUnexpectedModel

record FinalResult =
  fnr_common :: CommonResult
  fnr_outcome :: FinalOutcome
  fnr_plan_version :: u32
  fnr_final_review_round :: u32
  fnr_pr_number :: u64
  fnr_reviewed_head_sha :: string
  fnr_residual_uncertainties :: "string list"
  fnr_decision_rationale :: string

datatype WorkerResult =
    PlannerW PlannerResult
  | BuilderW BuilderResult
  | ReviewW ReviewResult
  | FinalW FinalResult

section \<open>Filling in the fields the controller owns\<close>

record BindingFill =
  bfl_binding :: WorkerBinding
  bfl_task_body :: json
  bfl_run_times :: "(u64 \<times> u64) option"
  bfl_now :: u64
  bfl_reviewed_head_from_binding :: bool

text \<open>\<open>to_value\<close> of a \<open>CaseIdentity\<close>: a \<open>Value\<close>, so its members are sorted.\<close>

definition CaseIdentity_value :: "CaseIdentity \<Rightarrow> json" where
  "CaseIdentity_value c =
     JObj [(''issue_number'', JPos (ci_issue_number c)),
           (''repository_id'', JPos (ci_repository_id c)),
           (''workflow_version'', json_u32 (ci_workflow_version c))]"

definition insert_some :: "string \<Rightarrow> json option \<Rightarrow> json_object \<Rightarrow> json_object" where
  "insert_some k v ms = (case v of None \<Rightarrow> ms | Some v \<Rightarrow> object_insert k v ms)"

definition is_review_role :: "WorkerRole \<Rightarrow> bool" where
  "is_review_role r \<longleftrightarrow> r \<in> {ReviewerGeneral, ReviewerSecperf, FinalReviewer}"

definition fill_identity :: "WorkerBinding \<Rightarrow> json_object \<Rightarrow> json_object" where
  "fill_identity binding ms =
    (let ms = object_insert ''contract_version'' (json_u32 CONTRACT_VERSION) ms;
         ms = object_insert ''workflow_version''
                (json_u32 (ci_workflow_version (wb_case binding))) ms;
         ms = object_insert ''case'' (CaseIdentity_value (wb_case binding)) ms;
         ms = object_insert ''task_id'' (JStr (wb_task_id binding)) ms;
         ms = object_insert ''role'' (JStr (WorkerRole_wire (wb_role binding))) ms;
         ms = object_insert ''requested_model'' (JStr (wb_requested_model binding)) ms;
         ms = object_insert ''actual_model'' (JStr (wb_requested_model binding)) ms;
         ms = object_insert ''skills_repository_commit''
                (JStr (wb_skills_repository_commit binding)) ms
     in object_insert ''plan_version'' (json_u32 (wb_plan_version binding)) ms)"

definition fill_evidence :: "json_object \<Rightarrow> json_object" where
  "fill_evidence ms =
     (case map_of ms ''evidence'' of None \<Rightarrow> object_insert ''evidence'' (JObj []) ms | Some _ \<Rightarrow> ms)"

definition fill_reviewed :: "BindingFill \<Rightarrow> json_object \<Rightarrow> json_object" where
  "fill_reviewed fill ms =
    (let binding = bfl_binding fill in
     if is_review_role (wb_role binding) then
       let ms = insert_some ''pr_number'' (map_option JPos (wb_pr_number binding)) ms
       in if bfl_reviewed_head_from_binding fill
          then insert_some ''reviewed_head_sha'' (map_option JStr (wb_expected_head_sha binding)) ms
          else ms
     else ms)"

fun round_keys :: "WorkerRole \<Rightarrow> string list" where
  "round_keys Builder = [''build_round'']"
| "round_keys ReviewerGeneral = [''review_round'']"
| "round_keys ReviewerSecperf = [''review_round'']"
| "round_keys FinalReviewer = [''final_review_round'']"
| "round_keys Planner = []"

definition fill_rounds :: "BindingFill \<Rightarrow> json_object \<Rightarrow> json_object" where
  "fill_rounds fill ms =
     fold (\<lambda>key ms. insert_some key
             (map_option JPos (Option.bind (json_get (bfl_task_body fill) key) as_u64)) ms)
       (round_keys (wb_role (bfl_binding fill))) ms"

text \<open>\<open>Option::filter\<close> followed by \<open>unwrap_or\<close>.\<close>

definition filter_or :: "('a \<Rightarrow> bool) \<Rightarrow> 'a \<Rightarrow> 'a option \<Rightarrow> 'a" where
  "filter_or P d x = (case x of None \<Rightarrow> d | Some a \<Rightarrow> if P a then a else d)"

definition fill_times :: "BindingFill \<Rightarrow> json_object \<Rightarrow> u64 \<times> u64" where
  "fill_times fill ms =
    (case bfl_run_times fill of
       Some measured \<Rightarrow> measured
     | None \<Rightarrow>
         let completed = filter_or (\<lambda>t. 0 < t \<and> t \<le> bfl_now fill) (bfl_now fill)
               (Option.bind (map_of ms ''completed_at_unix'') as_u64);
             started = filter_or (\<lambda>t. 0 < t \<and> t \<le> completed) completed
               (Option.bind (map_of ms ''started_at_unix'') as_u64)
         in (started, completed))"

definition fill_binding :: "json \<Rightarrow> BindingFill \<Rightarrow> ContractError + json" where
  "fill_binding value fill =
    (case value of
       JObj ms \<Rightarrow>
         let binding = bfl_binding fill;
             ms = fill_identity binding ms;
             ms = fill_evidence ms;
             ms = fill_reviewed fill ms;
             ms = insert_some ''reviewer_id'' (map_option JStr (wb_reviewer_id binding)) ms;
             ms = fill_rounds fill ms;
             (started, completed) = fill_times fill ms;
             ms = object_insert ''started_at_unix'' (JPos started) ms
         in Inr (JObj (object_insert ''completed_at_unix'' (JPos completed) ms))
     | _ \<Rightarrow> Inl RoleMismatch)"

section \<open>Validation\<close>

definition is_hex :: "string \<Rightarrow> nat \<Rightarrow> bool" where
  "is_hex value n \<longleftrightarrow> length value = n \<and> list_all is_lower_hex value"

definition not_blank :: "string \<Rightarrow> bool" where
  "not_blank value \<longleftrightarrow> trim value \<noteq> []"

definition CommonResult_validate :: "CommonResult \<Rightarrow> WorkerRole \<Rightarrow> ContractError + unit" where
  "CommonResult_validate c expected_role =
    (if cr_contract_version c \<noteq> CONTRACT_VERSION then Inl UnsupportedContractVersion
     else if cr_workflow_version c = 0 \<or> ci_repository_id (cr_case c) = 0
         \<or> ci_issue_number (cr_case c) = 0 \<or> ci_workflow_version (cr_case c) = 0
       then Inl InvalidIdentity
     else if ci_workflow_version (cr_case c) \<noteq> cr_workflow_version c
       then Inl WorkflowVersionMismatch
     else if cr_role c \<noteq> expected_role then Inl RoleMismatch
     else if \<not> not_blank (cr_task_id c) \<or> \<not> not_blank (cr_requested_model c)
         \<or> \<not> not_blank (cr_actual_model c) then Inl EmptyRequiredField
     else if \<not> is_hex (cr_skills_repository_commit c) 40 then Inl InvalidCommit
     else if cr_completed_at_unix c < cr_started_at_unix c then Inl InvalidTimestampOrder
     else Inr ())"

definition PlannerResult_validate :: "PlannerResult \<Rightarrow> ContractError + unit" where
  "PlannerResult_validate r =
    rbind (CommonResult_validate (plr_common r) Planner) (\<lambda>_.
     if plr_plan_version r = 0 \<or> \<not> is_hex (plr_planned_base_sha r) 40 then Inl InvalidIdentity
     else if \<not> not_blank (plr_authorized_scope r) \<or> \<not> not_blank (plr_plan_artifact r)
       then Inl EmptyRequiredField
     else if list_ex (\<lambda>item. \<not> is_object item) (plr_dependencies r) then Inl InvalidOutcomeEvidence
     else if plr_outcome r = Proceed
         \<and> (plr_dependencies r \<noteq> [] \<or> plr_open_decisions r \<noteq> []) then Inl InvalidOutcomeEvidence
     else Inr ())"

definition bad_resolution :: "FindingResolution \<Rightarrow> bool" where
  "bad_resolution f \<longleftrightarrow>
     \<not> is_hex (fr_resolution_commit f) 40 \<or> \<not> is_hex (fr_resolved_head_sha f) 40 \<or>
     \<not> not_blank (fr_finding_id f) \<or> \<not> not_blank (fr_resolution_summary f) \<or>
     fr_tests f = [] \<or> list_ex (\<lambda>item. \<not> not_blank item) (fr_tests f)"

definition BuilderResult_validate :: "BuilderResult \<Rightarrow> ContractError + unit" where
  "BuilderResult_validate r =
    rbind (CommonResult_validate (blr_common r) Builder) (\<lambda>_.
     if blr_plan_version r = 0 \<or> blr_build_round r = 0 then Inl InvalidIdentity
     else if list_ex bad_resolution (blr_finding_resolutions r) then Inl InvalidOutcomeEvidence
     else if blr_outcome r = ReviewReady then
       (case blr_head_sha r of
          None \<Rightarrow> Inl InvalidOutcomeEvidence
        | Some head \<Rightarrow> if \<not> is_hex head 40 then Inl InvalidOutcomeEvidence else Inr ())
     else if blr_head_sha r \<noteq> None then Inl InvalidOutcomeEvidence
     else Inr ())"

definition ReviewResult_validate :: "ReviewResult \<Rightarrow> ContractError + unit" where
  "ReviewResult_validate r =
    (if cr_role (rvr_common r) \<notin> {ReviewerGeneral, ReviewerSecperf} then Inl RoleMismatch
     else rbind (CommonResult_validate (rvr_common r) (cr_role (rvr_common r))) (\<lambda>_.
     if rvr_plan_version r = 0 \<or> rvr_review_round r = 0 \<or> rvr_pr_number r = 0
         \<or> \<not> not_blank (rvr_reviewer_id r) \<or> \<not> is_hex (rvr_reviewed_head_sha r) 40
       then Inl InvalidIdentity
     else if rvr_outcome r = Approve \<and> rvr_blocking_findings r \<noteq> []
       then Inl ApprovalHasBlockingFindings
     else if rvr_outcome r = Approve
         \<and> list_ex (\<lambda>item. fc_status item \<noteq> ConfirmedResolved) (rvr_finding_confirmations r)
       then Inl ApprovalHasOpenConfirmation
     else Inr ()))"

definition FinalResult_validate :: "FinalResult \<Rightarrow> ContractError + unit" where
  "FinalResult_validate r =
    rbind (CommonResult_validate (fnr_common r) FinalReviewer) (\<lambda>_.
     if fnr_plan_version r = 0 \<or> fnr_final_review_round r = 0 \<or> fnr_pr_number r = 0
         \<or> \<not> is_hex (fnr_reviewed_head_sha r) 40 then Inl InvalidIdentity
     else if \<not> not_blank (fnr_decision_rationale r) then Inl EmptyRequiredField
     else Inr ())"

fun WorkerResult_validate :: "WorkerResult \<Rightarrow> ContractError + unit" where
  "WorkerResult_validate (PlannerW r) = PlannerResult_validate r"
| "WorkerResult_validate (BuilderW r) = BuilderResult_validate r"
| "WorkerResult_validate (ReviewW r) = ReviewResult_validate r"
| "WorkerResult_validate (FinalW r) = FinalResult_validate r"

fun WorkerResult_common :: "WorkerResult \<Rightarrow> CommonResult" where
  "WorkerResult_common (PlannerW r) = plr_common r"
| "WorkerResult_common (BuilderW r) = blr_common r"
| "WorkerResult_common (ReviewW r) = rvr_common r"
| "WorkerResult_common (FinalW r) = fnr_common r"

text \<open>The tuple \<open>(plan_version, pr_number, head_sha, reviewer_id)\<close> a result reports.\<close>

fun reported :: "WorkerResult \<Rightarrow> u32 \<times> u64 option \<times> string option \<times> string option" where
  "reported (PlannerW r) = (plr_plan_version r, None, None, None)"
| "reported (BuilderW r) = (blr_plan_version r, None, blr_head_sha r, None)"
| "reported (ReviewW r) =
     (rvr_plan_version r, Some (rvr_pr_number r), Some (rvr_reviewed_head_sha r),
      Some (rvr_reviewer_id r))"
| "reported (FinalW r) =
     (fnr_plan_version r, Some (fnr_pr_number r), Some (fnr_reviewed_head_sha r), None)"

fun reviewed_output :: "WorkerResult \<Rightarrow> bool" where
  "reviewed_output (ReviewW r) = True"
| "reviewed_output (FinalW r) = True"
| "reviewed_output _ = False"

definition validate_binding :: "WorkerResult \<Rightarrow> WorkerBinding \<Rightarrow> ContractError + unit" where
  "validate_binding r binding =
    rbind (WorkerResult_validate r) (\<lambda>_.
      let common = WorkerResult_common r in
      case reported r of (plan_version, pr_number, head_sha, reviewer_id) \<Rightarrow>
      if cr_case common = wb_case binding
         \<and> cr_task_id common = wb_task_id binding
         \<and> cr_role common = wb_role binding
         \<and> reviewer_id = wb_reviewer_id binding
         \<and> (wb_review_mode binding \<noteq> None) = (reviewer_id \<noteq> None)
         \<and> cr_requested_model common = wb_requested_model binding
         \<and> cr_skills_repository_commit common = wb_skills_repository_commit binding
         \<and> plan_version = wb_plan_version binding
         \<and> (\<not> reviewed_output r \<or>
             (case wb_pr_number binding of None \<Rightarrow> True | Some expected \<Rightarrow> pr_number = Some expected)
             \<and> (case wb_expected_head_sha binding of
                  None \<Rightarrow> True | Some expected \<Rightarrow> head_sha = Some expected))
      then Inr () else Inl BindingMismatch)"

section \<open>What filling guarantees\<close>

text \<open>Two strictly sorted objects with the same members are the same object.\<close>

lemma sorted_object_eq:
  fixes xs ys :: json_object
  assumes "sorted_wrt (<) (map fst xs)" "sorted_wrt (<) (map fst ys)" "map_of xs = map_of ys"
  shows "xs = ys"
proof -
  have d: "distinct (map fst zs) \<and> sorted (map fst zs)" if "sorted_wrt (<) (map fst zs)" for zs :: json_object
    using that by (simp add: strict_sorted_iff)
  have rebuild: "zs = map (\<lambda>k. (k, the (map_of zs k))) (map fst zs)"
    if "sorted_wrt (<) (map fst zs)" for zs :: json_object
    using d [OF that] by (auto intro!: map_idI [symmetric] simp: map_of_is_SomeI)
  have "set (map fst xs) = set (map fst ys)"
    using assms(3) by (metis dom_map_of_conv_image_fst list.set_map)
  then have "map fst xs = map fst ys"
    using d assms(1,2) by (metis sorted_distinct_set_unique)
  then show ?thesis using rebuild assms by metis
qed

lemma insert_some_map_of:
  "map_of (insert_some k v ms) = (case v of None \<Rightarrow> map_of ms | Some w \<Rightarrow> (map_of ms)(k \<mapsto> w))"
  by (auto simp: insert_some_def split: option.splits)

lemma insert_some_sorted:
  "sorted_wrt (<) (map fst ms) \<Longrightarrow> sorted_wrt (<) (map fst (insert_some k v ms))"
  by (auto simp: insert_some_def sorted_object_insert split: option.splits)

text \<open>The fields that \<open>fill_binding\<close> owns before the times, in the order it writes them; a field
  without a value is left as the worker reported it.\<close>

definition owned_identity :: "WorkerBinding \<Rightarrow> (string \<times> json option) list" where
  "owned_identity b =
     [(''contract_version'', Some (json_u32 CONTRACT_VERSION)),
      (''workflow_version'', Some (json_u32 (ci_workflow_version (wb_case b)))),
      (''case'', Some (CaseIdentity_value (wb_case b))),
      (''task_id'', Some (JStr (wb_task_id b))),
      (''role'', Some (JStr (WorkerRole_wire (wb_role b)))),
      (''requested_model'', Some (JStr (wb_requested_model b))),
      (''actual_model'', Some (JStr (wb_requested_model b))),
      (''skills_repository_commit'', Some (JStr (wb_skills_repository_commit b))),
      (''plan_version'', Some (json_u32 (wb_plan_version b)))]"

definition owned_rounds :: "BindingFill \<Rightarrow> (string \<times> json option) list" where
  "owned_rounds fill =
     map (\<lambda>k. (k, map_option JPos (Option.bind (json_get (bfl_task_body fill) k) as_u64)))
       (round_keys (wb_role (bfl_binding fill)))"

definition owned_context :: "BindingFill \<Rightarrow> (string \<times> json option) list" where
  "owned_context fill =
    (let b = bfl_binding fill; review = is_review_role (wb_role b) in
      [(''pr_number'', if review then map_option JPos (wb_pr_number b) else None),
       (''reviewed_head_sha'', if review \<and> bfl_reviewed_head_from_binding fill
          then map_option JStr (wb_expected_head_sha b) else None),
       (''reviewer_id'', map_option JStr (wb_reviewer_id b))] @ owned_rounds fill)"

definition owned :: "BindingFill \<Rightarrow> (string \<times> json option) list" where
  "owned fill = owned_identity (bfl_binding fill) @ owned_context fill"

abbreviation insert_all :: "(string \<times> json option) list \<Rightarrow> json_object \<Rightarrow> json_object" where
  "insert_all kvs \<equiv> fold (\<lambda>(k, v). insert_some k v) kvs"

lemma insert_all_sorted:
  "sorted_wrt (<) (map fst ms) \<Longrightarrow> sorted_wrt (<) (map fst (insert_all kvs ms))"
  by (induction kvs arbitrary: ms) (auto simp: insert_some_sorted)

lemma insert_all_map_of:
  "distinct (map fst kvs) \<Longrightarrow>
     map_of (insert_all kvs ms) k = (case map_of kvs k of Some (Some v) \<Rightarrow> Some v | _ \<Rightarrow> map_of ms k)"
proof (induction kvs arbitrary: ms)
  case Nil
  then show ?case by simp
next
  case (Cons kv kvs)
  obtain j v where kv: "kv = (j, v)" by (cases kv)
  with Cons have IH: "map_of (insert_all kvs (insert_some j v ms)) k =
      (case map_of kvs k of Some (Some w) \<Rightarrow> Some w | _ \<Rightarrow> map_of (insert_some j v ms) k)" by simp
  from Cons.prems kv have "map_of kvs j = None" by (simp add: map_of_eq_None_iff)
  then show ?case using IH by (auto simp: kv insert_some_map_of split: option.splits)
qed

definition evidence_default :: "json_object \<Rightarrow> (string \<times> json option)" where
  "evidence_default ms =
     (''evidence'', if map_of ms ''evidence'' = None then Some (JObj []) else None)"

lemma insert_some_if [simp]:
  "insert_some k None ms = ms"
  "insert_some k (if c then v else None) ms = (if c then insert_some k v ms else ms)"
  by (simp_all add: insert_some_def)

lemma object_insert_some: "object_insert k v ms = insert_some k (Some v) ms"
  by (simp add: insert_some_def)

lemma fill_identity_evidence: "map_of (fill_identity b ms) ''evidence'' = map_of ms ''evidence''"
  by (simp add: fill_identity_def Let_def)

lemma fill_evidence_default:
  "fill_evidence (fill_identity b ms) = (case evidence_default ms of (k, v) \<Rightarrow> insert_some k v (fill_identity b ms))"
  by (simp add: fill_evidence_def evidence_default_def fill_identity_evidence insert_some_def
      split: option.splits)

text \<open>The object before the times are written.\<close>

definition fill_untimed :: "BindingFill \<Rightarrow> json_object \<Rightarrow> json_object" where
  "fill_untimed fill ms =
     fill_rounds fill (insert_some ''reviewer_id'' (map_option JStr (wb_reviewer_id (bfl_binding fill)))
       (fill_reviewed fill (fill_evidence (fill_identity (bfl_binding fill) ms))))"

lemma fill_identity_all: "fill_identity b ms = insert_all (owned_identity b) ms"
  by (simp add: fill_identity_def owned_identity_def Let_def object_insert_some)

lemma fill_untimed_all:
  "fill_untimed fill ms =
     insert_all (owned_identity (bfl_binding fill) @ evidence_default ms # owned_context fill) ms"
proof -
  have ctx: "insert_all (owned_context fill) ns =
      fill_rounds fill (insert_some ''reviewer_id'' (map_option JStr (wb_reviewer_id (bfl_binding fill)))
        (fill_reviewed fill ns))" for ns
    unfolding owned_context_def owned_rounds_def fill_reviewed_def fill_rounds_def Let_def
    by (simp add: insert_some_if fold_map comp_def)
  show ?thesis
    unfolding fill_untimed_def fill_evidence_default unfolding fill_identity_all
    by (simp add: ctx split: prod.splits)
qed

lemma owned_distinct:
  "distinct (map fst (owned_identity b @ evidence_default ms # owned_context fill))"
  by (cases "wb_role (bfl_binding fill)")
    (simp_all add: owned_identity_def evidence_default_def owned_context_def owned_rounds_def Let_def)

lemma times_not_owned:
  "map_of (owned fill) ''started_at_unix'' = None" "map_of (owned fill) ''completed_at_unix'' = None"
  "map_of (owned fill) ''evidence'' = None"
  by (cases "wb_role (bfl_binding fill)";
    simp add: owned_def owned_identity_def owned_context_def owned_rounds_def Let_def)+

lemma fill_untimed_map_of:
  "map_of (fill_untimed fill ms) k =
     (case map_of (owned fill) k of
        Some (Some v) \<Rightarrow> Some v
      | _ \<Rightarrow> if k = ''evidence'' \<and> map_of ms k = None then Some (JObj []) else map_of ms k)"
proof (cases "k = ''evidence''")
  case True
  then show ?thesis
    using times_not_owned(3) [of fill] unfolding fill_untimed_all insert_all_map_of [OF owned_distinct]
    by (auto simp: owned_def evidence_default_def map_of_append map_add_def split: option.splits)
next
  case False
  then have "map_of (owned_identity (bfl_binding fill) @ evidence_default ms # owned_context fill) k =
      map_of (owned fill) k"
    by (auto simp: owned_def evidence_default_def map_of_append map_add_def split: option.splits)
  with False show ?thesis
    unfolding fill_untimed_all insert_all_map_of [OF owned_distinct] by simp
qed

lemma fill_untimed_sorted:
  "sorted_wrt (<) (map fst ms) \<Longrightarrow> sorted_wrt (<) (map fst (fill_untimed fill ms))"
  unfolding fill_untimed_all by (rule insert_all_sorted)

lemma fill_binding_JObj:
  "fill_binding (JObj ms) fill = Inr w \<longleftrightarrow>
     (case fill_times fill (fill_untimed fill ms) of (started, completed) \<Rightarrow>
        w = JObj (object_insert ''completed_at_unix'' (JPos completed)
              (object_insert ''started_at_unix'' (JPos started) (fill_untimed fill ms))))"
  by (auto simp: fill_binding_def fill_untimed_def Let_def split: prod.splits)

lemma fill_times_ordered:
  assumes "bfl_run_times fill = None" "fill_times fill ms = (started, completed)"
  shows "started \<le> completed \<and> completed \<le> bfl_now fill"
  using assms by (auto simp: fill_times_def filter_or_def Let_def split: option.splits if_splits)

lemma fill_times_again:
  assumes "fill_times fill ms = (started, completed)"
  shows "fill_times fill (object_insert ''completed_at_unix'' (JPos completed)
      (object_insert ''started_at_unix'' (JPos started) ns)) = (started, completed)"
  using assms by (auto simp: fill_times_def filter_or_def Let_def split: option.splits if_splits)

text \<open>C38: completing a worker's result with \<open>fill_binding\<close> succeeds for every JSON object; the
  controller's fields then hold the values of the task binding whatever the worker wrote there,
  every field the controller does not own is the worker's own (with an empty evidence object
  where it gave none), and where the executor did not measure the run the recorded times are
  ordered and not in the future.\<close>

theorem fill_binding_correct:
  "\<exists>ms'. fill_binding (JObj ms) fill = Inr (JObj ms') \<and>
     (\<forall>k v. map_of (owned fill) k = Some (Some v) \<longrightarrow> map_of ms' k = Some v) \<and>
     (\<forall>k. k \<notin> {''started_at_unix'', ''completed_at_unix'', ''evidence''} \<longrightarrow>
        map_of (owned fill) k \<in> {None, Some None} \<longrightarrow> map_of ms' k = map_of ms k) \<and>
     map_of ms' ''evidence'' =
       Some (case map_of ms ''evidence'' of None \<Rightarrow> JObj [] | Some v \<Rightarrow> v) \<and>
     (\<exists>started completed. map_of ms' ''started_at_unix'' = Some (JPos started) \<and>
        map_of ms' ''completed_at_unix'' = Some (JPos completed) \<and>
        (bfl_run_times fill = None \<longrightarrow> started \<le> completed \<and> completed \<le> bfl_now fill))"
proof -
  obtain started completed where times: "fill_times fill (fill_untimed fill ms) = (started, completed)"
    by fastforce
  let ?ms' = "object_insert ''completed_at_unix'' (JPos completed)
    (object_insert ''started_at_unix'' (JPos started) (fill_untimed fill ms))"
  have ok: "fill_binding (JObj ms) fill = Inr (JObj ?ms')"
    by (simp add: fill_binding_JObj times)
  have fields: "map_of ?ms' k = map_of (fill_untimed fill ms) k"
    if "k \<noteq> ''started_at_unix''" "k \<noteq> ''completed_at_unix''" for k
    using that by simp
  show ?thesis
  proof (intro exI [of _ ?ms'] conjI allI impI ok)
    fix k v
    assume o: "map_of (owned fill) k = Some (Some v)"
    then have "k \<noteq> ''started_at_unix''" "k \<noteq> ''completed_at_unix''" using times_not_owned by auto
    then show "map_of ?ms' k = Some v" by (simp add: fields fill_untimed_map_of o)
  next
    fix k
    assume "k \<notin> {''started_at_unix'', ''completed_at_unix'', ''evidence''}"
      "map_of (owned fill) k \<in> {None, Some None}"
    then show "map_of ?ms' k = map_of ms k" by (auto simp: fill_untimed_map_of)
  next
    show "map_of ?ms' ''evidence'' =
        Some (case map_of ms ''evidence'' of None \<Rightarrow> JObj [] | Some v \<Rightarrow> v)"
      using times_not_owned(3) by (simp add: fill_untimed_map_of split: option.splits)
  next
    show "\<exists>started completed. map_of ?ms' ''started_at_unix'' = Some (JPos started) \<and>
        map_of ?ms' ''completed_at_unix'' = Some (JPos completed) \<and>
        (bfl_run_times fill = None \<longrightarrow> started \<le> completed \<and> completed \<le> bfl_now fill)"
      using fill_times_ordered [OF _ times] by simp
  qed
qed

definition sample_fill :: "WorkerRole \<Rightarrow> BindingFill" where
  "sample_fill role =
     \<lparr>bfl_binding = \<lparr>wb_case = \<lparr>ci_repository_id = 1, ci_issue_number = 2, ci_workflow_version = 1\<rparr>,
        wb_task_id = ''t1'', wb_role = role, wb_reviewer_id = None, wb_review_mode = None,
        wb_requested_model = ''m'', wb_skills_repository_commit = replicate 40 (CHR ''a''),
        wb_plan_version = 1, wb_pr_number = None, wb_expected_head_sha = None\<rparr>,
      bfl_task_body = JObj [(''build_round'', JPos 2)], bfl_run_times = None, bfl_now = 100,
      bfl_reviewed_head_from_binding = False\<rparr>"

theorem fill_binding_correct_witness:
  "\<exists>ms'. fill_binding (JObj [(''outcome'', JStr ''READY''), (''role'', JStr ''planner'')])
       (sample_fill Builder) = Inr (JObj ms') \<and>
     map_of ms' ''role'' = Some (JStr ''builder'') \<and> map_of ms' ''build_round'' = Some (JPos 2) \<and>
     map_of ms' ''outcome'' = Some (JStr ''READY'')"
proof -
  let ?ms = "[(''outcome'', JStr ''READY''), (''role'', JStr ''planner'')]"
  have o: "map_of (owned (sample_fill Builder)) ''role'' = Some (Some (JStr ''builder''))"
    "map_of (owned (sample_fill Builder)) ''build_round'' = Some (Some (JPos 2))"
    "map_of (owned (sample_fill Builder)) ''outcome'' = None"
    by (simp_all add: owned_def owned_identity_def owned_context_def owned_rounds_def sample_fill_def)
  obtain ms' where ok: "fill_binding (JObj ?ms) (sample_fill Builder) = Inr (JObj ms')"
    and own: "\<And>k v. map_of (owned (sample_fill Builder)) k = Some (Some v) \<Longrightarrow> map_of ms' k = Some v"
    and rest: "\<And>k. k \<notin> {''started_at_unix'', ''completed_at_unix'', ''evidence''} \<Longrightarrow>
        map_of (owned (sample_fill Builder)) k \<in> {None, Some None} \<Longrightarrow> map_of ms' k = map_of ?ms k"
    using fill_binding_correct [of ?ms "sample_fill Builder"] by metis
  show ?thesis using ok own [OF o(1)] own [OF o(2)] rest [of "''outcome''"] o(3) by simp
qed

text \<open>Completing a result twice changes nothing: the result of \<open>fill_binding\<close> is a fixed point
  of it, so a result that is ingested again is the same text.\<close>

theorem fill_binding_idempotent:
  assumes "sorted_wrt (<) (map fst ms)" "fill_binding (JObj ms) fill = Inr w"
  shows "fill_binding w fill = Inr w"
proof -
  obtain started completed where times: "fill_times fill (fill_untimed fill ms) = (started, completed)"
    by fastforce
  define ms' where "ms' = object_insert ''completed_at_unix'' (JPos completed)
    (object_insert ''started_at_unix'' (JPos started) (fill_untimed fill ms))"
  have w: "w = JObj ms'" using assms(2) by (simp add: fill_binding_JObj times ms'_def)
  have sorted: "sorted_wrt (<) (map fst ms')"
    unfolding ms'_def by (intro sorted_object_insert fill_untimed_sorted assms(1))
  have ms'_of: "map_of ms' = (map_of (fill_untimed fill ms))
      (''started_at_unix'' \<mapsto> JPos started, ''completed_at_unix'' \<mapsto> JPos completed)"
    by (simp add: ms'_def)
  have same: "map_of (fill_untimed fill ms') = map_of ms'"
  proof (rule ext)
    fix k
    consider "k = ''started_at_unix''" | "k = ''completed_at_unix''"
      | "k \<noteq> ''started_at_unix''" "k \<noteq> ''completed_at_unix''" by blast
    then show "map_of (fill_untimed fill ms') k = map_of ms' k"
    proof cases
      case 3
      then have "map_of ms' k = map_of (fill_untimed fill ms) k" by (simp add: ms'_of)
      then show ?thesis
        unfolding fill_untimed_map_of by (cases "map_of (owned fill) k") (auto split: option.splits)
    qed (simp_all add: fill_untimed_map_of [of _ ms'] ms'_of times_not_owned)
  qed
  have untimed: "fill_untimed fill ms' = ms'"
    by (rule sorted_object_eq [OF fill_untimed_sorted [OF sorted] sorted same])
  have "fill_times fill ms' = (started, completed)"
    unfolding ms'_def by (rule fill_times_again [OF times])
  moreover have "object_insert ''completed_at_unix'' (JPos completed)
      (object_insert ''started_at_unix'' (JPos started) ms') = ms'"
    by (rule sorted_object_eq) (simp_all add: sorted sorted_object_insert ms'_of)
  ultimately show ?thesis by (simp add: w fill_binding_JObj untimed)
qed

theorem fill_binding_idempotent_witness:
  "\<exists>w. fill_binding (JObj []) (sample_fill Planner) = Inr w \<and>
     fill_binding w (sample_fill Planner) = Inr w"
proof -
  obtain w where w: "fill_binding (JObj []) (sample_fill Planner) = Inr w"
    by (cases "fill_times (sample_fill Planner) (fill_untimed (sample_fill Planner) [])")
      (simp add: fill_binding_JObj)
  have s: "sorted_wrt (<) (map fst ([] :: json_object))" by simp
  show ?thesis using w fill_binding_idempotent [OF s w] by blast
qed

section \<open>What an accepted result guarantees\<close>

lemma CommonResult_validate_Inr:
  "CommonResult_validate c role = Inr () \<longleftrightarrow>
     cr_contract_version c = CONTRACT_VERSION \<and> cr_workflow_version c \<noteq> 0 \<and>
     ci_repository_id (cr_case c) \<noteq> 0 \<and> ci_issue_number (cr_case c) \<noteq> 0 \<and>
     ci_workflow_version (cr_case c) = cr_workflow_version c \<and> cr_role c = role \<and>
     not_blank (cr_task_id c) \<and> not_blank (cr_requested_model c) \<and> not_blank (cr_actual_model c) \<and>
     is_hex (cr_skills_repository_commit c) 40 \<and> cr_started_at_unix c \<le> cr_completed_at_unix c"
  by (auto simp: CommonResult_validate_def)

lemmas validate_defs = PlannerResult_validate_def BuilderResult_validate_def
  ReviewResult_validate_def FinalResult_validate_def

lemma validate_common:
  "WorkerResult_validate r = Inr () \<Longrightarrow>
     CommonResult_validate (WorkerResult_common r) (cr_role (WorkerResult_common r)) = Inr ()"
  by (cases r) (auto simp: validate_defs CommonResult_validate_Inr split: if_splits)

text \<open>The role a result of each kind may declare.\<close>

fun role_fits :: "WorkerResult \<Rightarrow> WorkerRole \<Rightarrow> bool" where
  "role_fits (PlannerW _) role = (role = Planner)"
| "role_fits (BuilderW _) role = (role = Builder)"
| "role_fits (ReviewW _) role = (role \<in> {ReviewerGeneral, ReviewerSecperf})"
| "role_fits (FinalW _) role = (role = FinalReviewer)"

lemma validate_role: "WorkerResult_validate r = Inr () \<Longrightarrow> role_fits r (cr_role (WorkerResult_common r))"
  by (cases r) (auto simp: validate_defs CommonResult_validate_Inr split: if_splits)

lemma validate_binding_Inr:
  "validate_binding r b = Inr () \<Longrightarrow>
     WorkerResult_validate r = Inr () \<and> cr_case (WorkerResult_common r) = wb_case b \<and>
     cr_task_id (WorkerResult_common r) = wb_task_id b \<and>
     cr_role (WorkerResult_common r) = wb_role b \<and>
     fst (reported r) = wb_plan_version b \<and>
     snd (snd (snd (reported r))) = wb_reviewer_id b \<and>
     cr_requested_model (WorkerResult_common r) = wb_requested_model b \<and>
     cr_skills_repository_commit (WorkerResult_common r) = wb_skills_repository_commit b"
  by (auto simp: validate_binding_def Let_def split: prod.splits if_splits)

definition sample_review :: ReviewResult where
  "sample_review =
     \<lparr>rvr_common = \<lparr>cr_contract_version = 2, cr_workflow_version = 1,
        cr_case = \<lparr>ci_repository_id = 1, ci_issue_number = 2, ci_workflow_version = 1\<rparr>,
        cr_task_id = ''t1'', cr_role = ReviewerGeneral, cr_requested_model = ''m'',
        cr_actual_model = ''m'', cr_skills_repository_commit = replicate 40 (CHR ''a''),
        cr_started_at_unix = 1, cr_completed_at_unix = 2, cr_evidence = []\<rparr>,
      rvr_reviewer_id = ''general'', rvr_outcome = Approve, rvr_plan_version = 1,
      rvr_review_round = 1, rvr_pr_number = 5, rvr_reviewed_head_sha = replicate 40 (CHR ''b''),
      rvr_blocking_findings = [], rvr_suggestions = [], rvr_finding_confirmations = []\<rparr>"

definition sample_review_binding :: "u64 option \<Rightarrow> WorkerBinding" where
  "sample_review_binding pr =
     bfl_binding (sample_fill ReviewerGeneral) \<lparr>wb_reviewer_id := Some ''general'',
       wb_review_mode := Some Required, wb_pr_number := pr\<rparr>"

lemma is_hex_replicate: "is_lower_hex c \<Longrightarrow> is_hex (replicate n c) n"
  by (simp add: is_hex_def list_all_iff)

lemma sample_review_bound:
  "pr \<in> {None, Some 5} \<Longrightarrow> validate_binding (ReviewW sample_review) (sample_review_binding pr) = Inr ()"
  by (auto simp: validate_binding_def ReviewResult_validate_def CommonResult_validate_def
      sample_review_def sample_review_binding_def sample_fill_def CONTRACT_VERSION_def is_hex_replicate
      is_lower_hex_def is_ascii_digit_def byte_def not_blank_def simp flip: blank_def)

text \<open>A result that passes the binding check is of the kind its task was given to, under the
  supported contract version and a well-formed case identity, and it can be credited to no other
  task: two bindings that both accept it agree on case, task, role, reviewer, model, skills
  commit and plan version.\<close>

theorem result_credited_once:
  assumes "validate_binding r a = Inr ()" "validate_binding r b = Inr ()"
  shows "role_fits r (wb_role a) \<and> ci_repository_id (wb_case a) \<noteq> 0 \<and>
    ci_issue_number (wb_case a) \<noteq> 0 \<and> ci_workflow_version (wb_case a) \<noteq> 0 \<and>
    wb_case a = wb_case b \<and> wb_task_id a = wb_task_id b \<and> wb_role a = wb_role b \<and>
    wb_reviewer_id a = wb_reviewer_id b \<and> wb_requested_model a = wb_requested_model b \<and>
    wb_skills_repository_commit a = wb_skills_repository_commit b \<and>
    wb_plan_version a = wb_plan_version b"
proof -
  note a = validate_binding_Inr [OF assms(1)] and b = validate_binding_Inr [OF assms(2)]
  have "CommonResult_validate (WorkerResult_common r) (wb_role a) = Inr ()"
    using a validate_common by fastforce
  moreover have "role_fits r (wb_role a)" using a validate_role by fastforce
  ultimately show ?thesis using a b unfolding CommonResult_validate_Inr by auto
qed

theorem result_credited_once_witness:
  "validate_binding (ReviewW sample_review) (sample_review_binding None) = Inr () \<and>
   validate_binding (ReviewW sample_review) (sample_review_binding (Some 5)) = Inr () \<and>
   wb_task_id (sample_review_binding None) = wb_task_id (sample_review_binding (Some 5))"
proof -
  have a: "validate_binding (ReviewW sample_review) (sample_review_binding None) = Inr ()"
    and b: "validate_binding (ReviewW sample_review) (sample_review_binding (Some 5)) = Inr ()"
    by (simp_all add: sample_review_bound)
  show ?thesis using a b result_credited_once [OF a b] by blast
qed



end
