(* ===== verification/Ledger.thy ===== *)
theory Ledger
  imports Json Domain
begin

text \<open>
  The schema of the SQLite ledger of \<open>pip-store\<close> after its last migration, and its row-level
  writes. A table is the list of its rows in insertion order and \<open>Store\<close> is the database
  behind a handle together with the handle's \<open>read_only\<close> flag. An \<open>INTEGER\<close> column holds an
  \<open>int\<close> (SQLite's 64-bit signed integers: every value written comes from \<open>sql_u64\<close>, which
  refuses what does not fit). An insert checks what the schema declares, the primary and unique
  keys, the \<open>CHECK\<close> clauses and the foreign keys, and fails with \<open>ConstraintViolation\<close> when one
  does not hold; \<open>NOT NULL\<close> is in the column's type. The immutability triggers are built in:
  for a table that has them there is no write but the insert.
\<close>

section \<open>Errors and integers\<close>

datatype database_error =
    QueryReturnedNoRows | ConstraintViolation | InvalidColumnType | IntegralValueOutOfRange
  | FromSqlConversionFailure | DatabaseFull | IntegerOverflow

datatype FaultPoint =
    AfterEvent | AfterRun | AfterEvidence | AfterProjection | AfterOutbox | BetweenTransitions

datatype StoreError =
    Database database_error
  | Serialization
  | InvalidInteger
  | InvalidInput string
  | MissingCase string
  | StaleRevision u64 u64
  | IdempotencyConflict string
  | InjectedFault FaultPoint
  | LeaseLost string
  | ReadOnly
  | DestinationExists string
  | UnsupportedSchema u32

datatype ApplyResult = Applied | Replayed

definition sql_u64 :: "u64 \<Rightarrow> StoreError + int" where
  "sql_u64 value = (if uint value < 2 ^ 63 then Inr (uint value) else Inl InvalidInteger)"

definition sql_u64_opt :: "u64 option \<Rightarrow> StoreError + int option" where
  "sql_u64_opt value =
     (case value of None \<Rightarrow> Inr None | Some n \<Rightarrow> rbind (sql_u64 n) (\<lambda>i. Inr (Some i)))"

definition sql_u32 :: "u32 \<Rightarrow> int" where
  "sql_u32 value = uint value"

text \<open>\<open>u64::try_from(v).unwrap_or_default()\<close> and the same for \<open>u32\<close>.\<close>

definition unsigned :: "int \<Rightarrow> u64" where
  "unsigned v = (if 0 \<le> v \<and> v < 2 ^ 64 then of_int v else 0)"

definition unsigned32 :: "int \<Rightarrow> u32" where
  "unsigned32 v = (if 0 \<le> v \<and> v < 2 ^ 32 then of_int v else 0)"

section \<open>Digests\<close>

text \<open>\<open>hash_bytes\<close>, \<open>hash_serialized\<close> and \<open>payload\<close> of \<open>lib.rs\<close>.\<close>

definition hash_serialized :: "codec \<Rightarrow> json \<Rightarrow> string" where
  "hash_serialized C v = sha256_hex C (json_to_string C v)"

definition payload :: "codec \<Rightarrow> json \<Rightarrow> string \<times> string" where
  "payload C v = (let serialized = json_to_string C v in (serialized, sha256_hex C serialized))"

definition payload_hash :: "codec \<Rightarrow> json \<Rightarrow> string" where
  "payload_hash C v = snd (payload C v)"

section \<open>Rows\<close>

record PolicyRow =
  pol_repository_id :: int
  pol_revision :: int
  pol_payload_json :: string
  pol_payload_sha256 :: string
  pol_accepted_at :: int

record CaseRow =
  c_case_key :: string
  c_repository_id :: int
  c_issue_number :: int
  c_workflow_version :: int
  c_state :: string
  c_state_revision :: int
  c_policy_revision :: int
  c_remediation_round :: int
  c_plan_version :: int
  c_pr_number :: "int option"
  c_head_sha :: "string option"
  c_created_at :: int
  c_updated_at :: int

record EventRow =
  e_event_id :: string
  e_case_key :: string
  e_state_revision :: int
  e_observed_at :: int
  e_event_type :: string
  e_payload_json :: string
  e_payload_sha256 :: string
  e_command_sha256 :: string
  e_previous_state :: "string option"
  e_next_state :: string
  e_policy_revision :: int
  e_remediation_round :: int
  e_plan_version :: int
  e_pr_number :: "int option"
  e_head_sha :: "string option"

record RunRow =
  r_run_id :: string
  r_case_key :: string
  r_event_id :: string
  r_task_id :: string
  r_role :: string
  r_payload_json :: string
  r_payload_sha256 :: string
  r_accepted_at :: int

record EvidenceRow =
  ev_evidence_id :: string
  ev_case_key :: string
  ev_kind :: string
  ev_source :: string
  ev_observed_at :: int
  ev_payload_json :: string
  ev_payload_sha256 :: string

record FindingRow =
  f_finding_id :: string
  f_case_key :: string
  f_origin_role :: string
  f_reviewed_head_sha :: string
  f_payload_json :: string
  f_payload_sha256 :: string
  f_recorded_at :: int
  f_event_id :: "string option"

record OutboxRow =
  o_effect_id :: string
  o_case_key :: string
  o_state_revision :: int
  o_effect_type :: string
  o_payload_json :: string
  o_payload_sha256 :: string
  o_created_at :: int
  o_lease :: "(string \<times> int) option"
  o_delivered_at :: "int option"
  o_superseded_at :: "int option"
  o_superseded_by_event_id :: "string option"

text \<open>\<open>lease_owner\<close> and \<open>lease_until\<close> are null together (a \<open>CHECK\<close> of the table), so they are
  one optional pair.\<close>

record TaskProjectionRow =
  tp_projection_id :: string
  tp_case_key :: string
  tp_effect_id :: string
  tp_board :: string
  tp_task_id :: "string option"
  tp_desired_json :: string
  tp_observed_json :: "string option"
  tp_reconciled_at :: "int option"

datatype AttemptState =
    RUNNING
  | COMPLETE (at_completed_at: int) (at_result_json: string) (at_result_sha256: string)
  | FAILED (at_failed_at: int) (at_error: string)

text \<open>The columns \<open>status\<close>, \<open>completed_at\<close>, \<open>result_json\<close>, \<open>result_sha256\<close> and \<open>error\<close> of an
  attempt can be filled in three ways only, by a \<open>CHECK\<close> of the table: \<open>AttemptState\<close>.\<close>

record DirectAttemptRow =
  d_attempt_id :: int
  d_effect_id :: string
  d_case_key :: string
  d_state_revision :: int
  d_task_id :: string
  d_lease_owner :: string
  d_lease_until :: int
  d_started_at :: int
  d_status :: AttemptState

record WebhookDeliveryRow =
  wd_delivery_id :: string
  wd_repository_id :: int
  wd_event_name :: string
  wd_action :: string
  wd_received_at :: int
  wd_payload_sha256 :: string

record WorkspaceRetirementRow =
  wr_case_key :: string
  wr_state_revision :: int
  wr_worktree_path :: string
  wr_outcome :: string
  wr_retired_at :: int

record ReviewObservationRow =
  ro_observation_id :: string
  ro_effect_id :: string
  ro_case_key :: string
  ro_task_id :: string
  ro_reviewer_id :: string
  ro_role :: string
  ro_review_mode :: string
  ro_plan_version :: int
  ro_review_round :: int
  ro_pr_number :: int
  ro_reviewed_head_sha :: string
  ro_payload_json :: string
  ro_payload_sha256 :: string
  ro_recorded_at :: int

record DispatchBatchRow =
  db_effect_id :: string
  db_case_key :: string
  db_state_revision :: int
  db_payload_json :: string
  db_payload_sha256 :: string
  db_frozen_at :: int

record DispatchCreateAttemptRow =
  dc_effect_id :: string
  dc_intent_id :: string
  dc_lease_owner :: string
  dc_lease_until :: int
  dc_attempted_at :: int

record ConversationRow =
  cv_message_key :: string
  cv_repository_id :: int
  cv_thread_number :: int
  cv_actor_id :: int
  cv_case_key :: "string option"
  cv_received_at :: int
  cv_payload_json :: string
  cv_payload_sha256 :: string
  cv_state :: string
  cv_spec_json :: "string option"
  cv_task_id :: "string option"
  cv_answer_json :: "string option"
  cv_reply_id :: "int option"
  cv_reply_body :: "string option"

record ControlCommandRow =
  cc_comment_id :: int
  cc_repository_id :: int
  cc_thread_number :: int
  cc_case_key :: "string option"
  cc_actor_id :: int
  cc_command :: string
  cc_guidance :: string
  cc_received_at :: int
  cc_status :: string
  cc_outcome :: "string option"
  cc_resolved_at :: "int option"

record HeartbeatRow =
  hb_repository_id :: int
  hb_last_cycle_at :: int
  hb_running_since :: int

record Store =
  read_only :: bool
  policies :: "PolicyRow list"
  cases_table :: "CaseRow list"
  events :: "EventRow list"
  runs :: "RunRow list"
  evidence :: "EvidenceRow list"
  findings :: "FindingRow list"
  outbox :: "OutboxRow list"
  task_projections :: "TaskProjectionRow list"
  direct_attempts :: "DirectAttemptRow list"
  webhook_deliveries :: "WebhookDeliveryRow list"
  workspace_retirements :: "WorkspaceRetirementRow list"
  review_observations :: "ReviewObservationRow list"
  dispatch_batches :: "DispatchBatchRow list"
  dispatch_create_attempts :: "DispatchCreateAttemptRow list"
  conversations :: "ConversationRow list"
  control_commands :: "ControlCommandRow list"
  controller_heartbeats :: "HeartbeatRow list"

type_synonym 'a store_op = "(Store, StoreError, 'a) smonad"

definition empty_store :: Store where
  "empty_store =
     \<lparr>read_only = False, policies = [], cases_table = [], events = [], runs = [], evidence = [],
      findings = [], outbox = [], task_projections = [], direct_attempts = [],
      webhook_deliveries = [], workspace_retirements = [], review_observations = [],
      dispatch_batches = [], dispatch_create_attempts = [], conversations = [],
      control_commands = [], controller_heartbeats = []\<rparr>"

definition ensure_writable :: "unit store_op" where
  "ensure_writable = sbind (sread read_only) (\<lambda>ro. sreject_if ro ReadOnly)"

section \<open>Writes\<close>

text \<open>An insert that the schema refuses leaves the table alone.\<close>

definition sql_insert ::
  "(Store \<Rightarrow> 'r \<Rightarrow> bool) \<Rightarrow> ('r \<Rightarrow> Store \<Rightarrow> Store) \<Rightarrow> 'r \<Rightarrow> unit store_op" where
  "sql_insert allowed add row =
     sbind (sread (\<lambda>s. allowed s row)) (\<lambda>ok.
       if ok then smodify (add row) else sfail (Database ConstraintViolation))"

definition has_case :: "Store \<Rightarrow> string \<Rightarrow> bool" where
  "has_case s key \<longleftrightarrow> list_ex (\<lambda>r. c_case_key r = key) (cases_table s)"

definition has_event :: "Store \<Rightarrow> string \<Rightarrow> bool" where
  "has_event s i \<longleftrightarrow> list_ex (\<lambda>r. e_event_id r = i) (events s)"

definition has_effect :: "Store \<Rightarrow> string \<Rightarrow> bool" where
  "has_effect s i \<longleftrightarrow> list_ex (\<lambda>r. o_effect_id r = i) (outbox s)"

definition policy_allowed :: "Store \<Rightarrow> PolicyRow \<Rightarrow> bool" where
  "policy_allowed s r \<longleftrightarrow>
     list_all (\<lambda>q. (pol_repository_id q, pol_revision q) \<noteq> (pol_repository_id r, pol_revision r))
       (policies s)"

definition add_policy :: "PolicyRow \<Rightarrow> Store \<Rightarrow> Store" where
  "add_policy r s = s\<lparr>policies := policies s @ [r]\<rparr>"

text \<open>The \<open>CHECK\<close> clauses of \<open>cases\<close>, which updates must satisfy too.\<close>

definition case_checks :: "CaseRow \<Rightarrow> bool" where
  "case_checks r \<longleftrightarrow> 0 < c_state_revision r \<and> 0 < c_policy_revision r \<and>
     0 \<le> c_remediation_round r \<and> 0 \<le> c_plan_version r"

definition case_allowed :: "Store \<Rightarrow> CaseRow \<Rightarrow> bool" where
  "case_allowed s r \<longleftrightarrow> case_checks r \<and> \<not> has_case s (c_case_key r) \<and>
     list_all (\<lambda>q. (c_repository_id q, c_issue_number q, c_workflow_version q) \<noteq>
         (c_repository_id r, c_issue_number r, c_workflow_version r)) (cases_table s)"

definition add_case :: "CaseRow \<Rightarrow> Store \<Rightarrow> Store" where
  "add_case r s = s\<lparr>cases_table := cases_table s @ [r]\<rparr>"

definition event_allowed :: "Store \<Rightarrow> EventRow \<Rightarrow> bool" where
  "event_allowed s r \<longleftrightarrow>
     has_case s (e_case_key r) \<and> \<not> has_event s (e_event_id r) \<and>
     list_all (\<lambda>q. (e_case_key q, e_state_revision q) \<noteq> (e_case_key r, e_state_revision r)) (events s) \<and>
     0 < e_state_revision r \<and> 0 < e_policy_revision r \<and> 0 \<le> e_remediation_round r \<and>
     0 \<le> e_plan_version r"

definition add_event :: "EventRow \<Rightarrow> Store \<Rightarrow> Store" where
  "add_event r s = s\<lparr>events := events s @ [r]\<rparr>"

definition run_allowed :: "Store \<Rightarrow> RunRow \<Rightarrow> bool" where
  "run_allowed s r \<longleftrightarrow>
     has_case s (r_case_key r) \<and> has_event s (r_event_id r) \<and>
     list_all (\<lambda>q. r_run_id q \<noteq> r_run_id r \<and> r_event_id q \<noteq> r_event_id r \<and>
         r_task_id q \<noteq> r_task_id r) (runs s)"

definition add_run :: "RunRow \<Rightarrow> Store \<Rightarrow> Store" where
  "add_run r s = s\<lparr>runs := runs s @ [r]\<rparr>"

definition evidence_allowed :: "Store \<Rightarrow> EvidenceRow \<Rightarrow> bool" where
  "evidence_allowed s r \<longleftrightarrow>
     has_case s (ev_case_key r) \<and>
     list_all (\<lambda>q. ev_evidence_id q \<noteq> ev_evidence_id r) (evidence s)"

definition add_evidence :: "EvidenceRow \<Rightarrow> Store \<Rightarrow> Store" where
  "add_evidence r s = s\<lparr>evidence := evidence s @ [r]\<rparr>"

text \<open>Null event identities do not collide in the first key; the partial index covers them.\<close>

definition finding_allowed :: "Store \<Rightarrow> FindingRow \<Rightarrow> bool" where
  "finding_allowed s r \<longleftrightarrow>
     has_case s (f_case_key r) \<and>
     (case f_event_id r of None \<Rightarrow> True | Some i \<Rightarrow> has_event s i) \<and>
     list_all (\<lambda>q. \<not> (f_event_id q = f_event_id r \<and> f_case_key q = f_case_key r \<and>
         f_finding_id q = f_finding_id r \<and>
         (f_event_id r = None \<or> f_origin_role q = f_origin_role r))) (findings s)"

definition add_finding :: "FindingRow \<Rightarrow> Store \<Rightarrow> Store" where
  "add_finding r s = s\<lparr>findings := findings s @ [r]\<rparr>"

definition effect_allowed :: "Store \<Rightarrow> OutboxRow \<Rightarrow> bool" where
  "effect_allowed s r \<longleftrightarrow>
     has_case s (o_case_key r) \<and> \<not> has_effect s (o_effect_id r) \<and> 0 < o_state_revision r"

definition add_effect :: "OutboxRow \<Rightarrow> Store \<Rightarrow> Store" where
  "add_effect r s = s\<lparr>outbox := outbox s @ [r]\<rparr>"

text \<open>\<open>UPDATE ... WHERE\<close>: every row the condition selects is rewritten, all of them or, when one
  would break a \<open>CHECK\<close>, none. The result is the number of rows.\<close>

definition update_rows :: "('r \<Rightarrow> bool) \<Rightarrow> ('r \<Rightarrow> 'r) \<Rightarrow> 'r list \<Rightarrow> 'r list" where
  "update_rows sel f = map (\<lambda>r. if sel r then f r else r)"

definition sql_update ::
  "('r \<Rightarrow> bool) \<Rightarrow> (Store \<Rightarrow> 'r list) \<Rightarrow> (('r list \<Rightarrow> 'r list) \<Rightarrow> Store \<Rightarrow> Store) \<Rightarrow>
     ('r \<Rightarrow> bool) \<Rightarrow> ('r \<Rightarrow> 'r) \<Rightarrow> nat store_op" where
  "sql_update checks table upd sel f =
     sbind (sread table) (\<lambda>rows.
       if list_all (\<lambda>r. sel r \<longrightarrow> checks (f r)) rows
       then sbind (smodify (upd (update_rows sel f))) (\<lambda>_. sreturn (length (filter sel rows)))
       else sfail (Database ConstraintViolation))"

abbreviation update_cases :: "(CaseRow \<Rightarrow> bool) \<Rightarrow> (CaseRow \<Rightarrow> CaseRow) \<Rightarrow> nat store_op" where
  "update_cases \<equiv> sql_update case_checks cases_table cases_table_update"

abbreviation update_outbox :: "(OutboxRow \<Rightarrow> bool) \<Rightarrow> (OutboxRow \<Rightarrow> OutboxRow) \<Rightarrow> nat store_op" where
  "update_outbox \<equiv> sql_update (\<lambda>_. True) outbox outbox_update"

section \<open>Integers through the database\<close>

lemma sql_u64_Inr [simp]: "sql_u64 n = Inr i \<longleftrightarrow> i = uint n \<and> uint n < 2 ^ 63"
  by (auto simp: sql_u64_def)

lemma unsigned_uint [simp]: "unsigned (uint n) = n"
  using uint_bounded [of n] by (simp add: unsigned_def)

lemma unsigned32_uint [simp]: "unsigned32 (uint n) = n"
  using uint_bounded [of n] by (simp add: unsigned32_def)

lemma unsigned32_sql_u32 [simp]: "unsigned32 (sql_u32 n) = n"
  by (simp add: sql_u32_def)

lemma sql_u64_round_trip: "sql_u64 n = Inr i \<Longrightarrow> unsigned i = n"
  by simp

lemma sql_u64_inj: "sql_u64 m = Inr i \<Longrightarrow> sql_u64 n = Inr i \<Longrightarrow> m = n"
  using sql_u64_round_trip by blast

lemma sql_u64_opt_Inr [simp]:
  "sql_u64_opt v = Inr i \<longleftrightarrow> i = map_option uint v \<and> (\<forall>n. v = Some n \<longrightarrow> uint n < 2 ^ 63)"
  by (cases v) (auto simp: sql_u64_opt_def)

lemma map_unsigned_uint [simp]: "map_option unsigned (map_option uint v) = v"
  by (cases v) simp_all

lemma ensure_writable_run [simp]:
  "ensure_writable s = (if read_only s then Inl ReadOnly else Inr (), s)"
  by (simp add: ensure_writable_def sbind_def)

lemma ensure_writable_readonly [simp, intro]: "sreadonly ensure_writable"
  by (simp add: sreadonly_def)

lemma sbind_writable: "\<not> read_only s \<Longrightarrow> sbind ensure_writable f s = f () s"
  by (simp add: sbind_def)

lemma sql_insert_Inr [simp]:
  "sql_insert allowed add row s = (Inr u, t) \<longleftrightarrow> allowed s row \<and> t = add row s"
  by (auto simp: sql_insert_def)

lemma sql_insert_Inl:
  "sql_insert allowed add row s = (Inl e, t) \<longleftrightarrow>
     \<not> allowed s row \<and> t = s \<and> e = Database ConstraintViolation"
  by (auto simp: sql_insert_def sbind_Inl)

lemma sql_update_Inr:
  "sql_update checks table upd sel f s = (Inr n, t) \<longleftrightarrow>
     list_all (\<lambda>r. sel r \<longrightarrow> checks (f r)) (table s) \<and> t = upd (update_rows sel f) s \<and>
     n = length (filter sel (table s))"
  by (auto simp: sql_update_def)

section \<open>Tables\<close>

text \<open>A row is found by its unique key.\<close>

lemma find_unique:
  "distinct (map key rows) \<Longrightarrow>
     find (\<lambda>r. key r = k) rows = Some r \<longleftrightarrow> r \<in> set rows \<and> key r = k"
  by (induction rows) (auto simp: image_iff)

lemma distinct_key_eq:
  "distinct (map k xs) \<Longrightarrow> x \<in> set xs \<Longrightarrow> y \<in> set xs \<Longrightarrow> k x = k y \<Longrightarrow> x = y"
  unfolding distinct_map by (blast dest: inj_onD)

lemma find_key_None: "find (\<lambda>r. key r = k) rows = None \<longleftrightarrow> k \<notin> set (map key rows)"
  by (auto simp: find_None_iff)

lemma update_rows_map:
  "(\<And>r. g (f r) = g r) \<Longrightarrow> map g (update_rows sel f rows) = map g rows"
  by (simp add: update_rows_def)

lemma update_rows_set: "r \<in> set (update_rows sel f rows) \<longleftrightarrow>
    (\<exists>r0 \<in> set rows. r = (if sel r0 then f r0 else r0))"
  by (auto simp: update_rows_def)

lemma find_update_rows:
  "(\<And>r. key (f r) = key r) \<Longrightarrow>
     find (\<lambda>r. key r = j) (update_rows (\<lambda>r. key r = k) f rows) =
       (if j = k then map_option f (find (\<lambda>r. key r = k) rows) else find (\<lambda>r. key r = j) rows)"
  by (induction rows) (auto simp: update_rows_def)

lemma filter_key:
  "distinct (map key rows) \<Longrightarrow> r \<in> set rows \<Longrightarrow> filter (\<lambda>x. key x = key r) rows = [r]"
  by (induction rows) (auto simp: filter_empty_conv image_iff)

lemma has_effect_ids: "has_effect s i \<longleftrightarrow> i \<in> set (map o_effect_id (outbox s))"
  by (auto simp: has_effect_def list_ex_iff)

lemma has_case_keys: "has_case s k \<longleftrightarrow> k \<in> set (map c_case_key (cases_table s))"
  by (auto simp: has_case_def list_ex_iff)

lemma has_event_ids: "has_event s i \<longleftrightarrow> i \<in> set (map e_event_id (events s))"
  by (auto simp: has_event_def list_ex_iff)

text \<open>
  What the operations rely on of a table: its rows are read and written through one field and
  no other table is touched. \<open>grows\<close> is the frame of an operation that only inserts into it:
  every other field is as before and the rows before are a prefix of the rows after.
\<close>

definition grows ::
  "(Store \<Rightarrow> 'r list) \<Rightarrow> (('r list \<Rightarrow> 'r list) \<Rightarrow> Store \<Rightarrow> Store) \<Rightarrow> Store \<Rightarrow> Store \<Rightarrow> bool" where
  "grows get upd s t \<longleftrightarrow> t = upd (\<lambda>_. get t) s \<and> prefix (get s) (get t)"

locale table =
  fixes get :: "Store \<Rightarrow> 'r list"
    and upd :: "('r list \<Rightarrow> 'r list) \<Rightarrow> Store \<Rightarrow> Store"
  assumes get_upd: "get (upd f s) = f (get s)"
    and upd_upd: "upd f (upd g s) = upd (\<lambda>rows. f (g rows)) s"
    and upd_same: "upd (\<lambda>_. get s) s = s"
begin

lemma grows_refl: "grows get upd s s"
  by (simp add: grows_def upd_same)

lemma grows_trans:
  assumes "grows get upd s t" "grows get upd t u"
  shows "grows get upd s u"
proof -
  have "u = upd (\<lambda>_. get u) (upd (\<lambda>_. get t) s)" using assms by (simp add: grows_def)
  then have "u = upd (\<lambda>_. get u) s" by (simp add: upd_upd)
  with assms show ?thesis unfolding grows_def by (blast intro: prefix_order.trans)
qed

lemma steps_insert:
  assumes "\<And>r s. add r s = upd (\<lambda>rows. rows @ [r]) s"
  shows "steps (grows get upd) (sql_insert allowed add row)"
proof (rule stepsI)
  fix s r t
  assume run: "sql_insert allowed add row s = (r, t)"
  show "grows get upd s t"
  proof (cases r)
    case (Inl e)
    with run show ?thesis by (simp add: sql_insert_Inl grows_refl)
  next
    case (Inr u)
    with run have t: "t = upd (\<lambda>rows. rows @ [row]) s" by (simp add: assms)
    have "upd (\<lambda>rows. rows @ [row]) s = upd (\<lambda>_. get s @ [row]) s"
      using upd_upd [of "\<lambda>rows. rows @ [row]" "\<lambda>_. get s" s] by (simp add: upd_same)
    with t show ?thesis by (simp add: grows_def get_upd)
  qed
qed

end

sublocale table \<subseteq> rows: frame_relation "grows get upd"
  by unfold_locales (blast intro: grows_refl grows_trans)+

interpretation policies_table: table policies policies_update
  by unfold_locales simp_all

interpretation events_table: table events events_update
  by unfold_locales simp_all

interpretation runs_table: table runs runs_update
  by unfold_locales simp_all

interpretation evidence_table: table evidence evidence_update
  by unfold_locales simp_all

interpretation findings_table: table findings findings_update
  by unfold_locales simp_all

interpretation outbox_table: table outbox outbox_update
  by unfold_locales simp_all

text \<open>
  The tables with immutability triggers only ever grow, and no row of any table is deleted. This
  is a frame relation, so it is carried from the single writes to whole operations.
\<close>

definition append_only :: "Store \<Rightarrow> Store \<Rightarrow> bool" where
  "append_only s t \<longleftrightarrow>
     prefix (policies s) (policies t) \<and> prefix (events s) (events t) \<and> prefix (runs s) (runs t) \<and>
     prefix (evidence s) (evidence t) \<and> prefix (findings s) (findings t) \<and>
     prefix (webhook_deliveries s) (webhook_deliveries t) \<and>
     prefix (workspace_retirements s) (workspace_retirements t) \<and>
     prefix (review_observations s) (review_observations t) \<and>
     prefix (dispatch_batches s) (dispatch_batches t) \<and>
     prefix (dispatch_create_attempts s) (dispatch_create_attempts t) \<and>
     prefix (map c_case_key (cases_table s)) (map c_case_key (cases_table t)) \<and>
     prefix (map o_effect_id (outbox s)) (map o_effect_id (outbox t)) \<and>
     prefix (map d_attempt_id (direct_attempts s)) (map d_attempt_id (direct_attempts t)) \<and>
     prefix (map tp_projection_id (task_projections s)) (map tp_projection_id (task_projections t)) \<and>
     prefix (map cv_message_key (conversations s)) (map cv_message_key (conversations t)) \<and>
     prefix (map cc_comment_id (control_commands s)) (map cc_comment_id (control_commands t)) \<and>
     read_only t = read_only s"

interpretation immutable: frame_relation append_only
  unfolding append_only_def by unfold_locales (auto intro: prefix_order.trans)

lemma append_only_events: "append_only s t \<Longrightarrow> prefix (events s) (events t)"
  by (simp add: append_only_def)

lemma steps_mono: "steps R m \<Longrightarrow> (\<And>s t. R s t \<Longrightarrow> Q s t) \<Longrightarrow> steps Q m"
  unfolding steps_def by blast

text \<open>Inserting into one table, and updating one, whichever it is and whatever is kept.\<close>

lemma steps_sql_insert:
  assumes "\<And>s. R s s" "\<And>s. allowed s row \<Longrightarrow> R s (add row s)"
  shows "steps R (sql_insert allowed add row)"
proof (rule stepsI)
  fix s r t
  assume "sql_insert allowed add row s = (r, t)"
  then show "R s t" using assms by (cases r) (auto simp: sql_insert_Inl)
qed

lemma steps_sql_update:
  assumes "\<And>s. R s s" "\<And>s. R s (upd (update_rows sel f) s)"
  shows "steps R (sql_update checks get upd sel f)"
proof (rule stepsI)
  fix s r t
  assume "sql_update checks get upd sel f s = (r, t)"
  then show "R s t"
    using assms by (cases r) (auto simp: sql_update_Inr, auto simp: sql_update_def sbind_Inl split: if_splits)
qed

lemmas insert_append_only = steps_sql_insert [of append_only, OF immutable.R_refl]
lemmas update_append_only = steps_sql_update [of append_only, OF immutable.R_refl]

lemma add_append_only:
  "append_only s (add_policy p s)" "append_only s (add_case c s)" "append_only s (add_event e s)"
  "append_only s (add_run r s)" "append_only s (add_evidence v s)" "append_only s (add_finding f s)"
  "append_only s (add_effect x s)"
  by (simp_all add: append_only_def add_policy_def add_case_def add_event_def add_run_def
      add_evidence_def add_finding_def add_effect_def)

text \<open>An update that keeps the keys of its table.\<close>

lemma cases_append_only:
  "(\<And>r. c_case_key (f r) = c_case_key r) \<Longrightarrow> append_only s (cases_table_update (update_rows sel f) s)"
  by (simp add: append_only_def update_rows_map)

lemma outbox_append_only:
  "(\<And>r. o_effect_id (f r) = o_effect_id r) \<Longrightarrow> append_only s (outbox_update (update_rows sel f) s)"
  by (simp add: append_only_def update_rows_map)

lemmas append_only_intros = immutable.steps_rules insert_append_only add_append_only
  update_append_only cases_append_only outbox_append_only

end
