(* ===== verification/LedgerInputs.thy ===== *)
theory LedgerInputs
  imports Ledger
begin

text \<open>
  What callers hand to the ledger and read from it (\<open>pip-store/src/lib.rs\<close>): the input structs
  with their serialized form, whose digest identifies a command, the stored case, the queries
  shared by several operations, and the inserts of events, runs, evidence, findings and effects.
\<close>

section \<open>Inputs\<close>

record EventInput =
  ei_event_id :: string
  ei_event_type :: string
  ei_payload :: json

record EffectInput =
  fx_effect_id :: string
  fx_effect_type :: string
  fx_payload :: json

record RunInput =
  ri_run_id :: string
  ri_task_id :: string
  ri_role :: string
  ri_payload :: json

record EvidenceInput =
  evi_evidence_id :: string
  evi_kind :: string
  evi_source :: string
  evi_payload :: json

record FindingInput =
  fi_finding_id :: string
  fi_origin_role :: string
  fi_reviewed_head_sha :: string
  fi_payload :: json

record NewCase =
  nc_case_key :: string
  nc_repository_id :: u64
  nc_issue_number :: u64
  nc_workflow_version :: u32
  nc_policy_revision :: u64
  nc_initial_state :: string
  nc_observed_at :: u64
  nc_event :: EventInput
  nc_effects :: "EffectInput list"

record TransitionInput =
  ti_case_key :: string
  ti_expected_revision :: u64
  ti_next_state :: string
  ti_remediation_round :: u32
  ti_plan_version :: u32
  ti_pr_number :: "u64 option"
  ti_head_sha :: "string option"
  ti_observed_at :: u64
  ti_event :: EventInput
  ti_run :: "RunInput option"
  ti_evidence :: "EvidenceInput list"
  ti_findings :: "FindingInput list"
  ti_effects :: "EffectInput list"

record StoredCase =
  sc_case_key :: string
  sc_repository_id :: u64
  sc_issue_number :: u64
  sc_workflow_version :: u32
  sc_state :: string
  sc_state_revision :: u64
  sc_policy_revision :: u64
  sc_remediation_round :: u32
  sc_plan_version :: u32
  sc_pr_number :: "u64 option"
  sc_head_sha :: "string option"

text \<open>The derived \<open>Serialize\<close>: the fields in declaration order.\<close>

definition EventInput_ser :: "EventInput \<Rightarrow> json" where
  "EventInput_ser e =
     JObj [(''event_id'', JStr (ei_event_id e)), (''event_type'', JStr (ei_event_type e)),
           (''payload'', ei_payload e)]"

definition EffectInput_ser :: "EffectInput \<Rightarrow> json" where
  "EffectInput_ser e =
     JObj [(''effect_id'', JStr (fx_effect_id e)), (''effect_type'', JStr (fx_effect_type e)),
           (''payload'', fx_payload e)]"

definition RunInput_ser :: "RunInput \<Rightarrow> json" where
  "RunInput_ser r =
     JObj [(''run_id'', JStr (ri_run_id r)), (''task_id'', JStr (ri_task_id r)),
           (''role'', JStr (ri_role r)), (''payload'', ri_payload r)]"

definition EvidenceInput_ser :: "EvidenceInput \<Rightarrow> json" where
  "EvidenceInput_ser e =
     JObj [(''evidence_id'', JStr (evi_evidence_id e)), (''kind'', JStr (evi_kind e)),
           (''source'', JStr (evi_source e)), (''payload'', evi_payload e)]"

definition FindingInput_ser :: "FindingInput \<Rightarrow> json" where
  "FindingInput_ser f =
     JObj [(''finding_id'', JStr (fi_finding_id f)), (''origin_role'', JStr (fi_origin_role f)),
           (''reviewed_head_sha'', JStr (fi_reviewed_head_sha f)), (''payload'', fi_payload f)]"

definition NewCase_ser :: "NewCase \<Rightarrow> json" where
  "NewCase_ser c =
     JObj [(''case_key'', JStr (nc_case_key c)), (''repository_id'', JPos (nc_repository_id c)),
           (''issue_number'', JPos (nc_issue_number c)),
           (''workflow_version'', json_u32 (nc_workflow_version c)),
           (''policy_revision'', JPos (nc_policy_revision c)),
           (''initial_state'', JStr (nc_initial_state c)),
           (''observed_at'', JPos (nc_observed_at c)), (''event'', EventInput_ser (nc_event c)),
           (''effects'', JArr (map EffectInput_ser (nc_effects c)))]"

definition TransitionInput_ser :: "TransitionInput \<Rightarrow> json" where
  "TransitionInput_ser t =
     JObj [(''case_key'', JStr (ti_case_key t)),
           (''expected_revision'', JPos (ti_expected_revision t)),
           (''next_state'', JStr (ti_next_state t)),
           (''remediation_round'', json_u32 (ti_remediation_round t)),
           (''plan_version'', json_u32 (ti_plan_version t)),
           (''pr_number'', json_opt JPos (ti_pr_number t)),
           (''head_sha'', json_opt JStr (ti_head_sha t)),
           (''observed_at'', JPos (ti_observed_at t)), (''event'', EventInput_ser (ti_event t)),
           (''run'', json_opt RunInput_ser (ti_run t)),
           (''evidence'', JArr (map EvidenceInput_ser (ti_evidence t))),
           (''findings'', JArr (map FindingInput_ser (ti_findings t))),
           (''effects'', JArr (map EffectInput_ser (ti_effects t)))]"

section \<open>Validation and queries\<close>

definition validate_common :: "string \<Rightarrow> EventInput \<Rightarrow> StoreError + unit" where
  "validate_common case_key event =
     reject_if (blank case_key \<or> blank (ei_event_id event) \<or> blank (ei_event_type event)
         \<or> \<not> is_object (ei_payload event))
       (InvalidInput ''case, event identity, type, and object payload are required'')"

definition valid_identifier :: "string \<Rightarrow> nat \<Rightarrow> bool" where
  "valid_identifier value bound \<longleftrightarrow> value \<noteq> [] \<and> length value \<le> bound \<and>
     list_all (\<lambda>b. is_ascii_alphanumeric b \<or> b \<in> {CHR ''-'', CHR ''_'', CHR ''.'', CHR '':''}) value"

definition valid_sha256 :: "string \<Rightarrow> bool" where
  "valid_sha256 value \<longleftrightarrow> length value = 64 \<and> list_all is_lower_hex value"

definition stored_case :: "CaseRow \<Rightarrow> StoredCase" where
  "stored_case r =
     \<lparr>sc_case_key = c_case_key r,
      sc_repository_id = unsigned (c_repository_id r),
      sc_issue_number = unsigned (c_issue_number r),
      sc_workflow_version = unsigned32 (c_workflow_version r),
      sc_state = c_state r,
      sc_state_revision = unsigned (c_state_revision r),
      sc_policy_revision = unsigned (c_policy_revision r),
      sc_remediation_round = unsigned32 (c_remediation_round r),
      sc_plan_version = unsigned32 (c_plan_version r),
      sc_pr_number = map_option unsigned (c_pr_number r),
      sc_head_sha = c_head_sha r\<rparr>"

definition find_case :: "string \<Rightarrow> Store \<Rightarrow> CaseRow option" where
  "find_case case_key s = find (\<lambda>r. c_case_key r = case_key) (cases_table s)"

definition query_case :: "string \<Rightarrow> Store \<Rightarrow> StoredCase option" where
  "query_case case_key s = map_option stored_case (find_case case_key s)"

definition existing_event :: "string \<Rightarrow> Store \<Rightarrow> (string \<times> string) option" where
  "existing_event event_id s =
     map_option (\<lambda>r. (e_case_key r, e_command_sha256 r))
       (find (\<lambda>r. e_event_id r = event_id) (events s))"

definition replay_or_conflict ::
  "string \<times> string \<Rightarrow> string \<Rightarrow> string \<Rightarrow> string \<Rightarrow> StoreError + ApplyResult" where
  "replay_or_conflict existing case_key command_hash event_id =
     (if fst existing = case_key \<and> snd existing = command_hash then Inr Replayed
      else Inl (IdempotencyConflict event_id))"

definition inject :: "FaultPoint option \<Rightarrow> FaultPoint \<Rightarrow> unit store_op" where
  "inject requested current = sreject_if (requested = Some current) (InjectedFault current)"

text \<open>\<open>SELECT payload_json FROM policies WHERE repository_id=? AND revision=?\<close>.\<close>

definition find_policy :: "int \<Rightarrow> int \<Rightarrow> Store \<Rightarrow> PolicyRow option" where
  "find_policy repository_id revision s =
     find (\<lambda>r. pol_repository_id r = repository_id \<and> pol_revision r = revision) (policies s)"

definition policy_value :: "codec \<Rightarrow> u64 \<Rightarrow> u64 \<Rightarrow> Store \<Rightarrow> StoreError + json" where
  "policy_value C repository_id revision s =
     rbind (sql_u64 repository_id) (\<lambda>repo.
     rbind (sql_u64 revision) (\<lambda>rev.
     rbind (ok_or (find_policy repo rev s) (Database QueryReturnedNoRows)) (\<lambda>row.
     ok_or (json_from_str C (pol_payload_json row)) Serialization)))"

section \<open>Inserts\<close>

record EventRecord =
  er_case_key :: string
  er_revision :: u64
  er_observed_at :: u64
  er_event :: EventInput
  er_command_hash :: string
  er_previous_state :: "string option"
  er_next_state :: string
  er_policy_revision :: u64
  er_remediation_round :: u32
  er_plan_version :: u32
  er_pr_number :: "u64 option"
  er_head_sha :: "string option"

definition insert_event :: "codec \<Rightarrow> EventRecord \<Rightarrow> unit store_op" where
  "insert_event C record =
     sbind (slift (sql_u64 (er_revision record))) (\<lambda>revision.
     sbind (slift (sql_u64 (er_observed_at record))) (\<lambda>observed_at.
     sbind (slift (sql_u64 (er_policy_revision record))) (\<lambda>policy_revision.
     sbind (slift (sql_u64_opt (er_pr_number record))) (\<lambda>pr_number.
     sql_insert event_allowed add_event
       \<lparr>e_event_id = ei_event_id (er_event record),
        e_case_key = er_case_key record,
        e_state_revision = revision,
        e_observed_at = observed_at,
        e_event_type = ei_event_type (er_event record),
        e_payload_json = fst (payload C (ei_payload (er_event record))),
        e_payload_sha256 = snd (payload C (ei_payload (er_event record))),
        e_command_sha256 = er_command_hash record,
        e_previous_state = er_previous_state record,
        e_next_state = er_next_state record,
        e_policy_revision = policy_revision,
        e_remediation_round = sql_u32 (er_remediation_round record),
        e_plan_version = sql_u32 (er_plan_version record),
        e_pr_number = pr_number,
        e_head_sha = er_head_sha record\<rparr>))))"

definition insert_run :: "codec \<Rightarrow> string \<Rightarrow> string \<Rightarrow> u64 \<Rightarrow> RunInput \<Rightarrow> unit store_op" where
  "insert_run C case_key event_id accepted_at run =
     sbind (sreject_if (blank (ri_run_id run) \<or> blank (ri_task_id run) \<or> blank (ri_role run))
       (InvalidInput ''run identity and role are required'')) (\<lambda>_.
     sbind (slift (sql_u64 accepted_at)) (\<lambda>accepted_at.
     sql_insert run_allowed add_run
       \<lparr>r_run_id = ri_run_id run, r_case_key = case_key, r_event_id = event_id,
        r_task_id = ri_task_id run, r_role = ri_role run,
        r_payload_json = fst (payload C (ri_payload run)),
        r_payload_sha256 = snd (payload C (ri_payload run)), r_accepted_at = accepted_at\<rparr>))"

definition insert_evidence_item :: "codec \<Rightarrow> string \<Rightarrow> u64 \<Rightarrow> EvidenceInput \<Rightarrow> unit store_op" where
  "insert_evidence_item C case_key observed_at item =
     sbind (sreject_if (blank (evi_evidence_id item) \<or> blank (evi_kind item)
         \<or> blank (evi_source item) \<or> \<not> is_object (evi_payload item))
       (InvalidInput ''evidence identity, kind, source, and object payload are required'')) (\<lambda>_.
     sbind (slift (sql_u64 observed_at)) (\<lambda>observed_at.
     sql_insert evidence_allowed add_evidence
       \<lparr>ev_evidence_id = evi_evidence_id item, ev_case_key = case_key, ev_kind = evi_kind item,
        ev_source = evi_source item, ev_observed_at = observed_at,
        ev_payload_json = fst (payload C (evi_payload item)),
        ev_payload_sha256 = snd (payload C (evi_payload item))\<rparr>))"

definition insert_evidence :: "codec \<Rightarrow> string \<Rightarrow> u64 \<Rightarrow> EvidenceInput list \<Rightarrow> unit store_op" where
  "insert_evidence C case_key observed_at items =
     sfor items (insert_evidence_item C case_key observed_at)"

definition insert_finding ::
  "codec \<Rightarrow> string \<Rightarrow> string \<Rightarrow> u64 \<Rightarrow> FindingInput \<Rightarrow> unit store_op" where
  "insert_finding C case_key event_id recorded_at item =
     sbind (sreject_if (blank (fi_finding_id item) \<or> blank (fi_origin_role item)
         \<or> length (fi_reviewed_head_sha item) \<noteq> 40 \<or> \<not> is_object (fi_payload item))
       (InvalidInput ''finding identity, origin, exact head, and object payload are required'')) (\<lambda>_.
     sbind (slift (sql_u64 recorded_at)) (\<lambda>recorded_at.
     sql_insert finding_allowed add_finding
       \<lparr>f_finding_id = fi_finding_id item, f_case_key = case_key,
        f_origin_role = fi_origin_role item, f_reviewed_head_sha = fi_reviewed_head_sha item,
        f_payload_json = fst (payload C (fi_payload item)),
        f_payload_sha256 = snd (payload C (fi_payload item)), f_recorded_at = recorded_at,
        f_event_id = Some event_id\<rparr>))"

definition insert_findings ::
  "codec \<Rightarrow> string \<Rightarrow> string \<Rightarrow> u64 \<Rightarrow> FindingInput list \<Rightarrow> unit store_op" where
  "insert_findings C case_key event_id recorded_at items =
     sfor items (insert_finding C case_key event_id recorded_at)"

definition insert_effect :: "codec \<Rightarrow> string \<Rightarrow> u64 \<Rightarrow> u64 \<Rightarrow> EffectInput \<Rightarrow> unit store_op" where
  "insert_effect C case_key state_revision created_at effect =
     sbind (sreject_if (blank (fx_effect_id effect) \<or> blank (fx_effect_type effect))
       (InvalidInput ''effect identity and type are required'')) (\<lambda>_.
     sbind (slift (sql_u64 state_revision)) (\<lambda>state_revision.
     sbind (slift (sql_u64 created_at)) (\<lambda>created_at.
     sql_insert effect_allowed add_effect
       \<lparr>o_effect_id = fx_effect_id effect, o_case_key = case_key,
        o_state_revision = state_revision, o_effect_type = fx_effect_type effect,
        o_payload_json = fst (payload C (fx_payload effect)),
        o_payload_sha256 = snd (payload C (fx_payload effect)), o_created_at = created_at,
        o_lease = None, o_delivered_at = None, o_superseded_at = None,
        o_superseded_by_event_id = None\<rparr>)))"

definition insert_effects :: "codec \<Rightarrow> string \<Rightarrow> u64 \<Rightarrow> u64 \<Rightarrow> EffectInput list \<Rightarrow> unit store_op" where
  "insert_effects C case_key state_revision created_at effects =
     sfor effects (insert_effect C case_key state_revision created_at)"

section \<open>One item of evidence\<close>

definition evidence_row :: "codec \<Rightarrow> string \<Rightarrow> u64 \<Rightarrow> EvidenceInput \<Rightarrow> EvidenceRow" where
  "evidence_row C k at item =
     \<lparr>ev_evidence_id = evi_evidence_id item, ev_case_key = k, ev_kind = evi_kind item,
      ev_source = evi_source item, ev_observed_at = uint at,
      ev_payload_json = json_to_string C (evi_payload item),
      ev_payload_sha256 = payload_hash C (evi_payload item)\<rparr>"

lemma insert_evidence_one:
  assumes "insert_evidence C k at [item] s = (Inr u, t)"
  shows "t = s\<lparr>evidence := evidence s @ [evidence_row C k at item]\<rparr> \<and> uint at < 2 ^ 63 \<and>
    (\<forall>e \<in> set (evidence s). ev_evidence_id e \<noteq> evi_evidence_id item)"
  using assms
  by (auto simp: insert_evidence_def insert_evidence_item_def add_evidence_def evidence_row_def
      evidence_allowed_def payload_def payload_hash_def Let_def list_all_iff)

end
