(* ===== verification/DispatchIntents.thy ===== *)
theory DispatchIntents
  imports Ledger
begin

text \<open>
  Frozen dispatch batches and create reservations, \<open>pip-store/src/dispatch_intents.rs\<close>. Before a
  task is queued anywhere, the complete batch of intents of its effect is frozen in the ledger,
  with the evidence bundles stored once under their digest; an external create is reserved at
  most once per intent. The decoders that \<open>serde\<close> derives from the struct declarations are
  parameters, \<open>decoders\<close>; \<open>decoders_ok\<close> says that they read back what the derived encoders
  wrote. Shown here: freezing and thawing are inverse, and a reservation is granted at most once
  whatever happens afterwards.
\<close>

section \<open>Intents and their encoding\<close>

datatype DispatchTransport = Hermes | Direct

fun DispatchTransport_wire :: "DispatchTransport \<Rightarrow> string" where
  "DispatchTransport_wire Hermes = ''hermes''"
| "DispatchTransport_wire Direct = ''direct''"

record DispatchIntent =
  di_intent_id :: string
  di_transport :: DispatchTransport
  di_desired :: json

record FrozenBatch =
  fb_format :: u32
  fb_intents :: "DispatchIntent list"
  fb_evidence :: json_object

record IntentReference =
  ir_schema_version :: u32
  ir_effect_id :: string
  ir_intent_id :: string
  ir_sha256 :: string

definition DispatchIntent_to_value :: "DispatchIntent \<Rightarrow> json" where
  "DispatchIntent_to_value i =
     JObj [(''desired'', di_desired i), (''intent_id'', JStr (di_intent_id i)),
           (''transport'', JStr (DispatchTransport_wire (di_transport i)))]"

definition FrozenBatch_to_value :: "FrozenBatch \<Rightarrow> json" where
  "FrozenBatch_to_value b =
     JObj [(''evidence'', JObj (fb_evidence b)), (''format'', json_u32 (fb_format b)),
           (''intents'', JArr (map DispatchIntent_to_value (fb_intents b)))]"

definition IntentReference_to_value :: "IntentReference \<Rightarrow> json" where
  "IntentReference_to_value r =
     JObj [(''effect_id'', JStr (ir_effect_id r)), (''intent_id'', JStr (ir_intent_id r)),
           (''schema_version'', json_u32 (ir_schema_version r)), (''sha256'', JStr (ir_sha256 r))]"

record decoders =
  intents_from_value :: "json \<Rightarrow> DispatchIntent list option"
  frozen_from_value :: "json \<Rightarrow> FrozenBatch option"
  reference_from_value :: "json \<Rightarrow> IntentReference option"

definition decoders_ok :: "decoders \<Rightarrow> bool" where
  "decoders_ok D \<longleftrightarrow>
     (\<forall>b. frozen_from_value D (FrozenBatch_to_value b) = Some b) \<and>
     (\<forall>r. reference_from_value D (IntentReference_to_value r) = Some r)"

section \<open>Freezing and thawing\<close>

text \<open>Assignment through a mutable reference to an existing member.\<close>

fun assoc_set :: "string \<Rightarrow> json \<Rightarrow> json_object \<Rightarrow> json_object" where
  "assoc_set k w [] = []"
| "assoc_set k w ((j, x) # ms) = (if j = k then (j, w) # ms else (j, x) # assoc_set k w ms)"

definition json_set :: "json \<Rightarrow> string \<Rightarrow> json \<Rightarrow> json" where
  "json_set v k w = (case v of JObj ms \<Rightarrow> JObj (assoc_set k w ms) | _ \<Rightarrow> v)"

text \<open>\<open>desired.get_mut("body").and_then(get_mut("immutable_evidence_bundle"))\<close>, read and written.\<close>

definition bundle_of :: "json \<Rightarrow> json option" where
  "bundle_of desired =
     Option.bind (json_get desired ''body'') (\<lambda>body. json_get body ''immutable_evidence_bundle'')"

definition set_bundle :: "json \<Rightarrow> json \<Rightarrow> json" where
  "set_bundle desired bundle =
     json_set desired ''body''
       (json_set (json_at desired ''body'') ''immutable_evidence_bundle'' bundle)"

definition freeze_intent ::
  "codec \<Rightarrow> DispatchIntent \<Rightarrow> json_object \<Rightarrow> StoreError + DispatchIntent \<times> json_object" where
  "freeze_intent C intent ev =
    (case bundle_of (di_desired intent) of
       None \<Rightarrow> Inr (intent, ev)
     | Some bundle \<Rightarrow>
         if \<not> is_object bundle then Inl (InvalidInput ''dispatch evidence must be an object'')
         else let digest = payload_hash C bundle in
           Inr (intent\<lparr>di_desired := set_bundle (di_desired intent) (JObj [(''$ref'', JStr digest)])\<rparr>,
                object_insert digest bundle ev))"

fun freeze_intents ::
  "codec \<Rightarrow> DispatchIntent list \<Rightarrow> json_object \<Rightarrow> StoreError + DispatchIntent list \<times> json_object" where
  "freeze_intents C [] ev = Inr ([], ev)"
| "freeze_intents C (intent # rest) ev =
     rbind (freeze_intent C intent ev) (\<lambda>(frozen, ev).
     rbind (freeze_intents C rest ev) (\<lambda>(others, ev). Inr (frozen # others, ev)))"

definition freeze_batch :: "codec \<Rightarrow> DispatchIntent list \<Rightarrow> StoreError + FrozenBatch" where
  "freeze_batch C intents =
     rbind (freeze_intents C intents []) (\<lambda>(frozen, ev).
       Inr \<lparr>fb_format = 1, fb_intents = frozen, fb_evidence = ev\<rparr>)"

definition freeze_inputs :: "codec \<Rightarrow> DispatchIntent list \<Rightarrow> StoreError + json" where
  "freeze_inputs C intents = rbind (freeze_batch C intents) (\<lambda>b. Inr (FrozenBatch_to_value b))"

definition thaw_intent :: "json_object \<Rightarrow> DispatchIntent \<Rightarrow> StoreError + DispatchIntent" where
  "thaw_intent ev intent =
    (case bundle_of (di_desired intent) of
       None \<Rightarrow> Inr intent
     | Some bundle \<Rightarrow>
         rbind (ok_or (case bundle of
                   JObj [(k, v)] \<Rightarrow> if k = ''$ref'' then as_str v else None
                 | _ \<Rightarrow> None) (InvalidInput ''invalid frozen evidence reference'')) (\<lambda>digest.
         rbind (ok_or (map_of ev digest) (InvalidInput ''missing frozen dispatch evidence'')) (\<lambda>full.
         Inr (intent\<lparr>di_desired := set_bundle (di_desired intent) full\<rparr>))))"

definition thaw_inputs :: "codec \<Rightarrow> decoders \<Rightarrow> json \<Rightarrow> StoreError + DispatchIntent list" where
  "thaw_inputs C D value =
    (case value of
       JArr _ \<Rightarrow> ok_or (intents_from_value D value) Serialization
     | _ \<Rightarrow>
         rbind (ok_or (frozen_from_value D value) Serialization) (\<lambda>batch.
         if fb_format batch \<noteq> 1 then Inl (InvalidInput ''unsupported frozen dispatch format'')
         else if list_ex (\<lambda>(digest, bundle). \<not> is_object bundle \<or> payload_hash C bundle \<noteq> digest)
                  (fb_evidence batch)
           then Inl (InvalidInput ''frozen dispatch evidence digest differs'')
         else rmap (thaw_intent (fb_evidence batch)) (fb_intents batch)))"

section \<open>Reading a batch\<close>

definition read_intents ::
  "codec \<Rightarrow> decoders \<Rightarrow> string \<Rightarrow> Store \<Rightarrow> StoreError + DispatchIntent list option" where
  "read_intents C D effect_id s =
    (case find (\<lambda>r. db_effect_id r = effect_id) (dispatch_batches s) of
       None \<Rightarrow> Inr None
     | Some r \<Rightarrow>
         rbind (ok_or (json_from_str C (db_payload_json r)) Serialization) (\<lambda>value.
         if payload_hash C value \<noteq> db_payload_sha256 r then Inl (IdempotencyConflict effect_id)
         else rbind (thaw_inputs C D value) (\<lambda>intents. Inr (Some intents))))"

definition REFERENCE :: string where
  "REFERENCE = ''dispatch_intent_ref''"

definition encode_output ::
  "codec \<Rightarrow> decoders \<Rightarrow> string \<Rightarrow> DispatchTransport \<Rightarrow> json \<Rightarrow> Store \<Rightarrow> StoreError + json" where
  "encode_output C D effect_id transport desired s =
    (if json_get desired REFERENCE \<noteq> None
       then Inl (InvalidInput ''dispatch outputs must contain resolved inputs'')
     else rbind (read_intents C D effect_id s) (\<lambda>found.
       case found of
         None \<Rightarrow> Inr desired
       | Some intents \<Rightarrow>
           rbind (ok_or (find (\<lambda>i. di_transport i = transport \<and> di_desired i = desired) intents)
                    (IdempotencyConflict effect_id)) (\<lambda>intent.
           Inr (JObj [(REFERENCE, IntentReference_to_value
             \<lparr>ir_schema_version = 1, ir_effect_id = effect_id, ir_intent_id = di_intent_id intent,
              ir_sha256 = payload_hash C desired\<rparr>)]))))"

definition single_member :: "json \<Rightarrow> bool" where
  "single_member v \<longleftrightarrow> (case v of JObj ms \<Rightarrow> length ms = 1 | _ \<Rightarrow> False)"

definition resolve_output ::
  "codec \<Rightarrow> decoders \<Rightarrow> string \<Rightarrow> DispatchTransport \<Rightarrow> json \<Rightarrow> Store \<Rightarrow> StoreError + json" where
  "resolve_output C D output_effect_id transport value s =
    (case json_get value REFERENCE of
       None \<Rightarrow> Inr value
     | Some ref_value \<Rightarrow>
         rbind (ok_or (reference_from_value D ref_value) Serialization) (\<lambda>reference.
         let valid = single_member value \<and> ir_schema_version reference = 1 \<and>
               (transport \<noteq> Hermes \<or> ir_effect_id reference = output_effect_id);
             same_case = list_ex (\<lambda>b. db_effect_id b = ir_effect_id reference \<and>
               list_ex (\<lambda>r. o_case_key r = db_case_key b \<and> o_effect_id r = output_effect_id)
                 (outbox s)) (dispatch_batches s)
         in
         if \<not> valid \<or> \<not> same_case
           then Inl (InvalidInput ''foreign or invalid frozen dispatch reference'')
         else rbind (read_intents C D (ir_effect_id reference) s) (\<lambda>found.
           rbind (ok_or (Option.bind found
                      (find (\<lambda>i. di_intent_id i = ir_intent_id reference \<and> di_transport i = transport)))
                    (InvalidInput ''missing frozen dispatch intent'')) (\<lambda>intent.
           if payload_hash C (di_desired intent) \<noteq> ir_sha256 reference
             then Inl (InvalidInput ''frozen dispatch intent digest differs'')
           else Inr (di_desired intent)))))"

section \<open>Operations\<close>

record ClaimedEffect =
  ce_effect_id :: string
  ce_case_key :: string
  ce_state_revision :: u64
  ce_effect_type :: string
  ce_payload :: json
  ce_lease_owner :: string
  ce_lease_until :: u64

datatype CreateReservation = Granted | Uncertain

definition dispatch_claim_held :: "ClaimedEffect \<Rightarrow> int \<Rightarrow> int \<Rightarrow> int \<Rightarrow> Store \<Rightarrow> bool" where
  "dispatch_claim_held claimed revision until now s \<longleftrightarrow>
     list_ex (\<lambda>r.
       o_effect_id r = ce_effect_id claimed \<and> o_case_key r = ce_case_key claimed \<and>
       o_state_revision r = revision \<and> o_effect_type r = ce_effect_type claimed \<and>
       o_lease r = Some (ce_lease_owner claimed, until) \<and> until \<ge> now \<and>
       o_delivered_at r = None \<and> o_superseded_at r = None \<and>
       list_ex (\<lambda>c. c_case_key c = o_case_key r \<and> c_state_revision c = o_state_revision r \<and>
         c_state c \<notin> {''ABANDONED'', ''BLOCKED'', ''ESCALATED'', ''COMPLETED'', ''TAKEN_OVER''})
         (cases_table s) \<and>
       o_effect_type r \<in> {''DISPATCH_PLANNER'', ''DISPATCH_BUILDER'', ''DISPATCH_REVIEWERS'',
         ''DISPATCH_FINAL_REVIEWER''}) (outbox s)"

definition require_dispatch_claim :: "ClaimedEffect \<Rightarrow> u64 \<Rightarrow> unit store_op" where
  "require_dispatch_claim claimed now =
     sbind (slift (sql_u64 (ce_state_revision claimed))) (\<lambda>revision.
     sbind (slift (sql_u64 (ce_lease_until claimed))) (\<lambda>until.
     sbind (slift (sql_u64 now)) (\<lambda>now.
     sbind (sread (dispatch_claim_held claimed revision until now)) (\<lambda>held.
     sreject_if (\<not> held) (LeaseLost (ce_effect_id claimed))))))"

definition dispatch_batch_allowed :: "Store \<Rightarrow> DispatchBatchRow \<Rightarrow> bool" where
  "dispatch_batch_allowed s r \<longleftrightarrow>
     has_effect s (db_effect_id r) \<and> has_case s (db_case_key r) \<and> 0 < db_state_revision r \<and>
     list_all (\<lambda>q. db_effect_id q \<noteq> db_effect_id r) (dispatch_batches s)"

definition add_dispatch_batch :: "DispatchBatchRow \<Rightarrow> Store \<Rightarrow> Store" where
  "add_dispatch_batch r s = s\<lparr>dispatch_batches := dispatch_batches s @ [r]\<rparr>"

definition bad_intent :: "DispatchIntent \<Rightarrow> bool" where
  "bad_intent i \<longleftrightarrow>
     blank (di_intent_id i) \<or> 512 < length (di_intent_id i) \<or> \<not> is_object (di_desired i)"

definition freeze_dispatch_intents ::
  "codec \<Rightarrow> decoders \<Rightarrow> ClaimedEffect \<Rightarrow> DispatchIntent list \<Rightarrow> u64 \<Rightarrow> ApplyResult store_op" where
  "freeze_dispatch_intents C D claimed intents now =
    sbind ensure_writable (\<lambda>_.
    sbind (sreject_if (intents = [] \<or> \<not> distinct (map di_intent_id intents)
        \<or> list_ex bad_intent intents)
      (InvalidInput ''unique nonempty dispatch intents with object payloads are required'')) (\<lambda>_.
    let ordered = sort_key di_intent_id intents in
    sbind (slift (freeze_inputs C ordered)) (\<lambda>value.
    stransaction (
      sbind (require_dispatch_claim claimed now) (\<lambda>_.
      sbind (squery (read_intents C D (ce_effect_id claimed))) (\<lambda>existing.
      case existing of
        Some frozen \<Rightarrow>
          if frozen \<noteq> ordered then sfail (IdempotencyConflict (ce_effect_id claimed))
          else sreturn Replayed
      | None \<Rightarrow>
          sbind (slift (sql_u64 (ce_state_revision claimed))) (\<lambda>revision.
          sbind (slift (sql_u64 now)) (\<lambda>now.
          sbind (sql_insert dispatch_batch_allowed add_dispatch_batch
            \<lparr>db_effect_id = ce_effect_id claimed, db_case_key = ce_case_key claimed,
             db_state_revision = revision, db_payload_json = fst (payload C value),
             db_payload_sha256 = snd (payload C value), db_frozen_at = now\<rparr>) (\<lambda>_.
          sreturn Applied)))))))))"

text \<open>\<open>INSERT ... ON CONFLICT(intent_id) DO NOTHING\<close>: the number of rows inserted.\<close>

definition add_create_attempt :: "DispatchCreateAttemptRow \<Rightarrow> Store \<Rightarrow> Store" where
  "add_create_attempt r s = s\<lparr>dispatch_create_attempts := dispatch_create_attempts s @ [r]\<rparr>"

definition create_attempt_allowed :: "Store \<Rightarrow> DispatchCreateAttemptRow \<Rightarrow> bool" where
  "create_attempt_allowed s r \<longleftrightarrow>
     list_ex (\<lambda>b. db_effect_id b = dc_effect_id r) (dispatch_batches s) \<and>
     list_all (\<lambda>q. dc_intent_id q \<noteq> dc_intent_id r) (dispatch_create_attempts s)"

definition insert_create_attempt :: "DispatchCreateAttemptRow \<Rightarrow> nat store_op" where
  "insert_create_attempt r =
     sbind (sread (\<lambda>s. list_ex (\<lambda>q. dc_intent_id q = dc_intent_id r) (dispatch_create_attempts s)))
       (\<lambda>conflict.
     if conflict then sreturn 0
     else sbind (sql_insert create_attempt_allowed add_create_attempt r) (\<lambda>_. sreturn 1))"

definition reserve_dispatch_create ::
  "codec \<Rightarrow> decoders \<Rightarrow> ClaimedEffect \<Rightarrow> string \<Rightarrow> u64 \<Rightarrow> CreateReservation store_op" where
  "reserve_dispatch_create C D claimed intent_id now =
    sbind ensure_writable (\<lambda>_.
    stransaction (
      sbind (require_dispatch_claim claimed now) (\<lambda>_.
      sbind (squery (read_intents C D (ce_effect_id claimed))) (\<lambda>intents.
      sbind (sreject_if (case intents of None \<Rightarrow> True
                | Some is \<Rightarrow> \<not> list_ex (\<lambda>i. di_intent_id i = intent_id \<and> di_transport i = Hermes) is)
          (InvalidInput ''create reservation requires a frozen Hermes intent'')) (\<lambda>_.
      sbind (slift (sql_u64 (ce_lease_until claimed))) (\<lambda>until.
      sbind (slift (sql_u64 now)) (\<lambda>now.
      sbind (insert_create_attempt
        \<lparr>dc_effect_id = ce_effect_id claimed, dc_intent_id = intent_id,
         dc_lease_owner = ce_lease_owner claimed, dc_lease_until = until,
         dc_attempted_at = now\<rparr>) (\<lambda>inserted.
      sreturn (if inserted = 1 then Granted else Uncertain)))))))))"

section \<open>Freezing and thawing are inverse\<close>

lemma assoc_set_same: "map_of ms k = Some x \<Longrightarrow> assoc_set k x (assoc_set k w ms) = ms"
  by (induction ms) (auto split: if_splits)

lemma map_of_assoc_set: "map_of ms k = Some x \<Longrightarrow> map_of (assoc_set k w ms) k = Some w"
  by (induction ms) (auto split: if_splits)

lemma json_set_undo: "json_get v k = Some x \<Longrightarrow> json_set (json_set v k w) k x = v"
  by (cases v) (auto simp: json_set_def assoc_set_same)

lemma json_get_set: "json_get v k = Some x \<Longrightarrow> json_get (json_set v k w) k = Some w"
  by (cases v) (auto simp: json_set_def map_of_assoc_set)

lemma json_set_twice: "json_set (json_set v k w) k x = json_set v k x"
proof -
  have "assoc_set k x (assoc_set k w ms) = assoc_set k x ms" for ms
    by (induction ms) auto
  then show ?thesis by (cases v) (auto simp: json_set_def)
qed

lemma json_at_get: "json_get v k = Some x \<Longrightarrow> json_at v k = x"
  by (simp add: json_at_def)

lemma bundle_of_Some:
  "bundle_of d = Some b \<longleftrightarrow>
     (\<exists>body. json_get d ''body'' = Some body \<and> json_get body ''immutable_evidence_bundle'' = Some b)"
  by (auto simp: bundle_of_def bind_eq_Some_conv)

lemma bundle_of_set_bundle: "bundle_of d = Some b \<Longrightarrow> bundle_of (set_bundle d x) = Some x"
  by (auto simp: bundle_of_Some set_bundle_def json_at_get json_get_set)

lemma set_bundle_undo: "bundle_of d = Some b \<Longrightarrow> set_bundle (set_bundle d x) b = d"
  by (auto simp: bundle_of_Some set_bundle_def json_at_get json_get_set json_set_undo)

text \<open>The evidence store of a batch: every bundle under its own digest.\<close>

definition evidence_sound :: "codec \<Rightarrow> json_object \<Rightarrow> bool" where
  "evidence_sound C ev \<longleftrightarrow> (\<forall>(digest, b) \<in> set ev. is_object b \<and> payload_hash C b = digest)"

definition bundles :: "DispatchIntent list \<Rightarrow> json set" where
  "bundles intents = {b. \<exists>i \<in> set intents. bundle_of (di_desired i) = Some b}"

lemma evidence_sound_insert:
  "evidence_sound C ev \<Longrightarrow> is_object b \<Longrightarrow> evidence_sound C (object_insert (payload_hash C b) b ev)"
  unfolding evidence_sound_def
  by (induction "payload_hash C b" b ev rule: object_insert.induct) auto

lemma evidence_lookup: "evidence_sound C ev \<Longrightarrow> map_of ev digest = Some b \<Longrightarrow> payload_hash C b = digest"
  unfolding evidence_sound_def by (auto dest!: map_of_SomeD)

lemma freeze_intent_thaw:
  assumes "freeze_intent C i ev = Inr (f, ev')"
    and "\<And>b. bundle_of (di_desired i) = Some b \<Longrightarrow> map_of full (payload_hash C b) = Some b"
  shows "thaw_intent full f = Inr i"
  using assms
  by (auto simp: freeze_intent_def thaw_intent_def Let_def bundle_of_set_bundle set_bundle_undo
      split: option.splits if_splits)

lemma freeze_intent_evidence:
  assumes "freeze_intent C i ev = Inr (f, ev')" "evidence_sound C ev"
  shows "evidence_sound C ev' \<and> (\<forall>d b. map_of ev d = Some b \<longrightarrow> (\<exists>b'. map_of ev' d = Some b')) \<and>
    (\<forall>b. bundle_of (di_desired i) = Some b \<longrightarrow> (\<exists>b'. map_of ev' (payload_hash C b) = Some b')) \<and>
    (\<forall>d b. map_of ev' d = Some b \<longrightarrow> map_of ev d = Some b \<or> bundle_of (di_desired i) = Some b)"
  using assms
  by (auto simp: freeze_intent_def Let_def evidence_sound_insert split: option.splits if_splits)

lemma freeze_intents_evidence:
  assumes "freeze_intents C is ev = Inr (fs, ev')" "evidence_sound C ev"
  shows "evidence_sound C ev' \<and> (\<forall>d b. map_of ev d = Some b \<longrightarrow> (\<exists>b'. map_of ev' d = Some b')) \<and>
    (\<forall>b \<in> bundles is. \<exists>b'. map_of ev' (payload_hash C b) = Some b') \<and>
    (\<forall>d b. map_of ev' d = Some b \<longrightarrow> map_of ev d = Some b \<or> b \<in> bundles is)"
  using assms
proof (induction C "is" ev arbitrary: fs ev' rule: freeze_intents.induct)
  case (1 C ev)
  then show ?case by (simp add: bundles_def)
next
  case (2 C i rest ev)
  from "2.prems"(1) obtain f ev1 others where
    one: "freeze_intent C i ev = Inr (f, ev1)" and rest: "freeze_intents C rest ev1 = Inr (others, ev')"
    by (auto split: prod.splits)
  note head = freeze_intent_evidence [OF one "2.prems"(2)]
  from "2.IH" [OF rest] head have tail: "evidence_sound C ev' \<and>
    (\<forall>d b. map_of ev1 d = Some b \<longrightarrow> (\<exists>b'. map_of ev' d = Some b')) \<and>
    (\<forall>b \<in> bundles rest. \<exists>b'. map_of ev' (payload_hash C b) = Some b') \<and>
    (\<forall>d b. map_of ev' d = Some b \<longrightarrow> map_of ev1 d = Some b \<or> b \<in> bundles rest)" by blast
  have split: "bundles (i # rest) = {b. bundle_of (di_desired i) = Some b} \<union> bundles rest"
    by (auto simp: bundles_def)
  show ?case unfolding split using head tail by blast
qed

lemma freeze_intents_thaw:
  assumes "freeze_intents C is ev = Inr (fs, ev')"
    and "\<And>b. b \<in> bundles is \<Longrightarrow> map_of full (payload_hash C b) = Some b"
  shows "rmap (thaw_intent full) fs = Inr is"
  using assms
proof (induction C "is" ev arbitrary: fs ev' rule: freeze_intents.induct)
  case (1 C ev)
  then show ?case by simp
next
  case (2 C i rest ev)
  from "2.prems"(1) obtain f ev1 others where
    one: "freeze_intent C i ev = Inr (f, ev1)" and rest: "freeze_intents C rest ev1 = Inr (others, ev')"
    and fs: "fs = f # others"
    by (auto split: prod.splits)
  have "thaw_intent full f = Inr i"
    using one "2.prems"(2) by (auto intro!: freeze_intent_thaw simp: bundles_def)
  moreover have "rmap (thaw_intent full) others = Inr rest"
    using "2.IH" [OF rest] "2.prems"(2) by (auto simp: bundles_def)
  ultimately show ?case by (simp add: fs)
qed

text \<open>C40: freezing a dispatch batch loses nothing: thawing the frozen value gives back the very
  intents that were frozen, evidence bundles included, provided the digest tells the bundles of
  the batch apart and the decoders read back what the encoders write.\<close>

theorem thaw_freeze:
  assumes "decoders_ok D" "freeze_inputs C intents = Inr value"
    and "inj_on (payload_hash C) (bundles intents)"
  shows "thaw_inputs C D value = Inr intents"
proof -
  from assms(2) obtain frozen ev where
    fr: "freeze_intents C intents [] = Inr (frozen, ev)" and
    v: "value = FrozenBatch_to_value \<lparr>fb_format = 1, fb_intents = frozen, fb_evidence = ev\<rparr>"
    by (auto simp: freeze_inputs_def freeze_batch_def split: prod.splits)
  have "evidence_sound C []" by (simp add: evidence_sound_def)
  from freeze_intents_evidence [OF fr this] have sound: "evidence_sound C ev"
    and stored: "\<And>b. b \<in> bundles intents \<Longrightarrow> \<exists>b'. map_of ev (payload_hash C b) = Some b'"
    and origin: "\<And>d b. map_of ev d = Some b \<Longrightarrow> b \<in> bundles intents"
    by auto
  have lookup: "map_of ev (payload_hash C b) = Some b" if b: "b \<in> bundles intents" for b
  proof -
    from stored [OF b] obtain b' where b': "map_of ev (payload_hash C b) = Some b'" by blast
    then have "payload_hash C b' = payload_hash C b" by (rule evidence_lookup [OF sound])
    with origin [OF b'] b assms(3) have "b' = b" by (auto dest: inj_onD)
    with b' show ?thesis by simp
  qed
  have "\<not> list_ex (\<lambda>(digest, bundle). \<not> is_object bundle \<or> payload_hash C bundle \<noteq> digest) ev"
    using sound by (auto simp: evidence_sound_def list_ex_iff)
  moreover have "rmap (thaw_intent ev) frozen = Inr intents" by (rule freeze_intents_thaw [OF fr lookup])
  moreover have "frozen_from_value D value = Some \<lparr>fb_format = 1, fb_intents = frozen, fb_evidence = ev\<rparr>"
    using assms(1) by (simp add: v decoders_ok_def)
  moreover have "\<exists>ms. value = JObj ms" by (simp add: v FrozenBatch_to_value_def)
  ultimately show ?thesis by (auto simp: thaw_inputs_def)
qed

text \<open>An instance of the decoders, for the objects the encoders write.\<close>

definition sample_transport :: "json \<Rightarrow> DispatchTransport option" where
  "sample_transport v =
     (if v = JStr ''hermes'' then Some Hermes else if v = JStr ''direct'' then Some Direct else None)"

definition sample_intent :: "json \<Rightarrow> DispatchIntent option" where
  "sample_intent v =
     (case v of
        JObj [(_, desired), (_, JStr i), (_, t)] \<Rightarrow>
          map_option (\<lambda>t. \<lparr>di_intent_id = i, di_transport = t, di_desired = desired\<rparr>)
            (sample_transport t)
      | _ \<Rightarrow> None)"

definition sample_decoders :: decoders where
  "sample_decoders =
     \<lparr>intents_from_value = (\<lambda>v. None),
      frozen_from_value = (\<lambda>v.
        case v of
          JObj [(_, JObj ev), (_, JPos n), (_, JArr vs)] \<Rightarrow>
            Some \<lparr>fb_format = ucast n, fb_intents = map (the \<circ> sample_intent) vs, fb_evidence = ev\<rparr>
        | _ \<Rightarrow> None),
      reference_from_value = (\<lambda>v.
        case v of
          JObj [(_, JStr e), (_, JStr i), (_, JPos n), (_, JStr h)] \<Rightarrow>
            Some \<lparr>ir_schema_version = ucast n, ir_effect_id = e, ir_intent_id = i, ir_sha256 = h\<rparr>
        | _ \<Rightarrow> None)\<rparr>"

lemma sample_intent_value: "sample_intent (DispatchIntent_to_value i) = Some i"
  by (cases "di_transport i")
    (simp_all add: sample_intent_def DispatchIntent_to_value_def sample_transport_def)

lemma ucast_ucast_u32: "ucast (ucast (n :: u32) :: u64) = n"
  by (rule ucast_up_ucast_id) (simp add: is_up)

lemma sample_decoders_ok: "decoders_ok sample_decoders"
  by (simp add: decoders_ok_def sample_decoders_def FrozenBatch_to_value_def
      IntentReference_to_value_def json_u32_def ucast_ucast_u32 sample_intent_value comp_def)

definition sample_codec :: codec where
  "sample_codec =
     \<lparr>json_to_string = put_json, json_from_str = read_json,
      sha256_hex = (\<lambda>s. s), json_extract = (\<lambda>s p. SqlNull), json_each = (\<lambda>s p. []),
      json_type = (\<lambda>s p. None), sql_eq = (=), sql_less = (\<lambda>a b. False), sql_max = (\<lambda>vs. SqlNull),
      sql_sum = (\<lambda>vs. Some SqlNull), sql_plus = (\<lambda>v n. SqlNull)\<rparr>"

theorem thaw_freeze_witness:
  "\<exists>v. freeze_inputs sample_codec
       [\<lparr>di_intent_id = ''i1'', di_transport = Hermes,
         di_desired = JObj [(''body'', JObj [(''immutable_evidence_bundle'', JObj [])])]\<rparr>] = Inr v \<and>
     thaw_inputs sample_codec sample_decoders v = Inr
       [\<lparr>di_intent_id = ''i1'', di_transport = Hermes,
         di_desired = JObj [(''body'', JObj [(''immutable_evidence_bundle'', JObj [])])]\<rparr>]"
proof -
  let ?is = "[\<lparr>di_intent_id = ''i1'', di_transport = Hermes,
    di_desired = JObj [(''body'', JObj [(''immutable_evidence_bundle'', JObj [])])]\<rparr>]"
  obtain v where v: "freeze_inputs sample_codec ?is = Inr v"
    by (simp add: freeze_inputs_def freeze_batch_def freeze_intent_def bundle_of_def Let_def)
  have "inj_on (payload_hash sample_codec) (bundles ?is)"
    by (auto simp: inj_on_def bundles_def)
  then show ?thesis using v thaw_freeze [OF sample_decoders_ok v] by blast
qed

section \<open>One create per intent\<close>

lemma insert_create_attempt_Inr:
  "insert_create_attempt r s = (Inr n, t) \<longleftrightarrow>
     (if list_ex (\<lambda>q. dc_intent_id q = dc_intent_id r) (dispatch_create_attempts s)
      then n = 0 \<and> t = s
      else n = 1 \<and> create_attempt_allowed s r \<and> t = add_create_attempt r s)"
  by (auto simp: insert_create_attempt_def)

lemma require_dispatch_claim_readonly: "sreadonly (require_dispatch_claim c now)"
  by (auto simp: sreadonly_def require_dispatch_claim_def sbind_def split: sum.splits)

lemma reserve_Granted:
  assumes "reserve_dispatch_create C D claimed i now s = (Inr Granted, t)"
  shows "(\<forall>q \<in> set (dispatch_create_attempts s). dc_intent_id q \<noteq> i) \<and>
    (\<exists>q \<in> set (dispatch_create_attempts t). dc_intent_id q = i)"
  using assms sreadonlyD [OF require_dispatch_claim_readonly]
  by (auto simp: reserve_dispatch_create_def insert_create_attempt_Inr add_create_attempt_def
      list_ex_iff split: if_splits dest!: sreadonlyD [OF require_dispatch_claim_readonly])

text \<open>The external create of a task is never issued twice: once a reservation has been granted
  for an intent, no later reservation of the same intent is granted, by whatever claim and at
  whatever time, in any state of the ledger that still holds the rows it held then.\<close>

theorem create_reserved_once:
  assumes "reserve_dispatch_create C D claimed intent now s = (Inr Granted, t)"
    and "prefix (dispatch_create_attempts t) (dispatch_create_attempts t')"
  shows "reserve_dispatch_create C' D' claimed' intent now' t' \<noteq> (Inr Granted, u)"
proof
  assume again: "reserve_dispatch_create C' D' claimed' intent now' t' = (Inr Granted, u)"
  from reserve_Granted [OF assms(1)] obtain q where
    "q \<in> set (dispatch_create_attempts t)" "dc_intent_id q = intent" by blast
  with set_mono_prefix [OF assms(2)] reserve_Granted [OF again] show False by blast
qed

definition sample_claim :: ClaimedEffect where
  "sample_claim =
     \<lparr>ce_effect_id = ''fx1'', ce_case_key = ''case1'', ce_state_revision = 1,
      ce_effect_type = ''DISPATCH_PLANNER'', ce_payload = JObj [], ce_lease_owner = ''w'',
      ce_lease_until = 100\<rparr>"

definition sample_claimed_store :: Store where
  "sample_claimed_store = empty_store
     \<lparr>cases_table := [\<lparr>c_case_key = ''case1'', c_repository_id = 1, c_issue_number = 1,
        c_workflow_version = 1, c_state = ''PLANNING'', c_state_revision = 1, c_policy_revision = 1,
        c_remediation_round = 0, c_plan_version = 0, c_pr_number = None, c_head_sha = None,
        c_created_at = 1, c_updated_at = 1\<rparr>],
      outbox := [\<lparr>o_effect_id = ''fx1'', o_case_key = ''case1'', o_state_revision = 1,
        o_effect_type = ''DISPATCH_PLANNER'', o_payload_json = ''{}'', o_payload_sha256 = ''{}'',
        o_created_at = 1, o_lease = Some (''w'', 100), o_delivered_at = None,
        o_superseded_at = None, o_superseded_by_event_id = None\<rparr>]\<rparr>"

definition sample_intents :: "DispatchIntent list" where
  "sample_intents =
     [\<lparr>di_intent_id = ''i1'', di_transport = Hermes,
       di_desired = JObj [(''body'', JObj [(''immutable_evidence_bundle'', JObj [(''x'', JPos 7)])])]\<rparr>,
      \<lparr>di_intent_id = ''i2'', di_transport = Direct,
       di_desired = JObj [(''source_effect_id'', JStr ''fx1'')]\<rparr>]"

definition sample_frozen_store :: Store where
  "sample_frozen_store =
     snd (freeze_dispatch_intents sample_codec sample_decoders sample_claim sample_intents 2
       sample_claimed_store)"

theorem create_reserved_once_witness:
  "\<exists>t. reserve_dispatch_create sample_codec sample_decoders sample_claim ''i1'' 5 sample_frozen_store =
       (Inr Granted, t) \<and>
     reserve_dispatch_create sample_codec sample_decoders sample_claim ''i1'' 6 t \<noteq> (Inr Granted, t)"
proof -
  have "fst (reserve_dispatch_create sample_codec sample_decoders sample_claim ''i1'' 5
      sample_frozen_store) = Inr Granted" by code_simp
  then obtain t where g: "reserve_dispatch_create sample_codec sample_decoders sample_claim ''i1'' 5
      sample_frozen_store = (Inr Granted, t)" by (metis prod.collapse)
  show ?thesis using g create_reserved_once [OF g prefix_order.refl] by blast
qed

end
