(* ===== verification/Recovery.thy ===== *)
theory Recovery
  imports LedgerInputs DispatchIntents
begin

text \<open>
  The guards that the ledger puts before a recovery event is appended: one definition per module
  of \<open>pip-store/src\<close> that has a \<open>validate\<close>. Each reads the case's history, leases and attempts,
  and refuses with one fixed message; the remediation extension also records the extended
  policy, and three of them return the policy revision the case is bound to from now on. A
  query that joins without an \<open>ORDER BY\<close> takes the first row in insertion order.
\<close>

section \<open>Shared conditions\<close>

definition invalid :: "string \<Rightarrow> StoreError + 'a" where
  "invalid message = Inl (InvalidInput message)"

text \<open>SQL equality of two nullable columns.\<close>

definition sql_same :: "'a option \<Rightarrow> 'a option \<Rightarrow> bool" where
  "sql_same a b \<longleftrightarrow> (case a of None \<Rightarrow> False | Some x \<Rightarrow> b = Some x)"

definition no_running_attempt :: "string \<Rightarrow> Store \<Rightarrow> bool" where
  "no_running_attempt case_key s \<longleftrightarrow>
     \<not> list_ex (\<lambda>d. d_case_key d = case_key \<and> d_status d = RUNNING) (direct_attempts s)"

definition no_lease :: "string \<Rightarrow> Store \<Rightarrow> bool" where
  "no_lease case_key s \<longleftrightarrow> \<not> list_ex (\<lambda>r. o_case_key r = case_key \<and> o_lease r \<noteq> None) (outbox s)"

text \<open>No lease, and nothing pending but an escalation notice.\<close>

definition outbox_idle :: "string \<Rightarrow> Store \<Rightarrow> bool" where
  "outbox_idle case_key s \<longleftrightarrow>
     \<not> list_ex (\<lambda>r. o_case_key r = case_key \<and>
        (o_lease r \<noteq> None \<or>
         o_delivered_at r = None \<and> o_superseded_at r = None \<and> o_effect_type r \<noteq> ''ESCALATE''))
       (outbox s)"

definition has_run_of_role :: "string \<Rightarrow> string \<Rightarrow> Store \<Rightarrow> bool" where
  "has_run_of_role case_key role s \<longleftrightarrow>
     list_ex (\<lambda>r. r_case_key r = case_key \<and> r_role r = role) (runs s)"

definition has_event_type :: "string \<Rightarrow> string \<Rightarrow> Store \<Rightarrow> bool" where
  "has_event_type case_key event_type s \<longleftrightarrow>
     list_ex (\<lambda>e. e_case_key e = case_key \<and> e_event_type e = event_type) (events s)"

definition find_event :: "string \<Rightarrow> int \<Rightarrow> Store \<Rightarrow> EventRow option" where
  "find_event case_key revision s =
     find (\<lambda>e. e_case_key e = case_key \<and> e_state_revision e = revision) (events s)"

text \<open>The request of an operator, as all four recovery modules check it: it names the case, its
  revision, its head and the event, gives a printable reason, and changes nothing but the state.\<close>

definition reason_ok :: "json \<Rightarrow> bool" where
  "reason_ok request =
     (case as_str (json_at request ''reason'') of
        None \<Rightarrow> False
      | Some reason \<Rightarrow> \<not> blank reason \<and> length reason \<le> 2000 \<and> \<not> has_control reason)"

definition operator_request :: "StoredCase \<Rightarrow> TransitionInput \<Rightarrow> bool" where
  "operator_request current input \<longleftrightarrow>
    (let event = ei_payload (ti_event input); request = json_at event ''request'' in
     json_at event ''schema_version'' = JPos 1 \<and>
     json_at event ''operator_uid'' = JPos 0 \<and>
     json_at request ''case_key'' = JStr (sc_case_key current) \<and>
     as_u64 (json_at request ''expected_revision'') = Some (sc_state_revision current) \<and>
     json_at request ''request_id'' = JStr (ei_event_id (ti_event input)) \<and>
     as_str (json_at request ''expected_head'') = sc_head_sha current \<and>
     reason_ok request)"

definition same_work :: "StoredCase \<Rightarrow> TransitionInput \<Rightarrow> bool" where
  "same_work current input \<longleftrightarrow>
     sc_pr_number current \<noteq> None \<and> sc_head_sha current \<noteq> None \<and> sc_plan_version current \<noteq> 0 \<and>
     ti_plan_version input = sc_plan_version current \<and>
     ti_pr_number input = sc_pr_number current \<and> ti_head_sha input = sc_head_sha current"

definition only_effect :: "string \<Rightarrow> TransitionInput \<Rightarrow> bool" where
  "only_effect effect_type input \<longleftrightarrow>
     ti_run input = None \<and> ti_findings input = [] \<and> ti_evidence input = [] \<and>
     map fx_effect_type (ti_effects input) = [effect_type]"

definition observe_ci_payload :: "StoredCase \<Rightarrow> json" where
  "observe_ci_payload current =
     JObj [(''case_key'', JStr (sc_case_key current)), (''effect'', JStr ''OBSERVE_CI''),
           (''head_sha'', json_opt JStr (sc_head_sha current)),
           (''plan_version'', json_u32 (sc_plan_version current)),
           (''pr_number'', json_opt JPos (sc_pr_number current)),
           (''remediation_round'', json_u32 (sc_remediation_round current)),
           (''state_revision'', JPos (sc_state_revision current + 1))]"

text \<open>\<open>row.get::<Option<i64>>\<close>.\<close>

definition get_opt_i64 :: "sql_value \<Rightarrow> StoreError + int option" where
  "get_opt_i64 v =
     (case v of SqlNull \<Rightarrow> Inr None | SqlInt i \<Rightarrow> Inr (Some i)
      | _ \<Rightarrow> Inl (Database InvalidColumnType))"

section \<open>False takeover\<close>

definition takeover_misread ::
  "codec \<Rightarrow> StoredCase \<Rightarrow> EventRow \<Rightarrow> EventRow \<Rightarrow> EventRow \<Rightarrow> PolicyRow \<Rightarrow> Store \<Rightarrow> bool" where
  "takeover_misread C current t f r p s \<longleftrightarrow>
     e_event_type t = ''HUMAN_TOOK_OVER'' \<and> e_previous_state t = Some ''PLANNING'' \<and>
     e_next_state t = ''TAKEN_OVER'' \<and>
     json_extract C (e_payload_json t) ''$.blockers'' = SqlText ''[\"PR_LEFT_DRAFT_STATE\"]'' \<and>
     e_event_type f = ''HUMAN_FEEDBACK_RECEIVED'' \<and> e_previous_state f = Some ''SHADOW_READY'' \<and>
     e_next_state f = ''PLANNING'' \<and>
     sql_eq C (json_extract C (e_payload_json f) ''$.bounded'') (SqlInt 0) \<and>
     e_next_state r = ''SHADOW_READY'' \<and> e_event_type r = ''READY'' \<and>
     sql_same (e_head_sha t) (e_head_sha f) \<and> sql_same (e_head_sha f) (e_head_sha r) \<and>
     sql_same (e_head_sha t) (sc_head_sha current) \<and>
     sql_same (e_pr_number t) (e_pr_number f) \<and> sql_same (e_pr_number f) (e_pr_number r) \<and>
     sql_same (e_pr_number t) (map_option uint (sc_pr_number current)) \<and>
     e_plan_version t = e_plan_version f \<and> e_plan_version f = e_plan_version r \<and>
     e_policy_revision t = e_policy_revision f \<and> e_policy_revision f = e_policy_revision r \<and>
     list_ex (\<lambda>e.
        let x = json_extract C (ev_payload_json e); pr = SqlInt (the (e_pr_number t)) in
        ev_case_key e = e_case_key t \<and> ev_kind e = ''GITHUB_DISPOSITION_COMMENT'' \<and>
        e_observed_at r \<le> ev_observed_at e \<and> ev_observed_at e \<le> e_observed_at f \<and>
        x ''$.effect_type'' = SqlText ''NOTIFY_SHADOW_READY'' \<and>
        sql_eq C (x ''$.actor_id'')
          (json_extract C (pol_payload_json p) ''$.github.automation_actor_id'') \<and>
        sql_eq C (x ''$.target_number'') pr \<and>
        sql_eq C (x ''$.ready_for_review.pull_request_number'') pr \<and>
        sql_eq C (x ''$.ready_for_review.head_sha'') (SqlText (the (e_head_sha t))) \<and>
        x ''$.ready_for_review.mutation'' = SqlText ''updated'') (evidence s) \<and>
     no_running_attempt (e_case_key t) s"

definition follow_up_recovery_validate ::
  "codec \<Rightarrow> StoredCase \<Rightarrow> TransitionInput \<Rightarrow> Store \<Rightarrow> StoreError + unit" where
  "follow_up_recovery_validate C current input s =
    (let bad = invalid ''invalid false-takeover recovery'' in
     if \<not> (sc_state current = ''TAKEN_OVER'' \<and> ti_next_state input = ''PLANNING'' \<and>
         operator_request current input \<and> same_work current input \<and>
         ti_remediation_round input = sc_remediation_round current \<and>
         only_effect ''DISPATCH_PLANNER'' input) then bad
     else
       rbind (sql_u64 (sc_state_revision current)) (\<lambda>revision.
       rbind (sql_u64 (sc_repository_id current)) (\<lambda>repo.
       rbind (sql_u64 (sc_policy_revision current)) (\<lambda>policy.
       rbind (sql_u64_opt (sc_pr_number current)) (\<lambda>_.
       case (find_event (sc_case_key current) revision s,
             find_event (sc_case_key current) (revision - 1) s,
             find_event (sc_case_key current) (revision - 2) s, find_policy repo policy s) of
         (Some t, Some f, Some r, Some p) \<Rightarrow>
           if takeover_misread C current t f r p s then Inr () else bad
       | _ \<Rightarrow> bad)))))"

section \<open>Infrastructure failures\<close>

definition infrastructure_stop :: "codec \<Rightarrow> EventRow \<Rightarrow> bool" where
  "infrastructure_stop C e \<longleftrightarrow>
     e_event_type e = ''OPERATIONAL_BOUND_REACHED'' \<and> e_next_state e = ''ESCALATED'' \<and>
     e_previous_state e \<in> {Some ''REVIEWING'', Some ''FINAL_REVIEW''} \<and>
     json_extract C (e_payload_json e) ''$.bound'' = SqlText ''ELAPSED_TIME'' \<or>
     e_event_type e = ''BLOCKED'' \<and> e_next_state e = ''BLOCKED'' \<and>
     e_previous_state e = Some ''REMEDIATING'' \<and>
     json_extract C (e_payload_json e) ''$.role'' = SqlText ''builder'' \<and>
     json_extract C (e_payload_json e) ''$.outcome'' = SqlText ''BLOCKED''"

definition infrastructure_recovery_validate ::
  "codec \<Rightarrow> StoredCase \<Rightarrow> TransitionInput \<Rightarrow> Store \<Rightarrow> StoreError + unit" where
  "infrastructure_recovery_validate C current input s =
    (let bad = invalid ''invalid infrastructure recovery authorization'';
         event = ei_payload (ti_event input) in
     if \<not> (sc_state current \<in> {''ESCALATED'', ''BLOCKED''} \<and> ti_next_state input = ''REMEDIATING'' \<and>
         operator_request current input \<and> same_work current input \<and>
         checked_add (sc_remediation_round current) 1 = Some (ti_remediation_round input) \<and>
         only_effect ''DISPATCH_BUILDER'' input) then bad
     else
       rbind (sql_u64 (sc_state_revision current)) (\<lambda>revision.
       rbind (sql_u64 (ti_observed_at input)) (\<lambda>observed_at.
       rbind (policy_value C (sc_repository_id current) (sc_policy_revision current) s) (\<lambda>policy.
       case as_u64 (json_at policy ''max_case_elapsed_seconds'') of
         None \<Rightarrow> bad
       | Some duration \<Rightarrow>
           if duration = 0 then bad
           else case checked_add (ti_observed_at input) duration of
             None \<Rightarrow> bad
           | Some deadline \<Rightarrow>
               (case as_u64 (json_at policy ''max_remediation_rounds'') of
                  None \<Rightarrow> bad
                | Some limit \<Rightarrow>
                    if (case find_event (sc_case_key current) revision s of
                          None \<Rightarrow> False
                        | Some e \<Rightarrow> e_observed_at e \<le> observed_at \<and> infrastructure_stop C e)
                       \<and> no_running_attempt (sc_case_key current) s
                       \<and> has_run_of_role (sc_case_key current) ''builder'' s
                       \<and> as_u64 (json_at event ''deadline'') = Some deadline
                       \<and> uint (ti_remediation_round input) \<le> uint limit
                    then Inr () else bad)))))"

text \<open>\<open>MAX(json_extract(payload_json,'$.deadline'))\<close> over the authorizations of the case.\<close>

definition infrastructure_recovery_deadline ::
  "codec \<Rightarrow> string \<Rightarrow> Store \<Rightarrow> StoreError + u64 option" where
  "infrastructure_recovery_deadline C case_key s =
     rbind (get_opt_i64 (sql_max C (map (\<lambda>e. json_extract C (e_payload_json e) ''$.deadline'')
        (filter (\<lambda>e. e_case_key e = case_key \<and>
           e_event_type e = ''INFRASTRUCTURE_RECOVERY_AUTHORIZED'') (events s))))) (\<lambda>deadline.
     Inr (map_option unsigned deadline))"

section \<open>Reviews\<close>

definition failed_review_projection ::
  "codec \<Rightarrow> string \<Rightarrow> EventRow \<Rightarrow> Store \<Rightarrow> TaskProjectionRow option" where
  "failed_review_projection C case_key stop s =
    (if e_event_type stop = ''OPERATIONAL_BOUND_REACHED'' \<and>
        e_previous_state stop = Some ''REVIEWING'' \<and> e_next_state stop = ''ESCALATED'' \<and>
        json_extract C (e_payload_json stop) ''$.bound'' = SqlText ''PROVIDER_FAILURES'' \<and>
        json_extract C (e_payload_json stop) ''$.details.source'' = SqlText ''hermes-circuit-breaker'' \<and>
        no_running_attempt case_key s \<and> outbox_idle case_key s \<and>
        \<not> has_event_type case_key ''NATIVE_REVIEW_RETRY_AUTHORIZED'' s \<and>
        has_run_of_role case_key ''planner'' s \<and> has_run_of_role case_key ''builder'' s
     then find (\<lambda>p.
        tp_case_key p = case_key \<and>
        (case tp_task_id p of
           None \<Rightarrow> False
         | Some task \<Rightarrow>
             sql_eq C (SqlText task) (json_extract C (e_payload_json stop) ''$.details.task_id'') \<and>
             \<not> list_ex (\<lambda>r. r_case_key r = case_key \<and> r_task_id r = task) (runs s)) \<and>
        list_ex (\<lambda>r. o_effect_id r = tp_effect_id p \<and> o_case_key r = case_key \<and>
          o_effect_type r = ''DISPATCH_REVIEWERS'' \<and> o_delivered_at r \<noteq> None) (outbox s) \<and>
        \<not> list_ex (\<lambda>e. ev_case_key e = case_key \<and> ev_kind e = ''HERMES_RESULT'' \<and>
          ev_source e = tp_projection_id p) (evidence s)) (task_projections s)
     else None)"

definition native_review_retry_validate ::
  "codec \<Rightarrow> decoders \<Rightarrow> StoredCase \<Rightarrow> TransitionInput \<Rightarrow> Store \<Rightarrow> StoreError + unit" where
  "native_review_retry_validate C D current input s =
    (let bad = invalid ''invalid native review retry'' in
     if \<not> (sc_state current = ''ESCALATED'' \<and> ti_next_state input = ''WAITING_CI'' \<and>
         operator_request current input \<and> same_work current input \<and>
         ti_remediation_round input = sc_remediation_round current \<and>
         only_effect ''OBSERVE_CI'' input) then bad
     else
       rbind (sql_u64 (sc_state_revision current)) (\<lambda>revision.
       case find_event (sc_case_key current) revision s of
         None \<Rightarrow> bad
       | Some stop_event \<Rightarrow>
       case failed_review_projection C (sc_case_key current) stop_event s of
         None \<Rightarrow> bad
       | Some projection \<Rightarrow>
       rbind (ok_or (json_from_str C (e_payload_json stop_event)) Serialization) (\<lambda>stop.
       rbind (ok_or (json_from_str C (tp_desired_json projection)) Serialization) (\<lambda>raw.
       rbind (resolve_output C D (tp_effect_id projection) Hermes raw s) (\<lambda>desired.
       let body = json_at desired ''body''; details = json_at stop ''details'' in
       if json_at body ''role'' = JStr ''reviewer-general'' \<and>
          json_at body ''review_mode'' = JStr ''required'' \<and>
          as_str (json_at body ''expected_head_sha'') = sc_head_sha current \<and>
          as_u64 (json_at body ''plan_version'') = Some (ucast (sc_plan_version current)) \<and>
          as_u64 (json_at body ''state_revision'') = checked_sub (sc_state_revision current) 1 \<and>
          json_at details ''profile'' = json_at desired ''assignee'' \<and>
          json_at details ''provider'' = json_at desired ''provider'' \<and>
          json_at details ''model'' = json_at desired ''model'' \<and>
          json_at stop ''limit'' = json_at desired ''max_retries'' \<and>
          json_at stop ''observed'' = json_at stop ''limit'' \<and>
          map fx_payload (ti_effects input) = [observe_ci_payload current]
       then Inr () else bad)))))"

definition starts_with :: "string \<Rightarrow> string \<Rightarrow> bool" where
  "starts_with p value \<longleftrightarrow> take (length p) value = p"

definition cleared_feedback_hold :: "StoredCase \<Rightarrow> json \<Rightarrow> bool" where
  "cleared_feedback_hold current stop \<longleftrightarrow>
     json_at stop ''reason'' = JStr ''REVIEW_FEEDBACK_ALREADY_ATTEMPTED'' \<and>
     as_str (json_at stop ''head_sha'') = sc_head_sha current \<and>
     as_u64 (json_at stop ''pull_request_number'') = sc_pr_number current \<and>
     (case as_array (json_at stop ''blockers'') of
        None \<Rightarrow> False
      | Some blockers \<Rightarrow> blockers \<noteq> [] \<and>
          list_all (\<lambda>b. case as_str b of None \<Rightarrow> False
             | Some b \<Rightarrow> starts_with ''UNRESOLVED_REVIEW_THREAD:'' b) blockers)"

text \<open>The required direct reviews that were superseded by a peer's recorded review, never tried.\<close>

definition lost_reviews :: "string \<Rightarrow> Store \<Rightarrow> OutboxRow list" where
  "lost_reviews case_key s =
     filter (\<lambda>r.
       o_case_key r = case_key \<and> o_effect_type r = ''RUN_DIRECT_WORKER'' \<and>
       o_delivered_at r = None \<and> o_superseded_at r \<noteq> None \<and>
       list_ex (\<lambda>e. e_case_key e = case_key \<and> Some (e_event_id e) = o_superseded_by_event_id r \<and>
         e_event_type e = ''REVIEW_RECORDED'') (events s) \<and>
       list_ex (\<lambda>e. e_case_key e = case_key \<and> e_state_revision e = o_state_revision r \<and>
         e_next_state e = ''REVIEWING'') (events s) \<and>
       \<not> list_ex (\<lambda>a. d_effect_id a = o_effect_id r) (direct_attempts s) \<and>
       \<not> list_ex (\<lambda>e. e_case_key e = case_key \<and> e_state_revision e > o_state_revision r \<and>
         e_event_type e \<noteq> ''REVIEW_RECORDED'') (events s)) (outbox s)"

definition lost_required_review :: "StoredCase \<Rightarrow> json \<Rightarrow> bool" where
  "lost_required_review current desired \<longleftrightarrow>
    (let body = json_at desired ''body'' in
     as_str (json_at body ''role'') \<in> {Some ''reviewer-general'', Some ''reviewer-secperf''} \<and>
     json_at body ''review_mode'' = JStr ''required'' \<and>
     as_str (json_at body ''expected_head_sha'') = sc_head_sha current \<and>
     as_u64 (json_at body ''plan_version'') = Some (ucast (sc_plan_version current)) \<and>
     as_u64 (json_at body ''remediation_round'') = Some (ucast (sc_remediation_round current)) \<and>
     as_u64 (json_at body ''pr_number'') = sc_pr_number current)"

definition review_coordination_recovery_validate ::
  "codec \<Rightarrow> decoders \<Rightarrow> StoredCase \<Rightarrow> TransitionInput \<Rightarrow> Store \<Rightarrow> StoreError + unit" where
  "review_coordination_recovery_validate C D current input s =
    (let bad = invalid ''invalid review coordination recovery'';
         case_key = sc_case_key current in
     if \<not> (sc_state current \<in> {''REVIEWING'', ''ESCALATED''} \<and> ti_next_state input = ''WAITING_CI'' \<and>
         operator_request current input \<and> same_work current input \<and>
         ti_remediation_round input = sc_remediation_round current \<and>
         only_effect ''OBSERVE_CI'' input) then bad
     else if \<not> (no_running_attempt case_key s \<and> outbox_idle case_key s \<and>
         \<not> has_event_type case_key ''REVIEW_COORDINATION_RECOVERY_AUTHORIZED'' s \<and>
         has_run_of_role case_key ''builder'' s) then bad
     else
       rbind
        (if sc_state current = ''ESCALATED'' then
           rbind (sql_u64 (sc_state_revision current)) (\<lambda>revision.
           case find (\<lambda>e. e_case_key e = case_key \<and> e_state_revision e = revision \<and>
               e_event_type e = ''OPERATIONAL_BOUND_REACHED'' \<and>
               e_previous_state e = Some ''FINAL_REVIEW'' \<and> e_next_state e = ''ESCALATED'')
               (events s) of
             None \<Rightarrow> Inr (cleared_feedback_hold current JNull)
           | Some e \<Rightarrow>
               rbind (ok_or (json_from_str C (e_payload_json e)) Serialization) (\<lambda>stop.
               Inr (cleared_feedback_hold current stop)))
         else
           rbind (rmap (\<lambda>r.
               rbind (ok_or (json_from_str C (o_payload_json r)) Serialization) (\<lambda>raw.
               rbind (resolve_output C D (o_effect_id r) Direct raw s) (\<lambda>desired.
               Inr (lost_required_review current desired)))) (lost_reviews case_key s)) (\<lambda>found.
           Inr (list_ex (\<lambda>b. b) found)))
        (\<lambda>recoverable.
          if \<not> recoverable \<or> map fx_payload (ti_effects input) \<noteq> [observe_ci_payload current]
          then bad else Inr ()))"

section \<open>Reauthorization\<close>

definition reauthorization_eligible :: "codec \<Rightarrow> string \<Rightarrow> u64 \<Rightarrow> u64 \<Rightarrow> Store \<Rightarrow> StoreError + bool" where
  "reauthorization_eligible C case_key label_id removal_id s =
     rbind (sql_u64 label_id) (\<lambda>label_id.
     rbind (sql_u64 removal_id) (\<lambda>removal_id.
     let labels = sql_max C (map (\<lambda>e. json_extract C (e_payload_json e) ''$.label_event_id'')
           (filter (\<lambda>e. e_case_key e = case_key \<and>
              e_event_type e \<in> {''ISSUE_AUTHORIZED'', ''ISSUE_REAUTHORIZED''}) (events s)));
         latest = (if labels = SqlNull then SqlInt 9223372036854775807 else labels) in
     Inr (list_ex (\<lambda>c. c_case_key c = case_key \<and> c_state c = ''ABANDONED'' \<and>
         list_ex (\<lambda>e. e_case_key e = case_key \<and> e_state_revision e = c_state_revision c \<and>
           (e_event_type e = ''AUTHORIZATION_REMOVED'' \<and> c_pr_number c = None \<and>
              c_head_sha c = None \<and>
              list_ex (\<lambda>v. v \<in> {SqlText ''REQUIRED_LABEL_MISSING'',
                 SqlText ''LATEST_AUTHORIZATION_REMOVED''})
                (json_each C (e_payload_json e) ''$.blockers'')
            \<or> e_event_type e = ''HUMAN_ABANDONED'')) (events s)) (cases_table s) \<and>
        removal_id < label_id \<and> sql_less C latest (SqlInt removal_id) \<and>
        no_running_attempt case_key s \<and> no_lease case_key s)))"

definition reauthorization_validate ::
  "codec \<Rightarrow> StoredCase \<Rightarrow> TransitionInput \<Rightarrow> Store \<Rightarrow> StoreError + u64" where
  "reauthorization_validate C current input s =
    (let event = ei_payload (ti_event input);
         number = (\<lambda>name. ok_or (as_u64 (json_at event name))
                     (InvalidInput ''missing reauthorization binding'')) in
     rbind (number ''policy_revision'') (\<lambda>revision.
     rbind (number ''label_event_id'') (\<lambda>label_id.
     rbind (number ''removed_label_event_id'') (\<lambda>removal_id.
     rbind (reauthorization_eligible C (sc_case_key current) label_id removal_id s) (\<lambda>eligible.
     rbind (reject_if (\<not> (eligible \<and> ti_next_state input = ''PLANNING'' \<and>
         ti_plan_version input = sc_plan_version current \<and>
         ti_remediation_round input = sc_remediation_round current \<and>
         ti_pr_number input = sc_pr_number current \<and> ti_head_sha input = sc_head_sha current \<and>
         only_effect ''DISPATCH_PLANNER'' input \<and>
         map fx_payload (ti_effects input) =
           [JObj [(''case_key'', JStr (sc_case_key current)), (''effect'', JStr ''DISPATCH_PLANNER''),
                  (''state_revision'', JPos (sc_state_revision current + 1))]]))
       (InvalidInput ''reauthorization requires withdrawn or abandoned work, fresh label evidence and an unleased generation''))
       (\<lambda>_.
     rbind (policy_value C (sc_repository_id current) revision s) (\<lambda>policy.
     let intake = json_at policy ''intake'' in
     rbind (reject_if (json_at intake ''label'' \<noteq> json_at event ''label'' \<or>
         \<not> (case as_array (json_at intake ''trusted_actor_ids'') of
              None \<Rightarrow> False
            | Some actors \<Rightarrow> list_ex (\<lambda>a. a = json_at event ''label_actor_id'') actors))
       (InvalidInput ''reauthorization label and actor must match the accepted policy'')) (\<lambda>_.
     Inr revision))))))))"

text \<open>The largest of the times selected, if any.\<close>

definition max_time :: "int list \<Rightarrow> int option" where
  "max_time ts = (if ts = [] then None else Some (fold max ts (hd ts)))"

definition u64_of_i64 :: "int \<Rightarrow> StoreError + u64" where
  "u64_of_i64 v = (if 0 \<le> v then Inr (unsigned v) else Inl InvalidInteger)"

definition opens_work_window :: "codec \<Rightarrow> EventRow \<Rightarrow> bool" where
  "opens_work_window C e \<longleftrightarrow>
     e_event_type e \<in> {''ISSUE_REAUTHORIZED'', ''HUMAN_RESUMED''} \<or>
     e_event_type e = ''HUMAN_FEEDBACK_RECEIVED'' \<and> e_previous_state e = Some ''SHADOW_READY'' \<and>
     e_next_state e = ''PLANNING'' \<and> e_pr_number e \<noteq> None \<and> e_head_sha e \<noteq> None \<and>
     json_type C (e_payload_json e) ''$.fresh_work_window'' = Some ''true'' \<and>
     json_type C (e_payload_json e) ''$.bounded'' = Some ''false''"

definition work_started_at :: "codec \<Rightarrow> string \<Rightarrow> Store \<Rightarrow> StoreError + u64 option" where
  "work_started_at C case_key s =
    (case find_case case_key s of
       None \<Rightarrow> Inr None
     | Some c \<Rightarrow>
         let opened = max_time (map e_observed_at
               (filter (\<lambda>e. e_case_key e = case_key \<and> opens_work_window C e) (events s)));
             started = (case opened of None \<Rightarrow> c_created_at c | Some t \<Rightarrow> max (c_created_at c) t)
         in rbind (u64_of_i64 started) (\<lambda>t. Inr (Some t)))"

section \<open>Extending the remediation budget\<close>

text \<open>\<open>value[k] = w\<close> on an object.\<close>

fun json_assign :: "json \<Rightarrow> string \<Rightarrow> json \<Rightarrow> json" where
  "json_assign (JObj ms) k w = JObj (object_insert k w ms)"
| "json_assign v k w = v"

definition remediation_extension_checks ::
  "codec \<Rightarrow> StoredCase \<Rightarrow> TransitionInput \<Rightarrow> Store \<Rightarrow> StoreError + u64" where
  "remediation_extension_checks C current input s =
    (let bad = invalid ''invalid remediation budget extension'';
         event = ei_payload (ti_event input); new = json_at event ''policy'' in
     case (as_u64 (json_at new ''revision''), as_u64 (json_at new ''max_remediation_rounds'')) of
       (Some revision, Some new_limit) \<Rightarrow>
         if \<not> (sc_state current = ''ESCALATED'' \<and> ti_next_state input = ''WAITING_CI'' \<and>
             operator_request current input \<and> same_work current input \<and>
             sc_policy_revision current < revision \<and> uint new_limit < 2 ^ 32 \<and>
             ti_remediation_round input = sc_remediation_round current \<and>
             only_effect ''OBSERVE_CI'' input) then bad
         else
           rbind (policy_value C (sc_repository_id current) (sc_policy_revision current) s) (\<lambda>old.
           case (as_u64 (json_at old ''max_remediation_rounds''),
                 as_u64 (json_at old ''max_case_elapsed_seconds'')) of
             (Some old_limit, elapsed) \<Rightarrow>
               let expected = json_assign (json_assign old ''revision'' (JPos revision))
                     ''max_remediation_rounds'' (JPos new_limit);
                   round = uint (sc_remediation_round current) in
               if expected \<noteq> new \<or> new_limit \<le> old_limit \<or> round < uint old_limit
                   \<or> uint new_limit \<le> round then bad
               else
                 rbind (sql_u64 (sc_state_revision current)) (\<lambda>state_revision.
                 rbind (sql_u64 (ti_observed_at input)) (\<lambda>observed_at.
                 rbind (work_started_at C (sc_case_key current) s) (\<lambda>started.
                 case started of
                   None \<Rightarrow> bad
                 | Some started \<Rightarrow>
                 rbind (infrastructure_recovery_deadline C (sc_case_key current) s) (\<lambda>recovery.
                 case elapsed of
                   None \<Rightarrow> bad
                 | Some elapsed \<Rightarrow>
                 let deadline = max (saturating_add started elapsed)
                       (case recovery of None \<Rightarrow> 0 | Some t \<Rightarrow> t);
                     eligible =
                       list_ex (\<lambda>e. e_case_key e = sc_case_key current \<and>
                         e_state_revision e = state_revision \<and> e_event_type e = ''CI_FAILED'' \<and>
                         e_previous_state e = Some ''WAITING_CI'' \<and> e_next_state e = ''ESCALATED'' \<and>
                         e_observed_at e \<le> observed_at) (events s) \<and>
                       no_running_attempt (sc_case_key current) s \<and> no_lease (sc_case_key current) s in
                 if \<not> eligible \<or> deadline \<le> ti_observed_at input then bad
                 else Inr revision))))
           | _ \<Rightarrow> bad)
     | _ \<Rightarrow> bad)"

definition remediation_extension_validate ::
  "codec \<Rightarrow> StoredCase \<Rightarrow> TransitionInput \<Rightarrow> u64 store_op" where
  "remediation_extension_validate C current input =
     sbind (squery (remediation_extension_checks C current input)) (\<lambda>revision.
     let new = json_at (ei_payload (ti_event input)) ''policy'' in
     sbind (slift (sql_u64 (sc_repository_id current))) (\<lambda>repo.
     sbind (slift (sql_u64 revision)) (\<lambda>rev.
     sbind (sread (find_policy repo rev)) (\<lambda>existing.
     case existing of
       Some row \<Rightarrow>
         if pol_payload_sha256 row \<noteq> payload_hash C new
         then sfail (InvalidInput ''invalid remediation budget extension'')
         else sreturn revision
     | None \<Rightarrow>
         sbind (slift (sql_u64 (ti_observed_at input))) (\<lambda>accepted_at.
         sbind (sql_insert policy_allowed add_policy
           \<lparr>pol_repository_id = repo, pol_revision = rev, pol_payload_json = fst (payload C new),
            pol_payload_sha256 = snd (payload C new), pol_accepted_at = accepted_at\<rparr>) (\<lambda>_.
         sreturn revision))))))"

section \<open>Human resume\<close>

definition PARKED_STATES :: "string list" where
  "PARKED_STATES = [''ESCALATED'', ''BLOCKED'', ''WAITING_HUMAN'']"

definition validate_resume :: "StoredCase \<Rightarrow> TransitionInput \<Rightarrow> Store \<Rightarrow> StoreError + u64" where
  "validate_resume current input s =
    (let bad = invalid ''invalid human resume''; event = ei_payload (ti_event input) in
     case as_u64 (json_at event ''policy_revision'') of
       None \<Rightarrow> bad
     | Some revision \<Rightarrow>
         if sc_state current \<notin> set PARKED_STATES \<or> revision < sc_policy_revision current \<or>
            (case as_u64 (json_at event ''granted_rounds'') of None \<Rightarrow> True | Some rounds \<Rightarrow> rounds > 10)
         then bad
         else
           rbind (sql_u64 (sc_repository_id current)) (\<lambda>repo.
           rbind (sql_u64 revision) (\<lambda>rev.
           if find_policy repo rev s = None then bad else Inr revision)))"

end
