(* ===== verification/Transitions.thy ===== *)
theory Transitions
  imports Recovery
begin

text \<open>
  The event-sourced core of the ledger, \<open>pip-store/src/lib.rs\<close>: creating a case, applying one
  transition or a batch of consecutive ones, reading the case, rebuilding it from its events and
  repairing the projection. The tables \<open>events\<close>, \<open>runs\<close>, \<open>evidence\<close>, \<open>findings\<close> and the outbox
  are written in one transaction with the projection row of the case.
\<close>

section \<open>Creating a case\<close>

definition create_case :: "codec \<Rightarrow> NewCase \<Rightarrow> ApplyResult store_op" where
  "create_case C input =
    sbind ensure_writable (\<lambda>_.
    sbind (slift (validate_common (nc_case_key input) (nc_event input))) (\<lambda>_.
    let command_hash = hash_serialized C (NewCase_ser input) in
    sbind (sread (existing_event (ei_event_id (nc_event input)))) (\<lambda>existing.
    case existing of
      Some found \<Rightarrow>
        slift (replay_or_conflict found (nc_case_key input) command_hash
          (ei_event_id (nc_event input)))
    | None \<Rightarrow>
        stransaction (
          sbind (slift (sql_u64 (nc_repository_id input))) (\<lambda>repository_id.
          sbind (slift (sql_u64 (nc_issue_number input))) (\<lambda>issue_number.
          sbind (slift (sql_u64 (nc_policy_revision input))) (\<lambda>policy_revision.
          sbind (slift (sql_u64 (nc_observed_at input))) (\<lambda>observed_at.
          sbind (sql_insert case_allowed add_case
            \<lparr>c_case_key = nc_case_key input, c_repository_id = repository_id,
             c_issue_number = issue_number, c_workflow_version = sql_u32 (nc_workflow_version input),
             c_state = nc_initial_state input, c_state_revision = 1,
             c_policy_revision = policy_revision, c_remediation_round = 0, c_plan_version = 0,
             c_pr_number = None, c_head_sha = None, c_created_at = observed_at,
             c_updated_at = observed_at\<rparr>) (\<lambda>_.
          sbind (insert_event C
            \<lparr>er_case_key = nc_case_key input, er_revision = 1, er_observed_at = nc_observed_at input,
             er_event = nc_event input, er_command_hash = command_hash, er_previous_state = None,
             er_next_state = nc_initial_state input, er_policy_revision = nc_policy_revision input,
             er_remediation_round = 0, er_plan_version = 0, er_pr_number = None,
             er_head_sha = None\<rparr>) (\<lambda>_.
          sbind (insert_effects C (nc_case_key input) 1 (nc_observed_at input) (nc_effects input))
            (\<lambda>_.
          sreturn Applied))))))))))) "

section \<open>Applying transitions\<close>

text \<open>The loop that checks the shape of a batch.\<close>

fun validate_batch ::
  "string \<Rightarrow> string list \<Rightarrow> u64 option \<Rightarrow> TransitionInput list \<Rightarrow> StoreError + unit" where
  "validate_batch case_key event_ids previous [] = Inr ()"
| "validate_batch case_key event_ids previous (input # inputs) =
    (let bad = Inl (InvalidInput ''batch transitions must be unique, consecutive, and for one case'') in
     rbind (validate_common (ti_case_key input) (ti_event input)) (\<lambda>_.
     if ti_case_key input \<noteq> case_key then bad
     else if ei_event_id (ti_event input) \<in> set event_ids then bad
     else
       rbind (case previous of
                None \<Rightarrow> Inr True
              | Some revision \<Rightarrow>
                  rbind (ok_or (checked_add revision 1) InvalidInteger) (\<lambda>expected.
                  Inr (ti_expected_revision input = expected))) (\<lambda>consecutive.
       if \<not> consecutive then bad
       else validate_batch case_key (ei_event_id (ti_event input) # event_ids)
              (Some (ti_expected_revision input)) inputs)))"

definition retired_events :: "string set" where
  "retired_events = {''BUILDER_RETRY_AUTHORIZED'', ''REVIEW_RETRY_AUTHORIZED'',
     ''PLANNER_RETRY_AUTHORIZED''}"

text \<open>The guards of recovery events, and the policy revision the case is bound to afterwards.\<close>

definition guard_event ::
  "codec \<Rightarrow> decoders \<Rightarrow> StoredCase \<Rightarrow> TransitionInput \<Rightarrow> u64 store_op" where
  "guard_event C D current input =
    (let event_type = ei_event_type (ti_event input) in
     sbind (sreject_if (event_type \<in> retired_events) (InvalidInput ''retired operator retry event'')) (\<lambda>_.
     sbind (if event_type = ''INFRASTRUCTURE_RECOVERY_AUTHORIZED''
            then squery (infrastructure_recovery_validate C current input) else sreturn ()) (\<lambda>_.
     sbind (if event_type = ''FOLLOW_UP_RECOVERY_AUTHORIZED''
            then squery (follow_up_recovery_validate C current input) else sreturn ()) (\<lambda>_.
     sbind (if event_type = ''NATIVE_REVIEW_RETRY_AUTHORIZED''
            then squery (native_review_retry_validate C D current input) else sreturn ()) (\<lambda>_.
     sbind (if event_type = ''REVIEW_COORDINATION_RECOVERY_AUTHORIZED''
            then squery (review_coordination_recovery_validate C D current input) else sreturn ()) (\<lambda>_.
     if event_type = ''ISSUE_REAUTHORIZED'' then squery (reauthorization_validate C current input)
     else if event_type = ''REMEDIATION_BUDGET_EXTENDED''
       then remediation_extension_validate C current input
     else if event_type = ''HUMAN_RESUMED'' then squery (validate_resume current input)
     else sreturn (sc_policy_revision current)))))))"

definition stops_observers :: "string set" where
  "stops_observers = {''AUTHORIZATION_REMOVED'', ''HUMAN_TOOK_OVER'', ''ABANDON'', ''BLOCKED'',
     ''BLOCKED_UNEXPECTED_MODEL'', ''OPERATIONAL_BOUND_REACHED'', ''HUMAN_MERGED'', ''MERGE_VERIFIED''}"

text \<open>A review that is recorded without moving the case: the peers of the cohort keep running.\<close>

definition peer_review_recorded :: "StoredCase \<Rightarrow> TransitionInput \<Rightarrow> bool" where
  "peer_review_recorded current input \<longleftrightarrow>
     ei_event_type (ti_event input) = ''REVIEW_RECORDED'' \<and> sc_state current = ''REVIEWING'' \<and>
     ti_next_state input = sc_state current \<and> ti_plan_version input = sc_plan_version current \<and>
     ti_remediation_round input = sc_remediation_round current \<and>
     ti_pr_number input = sc_pr_number current \<and> ti_head_sha input = sc_head_sha current"

definition peer_of_cohort :: "EventRow list \<Rightarrow> OutboxRow \<Rightarrow> bool" where
  "peer_of_cohort es r \<longleftrightarrow>
     list_ex (\<lambda>e. e_case_key e = o_case_key r \<and> e_state_revision e = o_state_revision r \<and>
       e_next_state e = ''REVIEWING'') es \<and>
     \<not> list_ex (\<lambda>e. e_case_key e = o_case_key r \<and> e_state_revision e > o_state_revision r \<and>
       e_event_type e \<noteq> ''REVIEW_RECORDED'') es"

definition superseded_effect ::
  "EventRow list \<Rightarrow> StoredCase \<Rightarrow> TransitionInput \<Rightarrow> int \<Rightarrow> OutboxRow \<Rightarrow> bool" where
  "superseded_effect es current input next_revision r \<longleftrightarrow>
     o_case_key r = ti_case_key input \<and> o_state_revision r < next_revision \<and>
     (o_effect_type r \<noteq> ''RUN_DIRECT_OBSERVER'' \<or>
        ei_event_type (ti_event input) \<in> stops_observers) \<and>
     \<not> (o_effect_type r = ''RUN_DIRECT_WORKER'' \<and> peer_review_recorded current input \<and>
        peer_of_cohort es r) \<and>
     o_delivered_at r = None \<and> o_superseded_at r = None"

definition supersede :: "int \<Rightarrow> string \<Rightarrow> OutboxRow \<Rightarrow> OutboxRow" where
  "supersede now event_id r =
     r\<lparr>o_superseded_at := Some now, o_superseded_by_event_id := Some event_id, o_lease := None\<rparr>"

definition event_record :: "StoredCase \<Rightarrow> TransitionInput \<Rightarrow> string \<Rightarrow> u64 \<Rightarrow> u64 \<Rightarrow> EventRecord" where
  "event_record current input command_hash next_revision policy_revision =
     \<lparr>er_case_key = ti_case_key input, er_revision = next_revision,
      er_observed_at = ti_observed_at input, er_event = ti_event input,
      er_command_hash = command_hash, er_previous_state = Some (sc_state current),
      er_next_state = ti_next_state input, er_policy_revision = policy_revision,
      er_remediation_round = ti_remediation_round input, er_plan_version = ti_plan_version input,
      er_pr_number = ti_pr_number input, er_head_sha = ti_head_sha input\<rparr>"

text \<open>\<open>UPDATE cases ... WHERE case_key = ? AND state_revision = ?\<close>.\<close>

definition project_case :: "TransitionInput \<Rightarrow> u64 \<Rightarrow> u64 \<Rightarrow> nat store_op" where
  "project_case input next_revision policy_revision =
    sbind (slift (sql_u64 next_revision)) (\<lambda>next_revision.
    sbind (slift (sql_u64_opt (ti_pr_number input))) (\<lambda>pr_number.
    sbind (slift (sql_u64 (ti_observed_at input))) (\<lambda>observed_at.
    sbind (slift (sql_u64 (ti_expected_revision input))) (\<lambda>expected_revision.
    sbind (slift (sql_u64 policy_revision)) (\<lambda>policy_revision.
    update_cases
      (\<lambda>r. c_case_key r = ti_case_key input \<and> c_state_revision r = expected_revision)
      (\<lambda>r. r\<lparr>c_state := ti_next_state input, c_state_revision := next_revision,
        c_remediation_round := sql_u32 (ti_remediation_round input),
        c_plan_version := sql_u32 (ti_plan_version input), c_pr_number := pr_number,
        c_head_sha := ti_head_sha input, c_updated_at := observed_at,
        c_policy_revision := policy_revision\<rparr>))))))"

definition apply_one ::
  "codec \<Rightarrow> decoders \<Rightarrow> FaultPoint option \<Rightarrow> TransitionInput \<Rightarrow> string \<Rightarrow> unit store_op" where
  "apply_one C D fault input command_hash =
    sbind (sread (query_case (ti_case_key input))) (\<lambda>found.
    sbind (slift (ok_or found (MissingCase (ti_case_key input)))) (\<lambda>current.
    sbind (sreject_if (sc_state_revision current \<noteq> ti_expected_revision input)
      (StaleRevision (ti_expected_revision input) (sc_state_revision current))) (\<lambda>_.
    sbind (slift (ok_or (checked_add (ti_expected_revision input) 1) InvalidInteger)) (\<lambda>next_revision.
    sbind (guard_event C D current input) (\<lambda>policy_revision.
    sbind (insert_event C (event_record current input command_hash next_revision policy_revision)) (\<lambda>_.
    sbind (inject fault AfterEvent) (\<lambda>_.
    sbind (case ti_run input of
             None \<Rightarrow> sreturn ()
           | Some run \<Rightarrow> insert_run C (ti_case_key input) (ei_event_id (ti_event input))
               (ti_observed_at input) run) (\<lambda>_.
    sbind (inject fault AfterRun) (\<lambda>_.
    sbind (insert_evidence C (ti_case_key input) (ti_observed_at input) (ti_evidence input)) (\<lambda>_.
    sbind (insert_findings C (ti_case_key input) (ei_event_id (ti_event input))
             (ti_observed_at input) (ti_findings input)) (\<lambda>_.
    sbind (inject fault AfterEvidence) (\<lambda>_.
    sbind (project_case input next_revision policy_revision) (\<lambda>updated.
    sbind (sreject_if (updated \<noteq> 1)
      (StaleRevision (ti_expected_revision input) (sc_state_revision current))) (\<lambda>_.
    sbind (inject fault AfterProjection) (\<lambda>_.
    sbind (slift (sql_u64 (ti_observed_at input))) (\<lambda>observed_at.
    sbind (slift (sql_u64 next_revision)) (\<lambda>revision.
    sbind (sread events) (\<lambda>es.
    sbind (update_outbox (superseded_effect es current input revision)
      (supersede observed_at (ei_event_id (ti_event input)))) (\<lambda>_.
    sbind (insert_effects C (ti_case_key input) next_revision (ti_observed_at input)
             (ti_effects input)) (\<lambda>_.
    inject fault AfterOutbox))))))))))))))))))))"

fun apply_all ::
  "codec \<Rightarrow> decoders \<Rightarrow> FaultPoint option \<Rightarrow> (TransitionInput \<times> string) list \<Rightarrow> unit store_op" where
  "apply_all C D fault [] = sreturn ()"
| "apply_all C D fault ((input, command_hash) # rest) =
     sbind (apply_one C D fault input command_hash) (\<lambda>_.
     sbind (if rest \<noteq> [] then inject fault BetweenTransitions else sreturn ()) (\<lambda>_.
     apply_all C D fault rest))"

text \<open>The replay of a batch that is already in the ledger.\<close>

fun replay_all :: "(TransitionInput \<times> string \<times> (string \<times> string)) list \<Rightarrow> StoreError + unit" where
  "replay_all [] = Inr ()"
| "replay_all ((input, command_hash, existing) # rest) =
     rbind (replay_or_conflict existing (ti_case_key input) command_hash
              (ei_event_id (ti_event input))) (\<lambda>_.
     replay_all rest)"

definition apply_transition_batch ::
  "codec \<Rightarrow> decoders \<Rightarrow> TransitionInput list \<Rightarrow> FaultPoint option \<Rightarrow> ApplyResult store_op" where
  "apply_transition_batch C D inputs fault =
    sbind ensure_writable (\<lambda>_.
    case inputs of
      [] \<Rightarrow> sfail (InvalidInput ''at least one consecutive transition is required'')
    | first # _ \<Rightarrow>
    sbind (slift (validate_batch (ti_case_key first) [] None inputs)) (\<lambda>_.
    let command_hashes = map (\<lambda>input. hash_serialized C (TransitionInput_ser input)) inputs in
    sbind (sread (\<lambda>s. map (\<lambda>input. existing_event (ei_event_id (ti_event input)) s) inputs))
      (\<lambda>existing.
    if list_all (\<lambda>x. x \<noteq> None) existing then
      sbind (slift (replay_all (zip inputs (zip command_hashes (map the existing))))) (\<lambda>_.
      sreturn Replayed)
    else case find (\<lambda>(input, x). x \<noteq> None) (zip inputs existing) of
      Some (input, _) \<Rightarrow> sfail (IdempotencyConflict (ei_event_id (ti_event input)))
    | None \<Rightarrow>
        stransaction (
          sbind (apply_all C D fault (zip inputs command_hashes)) (\<lambda>_. sreturn Applied)))))"

definition apply_transition ::
  "codec \<Rightarrow> decoders \<Rightarrow> TransitionInput \<Rightarrow> FaultPoint option \<Rightarrow> ApplyResult store_op" where
  "apply_transition C D input fault = apply_transition_batch C D [input] fault"

section \<open>Reading and repairing\<close>

text \<open>\<open>ORDER BY state_revision DESC LIMIT 1\<close>.\<close>

definition latest_event :: "EventRow list \<Rightarrow> EventRow option" where
  "latest_event es =
     fold (\<lambda>e best. case best of
             None \<Rightarrow> Some e
           | Some b \<Rightarrow> if e_state_revision b < e_state_revision e then Some e else Some b) es None"

definition case_of_event :: "CaseRow \<Rightarrow> EventRow \<Rightarrow> StoredCase" where
  "case_of_event c e =
     \<lparr>sc_case_key = e_case_key e,
      sc_repository_id = unsigned (c_repository_id c),
      sc_issue_number = unsigned (c_issue_number c),
      sc_workflow_version = unsigned32 (c_workflow_version c),
      sc_state = e_next_state e,
      sc_state_revision = unsigned (e_state_revision e),
      sc_policy_revision = unsigned (e_policy_revision e),
      sc_remediation_round = unsigned32 (e_remediation_round e),
      sc_plan_version = unsigned32 (e_plan_version e),
      sc_pr_number = map_option unsigned (e_pr_number e),
      sc_head_sha = e_head_sha e\<rparr>"

definition case_at_revision_limit ::
  "string \<Rightarrow> u64 option \<Rightarrow> Store \<Rightarrow> StoreError + StoredCase option" where
  "case_at_revision_limit case_key revision s =
     rbind (sql_u64_opt revision) (\<lambda>revision.
     Inr (case find_case case_key s of
            None \<Rightarrow> None
          | Some c \<Rightarrow>
              map_option (case_of_event c)
                (latest_event (filter (\<lambda>e. e_case_key e = case_key \<and>
                   (revision = None \<or> revision = Some (e_state_revision e))) (events s)))))"

definition reconstruct_case :: "string \<Rightarrow> Store \<Rightarrow> StoreError + StoredCase option" where
  "reconstruct_case case_key = case_at_revision_limit case_key None"

definition case_at_revision :: "string \<Rightarrow> u64 \<Rightarrow> Store \<Rightarrow> StoreError + StoredCase option" where
  "case_at_revision case_key revision = case_at_revision_limit case_key (Some revision)"

definition projection_matches_history :: "string \<Rightarrow> Store \<Rightarrow> StoreError + bool" where
  "projection_matches_history case_key s =
     rbind (reconstruct_case case_key s) (\<lambda>rebuilt. Inr (query_case case_key s = rebuilt))"

definition repair_case_projection :: "string \<Rightarrow> unit store_op" where
  "repair_case_projection case_key =
    sbind ensure_writable (\<lambda>_.
    sbind (squery (reconstruct_case case_key)) (\<lambda>found.
    sbind (slift (ok_or found (MissingCase case_key))) (\<lambda>rebuilt.
    sbind (slift (sql_u64 (sc_state_revision rebuilt))) (\<lambda>state_revision.
    sbind (slift (sql_u64 (sc_policy_revision rebuilt))) (\<lambda>policy_revision.
    sbind (slift (sql_u64_opt (sc_pr_number rebuilt))) (\<lambda>pr_number.
    sbind (update_cases (\<lambda>r. c_case_key r = case_key)
      (\<lambda>r. r\<lparr>c_state := sc_state rebuilt, c_state_revision := state_revision,
        c_policy_revision := policy_revision,
        c_remediation_round := sql_u32 (sc_remediation_round rebuilt),
        c_plan_version := sql_u32 (sc_plan_version rebuilt), c_pr_number := pr_number,
        c_head_sha := sc_head_sha rebuilt\<rparr>)) (\<lambda>updated.
    sreject_if (updated \<noteq> 1) (MissingCase case_key))))))))"

section \<open>What each part of a transition writes\<close>

lemma insert_run_grows: "steps (grows runs runs_update) (insert_run C k e at run)"
  unfolding insert_run_def
  by (intro runs_table.rows.steps_rules runs_table.steps_insert) (simp add: add_run_def)

lemma insert_evidence_grows: "steps (grows evidence evidence_update) (insert_evidence C k at items)"
  unfolding insert_evidence_def insert_evidence_item_def
  by (intro evidence_table.rows.steps_rules evidence_table.steps_insert) (simp add: add_evidence_def)

lemma insert_findings_grows: "steps (grows findings findings_update) (insert_findings C k e at items)"
  unfolding insert_findings_def insert_finding_def
  by (intro findings_table.rows.steps_rules findings_table.steps_insert) (simp add: add_finding_def)

lemma insert_event_grows: "steps (grows events events_update) (insert_event C r)"
  unfolding insert_event_def
  by (intro events_table.rows.steps_rules events_table.steps_insert) (simp add: add_event_def)

lemma insert_effects_grows: "steps (grows outbox outbox_update) (insert_effects C k n at fx)"
  unfolding insert_effects_def insert_effect_def
  by (intro outbox_table.rows.steps_rules outbox_table.steps_insert) (simp add: add_effect_def)

lemma guard_event_grows: "steps (grows policies policies_update) (guard_event C D current input)"
  unfolding guard_event_def remediation_extension_validate_def Let_def
  by (intro policies_table.rows.steps_rules policies_table.steps_insert) (simp add: add_policy_def)

lemmas part_grows = insert_run_grows insert_evidence_grows insert_findings_grows insert_event_grows
  insert_effects_grows guard_event_grows

text \<open>The rows an event and an effect become.\<close>

definition event_row :: "codec \<Rightarrow> EventRecord \<Rightarrow> EventRow" where
  "event_row C record =
     \<lparr>e_event_id = ei_event_id (er_event record), e_case_key = er_case_key record,
      e_state_revision = uint (er_revision record), e_observed_at = uint (er_observed_at record),
      e_event_type = ei_event_type (er_event record),
      e_payload_json = fst (payload C (ei_payload (er_event record))),
      e_payload_sha256 = snd (payload C (ei_payload (er_event record))),
      e_command_sha256 = er_command_hash record, e_previous_state = er_previous_state record,
      e_next_state = er_next_state record, e_policy_revision = uint (er_policy_revision record),
      e_remediation_round = sql_u32 (er_remediation_round record),
      e_plan_version = sql_u32 (er_plan_version record),
      e_pr_number = map_option uint (er_pr_number record), e_head_sha = er_head_sha record\<rparr>"

definition effect_row :: "codec \<Rightarrow> string \<Rightarrow> u64 \<Rightarrow> u64 \<Rightarrow> EffectInput \<Rightarrow> OutboxRow" where
  "effect_row C case_key revision created_at effect =
     \<lparr>o_effect_id = fx_effect_id effect, o_case_key = case_key, o_state_revision = uint revision,
      o_effect_type = fx_effect_type effect, o_payload_json = fst (payload C (fx_payload effect)),
      o_payload_sha256 = snd (payload C (fx_payload effect)), o_created_at = uint created_at,
      o_lease = None, o_delivered_at = None, o_superseded_at = None,
      o_superseded_by_event_id = None\<rparr>"

text \<open>The integers of an event fit the types they are read back into.\<close>

definition in_range :: "EventRow \<Rightarrow> bool" where
  "in_range e \<longleftrightarrow>
     0 < e_state_revision e \<and> e_state_revision e < 2 ^ 63 \<and>
     0 < e_policy_revision e \<and> e_policy_revision e < 2 ^ 63 \<and>
     0 \<le> e_remediation_round e \<and> e_remediation_round e < 2 ^ 32 \<and>
     0 \<le> e_plan_version e \<and> e_plan_version e < 2 ^ 32 \<and>
     (\<forall>n. e_pr_number e = Some n \<longrightarrow> 0 \<le> n \<and> n < 2 ^ 63)"

lemma insert_event_Inr:
  "insert_event C record s = (Inr u, t) \<Longrightarrow>
     event_allowed s (event_row C record) \<and> in_range (event_row C record) \<and>
     t = s\<lparr>events := events s @ [event_row C record]\<rparr>"
  using uint_bounded [of "er_remediation_round record"] uint_bounded [of "er_plan_version record"]
  by (auto simp: insert_event_def event_row_def add_event_def in_range_def event_allowed_def sql_u32_def)

lemma insert_effects_Inr:
  "insert_effects C k n at effects s = (Inr u, t) \<Longrightarrow>
     t = s\<lparr>outbox := outbox s @ map (effect_row C k n at) effects\<rparr> \<and>
     distinct (map fx_effect_id effects) \<and>
     (\<forall>fx \<in> set effects. \<not> has_effect s (fx_effect_id fx))"
proof (induction effects arbitrary: s)
  case Nil
  then show ?case by (simp add: insert_effects_def)
next
  case (Cons fx effects)
  from Cons.prems obtain s' where one: "insert_effect C k n at fx s = (Inr (), s')"
    and rest: "insert_effects C k n at effects s' = (Inr u, t)"
    by (auto simp: insert_effects_def)
  from one have s': "s' = s\<lparr>outbox := outbox s @ [effect_row C k n at fx]\<rparr>"
    and new: "\<not> has_effect s (fx_effect_id fx)"
    by (auto simp: insert_effect_def add_effect_def effect_row_def effect_allowed_def)
  from Cons.IH [OF rest] s' new show ?case by (auto simp: has_effect_def list_ex_iff effect_row_def)
qed

definition projected :: "TransitionInput \<Rightarrow> u64 \<Rightarrow> u64 \<Rightarrow> CaseRow \<Rightarrow> CaseRow" where
  "projected input next_revision policy_revision r =
     r\<lparr>c_state := ti_next_state input, c_state_revision := uint next_revision,
       c_remediation_round := sql_u32 (ti_remediation_round input),
       c_plan_version := sql_u32 (ti_plan_version input),
       c_pr_number := map_option uint (ti_pr_number input), c_head_sha := ti_head_sha input,
       c_updated_at := uint (ti_observed_at input), c_policy_revision := uint policy_revision\<rparr>"

definition at_revision :: "TransitionInput \<Rightarrow> CaseRow \<Rightarrow> bool" where
  "at_revision input r \<longleftrightarrow>
     c_case_key r = ti_case_key input \<and> c_state_revision r = uint (ti_expected_revision input)"

lemma project_case_Inr:
  "project_case input n p s = (Inr k, t) \<Longrightarrow>
     t = s\<lparr>cases_table := update_rows (at_revision input) (projected input n p) (cases_table s)\<rparr> \<and>
     k = length (filter (at_revision input) (cases_table s))"
  unfolding at_revision_def projected_def by (auto simp: project_case_def sql_update_Inr)

lemma inject_Inr [simp]: "inject fault p s = (Inr u, t) \<longleftrightarrow> fault \<noteq> Some p \<and> t = s"
  by (auto simp: inject_def)

lemma grows_runs: "grows runs runs_update s t \<Longrightarrow> \<exists>rows. t = s\<lparr>runs := rows\<rparr>"
  and grows_evidence: "grows evidence evidence_update s t \<Longrightarrow> \<exists>rows. t = s\<lparr>evidence := rows\<rparr>"
  and grows_findings: "grows findings findings_update s t \<Longrightarrow> \<exists>rows. t = s\<lparr>findings := rows\<rparr>"
  and grows_policies: "grows policies policies_update s t \<Longrightarrow> \<exists>rows. t = s\<lparr>policies := rows\<rparr>"
  unfolding grows_def by blast+

lemma supersede_ids: "map o_effect_id (update_rows sel (supersede a b) rows) = map o_effect_id rows"
  by (rule update_rows_map) (simp add: supersede_def)

text \<open>The whole effect of one applied transition.\<close>

lemma apply_one_Inr:
  assumes "apply_one C D fault input h s = (Inr u, t)"
  obtains c next_revision p pols rs evs fs where
    "find_case (ti_case_key input) s = Some c"
    "checked_add (ti_expected_revision input) 1 = Some next_revision"
    "guard_event C D (stored_case c) input s = (Inr p, s\<lparr>policies := pols\<rparr>)"
    "event_allowed s (event_row C (event_record (stored_case c) input h next_revision p)) \<and>
     in_range (event_row C (event_record (stored_case c) input h next_revision p))"
    "length (filter (at_revision input) (cases_table s)) = 1"
    "\<forall>fx \<in> set (ti_effects input). \<not> has_effect s (fx_effect_id fx)"
    "t = s\<lparr>policies := pols, runs := rs, evidence := evs, findings := fs,
       events := events s @ [event_row C (event_record (stored_case c) input h next_revision p)],
       cases_table := update_rows (at_revision input) (projected input next_revision p) (cases_table s),
       outbox := update_rows
           (superseded_effect
              (events s @ [event_row C (event_record (stored_case c) input h next_revision p)])
              (stored_case c) input (uint next_revision))
           (supersede (uint (ti_observed_at input)) (ei_event_id (ti_event input))) (outbox s) @
         map (effect_row C (ti_case_key input) next_revision (ti_observed_at input))
           (ti_effects input)\<rparr>"
proof -
  from assms obtain c n p s1 s2 s3 s4 s5 s6 where
    c: "find_case (ti_case_key input) s = Some c" and
    n: "checked_add (ti_expected_revision input) 1 = Some n" and
    g: "guard_event C D (stored_case c) input s = (Inr p, s1)" and
    e: "insert_event C (event_record (stored_case c) input h n p) s1 = (Inr (), s2)" and
    r: "(case ti_run input of None \<Rightarrow> sreturn ()
         | Some run \<Rightarrow> insert_run C (ti_case_key input) (ei_event_id (ti_event input))
             (ti_observed_at input) run) s2 = (Inr (), s3)" and
    v: "insert_evidence C (ti_case_key input) (ti_observed_at input) (ti_evidence input) s3 = (Inr (), s4)" and
    f: "insert_findings C (ti_case_key input) (ei_event_id (ti_event input)) (ti_observed_at input)
          (ti_findings input) s4 = (Inr (), s5)" and
    j: "project_case input n p s5 = (Inr (Suc 0), s6)" and
    x: "insert_effects C (ti_case_key input) n (ti_observed_at input) (ti_effects input)
          (outbox_update (update_rows
             (superseded_effect (events s6) (stored_case c) input (uint n))
             (supersede (uint (ti_observed_at input)) (ei_event_id (ti_event input)))) s6) = (Inr (), t)"
    unfolding apply_one_def query_case_def by (auto simp: sql_update_Inr)
  define s7 where "s7 = outbox_update (update_rows
    (superseded_effect (events s6) (stored_case c) input (uint n))
    (supersede (uint (ti_observed_at input)) (ei_event_id (ti_event input)))) s6"
  note x = x [folded s7_def] and s7 = s7_def
  let ?e = "event_row C (event_record (stored_case c) input h n p)"
  from stepsD [OF guard_event_grows g] obtain pols where s1: "s1 = s\<lparr>policies := pols\<rparr>"
    using grows_policies by blast
  from insert_event_Inr [OF e] have allowed: "event_allowed s ?e \<and> in_range ?e"
    and s2: "s2 = s1\<lparr>events := events s @ [?e]\<rparr>"
    by (auto simp: s1 event_allowed_def has_case_def has_event_def)
  obtain rs where s3: "s3 = s2\<lparr>runs := rs\<rparr>"
  proof (cases "ti_run input")
    case None
    with r have "s3 = s2\<lparr>runs := runs s2\<rparr>" by simp
    then show ?thesis by (rule that)
  next
    case (Some run)
    with r show ?thesis using that grows_runs stepsD [OF insert_run_grows] by fastforce
  qed
  from stepsD [OF insert_evidence_grows v] obtain evs where s4: "s4 = s3\<lparr>evidence := evs\<rparr>"
    using grows_evidence by blast
  from stepsD [OF insert_findings_grows f] obtain fs where s5: "s5 = s4\<lparr>findings := fs\<rparr>"
    using grows_findings by blast
  from project_case_Inr [OF j] have
    s6: "s6 = s5\<lparr>cases_table := update_rows (at_revision input) (projected input n p) (cases_table s)\<rparr>"
    and one: "length (filter (at_revision input) (cases_table s)) = 1"
    by (simp_all add: s1 s2 s3 s4 s5)
  have same_ids: "has_effect s7 i \<longleftrightarrow> has_effect s i" for i
    unfolding has_effect_ids s7 by (simp add: supersede_ids s1 s2 s3 s4 s5 s6 del: set_map)
  from insert_effects_Inr [OF x] have
    t: "t = s7\<lparr>outbox := outbox s7 @
      map (effect_row C (ti_case_key input) n (ti_observed_at input)) (ti_effects input)\<rparr>"
    and fresh: "\<forall>fx \<in> set (ti_effects input). \<not> has_effect s (fx_effect_id fx)"
    by (simp_all add: same_ids)
  show ?thesis
    by (rule that [of c n p pols fs evs rs, OF c n g [unfolded s1] allowed one fresh])
      (simp add: t s1 s2 s3 s4 s5 s6 s7)
qed

section \<open>The projection is the history\<close>

definition history :: "string \<Rightarrow> Store \<Rightarrow> EventRow list" where
  "history case_key s = filter (\<lambda>e. e_case_key e = case_key) (events s)"

text \<open>The columns that the projection row of a case shares with its latest event.\<close>

definition projects :: "EventRow \<Rightarrow> CaseRow \<Rightarrow> bool" where
  "projects e c \<longleftrightarrow>
     c_state c = e_next_state e \<and> c_state_revision c = e_state_revision e \<and>
     c_policy_revision c = e_policy_revision e \<and> c_remediation_round c = e_remediation_round e \<and>
     c_plan_version c = e_plan_version e \<and> c_pr_number c = e_pr_number e \<and>
     c_head_sha c = e_head_sha e"

text \<open>Each event starts in the state in which the one before it ended.\<close>

fun linked :: "string option \<Rightarrow> EventRow list \<Rightarrow> bool" where
  "linked start [] = True"
| "linked start (e # es) = (e_previous_state e = start \<and> linked (Some (e_next_state e)) es)"

definition complete_history :: "EventRow list \<Rightarrow> bool" where
  "complete_history h \<longleftrightarrow>
     h \<noteq> [] \<and> map e_state_revision h = map int [1..<Suc (length h)] \<and> linked None h"

text \<open>What holds of the events whatever the projection says, and what holds of the projection.\<close>

definition history_inv :: "Store \<Rightarrow> bool" where
  "history_inv s \<longleftrightarrow>
     distinct (map c_case_key (cases_table s)) \<and> distinct (map e_event_id (events s)) \<and>
     (\<forall>e \<in> set (events s). has_case s (e_case_key e) \<and> in_range e) \<and>
     (\<forall>c \<in> set (cases_table s). complete_history (history (c_case_key c) s))"

definition ledger_inv :: "Store \<Rightarrow> bool" where
  "ledger_inv s \<longleftrightarrow> history_inv s \<and>
     (\<forall>c \<in> set (cases_table s). projects (last (history (c_case_key c) s)) c)"

lemma linked_snoc:
  "linked start (es @ [e]) \<longleftrightarrow>
     linked start es \<and>
     e_previous_state e = (if es = [] then start else Some (e_next_state (last es)))"
  by (induction start es rule: linked.induct) auto

lemma find_case_iff:
  "distinct (map c_case_key (cases_table s)) \<Longrightarrow>
     find_case k s = Some c \<longleftrightarrow> c \<in> set (cases_table s) \<and> c_case_key c = k"
  by (simp add: find_case_def find_unique)

lemma history_snoc:
  "history k (s\<lparr>events := events s @ [e]\<rparr>) =
     (if e_case_key e = k then history k s @ [e] else history k s)"
  by (simp add: history_def)

lemma complete_history_revision:
  "complete_history h \<Longrightarrow> e_state_revision (last h) = int (length h)"
proof -
  assume h: "complete_history h"
  then have "h \<noteq> []" and revs: "map e_state_revision h = map int [1..<Suc (length h)]"
    by (auto simp: complete_history_def)
  from \<open>h \<noteq> []\<close> have "e_state_revision (last h) = last (map e_state_revision h)" by (simp add: last_map)
  also have "\<dots> = int (length h)" using \<open>h \<noteq> []\<close> by (simp add: revs last_map Suc_le_eq)
  finally show ?thesis .
qed

lemma complete_history_snoc:
  assumes "complete_history h" "e_state_revision e = e_state_revision (last h) + 1"
    "e_previous_state e = Some (e_next_state (last h))"
  shows "complete_history (h @ [e])"
  using assms complete_history_revision [OF assms(1)]
  by (simp add: complete_history_def linked_snoc)

lemma at_revision_projects:
  assumes "checked_add (ti_expected_revision input) 1 = Some n" "at_revision input c"
  shows "projects (event_row C (event_record cur input h n p)) (projected input n p c) \<and>
    uint n = c_state_revision c + 1"
proof -
  have "uint n = uint (ti_expected_revision input) + 1"
    by (rule checked_add_uint [OF assms(1)])
  then show ?thesis
    using assms(2) by (simp add: projects_def event_row_def event_record_def projected_def at_revision_def)
qed

lemma projected_keys:
  "map c_case_key (update_rows sel (projected input n p) rows) = map c_case_key rows"
  by (rule update_rows_map) (simp add: projected_def)

text \<open>The row that a transition updates is the row of its case.\<close>

lemma updated_row:
  assumes "distinct (map c_case_key (cases_table s))" "find_case (ti_case_key input) s = Some c"
    and "length (filter (at_revision input) (cases_table s)) = 1"
  shows "at_revision input c \<and>
    (\<forall>r \<in> set (cases_table s). c_case_key r = ti_case_key input \<longrightarrow> r = c)"
proof -
  have only: "r = c" if "r \<in> set (cases_table s)" "c_case_key r = ti_case_key input" for r
    using that assms(1,2) find_case_iff [OF assms(1)] by (metis option.inject)
  from assms(3) have "filter (at_revision input) (cases_table s) \<noteq> []" by auto
  then obtain r where "r \<in> set (cases_table s)" "at_revision input r" by (auto simp: filter_empty_conv)
  with only show ?thesis by (auto simp: at_revision_def)
qed

lemma apply_one_inv:
  assumes inv: "ledger_inv s" and run: "apply_one C D fault input h s = (Inr u, t)"
  shows "ledger_inv t"
  using run
proof (cases rule: apply_one_Inr)
  case (1 c n p pols rs evs fs)
  let ?e = "event_row C (event_record (stored_case c) input h n p)"
  have keys: "distinct (map c_case_key (cases_table s))"
    using inv by (simp add: ledger_inv_def history_inv_def)
  note row = updated_row [OF keys 1(1) 1(5)]
  have cases: "cases_table t = update_rows (at_revision input) (projected input n p) (cases_table s)"
    and events: "events t = events s @ [?e]" using 1(7) by simp_all
  have e: "e_case_key ?e = ti_case_key input" "e_previous_state ?e = Some (c_state c)"
    "e_state_revision ?e = uint n"
    by (simp_all add: event_row_def event_record_def stored_case_def)
  have "distinct (map c_case_key (cases_table t))" using keys by (simp add: cases projected_keys)
  moreover have "distinct (map e_event_id (events t))"
    using inv 1(4) by (auto simp: ledger_inv_def history_inv_def events event_allowed_def has_event_ids)
  moreover have "has_case t k \<longleftrightarrow> has_case s k" for k
    unfolding has_case_keys cases projected_keys ..
  then have "\<forall>e \<in> set (events t). has_case t (e_case_key e) \<and> in_range e"
    using inv 1(4) by (auto simp: ledger_inv_def history_inv_def events event_allowed_def)
  moreover have "complete_history (history (c_case_key c') t) \<and>
      projects (last (history (c_case_key c') t)) c'" if "c' \<in> set (cases_table t)" for c'
  proof -
    from that obtain c0 where c0: "c0 \<in> set (cases_table s)"
      "c' = (if at_revision input c0 then projected input n p c0 else c0)"
      by (auto simp: cases update_rows_set)
    have hist: "history k t = (if k = ti_case_key input then history k s @ [?e] else history k s)" for k
      using e(1) by (simp add: history_def events)
    have old: "complete_history (history (c_case_key c0) s)" "projects (last (history (c_case_key c0) s)) c0"
      using inv c0(1) by (simp_all add: ledger_inv_def history_inv_def)
    show ?thesis
    proof (cases "c_case_key c0 = ti_case_key input")
      case True
      with row c0 have same: "c0 = c" and at: "at_revision input c" by auto
      then have c': "c' = projected input n p c" using c0 by simp
      have "complete_history (history (ti_case_key input) s @ [?e])"
        by (rule complete_history_snoc)
          (use old True same at_revision_projects [OF 1(2) at] e in \<open>auto simp: projects_def\<close>)
      moreover have "projects ?e c'" using at_revision_projects [OF 1(2) at] by (simp add: c')
      moreover have "c_case_key c' = ti_case_key input" using True by (simp add: c' same projected_def)
      ultimately show ?thesis by (simp add: hist)
    next
      case False
      then have "c' = c0" using c0 by (simp add: at_revision_def)
      with False old show ?thesis by (simp add: hist)
    qed
  qed
  ultimately show ?thesis by (simp add: ledger_inv_def history_inv_def)
qed

lemma apply_all_inv: "ledger_inv s \<Longrightarrow> apply_all C D fault xs s = (Inr u, t) \<Longrightarrow> ledger_inv t"
  by (induction C D fault xs arbitrary: s rule: apply_all.induct)
    (auto split: if_splits dest: apply_one_inv)

lemma apply_transition_batch_Inr:
  "apply_transition_batch C D inputs fault s = (Inr r, t) \<Longrightarrow>
     r = Replayed \<and> t = s \<or>
     r = Applied \<and> apply_all C D fault
       (zip inputs (map (\<lambda>input. hash_serialized C (TransitionInput_ser input)) inputs)) s = (Inr (), t)"
  by (auto simp: apply_transition_batch_def Let_def split: list.splits if_splits option.splits prod.splits)

lemma apply_transition_batch_inv:
  assumes "ledger_inv s" "apply_transition_batch C D inputs fault s = (Inr r, t)"
  shows "ledger_inv t"
  using apply_transition_batch_Inr [OF assms(2)] assms(1) apply_all_inv [OF assms(1)] by blast

lemma apply_transition_batch_atomic: "satomic (apply_transition_batch C D inputs fault)"
  unfolding apply_transition_batch_def Let_def
  by (intro satomic_bind sreadonly_basic ensure_writable_readonly) (auto simp: satomic_def sbind_Inl stransaction_Inl
      split: list.splits option.splits prod.splits if_splits)

lemma create_case_inv:
  assumes inv: "ledger_inv s" and run: "create_case C input s = (Inr r, t)"
  shows "ledger_inv t"
proof (cases "existing_event (ei_event_id (nc_event input)) s")
  case (Some found)
  with run have "t = s" by (auto simp: create_case_def Let_def)
  with inv show ?thesis by simp
next
  case None
  let ?c = "\<lparr>c_case_key = nc_case_key input, c_repository_id = uint (nc_repository_id input),
    c_issue_number = uint (nc_issue_number input), c_workflow_version = sql_u32 (nc_workflow_version input),
    c_state = nc_initial_state input, c_state_revision = 1,
    c_policy_revision = uint (nc_policy_revision input), c_remediation_round = 0, c_plan_version = 0,
    c_pr_number = None, c_head_sha = None, c_created_at = uint (nc_observed_at input),
    c_updated_at = uint (nc_observed_at input)\<rparr>"
  let ?er = "\<lparr>er_case_key = nc_case_key input, er_revision = 1, er_observed_at = nc_observed_at input,
    er_event = nc_event input, er_command_hash = hash_serialized C (NewCase_ser input),
    er_previous_state = None, er_next_state = nc_initial_state input,
    er_policy_revision = nc_policy_revision input, er_remediation_round = 0, er_plan_version = 0,
    er_pr_number = None, er_head_sha = None\<rparr>"
  from run None obtain s2 where allowed: "case_allowed s ?c"
    and e: "insert_event C ?er (add_case ?c s) = (Inr (), s2)"
    and x: "insert_effects C (nc_case_key input) 1 (nc_observed_at input) (nc_effects input) s2 = (Inr (), t)"
    by (auto simp: create_case_def Let_def)
  have ev: "event_allowed (add_case ?c s) (event_row C ?er)" "in_range (event_row C ?er)"
    "s2 = (add_case ?c s)\<lparr>events := events s @ [event_row C ?er]\<rparr>"
    using insert_event_Inr [OF e] by (simp_all add: add_case_def)
  have cases: "cases_table t = cases_table s @ [?c]" and events: "events t = events s @ [event_row C ?er]"
    using insert_effects_Inr [OF x] ev(3) by (simp_all add: add_case_def)
  have new: "\<not> has_case s (nc_case_key input)" using allowed by (simp add: case_allowed_def)
  have none: "history (nc_case_key input) s = []"
    using inv new by (auto simp: history_def ledger_inv_def history_inv_def filter_empty_conv)
  have hist: "history k t = (if k = nc_case_key input then [event_row C ?er] else history k s)" for k
    using none by (auto simp: history_def events event_row_def)
  have key: "has_case t k \<longleftrightarrow> has_case s k \<or> k = nc_case_key input" for k
    by (auto simp: has_case_def cases)
  have "distinct (map c_case_key (cases_table t))"
    using inv new by (auto simp: cases ledger_inv_def history_inv_def has_case_keys)
  moreover have "distinct (map e_event_id (events t))"
    using inv ev(1) by (auto simp: events ledger_inv_def history_inv_def event_allowed_def has_event_ids
        add_case_def)
  moreover have "\<forall>e \<in> set (events t). has_case t (e_case_key e) \<and> in_range e"
    using inv ev(2) by (auto simp: events key ledger_inv_def history_inv_def event_row_def)
  moreover have "complete_history [event_row C ?er]" "projects (event_row C ?er) ?c"
    by (simp_all add: complete_history_def projects_def event_row_def sql_u32_def)
  moreover have "c_case_key c \<noteq> nc_case_key input" if "c \<in> set (cases_table s)" for c
    using new that by (auto simp: has_case_def list_ex_iff)
  ultimately show ?thesis
    using inv by (auto simp: ledger_inv_def history_inv_def hist cases)
qed

lemma create_case_atomic: "satomic (create_case C input)"
  unfolding create_case_def Let_def
  by (intro satomic_bind sreadonly_basic ensure_writable_readonly) (auto split: option.splits)

lemma latest_event_snoc:
  "latest_event (es @ [e]) =
     (case latest_event es of
        None \<Rightarrow> Some e
      | Some b \<Rightarrow> if e_state_revision b < e_state_revision e then Some e else Some b)"
  by (simp add: latest_event_def)

lemma latest_event_increasing:
  "sorted_wrt (<) (map e_state_revision es) \<Longrightarrow>
     latest_event es = (if es = [] then None else Some (last es))"
proof (induction es rule: rev_induct)
  case Nil
  then show ?case by (simp add: latest_event_def)
next
  case (snoc e es)
  then have "latest_event es = (if es = [] then None else Some (last es))"
    and "es \<noteq> [] \<Longrightarrow> e_state_revision (last es) < e_state_revision e"
    by (simp_all add: sorted_wrt_append)
  then show ?case by (simp add: latest_event_snoc)
qed

lemma complete_history_latest: "complete_history h \<Longrightarrow> latest_event h = Some (last h)"
proof -
  assume h: "complete_history h"
  have "sorted_wrt (<) (map int [1..<n])" for n
    by (simp add: sorted_wrt_map)
  with h show ?thesis
    using latest_event_increasing [of h] unfolding complete_history_def by (metis (no_types))
qed

lemma reconstruct_case_history:
  assumes "history_inv s"
  shows "reconstruct_case k s =
    Inr (map_option (\<lambda>c. case_of_event c (last (history k s))) (find_case k s))"
proof (cases "find_case k s")
  case None
  then show ?thesis by (simp add: reconstruct_case_def case_at_revision_limit_def)
next
  case (Some c)
  then have "complete_history (history k s)"
    using assms by (auto simp: history_inv_def find_case_iff)
  then have "latest_event (history k s) = Some (last (history k s))" by (rule complete_history_latest)
  with Some show ?thesis
    by (simp add: reconstruct_case_def case_at_revision_limit_def flip: history_def)
qed

lemma history_case_key: "history k s \<noteq> [] \<Longrightarrow> e_case_key (last (history k s)) = k"
  using last_in_set [of "history k s"] by (simp add: history_def)

lemma projects_case: "projects e c \<Longrightarrow> e_case_key e = c_case_key c \<Longrightarrow> case_of_event c e = stored_case c"
  by (simp add: projects_def case_of_event_def stored_case_def)

lemma projection_matches:
  assumes "ledger_inv s"
  shows "projection_matches_history k s = Inr True"
proof -
  have inv: "history_inv s" using assms by (simp add: ledger_inv_def)
  have "case_of_event c (last (history k s)) = stored_case c" if "find_case k s = Some c" for c
  proof -
    have c: "c \<in> set (cases_table s)" "c_case_key c = k"
      using that inv by (auto simp: history_inv_def find_case_iff)
    have "history k s \<noteq> []" using inv c by (auto simp: history_inv_def complete_history_def)
    then have "e_case_key (last (history k s)) = c_case_key c" using c by (simp add: history_case_key)
    moreover have "projects (last (history k s)) c" using assms c by (auto simp: ledger_inv_def)
    ultimately show ?thesis by (intro projects_case)
  qed
  then show ?thesis
    by (cases "find_case k s")
      (simp_all add: projection_matches_history_def reconstruct_case_history [OF inv] query_case_def)
qed

section \<open>Repair\<close>

definition repaired :: "EventRow \<Rightarrow> CaseRow \<Rightarrow> CaseRow" where
  "repaired e r =
     r\<lparr>c_state := e_next_state e, c_state_revision := e_state_revision e,
       c_policy_revision := e_policy_revision e, c_remediation_round := e_remediation_round e,
       c_plan_version := e_plan_version e, c_pr_number := e_pr_number e, c_head_sha := e_head_sha e\<rparr>"

lemma uint_unsigned: "0 \<le> v \<Longrightarrow> v < 2 ^ 63 \<Longrightarrow> uint (unsigned v) = v"
  by (simp add: unsigned_def uint_word_of_int take_bit_int_eq_self)

lemma sql_u32_unsigned32: "0 \<le> v \<Longrightarrow> v < 2 ^ 32 \<Longrightarrow> sql_u32 (unsigned32 v) = v"
  by (simp add: unsigned32_def sql_u32_def uint_word_of_int take_bit_int_eq_self)

lemma repair_run:
  assumes inv: "history_inv s" and c: "find_case k s = Some c" and w: "\<not> read_only s"
  shows "repair_case_projection k s =
    (Inr (), cases_table_update (update_rows (\<lambda>r. c_case_key r = k)
       (repaired (last (history k s)))) s)"
proof -
  let ?e = "last (history k s)"
  have in_c: "c \<in> set (cases_table s)" "c_case_key c = k" and keys: "distinct (map c_case_key (cases_table s))"
    using inv c by (auto simp: history_inv_def find_case_iff)
  have "history k s \<noteq> []" using inv in_c by (auto simp: history_inv_def complete_history_def)
  then have "?e \<in> set (events s)" using last_in_set [of "history k s"] by (simp add: history_def)
  then have range: "in_range ?e" using inv by (simp add: history_inv_def)
  have "length (filter (\<lambda>r. c_case_key r = k) (cases_table s)) = 1"
    using filter_key [OF keys in_c(1)] in_c(2) by simp
  moreover have "sql_u64 (sc_state_revision (case_of_event c ?e)) = Inr (e_state_revision ?e)"
    "sql_u64 (sc_policy_revision (case_of_event c ?e)) = Inr (e_policy_revision ?e)"
    "sql_u64_opt (sc_pr_number (case_of_event c ?e)) = Inr (e_pr_number ?e)"
    "sql_u32 (sc_remediation_round (case_of_event c ?e)) = e_remediation_round ?e"
    "sql_u32 (sc_plan_version (case_of_event c ?e)) = e_plan_version ?e"
    "sc_state (case_of_event c ?e) = e_next_state ?e" "sc_head_sha (case_of_event c ?e) = e_head_sha ?e"
    using range by (auto simp: case_of_event_def in_range_def uint_unsigned sql_u32_unsigned32
        option.map_comp comp_def intro!: option.map_ident_strong [symmetric])
  ultimately show ?thesis
    using c w range
    by (simp add: repair_case_projection_def reconstruct_case_history [OF inv] sql_update_Inr
        repaired_def [abs_def] case_checks_def in_range_def list_all_iff
        del: sql_u64_Inr sql_u64_opt_Inr)
qed

text \<open>C3: repair restores the projection of a case from its events, whatever the projection row had
  become. On a writable ledger whose events are intact it always succeeds, afterwards the case
  reads exactly as its history says, and nothing but the row of this case is touched.\<close>

theorem repair_restores:
  assumes "history_inv s" "has_case s k" "\<not> read_only s"
  shows "\<exists>t. repair_case_projection k s = (Inr (), t) \<and> projection_matches_history k t = Inr True \<and>
    t = s\<lparr>cases_table := cases_table t\<rparr> \<and> (\<forall>j. j \<noteq> k \<longrightarrow> query_case j t = query_case j s)"
proof -
  obtain c where c: "find_case k s = Some c"
    using assms(2) by (cases "find_case k s") (auto simp: has_case_keys find_case_def find_key_None)
  let ?f = "update_rows (\<lambda>r. c_case_key r = k) (repaired (last (history k s)))"
  define t where "t = cases_table_update ?f s"
  have keys: "map c_case_key (?f rows) = map c_case_key rows" for rows
    by (rule update_rows_map) (simp add: repaired_def)
  have same: "events t = events s" "history j t = history j s" for j
    by (simp_all add: t_def history_def)
  have key_of: "c_case_key (repaired e r) = c_case_key r" for e r by (simp add: repaired_def)
  have cases: "cases_table t = ?f (cases_table s)" by (simp add: t_def)
  have inv: "history_inv t"
    using assms(1) by (auto simp: history_inv_def same has_case_keys cases keys update_rows_set key_of
        simp del: set_map)
  have find: "find_case j t = (if j = k then Some (repaired (last (history k s)) c) else find_case j s)" for j
    using c by (simp add: find_case_def t_def find_update_rows key_of)
  have c_key: "c_case_key c = k" using c by (auto simp: find_case_def find_Some_iff)
  have in_c: "c \<in> set (cases_table s)" using c assms(1) by (auto simp: history_inv_def find_case_iff)
  have "history k s \<noteq> []" using assms(1) in_c c_key by (auto simp: history_inv_def complete_history_def)
  then have e_key: "e_case_key (last (history k s)) = k" by (rule history_case_key)
  have "case_of_event (repaired (last (history k s)) c) (last (history k s)) =
      stored_case (repaired (last (history k s)) c)"
    by (rule projects_case) (simp_all add: projects_def repaired_def e_key c_key)
  then have "projection_matches_history k t = Inr True"
    by (simp add: projection_matches_history_def reconstruct_case_history [OF inv] query_case_def find same)
  moreover have "t = s\<lparr>cases_table := cases_table t\<rparr>" by (simp add: t_def)
  moreover have "query_case j t = query_case j s" if "j \<noteq> k" for j
    using that by (simp add: query_case_def find)
  ultimately show ?thesis using repair_run [OF assms(1) c assms(3)] by (auto simp: t_def)
qed

lemma ledger_inv_empty: "ledger_inv empty_store"
  by (simp add: ledger_inv_def history_inv_def empty_store_def)

lemma repaired_projects: "projects e c \<Longrightarrow> repaired e c = c"
  by (simp add: projects_def repaired_def)

text \<open>On a consistent ledger repair changes nothing.\<close>

lemma repair_consistent:
  assumes "ledger_inv s" "repair_case_projection k s = (r, t)"
  shows "t = s"
proof (cases "read_only s \<or> find_case k s = None")
  case True
  have inv: "history_inv s" using assms(1) by (simp add: ledger_inv_def)
  have "repair_case_projection k s = (Inl (if read_only s then ReadOnly else MissingCase k), s)"
    using True
    by (auto simp: repair_case_projection_def sbind_Inl reconstruct_case_history [OF inv])
  with assms(2) show ?thesis by simp
next
  case False
  then obtain c where c: "find_case k s = Some c" and w: "\<not> read_only s" by auto
  have inv: "history_inv s" using assms(1) by (simp add: ledger_inv_def)
  have "repaired (last (history k s)) x = x" if "x \<in> set (cases_table s)" "c_case_key x = k" for x
    using assms(1) that by (intro repaired_projects) (auto simp: ledger_inv_def)
  then have "update_rows (\<lambda>r. c_case_key r = k) (repaired (last (history k s))) (cases_table s) = cases_table s"
    by (auto simp: update_rows_def intro!: map_idI)
  then have "cases_table_update (update_rows (\<lambda>r. c_case_key r = k) (repaired (last (history k s)))) s = s"
    by (cases s) simp
  with repair_run [OF inv c w] assms(2) show ?thesis by simp
qed

section \<open>Replay\<close>

definition recorded :: "Store \<Rightarrow> TransitionInput \<Rightarrow> string \<Rightarrow> bool" where
  "recorded s input h \<longleftrightarrow>
     (\<exists>e \<in> set (events s). e_event_id e = ei_event_id (ti_event input) \<and>
        e_case_key e = ti_case_key input \<and> e_command_sha256 e = h)"

lemma recorded_mono: "recorded s input h \<Longrightarrow> prefix (events s) (events t) \<Longrightarrow> recorded t input h"
  unfolding recorded_def by (meson set_mono_prefix subsetD)

lemma apply_one_records:
  assumes "apply_one C D fault input h s = (Inr u, t)"
  shows "recorded t input h \<and> prefix (events s) (events t)"
  using assms
proof (cases rule: apply_one_Inr)
  case (1 c n p pols rs evs fs)
  then show ?thesis
    by (simp add: recorded_def event_row_def event_record_def)
qed

lemma apply_all_records:
  "apply_all C D fault xs s = (Inr u, t) \<Longrightarrow>
     (\<forall>(input, h) \<in> set xs. recorded t input h) \<and> prefix (events s) (events t)"
proof (induction C D fault xs arbitrary: s rule: apply_all.induct)
  case (1 C D fault)
  then show ?case by simp
next
  case (2 C D fault input h rest)
  then obtain s' where one: "apply_one C D fault input h s = (Inr (), s')"
    and rest: "apply_all C D fault rest s' = (Inr u, t)" by (auto split: if_splits)
  from apply_one_records [OF one] "2.IH" [OF rest] show ?case
    by (auto intro: recorded_mono prefix_order.trans)
qed

lemma existing_event_recorded:
  assumes "distinct (map e_event_id (events s))"
  shows "existing_event (ei_event_id (ti_event input)) s = Some (ti_case_key input, h) \<longleftrightarrow>
    recorded s input h"
  unfolding existing_event_def recorded_def
  using find_unique [OF assms, of "ei_event_id (ti_event input)"] by auto

lemma replay_all_recorded:
  "replay_all (zip inputs (zip hs found)) = Inr () \<Longrightarrow> length hs = length inputs \<Longrightarrow>
     length found = length inputs \<Longrightarrow>
     found = map (\<lambda>(input, h). (ti_case_key input, h)) (zip inputs hs)"
proof (induction inputs arbitrary: hs found)
  case Nil
  then show ?case by simp
next
  case (Cons input inputs)
  then obtain h hs' x found' where "hs = h # hs'" "found = x # found'"
    by (cases hs; cases found) auto
  with Cons show ?case by (auto simp: replay_or_conflict_def prod_eq_iff split: if_splits)
qed

lemma replay_all_ok:
  "length hs = length inputs \<Longrightarrow>
     replay_all (zip inputs (zip hs (map (\<lambda>(input, h). (ti_case_key input, h)) (zip inputs hs)))) = Inr ()"
proof (induction inputs arbitrary: hs)
  case Nil
  then show ?case by simp
next
  case (Cons input inputs)
  then show ?case by (cases hs) (auto simp: replay_or_conflict_def)
qed

abbreviation command_hashes :: "codec \<Rightarrow> TransitionInput list \<Rightarrow> string list" where
  "command_hashes C inputs \<equiv> map (\<lambda>input. hash_serialized C (TransitionInput_ser input)) inputs"

lemma batch_recorded:
  assumes "apply_transition_batch C D inputs fault s = (Inr r, t)"
  shows "inputs \<noteq> [] \<and> validate_batch (ti_case_key (hd inputs)) [] None inputs = Inr () \<and>
    (\<forall>input \<in> set inputs. recorded t input (hash_serialized C (TransitionInput_ser input)))"
proof -
  obtain first rest where inputs: "inputs = first # rest"
    using assms by (cases inputs) (auto simp: apply_transition_batch_def)
  have valid: "validate_batch (ti_case_key first) [] None inputs = Inr ()"
    using assms by (simp add: apply_transition_batch_def inputs Let_def)
  consider "r = Replayed" "t = s" | "apply_all C D fault (zip inputs (command_hashes C inputs)) s = (Inr (), t)"
    using apply_transition_batch_Inr [OF assms] by blast
  then have "\<forall>input \<in> set inputs. recorded t input (hash_serialized C (TransitionInput_ser input))"
  proof cases
    case 1
    let ?found = "map (\<lambda>input. existing_event (ei_event_id (ti_event input)) s) inputs"
    from assms 1 have some: "list_all (\<lambda>x. x \<noteq> None) ?found"
      and "replay_all (zip inputs (zip (command_hashes C inputs) (map the ?found))) = Inr ()"
      by (auto simp: apply_transition_batch_def inputs Let_def split: if_splits option.splits prod.splits)
    then have "map the ?found = map (\<lambda>(input, h). (ti_case_key input, h)) (zip inputs (command_hashes C inputs))"
      by (intro replay_all_recorded) simp_all
    then have the: "the (existing_event (ei_event_id (ti_event input)) s) =
        (ti_case_key input, hash_serialized C (TransitionInput_ser input))" if "input \<in> set inputs" for input
      using that by (auto simp: zip_map2 zip_same_conv_map)
    have "existing_event (ei_event_id (ti_event input)) s =
        Some (ti_case_key input, hash_serialized C (TransitionInput_ser input))" if "input \<in> set inputs" for input
      using the [OF that] some that by (auto simp: list_all_iff)
    then show ?thesis
      by (fastforce simp: 1 recorded_def existing_event_def find_Some_iff)
  next
    case 2
    from apply_all_records [OF this] show ?thesis by (auto simp: zip_map2 zip_same_conv_map)
  qed
  with valid inputs show ?thesis by simp
qed

lemma apply_transition_batch_nonempty:
  "inputs \<noteq> [] \<Longrightarrow> apply_transition_batch C D inputs fault =
    sbind ensure_writable (\<lambda>_.
    sbind (slift (validate_batch (ti_case_key (hd inputs)) [] None inputs)) (\<lambda>_.
    sbind (sread (\<lambda>s. map (\<lambda>input. existing_event (ei_event_id (ti_event input)) s) inputs)) (\<lambda>existing.
    if list_all (\<lambda>x. x \<noteq> None) existing then
      sbind (slift (replay_all (zip inputs (zip (command_hashes C inputs) (map the existing))))) (\<lambda>_.
      sreturn Replayed)
    else case find (\<lambda>(input, x). x \<noteq> None) (zip inputs existing) of
      Some (input, _) \<Rightarrow> sfail (IdempotencyConflict (ei_event_id (ti_event input)))
    | None \<Rightarrow> stransaction (sbind (apply_all C D fault (zip inputs (command_hashes C inputs)))
        (\<lambda>_. sreturn Applied)))))"
  unfolding apply_transition_batch_def Let_def
  by (cases inputs) (simp_all only: list.case list.sel simp_thms)

lemma recorded_replays:
  assumes "inputs \<noteq> []" "validate_batch (ti_case_key (hd inputs)) [] None inputs = Inr ()"
    and "\<forall>input \<in> set inputs. recorded s input (hash_serialized C (TransitionInput_ser input))"
    and "distinct (map e_event_id (events s))" "\<not> read_only s"
  shows "apply_transition_batch C D inputs fault s = (Inr Replayed, s)"
proof -
  have found: "map (\<lambda>input. existing_event (ei_event_id (ti_event input)) s) inputs =
      map (\<lambda>input. Some (ti_case_key input, hash_serialized C (TransitionInput_ser input))) inputs"
    using assms(3) existing_event_recorded [OF assms(4)] by simp
  have zip: "zip inputs (zip (command_hashes C inputs)
      (map (\<lambda>input. (ti_case_key input, hash_serialized C (TransitionInput_ser input))) inputs)) =
    zip inputs (zip (command_hashes C inputs)
      (map (\<lambda>(input, h). (ti_case_key input, h)) (zip inputs (command_hashes C inputs))))"
    by (simp add: zip_map2 zip_same_conv_map)
  have ok: "replay_all (zip inputs (zip (command_hashes C inputs)
      (map (\<lambda>input. (ti_case_key input, hash_serialized C (TransitionInput_ser input))) inputs))) = Inr ()"
    unfolding zip by (rule replay_all_ok) simp
  have some: "list_all (\<lambda>x. x \<noteq> None) (map (\<lambda>input. Some (ti_case_key input,
      hash_serialized C (TransitionInput_ser input))) inputs)" by (simp add: list_all_iff)
  show ?thesis
    unfolding apply_transition_batch_nonempty [OF assms(1)] sbind_writable [OF assms(5)] assms(2)
      sbind_slift sbind_sread found
    by (simp only: some if_True) (simp add: comp_def ok)
qed

text \<open>C1: applying a batch of transitions is idempotent. Once the batch has been applied (or found
  applied), applying the very same batch again reports a replay and changes nothing, then and in
  every later state of the ledger, whatever was appended in between.\<close>

theorem batch_idempotent:
  assumes "apply_transition_batch C D inputs fault s = (Inr r, t)"
    and "prefix (events t) (events t')" "distinct (map e_event_id (events t'))" "\<not> read_only t'"
  shows "apply_transition_batch C D inputs fault' t' = (Inr Replayed, t')"
  using batch_recorded [OF assms(1)] assms(2-4)
  by (intro recorded_replays) (auto intro: recorded_mono)

section \<open>Append only\<close>

lemma insert_event_append_only: "steps append_only (insert_event C r)"
  unfolding insert_event_def by (intro append_only_intros)

lemma insert_effects_append_only: "steps append_only (insert_effects C k n at fx)"
  unfolding insert_effects_def insert_effect_def by (intro append_only_intros)

lemma insert_evidence_append_only: "steps append_only (insert_evidence C k at items)"
  unfolding insert_evidence_def insert_evidence_item_def by (intro append_only_intros)

lemma create_case_append_only: "steps append_only (create_case C input)"
  unfolding create_case_def Let_def ensure_writable_def
  by (intro append_only_intros insert_event_append_only insert_effects_append_only)

lemma guard_event_append_only: "steps append_only (guard_event C D current input)"
  unfolding guard_event_def remediation_extension_validate_def Let_def
  by (intro append_only_intros)

lemma apply_one_append_only: "steps append_only (apply_one C D fault input h)"
  unfolding apply_one_def insert_run_def insert_findings_def insert_finding_def project_case_def
    inject_def
  by (intro append_only_intros insert_event_append_only insert_effects_append_only
      insert_evidence_append_only guard_event_append_only) (simp_all add: supersede_def)

lemma apply_all_append_only: "steps append_only (apply_all C D fault xs)"
proof (induction C D fault xs rule: apply_all.induct)
  case (1 C D fault)
  show ?case unfolding apply_all.simps by (rule immutable.steps_basic)
next
  case (2 C D fault input h rest)
  then show ?case
    unfolding apply_all.simps inject_def by (intro append_only_intros apply_one_append_only)
qed

lemma apply_transition_batch_append_only: "steps append_only (apply_transition_batch C D inputs fault)"
  unfolding apply_transition_batch_def Let_def ensure_writable_def
  by (auto intro!: append_only_intros apply_all_append_only split: list.split prod.split)

lemma repair_append_only: "steps append_only (repair_case_projection k)"
  unfolding repair_case_projection_def ensure_writable_def
  by (intro append_only_intros) simp

section \<open>Single transitions\<close>

text \<open>C2: applying transitions is all or nothing. When a batch or the creation of a case fails,
  for whatever reason and at whatever point, injected faults between any two writes included,
  the ledger is exactly as it was before.\<close>

theorem ledger_atomic:
  "(apply_transition_batch C D inputs fault s = (Inl e, t) \<longrightarrow> t = s) \<and>
   (create_case C input s = (Inl e', t') \<longrightarrow> t' = s)"
  using satomicD [OF apply_transition_batch_atomic] satomicD [OF create_case_atomic] by blast

text \<open>C4: a transition decided against an outdated revision is refused. When the case has another
  revision than the first transition of a well-formed, new batch expects, the batch is refused
  as stale, naming both revisions, and nothing is written.\<close>

theorem stale_revision_refused:
  assumes "validate_batch (ti_case_key input) [] None (input # rest) = Inr ()" "\<not> read_only s"
    and "\<forall>i \<in> set (input # rest). existing_event (ei_event_id (ti_event i)) s = None"
    and "query_case (ti_case_key input) s = Some current"
    and "sc_state_revision current \<noteq> ti_expected_revision input"
  shows "apply_transition_batch C D (input # rest) fault s =
    (Inl (StaleRevision (ti_expected_revision input) (sc_state_revision current)), s)"
proof -
  have none: "map (\<lambda>i. existing_event (ei_event_id (ti_event i)) s) (input # rest) =
      map (\<lambda>i. None) (input # rest)"
    using assms(3) by simp
  have conflict: "find (\<lambda>(i, x). x \<noteq> None) (zip (input # rest) (map (\<lambda>i. None) (input # rest))) = None"
    by (auto simp: find_None_iff zip_map2 zip_same_conv_map)
  have one: "apply_one C D fault input h s =
      (Inl (StaleRevision (ti_expected_revision input) (sc_state_revision current)), s)" for h
    using assms(4,5) by (simp add: apply_one_def sbind_def)
  show ?thesis
    unfolding apply_transition_batch_nonempty [OF list.distinct(2)] sbind_writable [OF assms(2)]
      list.sel assms(1) sbind_slift sbind_sread none conflict
    by (simp add: stransaction_def sbind_def one)
qed


section \<open>A sample ledger\<close>

definition sample_new_case :: NewCase where
  "sample_new_case =
     \<lparr>nc_case_key = ''repo:1#2@1'', nc_repository_id = 1, nc_issue_number = 2,
      nc_workflow_version = 1, nc_policy_revision = 1, nc_initial_state = ''PLANNING'',
      nc_observed_at = 10,
      nc_event = \<lparr>ei_event_id = ''e1'', ei_event_type = ''ISSUE_AUTHORIZED'', ei_payload = JObj []\<rparr>,
      nc_effects = [\<lparr>fx_effect_id = ''fx1'', fx_effect_type = ''DISPATCH_PLANNER'',
        fx_payload = JObj []\<rparr>]\<rparr>"

definition sample_ledger :: Store where
  "sample_ledger = snd (create_case sample_codec sample_new_case empty_store)"

definition sample_transition :: TransitionInput where
  "sample_transition =
     \<lparr>ti_case_key = ''repo:1#2@1'', ti_expected_revision = 1, ti_next_state = ''READY_TO_BUILD'',
      ti_remediation_round = 0, ti_plan_version = 1, ti_pr_number = None, ti_head_sha = None,
      ti_observed_at = 20,
      ti_event = \<lparr>ei_event_id = ''e2'', ei_event_type = ''PROCEED'', ei_payload = JObj []\<rparr>,
      ti_run = None, ti_evidence = [], ti_findings = [],
      ti_effects = [\<lparr>fx_effect_id = ''fx2'', fx_effect_type = ''DISPATCH_BUILDER'',
        fx_payload = JObj []\<rparr>]\<rparr>"

text \<open>The samples are evaluated by \<open>code_simp\<close>.\<close>

lemma sample_created:
  "create_case sample_codec sample_new_case empty_store = (Inr Applied, sample_ledger)"
proof -
  have "fst (create_case sample_codec sample_new_case empty_store) = Inr Applied" by code_simp
  then show ?thesis unfolding sample_ledger_def by (metis prod.collapse)
qed

lemma sample_inv: "ledger_inv sample_ledger" "\<not> read_only sample_ledger"
  using create_case_inv [OF ledger_inv_empty sample_created]
    stepsD [OF create_case_append_only sample_created]
  by (simp_all add: append_only_def empty_store_def)

lemma sample_applied:
  obtains t where "apply_transition sample_codec sample_decoders sample_transition None sample_ledger =
    (Inr Applied, t)"
proof -
  have "fst (apply_transition sample_codec sample_decoders sample_transition None sample_ledger) =
    Inr Applied" by code_simp
  then show ?thesis using that by (metis prod.collapse)
qed

theorem ledger_atomic_witness:
  "apply_transition_batch sample_codec sample_decoders [sample_transition] (Some AfterOutbox) sample_ledger =
     (Inl (InjectedFault AfterOutbox), sample_ledger)"
proof -
  have "fst (apply_transition_batch sample_codec sample_decoders [sample_transition] (Some AfterOutbox)
      sample_ledger) = Inl (InjectedFault AfterOutbox)" by code_simp
  then obtain t where t: "apply_transition_batch sample_codec sample_decoders [sample_transition]
      (Some AfterOutbox) sample_ledger = (Inl (InjectedFault AfterOutbox), t)" by (metis prod.collapse)
  with ledger_atomic show ?thesis by blast
qed

theorem stale_revision_refused_witness:
  "apply_transition_batch sample_codec sample_decoders [sample_transition\<lparr>ti_expected_revision := 5\<rparr>] None
     sample_ledger = (Inl (StaleRevision 5 1), sample_ledger)"
proof -
  let ?input = "sample_transition\<lparr>ti_expected_revision := 5\<rparr>"
  have v: "validate_batch (ti_case_key ?input) [] None [?input] = Inr ()" by code_simp
  have x: "\<forall>i \<in> set [?input]. existing_event (ei_event_id (ti_event i)) sample_ledger = None"
    by code_simp
  obtain current where c: "query_case (ti_case_key ?input) sample_ledger = Some current"
    and r: "sc_state_revision current = 1"
  proof -
    have "map_option sc_state_revision (query_case (ti_case_key ?input) sample_ledger) = Some 1"
      by code_simp
    then show ?thesis using that by (auto simp: map_option_case split: option.splits)
  qed
  have ne: "sc_state_revision current \<noteq> ti_expected_revision ?input" using r by simp
  show ?thesis using stale_revision_refused [OF v sample_inv(2) x c ne] r by simp
qed


theorem batch_idempotent_witness:
  "\<exists>t. apply_transition sample_codec sample_decoders sample_transition None sample_ledger = (Inr Applied, t) \<and>
     apply_transition sample_codec sample_decoders sample_transition None t = (Inr Replayed, t)"
proof -
  obtain t where t: "apply_transition_batch sample_codec sample_decoders [sample_transition] None
      sample_ledger = (Inr Applied, t)"
    using sample_applied unfolding apply_transition_def by blast
  have inv: "ledger_inv t"
    by (rule apply_transition_batch_inv [OF sample_inv(1) t])
  have "\<not> read_only t"
    using stepsD [OF apply_transition_batch_append_only t] sample_inv(2) by (simp add: append_only_def)
  then have "apply_transition_batch sample_codec sample_decoders [sample_transition] None t = (Inr Replayed, t)"
    using batch_idempotent [OF t prefix_order.refl] inv by (simp add: ledger_inv_def history_inv_def)
  with t show ?thesis unfolding apply_transition_def by blast
qed

lemma history_inv_cases:
  assumes "history_inv s" "map c_case_key (cases_table t) = map c_case_key (cases_table s)"
    "events t = events s"
  shows "history_inv t"
proof -
  have "c_case_key ` set (cases_table t) = c_case_key ` set (cases_table s)"
    using assms(2) by (metis list.set_map)
  moreover have "history k t = history k s" for k by (simp add: history_def assms(3))
  ultimately show ?thesis
    using assms by (simp add: history_inv_def has_case_keys) (metis (no_types, lifting) image_iff)
qed

theorem repair_restores_witness:
  "\<exists>s t. query_case ''repo:1#2@1'' s \<noteq> None \<and>
     projection_matches_history ''repo:1#2@1'' s = Inr False \<and>
     repair_case_projection ''repo:1#2@1'' s = (Inr (), t) \<and>
     projection_matches_history ''repo:1#2@1'' t = Inr True"
proof -
  let ?s = "sample_ledger\<lparr>cases_table := map (c_state_update (\<lambda>_. ''MERGING'')) (cases_table sample_ledger)\<rparr>"
  have h: "history_inv ?s"
    using sample_inv(1) history_inv_cases [of sample_ledger ?s] by (simp add: ledger_inv_def comp_def)
  have c: "has_case ?s ''repo:1#2@1''" by code_simp
  have w: "\<not> read_only ?s" using sample_inv(2) by simp
  have q: "query_case ''repo:1#2@1'' ?s \<noteq> None" by code_simp
  have f: "projection_matches_history ''repo:1#2@1'' ?s = Inr False" by code_simp
  show ?thesis using q f repair_restores [OF h c w] by blast
qed

end
