(* ===== verification/Outbox.thy ===== *)
theory Outbox
  imports LedgerInputs DispatchIntents
begin

text \<open>
  The outbox of \<open>pip-store\<close>: effects are leased to an owner for a time, delivered once, released,
  and completed together with the evidence or the dispatched tasks they led to
  (\<open>claim_effect_inner\<close>, \<open>acknowledge_effect\<close>, \<open>release_effect\<close>, \<open>complete_effect_evidence\<close>,
  \<open>complete_dispatch_outputs\<close> of \<open>lib.rs\<close>). The theorems: a claim takes the oldest claimable
  effect and nothing else, a leased effect is claimed by nobody else before the lease ends, and
  the outputs of a dispatch are handed to their workers as they were given.
\<close>

section \<open>Leases\<close>

definition pending :: "OutboxRow \<Rightarrow> bool" where
  "pending r \<longleftrightarrow> o_delivered_at r = None \<and> o_superseded_at r = None"

text \<open>\<open>lease_until IS NULL OR lease_until < now\<close>.\<close>

definition lease_free :: "int \<Rightarrow> OutboxRow \<Rightarrow> bool" where
  "lease_free now r \<longleftrightarrow> (case o_lease r of None \<Rightarrow> True | Some (owner, until) \<Rightarrow> until < now)"

text \<open>\<open>lease_owner = owner AND lease_until >= now\<close>.\<close>

definition lease_held :: "string \<Rightarrow> int \<Rightarrow> OutboxRow \<Rightarrow> bool" where
  "lease_held owner now r \<longleftrightarrow>
     (case o_lease r of None \<Rightarrow> False | Some (holder, until) \<Rightarrow> holder = owner \<and> now \<le> until)"

definition leased_by :: "string \<Rightarrow> OutboxRow \<Rightarrow> bool" where
  "leased_by owner r \<longleftrightarrow> (case o_lease r of None \<Rightarrow> False | Some (holder, _) \<Rightarrow> holder = owner)"

section \<open>Claiming\<close>

definition claim_scope :: "int option \<Rightarrow> string option \<Rightarrow> Store \<Rightarrow> OutboxRow \<Rightarrow> bool" where
  "claim_scope repository case_key s r \<longleftrightarrow>
     (case repository of
        None \<Rightarrow> True
      | Some repo \<Rightarrow> list_ex (\<lambda>c. c_repository_id c = repo \<and> c_case_key c = o_case_key r) (cases_table s)) \<and>
     (case case_key of None \<Rightarrow> True | Some key \<Rightarrow> o_case_key r = key)"

definition claim_rows :: "int \<Rightarrow> int option \<Rightarrow> string option \<Rightarrow> Store \<Rightarrow> OutboxRow list" where
  "claim_rows now repository case_key s =
     sort_key o_created_at (sort_key o_effect_id
       (filter (\<lambda>r. pending r \<and> lease_free now r \<and> claim_scope repository case_key s r) (outbox s)))"

text \<open>\<open>effect_types.is_none_or(|allowed| allowed.contains(effect_type))\<close>.\<close>

definition type_allowed :: "string list option \<Rightarrow> OutboxRow \<Rightarrow> bool" where
  "type_allowed effect_types r \<longleftrightarrow>
     (case effect_types of None \<Rightarrow> True | Some types \<Rightarrow> o_effect_type r \<in> set types)"

definition bad_types :: "string list option \<Rightarrow> bool" where
  "bad_types effect_types \<longleftrightarrow>
     (case effect_types of
        None \<Rightarrow> False
      | Some types \<Rightarrow> types = [] \<or> \<not> distinct types \<or> list_ex blank types)"

definition direct_types :: "string set" where
  "direct_types = {''RUN_DIRECT_WORKER'', ''RUN_DIRECT_OBSERVER''}"

text \<open>The payload a claim hands out, checked against its digest and resolved.\<close>

definition claim_payload :: "codec \<Rightarrow> decoders \<Rightarrow> OutboxRow \<Rightarrow> Store \<Rightarrow> StoreError + json" where
  "claim_payload C D r s =
     rbind (ok_or (json_from_str C (o_payload_json r)) Serialization) (\<lambda>value.
     if payload_hash C value \<noteq> o_payload_sha256 r then Inl (IdempotencyConflict (o_effect_id r))
     else if o_effect_type r \<in> direct_types then resolve_output C D (o_effect_id r) Direct value s
     else Inr value)"

definition claim_effect_inner ::
  "codec \<Rightarrow> decoders \<Rightarrow> string \<Rightarrow> u64 \<Rightarrow> u64 \<Rightarrow> string list option \<Rightarrow> u64 option \<Rightarrow> string option \<Rightarrow>
     ClaimedEffect option store_op" where
  "claim_effect_inner C D owner now lease_seconds effect_types repository_id case_key =
    sbind ensure_writable (\<lambda>_.
    sbind (sreject_if (blank owner \<or> lease_seconds = 0 \<or> repository_id = Some 0
        \<or> (case case_key of None \<Rightarrow> False | Some key \<Rightarrow> blank key))
      (InvalidInput ''owner, positive lease and valid repository scope are required'')) (\<lambda>_.
    sbind (sreject_if (bad_types effect_types)
      (InvalidInput ''unique nonempty effect types are required'')) (\<lambda>_.
    sbind (slift (ok_or (checked_add now lease_seconds) InvalidInteger)) (\<lambda>lease_until.
    stransaction (
      sbind (slift (sql_u64 now)) (\<lambda>at.
      sbind (slift (sql_u64_opt repository_id)) (\<lambda>repository.
      sbind (sread (\<lambda>s. find (type_allowed effect_types) (claim_rows at repository case_key s)))
        (\<lambda>candidate.
      case candidate of
        None \<Rightarrow> sreturn None
      | Some r \<Rightarrow>
          sbind (slift (sql_u64 lease_until)) (\<lambda>until.
          sbind (update_outbox
            (\<lambda>q. o_effect_id q = o_effect_id r \<and> pending q \<and> lease_free at q)
            (\<lambda>q. q\<lparr>o_lease := Some (owner, until)\<rparr>)) (\<lambda>updated.
          if updated \<noteq> 1 then sreturn None
          else
            sbind (squery (claim_payload C D r)) (\<lambda>value.
            sreturn (Some
              \<lparr>ce_effect_id = o_effect_id r, ce_case_key = o_case_key r,
               ce_state_revision = unsigned (o_state_revision r), ce_effect_type = o_effect_type r,
               ce_payload = value, ce_lease_owner = owner, ce_lease_until = lease_until\<rparr>))))))))))))"

definition claim_effect ::
  "codec \<Rightarrow> decoders \<Rightarrow> string \<Rightarrow> u64 \<Rightarrow> u64 \<Rightarrow> ClaimedEffect option store_op" where
  "claim_effect C D owner now lease_seconds =
     claim_effect_inner C D owner now lease_seconds None None None"

definition claim_effect_matching ::
  "codec \<Rightarrow> decoders \<Rightarrow> string \<Rightarrow> u64 \<Rightarrow> u64 \<Rightarrow> string list \<Rightarrow> ClaimedEffect option store_op" where
  "claim_effect_matching C D owner now lease_seconds effect_types =
     claim_effect_inner C D owner now lease_seconds (Some effect_types) None None"

definition claim_repository_case_effect_matching ::
  "codec \<Rightarrow> decoders \<Rightarrow> u64 \<Rightarrow> string option \<Rightarrow> string \<Rightarrow> u64 \<Rightarrow> u64 \<Rightarrow> string list \<Rightarrow>
     ClaimedEffect option store_op" where
  "claim_repository_case_effect_matching C D repository_id case_key owner now lease_seconds effect_types =
     claim_effect_inner C D owner now lease_seconds (Some effect_types) (Some repository_id) case_key"

definition claim_repository_effect_matching ::
  "codec \<Rightarrow> decoders \<Rightarrow> u64 \<Rightarrow> string \<Rightarrow> u64 \<Rightarrow> u64 \<Rightarrow> string list \<Rightarrow> ClaimedEffect option store_op" where
  "claim_repository_effect_matching C D repository_id owner now lease_seconds effect_types =
     claim_repository_case_effect_matching C D repository_id None owner now lease_seconds effect_types"

section \<open>Delivering and releasing\<close>

text \<open>\<open>UPDATE outbox SET delivered_at = now, lease_owner = NULL, lease_until = NULL WHERE\<close> the
  effect is pending and leased to \<open>owner\<close> until now or later.\<close>

definition deliver :: "string \<Rightarrow> string \<Rightarrow> int \<Rightarrow> nat store_op" where
  "deliver effect_id owner now =
     update_outbox (\<lambda>r. o_effect_id r = effect_id \<and> lease_held owner now r \<and> pending r)
       (\<lambda>r. r\<lparr>o_delivered_at := Some now, o_lease := None\<rparr>)"

definition acknowledge_effect :: "string \<Rightarrow> string \<Rightarrow> u64 \<Rightarrow> unit store_op" where
  "acknowledge_effect effect_id owner now =
    sbind ensure_writable (\<lambda>_.
    sbind (slift (sql_u64 now)) (\<lambda>at.
    sbind (deliver effect_id owner at) (\<lambda>updated.
    sreject_if (updated \<noteq> 1) (LeaseLost effect_id))))"

definition release_effect :: "string \<Rightarrow> string \<Rightarrow> unit store_op" where
  "release_effect effect_id owner =
    sbind ensure_writable (\<lambda>_.
    sbind (sreject_if (blank effect_id \<or> blank owner)
      (InvalidInput ''effect id and lease owner are required'')) (\<lambda>_.
    sbind (update_outbox (\<lambda>r. o_effect_id r = effect_id \<and> leased_by owner r \<and> pending r)
      (\<lambda>r. r\<lparr>o_lease := None\<rparr>)) (\<lambda>updated.
    sreject_if (updated \<noteq> 1) (LeaseLost effect_id))))"

definition find_effect :: "string \<Rightarrow> Store \<Rightarrow> OutboxRow option" where
  "find_effect effect_id s = find (\<lambda>r. o_effect_id r = effect_id) (outbox s)"

definition find_evidence :: "string \<Rightarrow> Store \<Rightarrow> EvidenceRow option" where
  "find_evidence evidence_id s = find (\<lambda>r. ev_evidence_id r = evidence_id) (evidence s)"

definition lease_valid :: "string \<Rightarrow> string \<Rightarrow> int \<Rightarrow> Store \<Rightarrow> bool" where
  "lease_valid effect_id owner now s \<longleftrightarrow>
     list_ex (\<lambda>r. o_effect_id r = effect_id \<and> pending r \<and> lease_held owner now r) (outbox s)"

definition complete_effect_evidence ::
  "codec \<Rightarrow> string \<Rightarrow> string \<Rightarrow> u64 \<Rightarrow> EvidenceInput \<Rightarrow> ApplyResult store_op" where
  "complete_effect_evidence C effect_id owner now item =
    sbind ensure_writable (\<lambda>_.
    sbind (sreject_if (blank effect_id \<or> blank owner \<or> blank (evi_evidence_id item)
        \<or> blank (evi_kind item) \<or> blank (evi_source item) \<or> \<not> is_object (evi_payload item))
      (InvalidInput ''effect, owner, and object evidence identity are required'')) (\<lambda>_.
    let payload_json = json_to_string C (evi_payload item);
        conflict = IdempotencyConflict (evi_evidence_id item) in
    stransaction (
      sbind (sread (find_effect effect_id)) (\<lambda>found.
      sbind (slift (ok_or found (LeaseLost effect_id))) (\<lambda>row.
      sbind (sread (find_evidence (evi_evidence_id item))) (\<lambda>existing.
      if o_delivered_at row \<noteq> None then
        (if map_option (\<lambda>e. (ev_case_key e, ev_kind e, ev_source e, ev_payload_json e)) existing
              \<noteq> Some (o_case_key row, evi_kind item, evi_source item, payload_json)
         then sfail conflict else sreturn Replayed)
      else if o_superseded_at row \<noteq> None \<or> existing \<noteq> None then sfail conflict
      else
        sbind (slift (sql_u64 now)) (\<lambda>at.
        sbind (sread (lease_valid effect_id owner at)) (\<lambda>valid.
        sbind (sreject_if (\<not> valid) (LeaseLost effect_id)) (\<lambda>_.
        sbind (insert_evidence C (o_case_key row) now [item]) (\<lambda>_.
        sbind (deliver effect_id owner at) (\<lambda>updated.
        sbind (sreject_if (updated \<noteq> 1) (LeaseLost effect_id)) (\<lambda>_.
        sreturn Applied))))))))))))"

section \<open>Completing a dispatch\<close>

record TaskProjectionInput =
  tpi_projection_id :: string
  tpi_effect_id :: string
  tpi_board :: string
  tpi_task_id :: string
  tpi_desired :: json
  tpi_observed :: json

definition projection_allowed :: "Store \<Rightarrow> TaskProjectionRow \<Rightarrow> bool" where
  "projection_allowed s r \<longleftrightarrow>
     has_case s (tp_case_key r) \<and> has_effect s (tp_effect_id r) \<and>
     list_all (\<lambda>q. tp_projection_id q \<noteq> tp_projection_id r) (task_projections s)"

definition add_projection :: "TaskProjectionRow \<Rightarrow> Store \<Rightarrow> Store" where
  "add_projection r s = s\<lparr>task_projections := task_projections s @ [r]\<rparr>"

definition find_projection :: "string \<Rightarrow> Store \<Rightarrow> TaskProjectionRow option" where
  "find_projection projection_id s =
     find (\<lambda>r. tp_projection_id r = projection_id) (task_projections s)"

definition bad_projection :: "string \<Rightarrow> TaskProjectionInput \<Rightarrow> bool" where
  "bad_projection source_effect_id input \<longleftrightarrow>
     blank (tpi_projection_id input) \<or> blank (tpi_effect_id input) \<or> blank (tpi_board input) \<or>
     blank (tpi_task_id input) \<or> \<not> is_object (tpi_desired input) \<or>
     \<not> is_object (tpi_observed input) \<or> tpi_effect_id input \<noteq> source_effect_id"

definition bad_job :: "string \<Rightarrow> EffectInput \<Rightarrow> bool" where
  "bad_job source_effect_id job \<longleftrightarrow>
     blank (fx_effect_id job) \<or> fx_effect_id job = source_effect_id \<or>
     fx_effect_type job \<notin> direct_types \<or> \<not> is_object (fx_payload job) \<or>
     json_get (fx_payload job) ''source_effect_id'' \<noteq> Some (JStr source_effect_id)"

text \<open>The comparison of a replayed projection, and of a replayed job, with what was recorded.\<close>

definition same_projection ::
  "codec \<Rightarrow> decoders \<Rightarrow> TaskProjectionInput \<Rightarrow> Store \<Rightarrow> StoreError + bool" where
  "same_projection C D input s =
    (case find_projection (tpi_projection_id input) s of
       None \<Rightarrow> Inr False
     | Some r \<Rightarrow>
         rbind (ok_or (tp_task_id r) (Database InvalidColumnType)) (\<lambda>task.
         rbind (ok_or (tp_observed_json r) (Database InvalidColumnType)) (\<lambda>observed.
         if tp_effect_id r = tpi_effect_id input \<and> tp_board r = tpi_board input \<and>
            task = tpi_task_id input \<and> observed = json_to_string C (tpi_observed input)
         then rbind (ok_or (json_from_str C (tp_desired_json r)) Serialization) (\<lambda>value.
              rbind (resolve_output C D (tp_effect_id r) Hermes value s) (\<lambda>desired.
              Inr (desired = tpi_desired input)))
         else Inr False)))"

definition same_job ::
  "codec \<Rightarrow> decoders \<Rightarrow> string \<Rightarrow> int \<Rightarrow> EffectInput \<Rightarrow> Store \<Rightarrow> StoreError + bool" where
  "same_job C D case_key state_revision job s =
    (case find_effect (fx_effect_id job) s of
       None \<Rightarrow> Inr False
     | Some r \<Rightarrow>
         rbind (ok_or (json_from_str C (o_payload_json r)) Serialization) (\<lambda>value.
         if o_case_key r = case_key \<and> o_state_revision r = state_revision \<and>
            o_effect_type r = fx_effect_type job \<and> payload_hash C value = o_payload_sha256 r
         then rbind (resolve_output C D (fx_effect_id job) Direct value s) (\<lambda>resolved.
              Inr (resolved = fx_payload job))
         else Inr False))"

fun replay_projections ::
  "codec \<Rightarrow> decoders \<Rightarrow> TaskProjectionInput list \<Rightarrow> Store \<Rightarrow> StoreError + unit" where
  "replay_projections C D [] s = Inr ()"
| "replay_projections C D (input # inputs) s =
     rbind (same_projection C D input s) (\<lambda>same.
     if \<not> same then Inl (IdempotencyConflict (tpi_projection_id input))
     else replay_projections C D inputs s)"

fun replay_jobs ::
  "codec \<Rightarrow> decoders \<Rightarrow> string \<Rightarrow> int \<Rightarrow> EffectInput list \<Rightarrow> Store \<Rightarrow> StoreError + unit" where
  "replay_jobs C D case_key state_revision [] s = Inr ()"
| "replay_jobs C D case_key state_revision (job # jobs) s =
     rbind (same_job C D case_key state_revision job s) (\<lambda>same.
     if \<not> same then Inl (IdempotencyConflict (fx_effect_id job))
     else replay_jobs C D case_key state_revision jobs s)"

definition insert_projection ::
  "codec \<Rightarrow> string \<Rightarrow> int \<Rightarrow> TaskProjectionInput \<times> json \<Rightarrow> unit store_op" where
  "insert_projection C case_key now = (\<lambda>(input, desired).
     sbind (sread (find_projection (tpi_projection_id input))) (\<lambda>existing.
     sbind (sreject_if (existing \<noteq> None) (IdempotencyConflict (tpi_projection_id input))) (\<lambda>_.
     sql_insert projection_allowed add_projection
       \<lparr>tp_projection_id = tpi_projection_id input, tp_case_key = case_key,
        tp_effect_id = tpi_effect_id input, tp_board = tpi_board input,
        tp_task_id = Some (tpi_task_id input), tp_desired_json = json_to_string C desired,
        tp_observed_json = Some (json_to_string C (tpi_observed input)),
        tp_reconciled_at = Some now\<rparr>)))"

definition job_row :: "codec \<Rightarrow> string \<Rightarrow> int \<Rightarrow> int \<Rightarrow> EffectInput \<Rightarrow> json \<Rightarrow> OutboxRow" where
  "job_row C case_key state_revision now job encoded =
     \<lparr>o_effect_id = fx_effect_id job, o_case_key = case_key, o_state_revision = state_revision,
      o_effect_type = fx_effect_type job, o_payload_json = fst (payload C encoded),
      o_payload_sha256 = snd (payload C encoded), o_created_at = now, o_lease = None,
      o_delivered_at = None, o_superseded_at = None, o_superseded_by_event_id = None\<rparr>"

definition insert_job ::
  "codec \<Rightarrow> string \<Rightarrow> int \<Rightarrow> int \<Rightarrow> EffectInput \<times> json \<Rightarrow> unit store_op" where
  "insert_job C case_key state_revision now = (\<lambda>(job, encoded).
     sbind (sread (\<lambda>s. has_effect s (fx_effect_id job))) (\<lambda>existing.
     sbind (sreject_if existing (IdempotencyConflict (fx_effect_id job))) (\<lambda>_.
     sql_insert effect_allowed add_effect (job_row C case_key state_revision now job encoded))))"

definition complete_dispatch_outputs ::
  "codec \<Rightarrow> decoders \<Rightarrow> string \<Rightarrow> TaskProjectionInput list \<Rightarrow> EffectInput list \<Rightarrow> string \<Rightarrow> u64 \<Rightarrow>
     FaultPoint option \<Rightarrow> ApplyResult store_op" where
  "complete_dispatch_outputs C D source_effect_id inputs direct_jobs owner now fault =
    sbind ensure_writable (\<lambda>_.
    sbind (sreject_if (inputs = [] \<and> direct_jobs = [] \<or> blank source_effect_id
        \<or> \<not> distinct (map tpi_projection_id inputs) \<or> \<not> distinct (map fx_effect_id direct_jobs)
        \<or> blank owner \<or> list_ex (bad_projection source_effect_id) inputs
        \<or> list_ex (bad_job source_effect_id) direct_jobs)
      (InvalidInput ''unique dispatch projections or bound direct jobs and an owner are required''))
      (\<lambda>_.
    sbind (squery (\<lambda>s. rmap (\<lambda>input. encode_output C D source_effect_id Hermes (tpi_desired input) s)
      inputs)) (\<lambda>desireds.
    sbind (squery (\<lambda>s. rmap (\<lambda>job. encode_output C D source_effect_id Direct (fx_payload job) s)
      direct_jobs)) (\<lambda>encodeds.
    stransaction (
      sbind (sread (find_effect source_effect_id)) (\<lambda>found.
      sbind (slift (ok_or found (LeaseLost source_effect_id))) (\<lambda>row.
      sbind (sread (\<lambda>s. length (filter (\<lambda>p. tp_effect_id p = source_effect_id) (task_projections s))))
        (\<lambda>existing_count.
      if o_delivered_at row \<noteq> None then
        sbind (sreject_if (existing_count \<noteq> length inputs) (IdempotencyConflict source_effect_id)) (\<lambda>_.
        sbind (squery (replay_projections C D inputs)) (\<lambda>_.
        sbind (squery (replay_jobs C D (o_case_key row) (o_state_revision row) direct_jobs)) (\<lambda>_.
        sreturn Replayed)))
      else
        sbind (sreject_if (o_superseded_at row \<noteq> None) (LeaseLost source_effect_id)) (\<lambda>_.
        sbind (slift (sql_u64 now)) (\<lambda>at.
        sbind (sread (lease_valid source_effect_id owner at)) (\<lambda>valid.
        sbind (sreject_if (\<not> valid \<or> existing_count \<noteq> 0) (LeaseLost source_effect_id)) (\<lambda>_.
        sbind (sfor (zip inputs desireds) (insert_projection C (o_case_key row) at)) (\<lambda>_.
        sbind (inject fault AfterProjection) (\<lambda>_.
        sbind (sfor (zip direct_jobs encodeds)
          (insert_job C (o_case_key row) (o_state_revision row) at)) (\<lambda>_.
        sbind (inject fault AfterOutbox) (\<lambda>_.
        sbind (deliver source_effect_id owner at) (\<lambda>updated.
        sbind (sreject_if (updated \<noteq> 1) (LeaseLost source_effect_id)) (\<lambda>_.
        sreturn Applied))))))))))))))))))"

definition complete_task_projections ::
  "codec \<Rightarrow> decoders \<Rightarrow> TaskProjectionInput list \<Rightarrow> string \<Rightarrow> u64 \<Rightarrow> FaultPoint option \<Rightarrow>
     ApplyResult store_op" where
  "complete_task_projections C D inputs owner now fault =
    (case inputs of
       [] \<Rightarrow> sfail (InvalidInput ''at least one task projection is required'')
     | first # _ \<Rightarrow> complete_dispatch_outputs C D (tpi_effect_id first) inputs [] owner now fault)"

definition complete_task_projection ::
  "codec \<Rightarrow> decoders \<Rightarrow> TaskProjectionInput \<Rightarrow> string \<Rightarrow> u64 \<Rightarrow> FaultPoint option \<Rightarrow>
     ApplyResult store_op" where
  "complete_task_projection C D input owner now fault =
     complete_task_projections C D [input] owner now fault"

section \<open>What a claim takes\<close>

definition claimable ::
  "int \<Rightarrow> string list option \<Rightarrow> int option \<Rightarrow> string option \<Rightarrow> Store \<Rightarrow> OutboxRow \<Rightarrow> bool" where
  "claimable now effect_types repository case_key s r \<longleftrightarrow>
     pending r \<and> lease_free now r \<and> claim_scope repository case_key s r \<and> type_allowed effect_types r"

abbreviation grant_lease :: "string \<Rightarrow> string \<Rightarrow> int \<Rightarrow> OutboxRow \<Rightarrow> OutboxRow" where
  "grant_lease effect_id owner until q \<equiv>
     (if o_effect_id q = effect_id then q\<lparr>o_lease := Some (owner, until)\<rparr> else q)"

lemma find_sorted:
  "sorted_wrt R xs \<Longrightarrow> find P xs = Some x \<Longrightarrow> y \<in> set xs \<Longrightarrow> P y \<Longrightarrow> x = y \<or> R x y"
  by (induction xs) (auto split: if_splits)

lemma sorted_lexicographic:
  "sorted (map f zs) \<Longrightarrow> (\<And>k. sorted (map g (filter (\<lambda>y. f y = k) zs))) \<Longrightarrow>
     sorted_wrt (\<lambda>x y. f x < f y \<or> f x = f y \<and> g x \<le> g y) zs"
proof (induction zs)
  case Nil
  then show ?case by simp
next
  case (Cons z zs)
  have "sorted (map g (filter (\<lambda>y. f y = k) zs))" for k
    using Cons.prems(2) [of k] by (auto split: if_splits)
  with Cons have rest: "sorted_wrt (\<lambda>x y. f x < f y \<or> f x = f y \<and> g x \<le> g y) zs" by simp
  have "f z < f y \<or> f z = f y \<and> g z \<le> g y" if "y \<in> set zs" for y
    using Cons.prems(1) Cons.prems(2) [of "f z"] that by (fastforce simp: order_le_less)
  with rest show ?case by simp
qed

text \<open>\<open>ORDER BY f, g\<close>.\<close>

lemma sorted_two_keys:
  "sorted_wrt (\<lambda>x y. f x < f y \<or> f x = f y \<and> g x \<le> g y) (sort_key f (sort_key g xs))"
  by (rule sorted_lexicographic) (simp_all add: sort_key_stable, metis sorted_filter sorted_sort_key)

lemma claim_rows_oldest:
  assumes "find P (claim_rows now repo key s) = Some r"
  shows "r \<in> set (outbox s) \<and> pending r \<and> lease_free now r \<and> claim_scope repo key s r \<and> P r \<and>
    (\<forall>q \<in> set (outbox s). pending q \<and> lease_free now q \<and> claim_scope repo key s q \<and> P q \<longrightarrow>
       o_created_at r < o_created_at q \<or> o_created_at r = o_created_at q \<and> o_effect_id r \<le> o_effect_id q)"
proof -
  have mem: "set (claim_rows now repo key s) =
      {q \<in> set (outbox s). pending q \<and> lease_free now q \<and> claim_scope repo key s q}"
    by (auto simp: claim_rows_def)
  have sorted: "sorted_wrt (\<lambda>x y. o_created_at x < o_created_at y \<or>
      o_created_at x = o_created_at y \<and> o_effect_id x \<le> o_effect_id y) (claim_rows now repo key s)"
    unfolding claim_rows_def by (rule sorted_two_keys)
  have "r \<in> set (claim_rows now repo key s)" "P r"
    using assms by (auto simp: find_Some_iff)
  moreover have "o_created_at r < o_created_at q \<or> o_created_at r = o_created_at q \<and> o_effect_id r \<le> o_effect_id q"
    if "q \<in> set (claim_rows now repo key s)" "P q" for q
    using find_sorted [OF sorted assms that] by auto
  ultimately show ?thesis using mem by blast
qed

lemma claim_rows_none:
  "find P (claim_rows now repo key s) = None \<longleftrightarrow>
     (\<forall>q \<in> set (outbox s). \<not> (pending q \<and> lease_free now q \<and> claim_scope repo key s q \<and> P q))"
  by (auto simp: find_None_iff claim_rows_def)

lemma update_one:
  assumes "distinct (map o_effect_id rows)" "r \<in> set rows" "P r"
  shows "update_rows (\<lambda>q. o_effect_id q = o_effect_id r \<and> P q) f rows =
      map (\<lambda>q. if o_effect_id q = o_effect_id r then f q else q) rows \<and>
    filter (\<lambda>q. o_effect_id q = o_effect_id r \<and> P q) rows = [r]"
proof -
  have only: "q = r" if "q \<in> set rows" "o_effect_id q = o_effect_id r" for q
    using assms(1,2) that by (auto dest: distinct_map [THEN iffD1, THEN conjunct2, THEN inj_onD])
  then have "filter (\<lambda>q. o_effect_id q = o_effect_id r \<and> P q) rows =
      filter (\<lambda>q. o_effect_id q = o_effect_id r) rows"
    using assms(3) by (intro filter_cong) auto
  also have "\<dots> = [r]" by (rule filter_key [OF assms(1,2)])
  finally show ?thesis using only assms(3) by (auto simp: update_rows_def)
qed

lemma checked_add_sum: "checked_add a b = Some c \<Longrightarrow> c = a + b \<and> uint c = uint a + uint b"
  by (metis checked_add_Some of_nat_add uint_nat)

lemma claim_Inr:
  assumes "distinct (map o_effect_id (outbox s))"
    and "claim_effect_inner C D owner now secs types repo key s = (Inr answer, t)"
  shows "case find (type_allowed types) (claim_rows (uint now) (map_option uint repo) key s) of
      None \<Rightarrow> answer = None \<and> t = s
    | Some r \<Rightarrow> uint now + uint secs < 2 ^ 63 \<and>
        t = s\<lparr>outbox := map (grant_lease (o_effect_id r) owner (uint now + uint secs)) (outbox s)\<rparr> \<and>
        (\<exists>value. claim_payload C D r t = Inr value \<and> answer = Some
           \<lparr>ce_effect_id = o_effect_id r, ce_case_key = o_case_key r,
            ce_state_revision = unsigned (o_state_revision r), ce_effect_type = o_effect_type r,
            ce_payload = value, ce_lease_owner = owner, ce_lease_until = now + secs\<rparr>)"
proof (cases "find (type_allowed types) (claim_rows (uint now) (map_option uint repo) key s)")
  case None
  with assms(2) show ?thesis by (auto simp: claim_effect_inner_def)
next
  case (Some r)
  note row = claim_rows_oldest [OF Some]
  have "update_rows (\<lambda>q. o_effect_id q = o_effect_id r \<and> pending q \<and> lease_free (uint now) q)
        (\<lambda>q. q\<lparr>o_lease := Some (owner, u)\<rparr>) (outbox s) =
      map (grant_lease (o_effect_id r) owner u) (outbox s) \<and>
    filter (\<lambda>q. o_effect_id q = o_effect_id r \<and> pending q \<and> lease_free (uint now) q) (outbox s) = [r]" for u
    using update_one [OF assms(1), of r "\<lambda>q. pending q \<and> lease_free (uint now) q"] row by blast
  moreover have "a = now + secs" "uint a = uint now + uint secs" if "checked_add now secs = Some a" for a
    using checked_add_sum [OF that] by auto
  ultimately show ?thesis
    using assms(2) Some by (auto simp: claim_effect_inner_def sql_update_Inr)
qed

text \<open>C6: a claim hands out the oldest work and nothing but it. It answers with an effect exactly
  when some effect is pending, unleased or past its lease, in the asked repository and case and
  of an asked type; it takes the oldest of these (by creation time, then identity), records the
  owner and the end of the lease in that row only, and answers with nothing, leaving the ledger
  as it is, when there is none.\<close>

theorem claim_oldest:
  assumes "distinct (map o_effect_id (outbox s))"
    and "claim_effect_inner C D owner now secs types repo key s = (Inr answer, t)"
  shows "case answer of
      None \<Rightarrow> t = s \<and>
        (\<forall>q \<in> set (outbox s). \<not> claimable (uint now) types (map_option uint repo) key s q)
    | Some c \<Rightarrow> \<exists>r \<in> set (outbox s).
        claimable (uint now) types (map_option uint repo) key s r \<and>
        (\<forall>q \<in> set (outbox s). claimable (uint now) types (map_option uint repo) key s q \<longrightarrow>
           o_created_at r < o_created_at q \<or>
           o_created_at r = o_created_at q \<and> o_effect_id r \<le> o_effect_id q) \<and>
        ce_effect_id c = o_effect_id r \<and> ce_case_key c = o_case_key r \<and>
        ce_effect_type c = o_effect_type r \<and> ce_lease_owner c = owner \<and>
        ce_lease_until c = now + secs \<and> claim_payload C D r t = Inr (ce_payload c) \<and>
        t = s\<lparr>outbox := map (grant_lease (o_effect_id r) owner (uint now + uint secs)) (outbox s)\<rparr>"
proof (cases "find (type_allowed types) (claim_rows (uint now) (map_option uint repo) key s)")
  case None
  then have "answer = None" "t = s" using claim_Inr [OF assms] by simp_all
  then show ?thesis using None by (simp add: claim_rows_none claimable_def)
next
  case (Some r)
  then obtain v where v: "claim_payload C D r t = Inr v"
    and answer: "answer = Some \<lparr>ce_effect_id = o_effect_id r, ce_case_key = o_case_key r,
      ce_state_revision = unsigned (o_state_revision r), ce_effect_type = o_effect_type r,
      ce_payload = v, ce_lease_owner = owner, ce_lease_until = now + secs\<rparr>"
    and t: "t = s\<lparr>outbox := map (grant_lease (o_effect_id r) owner (uint now + uint secs)) (outbox s)\<rparr>"
    using claim_Inr [OF assms] by auto
  note row = claim_rows_oldest [OF Some]
  have claim: "claimable (uint now) types (map_option uint repo) key s r"
    using row by (simp add: claimable_def)
  have oldest: "\<forall>q \<in> set (outbox s). claimable (uint now) types (map_option uint repo) key s q \<longrightarrow>
      o_created_at r < o_created_at q \<or> o_created_at r = o_created_at q \<and> o_effect_id r \<le> o_effect_id q"
    using row by (auto simp: claimable_def)
  have "r \<in> set (outbox s)" using row by simp
  with v t claim oldest show ?thesis unfolding answer by auto
qed

text \<open>To run an operation on a sample and name the state it leaves.\<close>

lemma run_answer: "map_sum id f (fst p) = Inr y \<Longrightarrow> \<exists>a t. p = (Inr a, t) \<and> f a = y"
  by (cases p; cases "fst p") auto

theorem claim_oldest_witness:
  "\<exists>c t. claim_effect_inner sample_codec sample_decoders ''v'' 200 60 None None None sample_claimed_store =
       (Inr (Some c), t) \<and> ce_effect_id c = ''fx1'' \<and> ce_lease_until c = 260"
proof -
  let ?run = "claim_effect_inner sample_codec sample_decoders ''v'' 200 60 None None None
      sample_claimed_store"
  have "map_sum id (map_option (\<lambda>c. True)) (fst ?run) = Inr (Some True)" by code_simp
  from run_answer [OF this] obtain c t where run: "?run = (Inr (Some c), t)" by blast
  have "distinct (map o_effect_id (outbox sample_claimed_store))" by code_simp
  from claim_oldest [OF this run] run show ?thesis by (auto simp: sample_claimed_store_def)
qed

section \<open>What a dispatch hands to its workers\<close>

interpretation projections_table: table task_projections task_projections_update
  by unfold_locales simp_all

text \<open>A frozen batch belongs to the case of its effect and names each intent once.\<close>

definition batch_sound :: "codec \<Rightarrow> decoders \<Rightarrow> string \<Rightarrow> Store \<Rightarrow> bool" where
  "batch_sound C D effect_id s \<longleftrightarrow>
     (\<forall>b \<in> set (dispatch_batches s). db_effect_id b = effect_id \<longrightarrow>
        (\<forall>r \<in> set (outbox s). o_effect_id r = effect_id \<longrightarrow> o_case_key r = db_case_key b)) \<and>
     (\<forall>intents. read_intents C D effect_id s = Inr (Some intents) \<longrightarrow>
        distinct (map di_intent_id intents))"

lemma update_rows_hit: "r \<in> set rows \<Longrightarrow> sel r \<Longrightarrow> f r \<in> set (update_rows sel f rows)"
  and update_rows_miss: "r \<in> set rows \<Longrightarrow> \<not> sel r \<Longrightarrow> r \<in> set (update_rows sel f rows)"
  by (force simp: update_rows_def)+

lemma read_intents_cong:
  "dispatch_batches t = dispatch_batches s \<Longrightarrow> read_intents C D e t = read_intents C D e s"
  by (simp add: read_intents_def)

lemma find_distinct:
  assumes "distinct (map k xs)" "find P xs = Some x" "Q x" "\<And>y. Q y \<Longrightarrow> k y = k x"
  shows "find Q xs = Some x"
  using assms
proof (induction xs)
  case (Cons a xs)
  show ?case
  proof (cases "a = x")
    case False
    then have x: "find P xs = Some x" using Cons.prems(2) by (auto split: if_splits)
    then have "x \<in> set xs" by (auto simp: find_Some_iff)
    then have "k x \<in> k ` set xs" by simp
    moreover have "k a \<notin> k ` set xs" using Cons.prems(1) by simp
    ultimately have "\<not> Q a" using Cons.prems(4) [of a] by metis
    then show ?thesis using Cons.IH [OF _ x Cons.prems(3,4)] Cons.prems(1) by simp
  qed (use Cons.prems(3) in simp)
qed simp

lemma resolve_encoded:
  assumes D: "decoders_ok D" and enc: "encode_output C D e transport desired s = Inr v"
    and batches: "dispatch_batches t = dispatch_batches s"
    and once: "\<And>intents. read_intents C D e s = Inr (Some intents) \<Longrightarrow> distinct (map di_intent_id intents)"
    and bound: "\<And>b. b \<in> set (dispatch_batches s) \<Longrightarrow> db_effect_id b = e \<Longrightarrow>
      \<exists>r \<in> set (outbox t). o_case_key r = db_case_key b \<and> o_effect_id r = out"
    and hermes: "transport = Hermes \<Longrightarrow> out = e"
  shows "resolve_output C D out transport v t = Inr desired"
proof (cases "read_intents C D e s")
  case (Inl x)
  with enc show ?thesis by (simp add: encode_output_def split: if_splits)
next
  case (Inr found)
  show ?thesis
  proof (cases found)
    case None
    with enc Inr show ?thesis by (auto simp: encode_output_def resolve_output_def split: if_splits)
  next
    case (Some intents)
    then obtain i where i: "find (\<lambda>i. di_transport i = transport \<and> di_desired i = desired) intents = Some i"
      and v: "v = JObj [(REFERENCE, IntentReference_to_value
        \<lparr>ir_schema_version = 1, ir_effect_id = e, ir_intent_id = di_intent_id i,
         ir_sha256 = payload_hash C desired\<rparr>)]"
      using enc Inr by (auto simp: encode_output_def split: if_splits)
    have same: "di_transport i = transport" "di_desired i = desired" using i by (auto simp: find_Some_iff)
    have again: "find (\<lambda>j. di_intent_id j = di_intent_id i \<and> di_transport j = transport) intents = Some i"
      by (rule find_distinct [OF once i]) (use Inr Some same in auto)
    obtain b where b: "b \<in> set (dispatch_batches s)" "db_effect_id b = e"
      using Inr Some by (auto simp: read_intents_def find_Some_iff split: option.splits) (metis nth_mem)
    have "list_ex (\<lambda>b. db_effect_id b = e \<and>
        list_ex (\<lambda>r. o_case_key r = db_case_key b \<and> o_effect_id r = out) (outbox t)) (dispatch_batches t)"
      using b bound [OF b] by (auto simp: list_ex_iff batches)
    then show ?thesis
      using D hermes Inr Some again same
      by (auto simp: resolve_output_def v decoders_ok_def single_member_def
          read_intents_cong [OF batches] Let_def)
  qed
qed

lemma job_row_simps [simp]:
  "o_effect_id (job_row C k n at job x) = fx_effect_id job" "o_case_key (job_row C k n at job x) = k"
  "o_effect_type (job_row C k n at job x) = fx_effect_type job"
  "o_payload_json (job_row C k n at job x) = json_to_string C x"
  "o_payload_sha256 (job_row C k n at job x) = payload_hash C x"
  "pending (job_row C k n at job x)" "o_lease (job_row C k n at job x) = None"
  by (simp_all add: job_row_def pending_def payload_def payload_hash_def Let_def)

lemma insert_jobs_Inr:
  assumes "sfor (zip jobs encs) (insert_job C k n at) s = (Inr u, t)" "length encs = length jobs"
  shows "t = s\<lparr>outbox := outbox s @ map2 (job_row C k n at) jobs encs\<rparr>"
  using assms
proof (induction jobs arbitrary: encs s)
  case Nil
  then show ?case by simp
next
  case (Cons j js)
  then obtain x xs where encs: "encs = x # xs" by (cases encs) auto
  with Cons.prems obtain v s1 where first: "insert_job C k n at (j, x) s = (Inr v, s1)"
    and rest: "sfor (zip js xs) (insert_job C k n at) s1 = (Inr u, t)" by auto
  have "s1 = s\<lparr>outbox := outbox s @ [job_row C k n at j x]\<rparr>"
    using first by (auto simp: insert_job_def add_effect_def)
  with Cons.IH [OF rest] Cons.prems(2) show ?case by (simp add: encs)
qed

lemma insert_projections_grow:
  "steps (grows task_projections task_projections_update) (sfor xs (insert_projection C k at))"
  unfolding insert_projection_def
  by (intro projections_table.rows.steps_rules projections_table.steps_insert)
    (simp add: add_projection_def)

lemma deliver_Inr:
  "deliver e owner now s = (Inr n, t) \<longleftrightarrow>
     n = length (filter (\<lambda>r. o_effect_id r = e \<and> lease_held owner now r \<and> pending r) (outbox s)) \<and>
     t = s\<lparr>outbox := update_rows (\<lambda>r. o_effect_id r = e \<and> lease_held owner now r \<and> pending r)
       (\<lambda>r. r\<lparr>o_delivered_at := Some now, o_lease := None\<rparr>) (outbox s)\<rparr>"
  by (auto simp: deliver_def sql_update_Inr list_all_iff)

lemma deliver_outbox:
  assumes "deliver e owner now s = (Inr n, t)"
  shows "outbox t = update_rows (\<lambda>r. o_effect_id r = e \<and> lease_held owner now r \<and> pending r)
      (\<lambda>r. r\<lparr>o_delivered_at := Some now, o_lease := None\<rparr>) (outbox s)"
    "dispatch_batches t = dispatch_batches s"
  using assms by (simp_all add: deliver_Inr)

text \<open>What an applied completion has done.\<close>

lemma complete_dispatch_Applied:
  assumes "complete_dispatch_outputs C D source inputs jobs owner now fault s = (Inr Applied, t)"
  obtains row encs s1 where "row \<in> set (outbox s)" "o_effect_id row = source" "o_delivered_at row = None"
    "o_superseded_at row = None"
    "rmap (\<lambda>job. encode_output C D source Direct (fx_payload job) s) jobs = Inr encs"
    "\<not> list_ex (bad_job source) jobs" "lease_valid source owner (uint now) s"
    "s1 = s\<lparr>task_projections := task_projections t,
       outbox := outbox s @ map2 (job_row C (o_case_key row) (o_state_revision row) (uint now)) jobs encs\<rparr>"
    "deliver source owner (uint now) s1 = (Inr 1, t)"
proof -
  from assms obtain row encs desireds sa sb where
    row: "find_effect source s = Some row" "o_delivered_at row = None" "o_superseded_at row = None"
    and encs: "rmap (\<lambda>job. encode_output C D source Direct (fx_payload job) s) jobs = Inr encs"
    and ok: "\<not> list_ex (bad_job source) jobs" "lease_valid source owner (uint now) s"
    and pa: "sfor (zip inputs desireds) (insert_projection C (o_case_key row) (uint now)) s = (Inr (), sa)"
    and jb: "sfor (zip jobs encs) (insert_job C (o_case_key row) (o_state_revision row) (uint now)) sa
        = (Inr (), sb)"
    and dl: "deliver source owner (uint now) sb = (Inr 1, t)"
    by (auto simp: complete_dispatch_outputs_def inject_def split: if_splits)
  have "length encs = length jobs" using encs by (auto simp: rmap_eq_Inr dest: list_all2_lengthD)
  from insert_jobs_Inr [OF jb this] have sb: "sb = sa\<lparr>outbox := outbox sa @
      map2 (job_row C (o_case_key row) (o_state_revision row) (uint now)) jobs encs\<rparr>" .
  have sa: "sa = s\<lparr>task_projections := task_projections sa\<rparr>"
    using stepsD [OF insert_projections_grow pa] by (simp add: grows_def)
  have "task_projections t = task_projections sa" using dl sb by (simp add: deliver_Inr)
  then have "sb = s\<lparr>task_projections := task_projections t,
      outbox := outbox s @ map2 (job_row C (o_case_key row) (o_state_revision row) (uint now)) jobs encs\<rparr>"
    using sb by (subst (asm) sa, subst (asm) (2) sa) simp
  moreover have "row \<in> set (outbox s)" "o_effect_id row = source"
    using row(1) by (auto simp: find_effect_def find_Some_iff)
  ultimately show ?thesis using that row encs ok dl by blast
qed

lemma encode_output_wf:
  assumes "encode_output C D e transport desired s = Inr v" "wf_json desired"
  shows "wf_json v"
  using assms
  by (auto simp: encode_output_def IntentReference_to_value_def json_u32_def split: if_splits option.splits)

lemma sample_codec_ok: "codec_ok sample_codec"
  by (simp add: codec_ok_def sample_codec_def read_put_json)

text \<open>C7: what a dispatch enqueues for direct workers reaches them unchanged. Once the outputs of a
  dispatch are recorded, its effect is delivered and every job of it is pending and unleased, and
  a claim of the job hands out exactly the payload the dispatcher gave, although the ledger may
  hold only a reference into the frozen batch.\<close>

theorem dispatch_payload_exact:
  assumes "codec_ok C" "decoders_ok D" "batch_sound C D source s"
    and run: "complete_dispatch_outputs C D source inputs jobs owner now fault s = (Inr Applied, t)"
    and job: "job \<in> set jobs" "wf_json (fx_payload job)"
  shows "(\<exists>r \<in> set (outbox t). o_effect_id r = source \<and> o_delivered_at r = Some (uint now)) \<and>
    (\<exists>r \<in> set (outbox t). o_effect_id r = fx_effect_id job \<and> o_effect_type r = fx_effect_type job \<and>
       pending r \<and> o_lease r = None \<and> claim_payload C D r t = Inr (fx_payload job))"
  using run
proof (rule complete_dispatch_Applied)
  fix row encs s1
  assume row: "row \<in> set (outbox s)" "o_effect_id row = source" "o_delivered_at row = None"
      "o_superseded_at row = None"
    and encs: "rmap (\<lambda>job. encode_output C D source Direct (fx_payload job) s) jobs = Inr encs"
    and good: "\<not> list_ex (bad_job source) jobs" and valid: "lease_valid source owner (uint now) s"
    and s1: "s1 = s\<lparr>task_projections := task_projections t,
       outbox := outbox s @ map2 (job_row C (o_case_key row) (o_state_revision row) (uint now)) jobs encs\<rparr>"
    and dl: "deliver source owner (uint now) s1 = (Inr 1, t)"
  let ?new = "job_row C (o_case_key row) (o_state_revision row) (uint now)"
  have out: "outbox t = update_rows
      (\<lambda>r. o_effect_id r = source \<and> lease_held owner (uint now) r \<and> pending r)
      (\<lambda>r. r\<lparr>o_delivered_at := Some (uint now), o_lease := None\<rparr>) (outbox s @ map2 ?new jobs encs)"
    and batches: "dispatch_batches t = dispatch_batches s"
    using deliver_outbox [OF dl] by (simp_all add: s1)
  from valid obtain l where l: "l \<in> set (outbox s)" "o_effect_id l = source"
      "lease_held owner (uint now) l" "pending l"
    by (auto simp: lease_valid_def list_ex_iff)
  have "l\<lparr>o_delivered_at := Some (uint now), o_lease := None\<rparr> \<in> set (outbox t)"
    unfolding out by (rule update_rows_hit) (use l in auto)
  with l(2) have delivered: "\<exists>r \<in> set (outbox t). o_effect_id r = source \<and> o_delivered_at r = Some (uint now)"
    by (intro bexI [of _ "l\<lparr>o_delivered_at := Some (uint now), o_lease := None\<rparr>"]) simp_all
  obtain x where x: "(job, x) \<in> set (zip jobs encs)" "encode_output C D source Direct (fx_payload job) s = Inr x"
    using encs job(1) by (auto simp: rmap_eq_Inr list_all2_conv_all_nth in_set_conv_nth set_zip) blast
  have kind: "fx_effect_type job \<in> direct_types" "fx_effect_id job \<noteq> source"
    using good job(1) by (auto simp: list_ex_iff bad_job_def)
  have "?new job x \<in> set (map2 ?new jobs encs)" using x(1) by force
  then have "?new job x \<in> set (outbox s @ map2 ?new jobs encs)" by simp
  moreover have "o_effect_id (?new job x) \<noteq> source" using kind(2) by simp
  ultimately have r: "?new job x \<in> set (outbox t)" unfolding out by (intro update_rows_miss) blast+
  have "resolve_output C D (fx_effect_id job) Direct x t = Inr (fx_payload job)"
  proof (rule resolve_encoded [OF assms(2) x(2) batches])
    fix b
    assume "b \<in> set (dispatch_batches s)" "db_effect_id b = source"
    then have "o_case_key row = db_case_key b" using assms(3) row by (auto simp: batch_sound_def)
    then show "\<exists>r \<in> set (outbox t). o_case_key r = db_case_key b \<and> o_effect_id r = fx_effect_id job"
      using bexI [OF _ r] by simp
  qed (use assms(3) in \<open>auto simp: batch_sound_def\<close>)
  moreover have "json_from_str C (json_to_string C x) = Some x"
    using assms(1) encode_output_wf [OF x(2) job(2)] by (simp add: codec_ok_def)
  ultimately have "claim_payload C D (?new job x) t = Inr (fx_payload job)"
    using kind by (simp add: claim_payload_def)
  then show ?thesis using delivered bexI [OF _ r] by simp
qed

definition sample_job :: EffectInput where
  "sample_job =
     \<lparr>fx_effect_id = ''job1'', fx_effect_type = ''RUN_DIRECT_WORKER'',
      fx_payload = JObj [(''source_effect_id'', JStr ''fx1'')]\<rparr>"

theorem dispatch_payload_exact_witness:
  "\<exists>t. complete_dispatch_outputs sample_codec sample_decoders ''fx1'' [] [sample_job] ''w'' 5 None
       sample_frozen_store = (Inr Applied, t) \<and>
     (\<exists>r \<in> set (outbox t). o_effect_id r = ''job1'' \<and>
        o_payload_json r \<noteq> put_json (fx_payload sample_job) \<and>
        claim_payload sample_codec sample_decoders r t = Inr (fx_payload sample_job))"
proof -
  let ?run = "complete_dispatch_outputs sample_codec sample_decoders ''fx1'' [] [sample_job] ''w'' 5 None
       sample_frozen_store"
  have read: "read_intents sample_codec sample_decoders ''fx1'' sample_frozen_store =
      Inr (Some sample_intents)" by code_simp
  have "\<forall>b \<in> set (dispatch_batches sample_frozen_store). db_effect_id b = ''fx1'' \<longrightarrow>
      (\<forall>r \<in> set (outbox sample_frozen_store). o_effect_id r = ''fx1'' \<longrightarrow> o_case_key r = db_case_key b)"
    by code_simp
  then have sound: "batch_sound sample_codec sample_decoders ''fx1'' sample_frozen_store"
    using read by (simp add: batch_sound_def sample_intents_def)
  have "fst ?run = Inr Applied" by code_simp
  then obtain t where t: "?run = (Inr Applied, t)" by (metis prod.collapse)
  have "\<forall>r \<in> set (outbox (snd ?run)). o_effect_id r = ''job1'' \<longrightarrow>
      o_payload_json r \<noteq> put_json (fx_payload sample_job)" by code_simp
  then have ref: "\<forall>r \<in> set (outbox t). o_effect_id r = ''job1'' \<longrightarrow>
      o_payload_json r \<noteq> put_json (fx_payload sample_job)" using t by simp
  have "\<exists>r \<in> set (outbox t). o_effect_id r = fx_effect_id sample_job \<and>
      claim_payload sample_codec sample_decoders r t = Inr (fx_payload sample_job)"
    using dispatch_payload_exact [OF sample_codec_ok sample_decoders_ok sound t, of sample_job]
    by (auto simp: sample_job_def)
  then show ?thesis using t ref by (auto simp: sample_job_def)
qed

end
