(* ===== verification/Projections.thy ===== *)
theory Projections
  imports Outbox
begin

text \<open>
  Task projections after their dispatch: rejecting a result and retrying its job without a ledger
  transition (\<open>projection_retry.rs\<close> of \<open>pip-store\<close>), retaining the result of a task
  (\<open>task_results.rs\<close>) and reading the projections whose result is still awaited (\<open>lib.rs\<close>). The
  theorems: a rejection schedules exactly one further attempt while the budget lasts and is
  idempotent, the recorded reason is a bounded prefix that ends between characters, and a
  retained result is read back as it was given.
\<close>

section \<open>Bounded texts\<close>

definition is_char_boundary :: "string \<Rightarrow> nat \<Rightarrow> bool" where
  "is_char_boundary text i \<longleftrightarrow>
     i = 0 \<or> i = length text \<or>
     i < length text \<and> \<not> (128 \<le> byte (text ! i) \<and> byte (text ! i) < 192)"

text \<open>The loop \<open>while !text.is_char_boundary(end) { end -= 1 }\<close>.\<close>

function char_boundary_before :: "string \<Rightarrow> nat \<Rightarrow> nat" where
  "char_boundary_before text i =
     (if is_char_boundary text i then i else char_boundary_before text (i - 1))"
  by auto

termination
  by (relation "measure (\<lambda>(text, i). i)") (auto simp: is_char_boundary_def)

declare char_boundary_before.simps [simp del]

definition bounded :: "string \<Rightarrow> string" where
  "bounded text = take (char_boundary_before text (min (length text) 4096)) text"

section \<open>Retries\<close>

definition RETRY_OF :: string where
  "RETRY_OF = ''pip_retry_of''"

datatype ProjectionRejection = Retry string u32 | Exhausted u32

record PendingProjection =
  pp_projection_id :: string
  pp_effect_id :: string
  pp_board :: string
  pp_desired :: json

text \<open>\<open>as_u64().and_then(|attempt| u32::try_from(attempt).ok())\<close>.\<close>

definition as_u32 :: "json \<Rightarrow> u32 option" where
  "as_u32 v = Option.bind (as_u64 v) (\<lambda>n. if uint n < 2 ^ 32 then Some (ucast n) else None)"

text \<open>The projection that began the job and the number of this attempt.\<close>

definition attempt_root :: "string \<Rightarrow> json \<Rightarrow> StoreError + string \<times> u32" where
  "attempt_root projection_id desired =
    (case Option.bind (json_get desired RETRY_OF) as_str of
       Some root \<Rightarrow>
         rbind (ok_or (as_u32 (json_at desired ''attempt'')) (InvalidInput ''invalid retry projection''))
           (\<lambda>attempt. Inr (root, attempt))
     | None \<Rightarrow> Inr (projection_id, 1))"

definition attempt_id :: "string \<Rightarrow> u32 \<Rightarrow> string" where
  "attempt_id root attempt = root @ '':attempt:'' @ show_word attempt"

definition rejected_id :: "string \<Rightarrow> string" where
  "rejected_id projection_id = ''projection-rejected:'' @ projection_id"

definition rejection :: "string \<Rightarrow> string \<Rightarrow> string \<Rightarrow> u32 \<Rightarrow> string \<Rightarrow> EvidenceInput" where
  "rejection projection_id task_id root attempt reason =
     \<lparr>evi_evidence_id = rejected_id projection_id, evi_kind = ''WORKER_RESULT_REJECTED'',
      evi_source = root,
      evi_payload = JObj [(''attempt'', json_u32 attempt), (''projection_id'', JStr projection_id),
        (''reason'', JStr reason), (''task_id'', JStr task_id)]\<rparr>"

definition retry_desired :: "string \<Rightarrow> u32 \<Rightarrow> string \<Rightarrow> u64 \<Rightarrow> json" where
  "retry_desired root attempt reason not_before =
     JObj [(''attempt'', json_u32 attempt), (''not_before'', JPos not_before),
       (RETRY_OF, JStr root), (''previous_result_error'', JStr reason)]"

text \<open>\<open>attempt + 1\<close> is the addition of \<open>u32\<close> in a release build, which wraps.\<close>

definition reject_task_projection ::
  "codec \<Rightarrow> string \<Rightarrow> u64 \<Rightarrow> string \<Rightarrow> u32 \<Rightarrow> u64 \<Rightarrow> ProjectionRejection store_op" where
  "reject_task_projection C projection_id now reason_text max_attempts cooldown =
    sbind ensure_writable (\<lambda>_.
    let reason = bounded (trim reason_text) in
    sbind (sreject_if (blank projection_id \<or> reason = [] \<or> max_attempts = 0)
      (InvalidInput ''projection, reason, and attempt budget are required'')) (\<lambda>_.
    stransaction (
      sbind (sread (find_projection projection_id)) (\<lambda>found.
      sbind (slift (ok_or found (InvalidInput ''unknown task projection''))) (\<lambda>row.
      sbind (slift (ok_or (tp_task_id row) (InvalidInput ''projection has no task yet''))) (\<lambda>task_id.
      sbind (slift (ok_or (json_from_str C (tp_desired_json row)) Serialization)) (\<lambda>desired.
      sbind (slift (attempt_root projection_id desired)) (\<lambda>(root, attempt).
      sbind (sread (\<lambda>s. list_ex (\<lambda>e. ev_evidence_id e = rejected_id projection_id) (evidence s)))
        (\<lambda>already.
      sbind (if already then sreturn ()
        else
          sbind (insert_evidence C (tp_case_key row) now
            [rejection projection_id task_id root attempt reason]) (\<lambda>_.
          if attempt < max_attempts then
            sbind (slift (ok_or (checked_add now cooldown) InvalidInteger)) (\<lambda>not_before.
            sbind (slift (sql_u64 now)) (\<lambda>at.
            sql_insert projection_allowed add_projection
              \<lparr>tp_projection_id = attempt_id root (attempt + 1), tp_case_key = tp_case_key row,
               tp_effect_id = tp_effect_id row, tp_board = tp_board row, tp_task_id = None,
               tp_desired_json = json_to_string C (retry_desired root (attempt + 1) reason not_before),
               tp_observed_json = None, tp_reconciled_at = Some at\<rparr>))
          else sreturn ())) (\<lambda>_.
      sbind (sread (find_projection (attempt_id root (attempt + 1)))) (\<lambda>retried.
      sreturn (if retried \<noteq> None then Retry (attempt_id root (attempt + 1)) (attempt + 1)
               else Exhausted attempt))))))))))))"

definition projection_attempt :: "codec \<Rightarrow> string \<Rightarrow> Store \<Rightarrow> StoreError + u32" where
  "projection_attempt C projection_id s =
     rbind (ok_or (find_projection projection_id s) (InvalidInput ''unknown task projection'')) (\<lambda>row.
     rbind (ok_or (json_from_str C (tp_desired_json row)) Serialization) (\<lambda>desired.
     if json_get desired RETRY_OF = None then Inr 1
     else ok_or (as_u32 (json_at desired ''attempt'')) (InvalidInput ''invalid retry projection'')))"

text \<open>Suffixing one string member of the task, as the loop over the two keys does.\<close>

definition suffix_member :: "string \<Rightarrow> u64 \<Rightarrow> json_object \<Rightarrow> StoreError + json_object" where
  "suffix_member key attempt members =
    (case Option.bind (map_of members key) as_str of
       None \<Rightarrow> Inl (InvalidInput ''invalid retry projection'')
     | Some text \<Rightarrow>
         Inr (object_insert key (JStr (text @ '':attempt:'' @ show_word attempt)) members))"

definition resolve_projection_desired ::
  "codec \<Rightarrow> decoders \<Rightarrow> string \<Rightarrow> json \<Rightarrow> Store \<Rightarrow> StoreError + json" where
  "resolve_projection_desired C D effect_id desired s =
    (case Option.bind (json_get desired RETRY_OF) as_str of
       None \<Rightarrow> resolve_output C D effect_id Hermes desired s
     | Some root \<Rightarrow>
         let invalid = InvalidInput ''invalid retry projection'' in
         rbind (ok_or (as_u64 (json_at desired ''attempt'')) invalid) (\<lambda>attempt.
         rbind (ok_or (as_str (json_at desired ''previous_result_error'')) invalid) (\<lambda>error.
         rbind (ok_or (find_projection root s) invalid) (\<lambda>root_row.
         rbind (ok_or (json_from_str C (tp_desired_json root_row)) Serialization) (\<lambda>root_desired.
         if tp_effect_id root_row \<noteq> effect_id \<or> json_get root_desired RETRY_OF \<noteq> None then Inl invalid
         else
           rbind (resolve_output C D effect_id Hermes root_desired s) (\<lambda>resolved.
           case resolved of
             JObj members \<Rightarrow>
               rbind (suffix_member ''projection_key'' attempt members) (\<lambda>members.
               rbind (suffix_member ''effect_id'' attempt members) (\<lambda>members.
               (case map_of members ''body'' of
                  Some (JObj body) \<Rightarrow>
                    Inr (JObj (object_insert ''body''
                      (JObj (object_insert ''previous_result_error'' (JStr error) body)) members))
                | _ \<Rightarrow> Inl invalid)))
           | _ \<Rightarrow> Inl invalid))))))"

text \<open>\<open>ORDER BY p.reconciled_at, p.projection_id\<close>, nulls first.\<close>

definition null_first :: "int option \<Rightarrow> int" where
  "null_first t = (case t of None \<Rightarrow> - (2 ^ 63) - 1 | Some i \<Rightarrow> i)"

definition by_reconciliation :: "TaskProjectionRow list \<Rightarrow> TaskProjectionRow list" where
  "by_reconciliation rows = sort_key (\<lambda>p. null_first (tp_reconciled_at p)) (sort_key tp_projection_id rows)"

definition retry_due :: "codec \<Rightarrow> int \<Rightarrow> TaskProjectionRow \<Rightarrow> bool" where
  "retry_due C now p \<longleftrightarrow>
     tp_task_id p = None \<and> json_extract C (tp_desired_json p) ''$.pip_retry_of'' \<noteq> SqlNull \<and>
     (let not_before = json_extract C (tp_desired_json p) ''$.not_before'' in
      sql_less C not_before (SqlInt now) \<or> sql_eq C not_before (SqlInt now))"

definition pending_projection_retries ::
  "codec \<Rightarrow> decoders \<Rightarrow> u64 \<Rightarrow> string option \<Rightarrow> u64 \<Rightarrow> Store \<Rightarrow> StoreError + PendingProjection list" where
  "pending_projection_retries C D repository_id case_key now s =
     rbind (sql_u64 repository_id) (\<lambda>repository.
     rbind (sql_u64 now) (\<lambda>at.
     rmap (\<lambda>p. rbind (ok_or (json_from_str C (tp_desired_json p)) Serialization) (\<lambda>stored.
         rbind (resolve_projection_desired C D (tp_effect_id p) stored s) (\<lambda>desired.
         Inr \<lparr>pp_projection_id = tp_projection_id p, pp_effect_id = tp_effect_id p,
              pp_board = tp_board p, pp_desired = desired\<rparr>)))
       (by_reconciliation (filter (\<lambda>p. retry_due C at p \<and>
          list_ex (\<lambda>c. c_case_key c = tp_case_key p \<and> c_repository_id c = repository \<and>
            (case_key = None \<or> Some (c_case_key c) = case_key)) (cases_table s)) (task_projections s)))))"

definition record_projection_task :: "codec \<Rightarrow> string \<Rightarrow> string \<Rightarrow> json \<Rightarrow> u64 \<Rightarrow> unit store_op" where
  "record_projection_task C projection_id task_id observed now =
    sbind ensure_writable (\<lambda>_.
    sbind (sreject_if (blank projection_id \<or> blank task_id)
      (InvalidInput ''projection and task are required'')) (\<lambda>_.
    sbind (slift (sql_u64 now)) (\<lambda>at.
    sbind (sql_update (\<lambda>_. True) task_projections task_projections_update
      (\<lambda>p. tp_projection_id p = projection_id \<and> tp_task_id p = None)
      (\<lambda>p. p\<lparr>tp_task_id := Some task_id, tp_observed_json := Some (json_to_string C observed),
             tp_reconciled_at := Some at\<rparr>)) (\<lambda>updated.
    if updated = 1 then sreturn ()
    else
      sbind (sread (find_projection projection_id)) (\<lambda>existing.
      case existing of
        None \<Rightarrow> sfail (InvalidInput ''unknown task projection'')
      | Some p \<Rightarrow>
          if tp_task_id p = Some task_id then sreturn ()
          else sfail (IdempotencyConflict (''projection:'' @ projection_id)))))))"

section \<open>Results of tasks\<close>

definition result_id :: "string \<Rightarrow> string" where
  "result_id task_id = ''hermes-result-'' @ task_id"

definition retained_task_result :: "codec \<Rightarrow> string \<Rightarrow> Store \<Rightarrow> StoreError + json option" where
  "retained_task_result C task_id s =
    (case find (\<lambda>e. ev_evidence_id e = result_id task_id \<and> ev_kind e = ''HERMES_RESULT'' \<and>
         list_ex (\<lambda>p. tp_projection_id p = ev_source e \<and> tp_task_id p = Some task_id) (task_projections s))
       (evidence s) of
       None \<Rightarrow> Inr None
     | Some e \<Rightarrow>
         rbind (ok_or (json_from_str C (ev_payload_json e)) Serialization) (\<lambda>value.
         if payload_hash C value \<noteq> ev_payload_sha256 e
         then Inl (InvalidInput ''retained task result digest differs'')
         else Inr (Some value)))"

definition retain_task_result :: "codec \<Rightarrow> string \<Rightarrow> json \<Rightarrow> u64 \<Rightarrow> ApplyResult store_op" where
  "retain_task_result C task_id value now =
    sbind ensure_writable (\<lambda>_.
    sbind (sreject_if (\<not> is_object value \<or> int (length (json_to_string C value)) > 4 * 1024 * 1024)
      (InvalidInput ''task result must be a bounded object'')) (\<lambda>_.
    sbind (squery (retained_task_result C task_id)) (\<lambda>found.
    case found of
      Some existing \<Rightarrow>
        (if existing = value then sreturn Replayed else sfail (IdempotencyConflict task_id))
    | None \<Rightarrow>
        stransaction (
          sbind (sread (\<lambda>s. find (\<lambda>p. tp_task_id p = Some task_id \<and> has_effect s (tp_effect_id p))
            (task_projections s))) (\<lambda>found.
          sbind (slift (ok_or found (Database QueryReturnedNoRows))) (\<lambda>p.
          sbind (sread (find_effect (tp_effect_id p))) (\<lambda>effect.
          sbind (slift (ok_or effect (Database QueryReturnedNoRows))) (\<lambda>source.
          sbind (insert_evidence C (o_case_key source) now
            [\<lparr>evi_evidence_id = result_id task_id, evi_kind = ''HERMES_RESULT'',
              evi_source = tp_projection_id p, evi_payload = value\<rparr>]) (\<lambda>_.
          sreturn Applied)))))))))"

section \<open>Reading projections\<close>

definition projection_input ::
  "codec \<Rightarrow> (json \<Rightarrow> StoreError + json) \<Rightarrow> TaskProjectionRow \<Rightarrow> StoreError + TaskProjectionInput" where
  "projection_input C resolve p =
     rbind (ok_or (tp_observed_json p) (Database InvalidColumnType)) (\<lambda>observed_json.
     rbind (ok_or (tp_task_id p) (Database InvalidColumnType)) (\<lambda>task_id.
     rbind (ok_or (json_from_str C (tp_desired_json p)) Serialization) (\<lambda>stored.
     rbind (resolve stored) (\<lambda>desired.
     rbind (ok_or (json_from_str C observed_json) Serialization) (\<lambda>observed.
     Inr \<lparr>tpi_projection_id = tp_projection_id p, tpi_effect_id = tp_effect_id p,
          tpi_board = tp_board p, tpi_task_id = task_id, tpi_desired = desired,
          tpi_observed = observed\<rparr>)))))"

definition task_projection ::
  "codec \<Rightarrow> decoders \<Rightarrow> string \<Rightarrow> Store \<Rightarrow> StoreError + TaskProjectionInput option" where
  "task_projection C D projection_id s =
    (case find_projection projection_id s of
       None \<Rightarrow> Inr None
     | Some p \<Rightarrow>
         rbind (projection_input C (\<lambda>v. resolve_output C D (tp_effect_id p) Hermes v s) p)
           (\<lambda>input. Inr (Some input)))"

text \<open>A projection with a task whose result was neither accepted as a run nor rejected.\<close>

definition unconsumed :: "int option \<Rightarrow> string option \<Rightarrow> Store \<Rightarrow> TaskProjectionRow \<Rightarrow> bool" where
  "unconsumed repository case_key s p \<longleftrightarrow>
     (case tp_task_id p of None \<Rightarrow> False | Some task \<Rightarrow> list_all (\<lambda>r. r_task_id r \<noteq> task) (runs s)) \<and>
     list_all (\<lambda>e. ev_evidence_id e \<noteq> rejected_id (tp_projection_id p)) (evidence s) \<and>
     list_ex (\<lambda>o'. o_effect_id o' = tp_effect_id p \<and>
       list_ex (\<lambda>c. c_case_key c = o_case_key o' \<and>
         (case repository of None \<Rightarrow> True | Some r \<Rightarrow> c_repository_id c = r) \<and>
         (case case_key of None \<Rightarrow> True | Some k \<Rightarrow> c_case_key c = k)) (cases_table s)) (outbox s)"

definition unconsumed_task_projections_inner ::
  "codec \<Rightarrow> decoders \<Rightarrow> u64 option \<Rightarrow> string option \<Rightarrow> Store \<Rightarrow> StoreError + TaskProjectionInput list" where
  "unconsumed_task_projections_inner C D repository_id case_key s =
     rbind (sql_u64_opt repository_id) (\<lambda>repository.
     rmap (\<lambda>p. projection_input C (\<lambda>v. resolve_projection_desired C D (tp_effect_id p) v s) p)
       (by_reconciliation (filter (unconsumed repository case_key s) (task_projections s))))"

definition unconsumed_task_projections ::
  "codec \<Rightarrow> decoders \<Rightarrow> Store \<Rightarrow> StoreError + TaskProjectionInput list" where
  "unconsumed_task_projections C D s = unconsumed_task_projections_inner C D None None s"

definition unconsumed_task_projections_in ::
  "codec \<Rightarrow> decoders \<Rightarrow> u64 \<Rightarrow> string option \<Rightarrow> Store \<Rightarrow> StoreError + TaskProjectionInput list" where
  "unconsumed_task_projections_in C D repository_id case_key s =
    (if repository_id = 0 \<or> (case case_key of None \<Rightarrow> False | Some k \<Rightarrow> blank k)
     then Inl (InvalidInput ''valid repository and case scope required'')
     else unconsumed_task_projections_inner C D (Some repository_id) case_key s)"

section \<open>Cutting a text between characters\<close>

lemma char_boundary_before_le: "char_boundary_before text i \<le> i"
proof (induction "text" i rule: char_boundary_before.induct)
  case (1 t i)
  then show ?case by (auto simp: char_boundary_before.simps [of t i])
qed

lemma char_boundary_before_boundary: "is_char_boundary text (char_boundary_before text i)"
proof (induction "text" i rule: char_boundary_before.induct)
  case (1 t i)
  then show ?case by (simp add: char_boundary_before.simps [of t i])
qed

text \<open>UTF-8: a lead byte and the continuation bytes it announces.\<close>

definition continuation :: "char \<Rightarrow> bool" where
  "continuation c \<longleftrightarrow> 128 \<le> byte c \<and> byte c < 192"

definition utf8_char :: "string \<Rightarrow> bool" where
  "utf8_char cs \<longleftrightarrow>
     (case cs of
        [] \<Rightarrow> False
      | lead # rest \<Rightarrow> list_all continuation rest \<and>
          (if byte lead < 128 then rest = []
           else if 194 \<le> byte lead \<and> byte lead < 224 then length rest = 1
           else if 224 \<le> byte lead \<and> byte lead < 240 then length rest = 2
           else 240 \<le> byte lead \<and> byte lead < 245 \<and> length rest = 3))"

definition utf8 :: "string \<Rightarrow> bool" where
  "utf8 text \<longleftrightarrow> (\<exists>chars. list_all utf8_char chars \<and> text = concat chars)"

lemma utf8_char_cases:
  assumes "utf8_char cs"
  obtains lead rest where "cs = lead # rest" "\<not> continuation lead" "list_all continuation rest" "length rest \<le> 3"
  using assms by (cases cs) (auto simp: utf8_char_def continuation_def split: if_splits)

text \<open>The boundaries of a text are the ends of its characters.\<close>

lemma boundary_takes_chars:
  assumes "list_all utf8_char chars" "is_char_boundary (concat chars) i" "i \<le> length (concat chars)"
  shows "\<exists>n. take i (concat chars) = concat (take n chars)"
  using assms
proof (induction chars arbitrary: i)
  case Nil
  then show ?case by simp
next
  case (Cons cs chars)
  show ?case
  proof (cases "i < length cs")
    case True
    from Cons.prems(1) obtain lead rest where cs: "cs = lead # rest" "list_all continuation rest"
      by (auto elim: utf8_char_cases)
    have "i = 0"
    proof (rule ccontr)
      assume "i \<noteq> 0"
      with True cs have "continuation (concat (cs # chars) ! i)"
        by (auto simp: nth_append nth_Cons' list_all_iff)
      with Cons.prems(2) True \<open>i \<noteq> 0\<close> show False by (auto simp: is_char_boundary_def continuation_def)
    qed
    then show ?thesis by (intro exI [of _ 0]) simp
  next
    case False
    then have "is_char_boundary (concat chars) (i - length cs)"
      using Cons.prems(2) by (auto simp: is_char_boundary_def nth_append)
    moreover have "i - length cs \<le> length (concat chars)" using Cons.prems(3) False by simp
    ultimately obtain n where "take (i - length cs) (concat chars) = concat (take n chars)"
      using Cons.IH [of "i - length cs"] Cons.prems(1) by auto
    with False show ?thesis by (intro exI [of _ "Suc n"]) simp
  qed
qed

text \<open>Behind a position there are at most three bytes to the start of its character.\<close>

lemma char_start_near:
  assumes "list_all utf8_char chars" "i \<le> length (concat chars)"
  shows "\<exists>j \<le> i. i \<le> j + 3 \<and> is_char_boundary (concat chars) j"
  using assms
proof (induction chars arbitrary: i)
  case Nil
  then show ?case by (auto simp: is_char_boundary_def)
next
  case (Cons cs chars)
  show ?case
  proof (cases "i < length cs")
    case True
    from Cons.prems(1) obtain rest lead where "cs = lead # rest" "length rest \<le> 3"
      by (auto elim: utf8_char_cases)
    with True show ?thesis by (intro exI [of _ 0]) (auto simp: is_char_boundary_def)
  next
    case False
    then have "i - length cs \<le> length (concat chars)" using Cons.prems(2) by simp
    with Cons.prems(1) Cons.IH [of "i - length cs"] obtain j where j: "j \<le> i - length cs"
      "i - length cs \<le> j + 3" "is_char_boundary (concat chars) j" by auto
    have start: "is_char_boundary (concat (cs # chars)) (length cs)"
    proof (cases chars)
      case (Cons c rest)
      with Cons.prems(1) obtain lead tail where "c = lead # tail" "\<not> continuation lead"
        by (auto elim: utf8_char_cases)
      with Cons show ?thesis by (simp add: is_char_boundary_def continuation_def nth_append)
    qed (simp add: is_char_boundary_def)
    have "is_char_boundary (concat (cs # chars)) (length cs + j)"
      using j(3) start by (cases "j = 0") (auto simp: is_char_boundary_def nth_append)
    with j False show ?thesis by (intro exI [of _ "length cs + j"]) auto
  qed
qed

lemma char_boundary_before_ge:
  "j \<le> i \<Longrightarrow> is_char_boundary text j \<Longrightarrow> j \<le> char_boundary_before text i"
proof (induction "text" i rule: char_boundary_before.induct)
  case (1 t i)
  then show ?case
    by (cases "j = i") (auto simp: char_boundary_before.simps [of t i])
qed

lemma find_append_none: "find P xs = None \<Longrightarrow> find P (xs @ ys) = find P ys"
  by (induction xs) (auto split: if_splits)

lemma bounded_prefix: "prefix (bounded t) t"
  by (simp add: bounded_def take_is_prefix)

section \<open>A rejected result\<close>

lemma find_projection_add:
  "find_projection i (add_projection p s) =
     (case find_projection i s of
        Some q \<Rightarrow> Some q
      | None \<Rightarrow> if tp_projection_id p = i then Some p else None)"
proof -
  have "find P (xs @ [p]) = (case find P xs of Some q \<Rightarrow> Some q | None \<Rightarrow> if P p then Some p else None)"
    for P and xs :: "TaskProjectionRow list" by (induction xs) auto
  then show ?thesis by (simp add: find_projection_def add_projection_def)
qed

lemma add_projection_keeps [simp]:
  "evidence (add_projection p s) = evidence s" "read_only (add_projection p s) = read_only s"
  by (simp_all add: add_projection_def)

lemma find_projection_evidence [simp]: "find_projection i (s\<lparr>evidence := es\<rparr>) = find_projection i s"
  by (simp add: find_projection_def)

lemma retry_desired_wf: "wf_json (retry_desired root attempt reason not_before)"
  by (simp add: retry_desired_def RETRY_OF_def json_u32_def)

lemma as_u32_json_u32 [simp]: "as_u32 (json_u32 n) = Some n"
proof -
  have "uint (ucast n :: u64) < 2 ^ 32" using uint_bounded [of n] by (simp add: uint_up_ucast is_up)
  then show ?thesis by (simp add: as_u32_def json_u32_def ucast_up_ucast_id is_up)
qed

definition retry_row :: "codec \<Rightarrow> TaskProjectionRow \<Rightarrow> string \<Rightarrow> u32 \<Rightarrow> string \<Rightarrow> u64 \<Rightarrow> u64 \<Rightarrow> TaskProjectionRow" where
  "retry_row C row root attempt reason not_before now =
     \<lparr>tp_projection_id = attempt_id root attempt, tp_case_key = tp_case_key row,
      tp_effect_id = tp_effect_id row, tp_board = tp_board row, tp_task_id = None,
      tp_desired_json = json_to_string C (retry_desired root attempt reason not_before),
      tp_observed_json = None, tp_reconciled_at = Some (uint now)\<rparr>"

abbreviation rejected :: "string \<Rightarrow> Store \<Rightarrow> bool" where
  "rejected projection_id s \<equiv> list_ex (\<lambda>e. ev_evidence_id e = rejected_id projection_id) (evidence s)"

text \<open>What a rejection that is answered found and wrote.\<close>

definition next_attempt :: "string \<Rightarrow> u32 \<Rightarrow> Store \<Rightarrow> ProjectionRejection" where
  "next_attempt root attempt s =
     (if find_projection (attempt_id root (attempt + 1)) s \<noteq> None
      then Retry (attempt_id root (attempt + 1)) (attempt + 1) else Exhausted attempt)"

abbreviation with_rejection ::
  "codec \<Rightarrow> string \<Rightarrow> TaskProjectionRow \<Rightarrow> string \<Rightarrow> string \<Rightarrow> u32 \<Rightarrow> string \<Rightarrow> u64 \<Rightarrow> Store \<Rightarrow> Store" where
  "with_rejection C i row task root attempt reason now s \<equiv>
     s\<lparr>evidence := evidence s @ [evidence_row C (tp_case_key row) now (rejection i task root attempt reason)]\<rparr>"

lemma reject_found:
  assumes "reject_task_projection C i now reason max_attempts cooldown s = (Inr r, t)"
  obtains row task desired root attempt where
    "find_projection i s = Some row" "tp_task_id row = Some task"
    "json_from_str C (tp_desired_json row) = Some desired"
    "attempt_root i desired = Inr (root, attempt)" "\<not> read_only s" "\<not> blank i"
  using assms by (auto simp: reject_task_projection_def Let_def split: prod.splits)

lemma reject_wrote:
  assumes "reject_task_projection C i now reason max_attempts cooldown s = (Inr r, t)"
    and "find_projection i s = Some row" "tp_task_id row = Some task"
    "json_from_str C (tp_desired_json row) = Some desired" "attempt_root i desired = Inr (root, attempt)"
  defines "s1 \<equiv> with_rejection C i row task root attempt (bounded (trim reason)) now s"
  shows "r = next_attempt root attempt t"
    and "rejected i s \<Longrightarrow> t = s"
    and "\<not> rejected i s \<Longrightarrow> \<not> attempt < max_attempts \<Longrightarrow> t = s1"
    and "\<not> rejected i s \<Longrightarrow> attempt < max_attempts \<Longrightarrow>
      \<exists>not_before. t = add_projection (retry_row C row root (attempt + 1) (bounded (trim reason)) not_before now) s1"
proof -
  show "r = next_attempt root attempt t"
    using assms(1-5) by (auto simp: reject_task_projection_def next_attempt_def Let_def split: prod.splits)
  show "t = s" if "rejected i s"
    using assms(1-5) that by (auto simp: reject_task_projection_def Let_def split: prod.splits)
  show "t = s1" if "\<not> rejected i s" "\<not> attempt < max_attempts"
    using assms that by (auto simp: reject_task_projection_def Let_def dest!: insert_evidence_one)
  show "\<exists>not_before. t = add_projection (retry_row C row root (attempt + 1) (bounded (trim reason)) not_before now) s1"
    if "\<not> rejected i s" "attempt < max_attempts"
    using assms that by (auto simp: reject_task_projection_def Let_def retry_row_def dest!: insert_evidence_one)
qed

lemma reject_again:
  assumes "find_projection i s = Some row" "tp_task_id row = Some task"
    "json_from_str C (tp_desired_json row) = Some desired" "attempt_root i desired = Inr (root, attempt)"
    "\<not> read_only s" "\<not> blank i" "rejected i s" "bounded (trim reason) \<noteq> []" "max_attempts \<noteq> 0"
  shows "reject_task_projection C i now reason max_attempts cooldown s =
    (Inr (next_attempt root attempt s), s)"
  using assms by (simp add: reject_task_projection_def next_attempt_def Let_def sbind_def stransaction_def)

section \<open>Theorems\<close>


definition sample_projection :: TaskProjectionRow where
  "sample_projection =
     \<lparr>tp_projection_id = ''p1'', tp_case_key = ''case1'', tp_effect_id = ''fx1'', tp_board = ''b'',
      tp_task_id = Some ''t1'', tp_desired_json = put_json (JObj [(''body'', JObj [])]),
      tp_observed_json = None, tp_reconciled_at = Some 1\<rparr>"

definition sample_projected :: Store where
  "sample_projected = sample_claimed_store\<lparr>task_projections := [sample_projection]\<rparr>"

abbreviation sample_rejection :: "u32 \<Rightarrow> ProjectionRejection store_op" where
  "sample_rejection max_attempts \<equiv> reject_task_projection sample_codec ''p1'' 9 ''bad json'' max_attempts 60"

lemma sample_rejects:
  "\<exists>t. sample_rejection 3 sample_projected = (Inr (Retry ''p1:attempt:2'' 2), t)"
proof -
  have "fst (sample_rejection 3 sample_projected) = Inr (Retry ''p1:attempt:2'' 2)" by code_simp
  then show ?thesis by (metis prod.collapse)
qed


text \<open>Rejecting the same projection again changes nothing. Whatever time, reason, budget and
  cool-down the repeated call gives, its answer is the one of the first call, and no second
  attempt is scheduled.\<close>

theorem rejection_replayed:
  assumes run: "reject_task_projection C i now reason max_attempts cooldown s = (Inr r, t)"
    and again: "bounded (trim reason') \<noteq> []" "max_attempts' \<noteq> 0"
  shows "reject_task_projection C i now' reason' max_attempts' cooldown' t = (Inr r, t)"
proof -
  from reject_found [OF run] obtain row task desired root attempt where
    row: "find_projection i s = Some row" "tp_task_id row = Some task"
    "json_from_str C (tp_desired_json row) = Some desired" "attempt_root i desired = Inr (root, attempt)"
    "\<not> read_only s" "\<not> blank i" .
  note wrote = reject_wrote [OF run row(1-4)]
  have "find_projection i t = Some row \<and> \<not> read_only t \<and> rejected i t"
  proof (cases "rejected i s")
    case True
    with wrote(2) row show ?thesis by simp
  next
    case False
    with wrote(3,4) row show ?thesis
      by (cases "attempt < max_attempts")
        (auto simp: find_projection_add evidence_row_def rejection_def)
  qed
  with reject_again [OF _ row(2,3,4) _ row(6) _ again, of t] wrote(1) show ?thesis by simp
qed

theorem rejection_replayed_witness:
  "\<exists>t. sample_rejection 3 sample_projected = (Inr (Retry ''p1:attempt:2'' 2), t) \<and>
     reject_task_projection sample_codec ''p1'' 77 ''other'' 1 0 t = (Inr (Retry ''p1:attempt:2'' 2), t)"
proof -
  from sample_rejects obtain t where t: "sample_rejection 3 sample_projected = (Inr (Retry ''p1:attempt:2'' 2), t)" ..
  have "bounded (trim ''other'') \<noteq> []" by code_simp
  from rejection_replayed [OF t this, of 1] t show ?thesis by auto
qed

text \<open>C34: The reason kept of a rejected result is a bounded prefix that ends between characters. For
  a text of whole UTF-8 characters the loop of \<open>bounded\<close> ends, at most three bytes before the
  limit; what it returns is a prefix of the text, of at most 4096 bytes, again made of whole
  characters, and the text itself when that is not longer.\<close>

theorem bounded_whole_chars:
  assumes "utf8 t"
  shows "prefix (bounded t) t \<and> length (bounded t) \<le> 4096 \<and> utf8 (bounded t) \<and>
    (length t \<le> 4096 \<longrightarrow> bounded t = t) \<and> (4096 < length t \<longrightarrow> 4093 \<le> length (bounded t))"
proof -
  let ?limit = "min (length t) 4096"
  let ?i = "char_boundary_before t ?limit"
  from assms obtain chars where chars: "list_all utf8_char chars" "t = concat chars"
    by (auto simp: utf8_def)
  have le: "?i \<le> ?limit" by (rule char_boundary_before_le)
  then have len: "length (bounded t) = ?i" by (simp add: bounded_def)
  from boundary_takes_chars [OF chars(1), of ?i] char_boundary_before_boundary le chars(2)
  obtain n where "take ?i t = concat (take n chars)" by auto
  then have "utf8 (bounded t)"
    using chars(1) unfolding utf8_def bounded_def
    by (metis append_take_drop_id list_all_append)
  moreover have "?i = length t" if "length t \<le> 4096"
    using that by (simp add: char_boundary_before.simps is_char_boundary_def)
  moreover from char_start_near [OF chars(1), of ?limit] obtain j where
    "j \<le> ?limit" "?limit \<le> j + 3" "is_char_boundary t j" using chars(2) by auto
  then have "?limit \<le> ?i + 3" using char_boundary_before_ge [of j ?limit t] by simp
  ultimately show ?thesis using le len bounded_prefix by (auto simp: bounded_def)
qed

theorem bounded_whole_chars_witness:
  "utf8 ''ok'' \<and> bounded ''ok'' = ''ok''"
proof -
  have "utf8 ''ok''"
    unfolding utf8_def by (rule exI [of _ "[''o'', ''k'']"]) (simp add: utf8_char_def byte_def)
  with bounded_whole_chars [OF this] show ?thesis by simp
qed

text \<open>A retained result is kept. Once the result of a task has been retained, reading it gives
  the value that was given, retaining the same value again is a replay, retaining another one is
  a conflict, and neither writes anything.\<close>

theorem retained_result_kept:
  assumes "codec_ok C" "wf_json v"
    and run: "retain_task_result C task v now s = (Inr a, t)"
  shows "retained_task_result C task t = Inr (Some v) \<and>
    retain_task_result C task v now' t = (Inr Replayed, t) \<and>
    (w \<noteq> v \<and> is_object w \<and> int (length (json_to_string C w)) \<le> 4 * 1024 * 1024 \<longrightarrow>
       retain_task_result C task w now' t = (Inl (IdempotencyConflict task), t))"
proof -
  from run have valid: "is_object v" "int (length (json_to_string C v)) \<le> 4 * 1024 * 1024" "\<not> read_only s"
    by (auto simp: retain_task_result_def)
  have "retained_task_result C task t = Inr (Some v) \<and> \<not> read_only t"
  proof (cases "retained_task_result C task s")
    case (Inl e)
    with run show ?thesis by (auto simp: retain_task_result_def)
  next
    case (Inr found)
    show ?thesis
    proof (cases found)
      case (Some existing)
      with Inr run valid show ?thesis by (auto simp: retain_task_result_def split: if_splits)
    next
      case None
      with Inr run obtain p k where p: "p \<in> set (task_projections s)" "tp_task_id p = Some task"
        and ev: "insert_evidence C k now [\<lparr>evi_evidence_id = result_id task, evi_kind = ''HERMES_RESULT'',
          evi_source = tp_projection_id p, evi_payload = v\<rparr>] s = (Inr (), t)"
        by (auto simp: retain_task_result_def find_Some_iff) (metis nth_mem)
      let ?e = "evidence_row C k now \<lparr>evi_evidence_id = result_id task, evi_kind = ''HERMES_RESULT'',
          evi_source = tp_projection_id p, evi_payload = v\<rparr>"
      from insert_evidence_one [OF ev] have t: "t = s\<lparr>evidence := evidence s @ [?e]\<rparr>"
        and fresh: "\<forall>e \<in> set (evidence s). ev_evidence_id e \<noteq> result_id task" by auto
      have "list_ex (\<lambda>q. tp_projection_id q = tp_projection_id p \<and> tp_task_id q = Some task) (task_projections s)"
        using p by (auto simp: list_ex_iff)
      then have "find (\<lambda>e. ev_evidence_id e = result_id task \<and> ev_kind e = ''HERMES_RESULT'' \<and>
          list_ex (\<lambda>p. tp_projection_id p = ev_source e \<and> tp_task_id p = Some task) (task_projections s))
          (evidence s @ [?e]) = Some ?e"
        using fresh by (subst find_append_none) (auto simp: find_None_iff evidence_row_def)
      with assms(1,2) valid(3) show ?thesis
        by (simp add: t retained_task_result_def codec_ok_def evidence_row_def)
    qed
  qed
  with valid show ?thesis by (simp add: retain_task_result_def sbind_def)
qed

theorem retained_result_kept_witness:
  "\<exists>t. retain_task_result sample_codec ''t1'' (JObj []) 9 sample_projected = (Inr Applied, t) \<and>
     retained_task_result sample_codec ''t1'' t = Inr (Some (JObj [])) \<and>
     retain_task_result sample_codec ''t1'' (JObj []) 10 t = (Inr Replayed, t) \<and>
     retain_task_result sample_codec ''t1'' (JObj [(''a'', JNull)]) 10 t = (Inl (IdempotencyConflict ''t1''), t)"
proof -
  have "fst (retain_task_result sample_codec ''t1'' (JObj []) 9 sample_projected) = Inr Applied" by code_simp
  then obtain t where t: "retain_task_result sample_codec ''t1'' (JObj []) 9 sample_projected = (Inr Applied, t)"
    by (metis prod.collapse)
  have "int (length (json_to_string sample_codec (JObj [(''a'', JNull)]))) \<le> 4 * 1024 * 1024" by code_simp
  with retained_result_kept [OF sample_codec_ok _ t, of 10 "JObj [(''a'', JNull)]"] t show ?thesis by simp
qed

end
