(* ===== verification/DirectAttempts.thy ===== *)
theory DirectAttempts
  imports Outbox
begin

text \<open>
  Attempts of direct workers at a leased effect: starting one, completing or failing it, and
  recording an execution outage with an exponential cool-down (\<open>begin_direct_attempt\<close> to
  \<open>builder_dispatched_before\<close> of \<open>lib.rs\<close>, \<open>case_activity.rs\<close>). The theorems: an attempt ends at
  most once and never changes afterwards, the cool-down is bounded and not extended by a replay,
  and an outage is never charged to the failure budget of the case.
\<close>

section \<open>The table\<close>

definition is_complete :: "AttemptState \<Rightarrow> bool" where
  "is_complete st \<longleftrightarrow> (case st of COMPLETE _ _ _ \<Rightarrow> True | _ \<Rightarrow> False)"

definition is_failed :: "AttemptState \<Rightarrow> bool" where
  "is_failed st \<longleftrightarrow> (case st of FAILED _ _ \<Rightarrow> True | _ \<Rightarrow> False)"

text \<open>The unique indexes \<open>direct_attempts_one_running\<close> and \<open>direct_attempts_one_complete\<close>.\<close>

definition attempt_indexes :: "DirectAttemptRow list \<Rightarrow> bool" where
  "attempt_indexes rows \<longleftrightarrow>
     distinct (map d_effect_id (filter (\<lambda>d. d_status d = RUNNING) rows)) \<and>
     distinct (map d_effect_id (filter (\<lambda>d. is_complete (d_status d)) rows))"

text \<open>An \<open>UPDATE\<close> that ends running attempts. The triggers of the table admit only this change:
  a row that is not running is never updated and identities are kept.\<close>

definition end_attempts :: "(DirectAttemptRow \<Rightarrow> bool) \<Rightarrow> AttemptState \<Rightarrow> nat store_op" where
  "end_attempts sel st =
     sbind (sread direct_attempts) (\<lambda>rows.
       let rows' = update_rows (\<lambda>d. sel d \<and> d_status d = RUNNING) (\<lambda>d. d\<lparr>d_status := st\<rparr>) rows in
       if attempt_indexes rows'
       then sbind (smodify (\<lambda>s. s\<lparr>direct_attempts := rows'\<rparr>)) (\<lambda>_.
            sreturn (length (filter (\<lambda>d. sel d \<and> d_status d = RUNNING) rows)))
       else sfail (Database ConstraintViolation))"

definition attempt_allowed :: "Store \<Rightarrow> DirectAttemptRow \<Rightarrow> bool" where
  "attempt_allowed s r \<longleftrightarrow>
     has_effect s (d_effect_id r) \<and> has_case s (d_case_key r) \<and> 0 < d_state_revision r \<and>
     attempt_indexes (direct_attempts s @ [r])"

definition add_attempt :: "DirectAttemptRow \<Rightarrow> Store \<Rightarrow> Store" where
  "add_attempt r s = s\<lparr>direct_attempts := direct_attempts s @ [r]\<rparr>"

text \<open>\<open>AUTOINCREMENT\<close>: one more than any identity given out before; rows are never deleted.\<close>

definition last_attempt_id :: "DirectAttemptRow list \<Rightarrow> int" where
  "last_attempt_id rows = fold (\<lambda>d m. max (d_attempt_id d) m) rows 0"

section \<open>Texts\<close>

definition show_i64 :: "int \<Rightarrow> string" where
  "show_i64 i = (if i < 0 then CHR ''-'' # show_nat (nat (- i)) else show_nat (nat i))"

definition json_i64 :: "int \<Rightarrow> json" where
  "json_i64 i = (if i < 0 then JNeg i else JPos (of_int i))"

definition unavailable_id :: "int \<Rightarrow> string" where
  "unavailable_id attempt_id = ''direct-unavailable:'' @ show_i64 attempt_id"

definition lost_attempt :: "u64 \<Rightarrow> StoreError" where
  "lost_attempt attempt_id = LeaseLost (''direct-attempt:'' @ show_word attempt_id)"

definition unavailability :: "int \<Rightarrow> string \<Rightarrow> string \<Rightarrow> string \<Rightarrow> u64 \<Rightarrow> EvidenceInput" where
  "unavailability attempt_id effect_id cause error retry_at =
     \<lparr>evi_evidence_id = unavailable_id attempt_id, evi_kind = ''DIRECT_RUNTIME_UNAVAILABLE'',
      evi_source = effect_id,
      evi_payload = JObj [(''attempt_id'', json_i64 attempt_id), (''cause'', JStr cause),
        (''error'', JStr error), (''retry_at'', JPos retry_at)]\<rparr>"

definition expired_text :: string where
  "expired_text = ''worker lease expired before completion''"

section \<open>Starting and ending an attempt\<close>

definition claim_held :: "ClaimedEffect \<Rightarrow> int \<Rightarrow> int \<Rightarrow> int \<Rightarrow> Store \<Rightarrow> bool" where
  "claim_held claimed revision until now s \<longleftrightarrow>
     list_ex (\<lambda>r. o_effect_id r = ce_effect_id claimed \<and> o_case_key r = ce_case_key claimed \<and>
       o_state_revision r = revision \<and> o_lease r = Some (ce_lease_owner claimed, until) \<and>
       now \<le> until \<and> pending r) (outbox s)"

definition begin_direct_attempt :: "codec \<Rightarrow> ClaimedEffect \<Rightarrow> string \<Rightarrow> u64 \<Rightarrow> u64 store_op" where
  "begin_direct_attempt C claimed task_id started_at =
    sbind ensure_writable (\<lambda>_.
    sbind (sreject_if (blank task_id \<or> blank (ce_effect_id claimed) \<or> blank (ce_case_key claimed)
        \<or> blank (ce_lease_owner claimed) \<or> started_at > ce_lease_until claimed)
      (InvalidInput ''a valid leased effect, task id, and start time are required'')) (\<lambda>_.
    stransaction (
      sbind (slift (sql_u64 (ce_state_revision claimed))) (\<lambda>revision.
      sbind (slift (sql_u64 (ce_lease_until claimed))) (\<lambda>until.
      sbind (slift (sql_u64 started_at)) (\<lambda>at.
      sbind (sread (claim_held claimed revision until at)) (\<lambda>leased.
      sbind (sreject_if (\<not> leased) (LeaseLost (ce_effect_id claimed))) (\<lambda>_.
      sbind (sread (\<lambda>s. filter (\<lambda>d. d_effect_id d = ce_effect_id claimed \<and> d_status d = RUNNING \<and>
        d_lease_until d < at) (direct_attempts s))) (\<lambda>expired.
      sbind (end_attempts (\<lambda>d. d_effect_id d = ce_effect_id claimed \<and> d_lease_until d < at)
        (FAILED at expired_text)) (\<lambda>_.
      sbind (sfor expired (\<lambda>d. insert_evidence C (d_case_key d) started_at
        [unavailability (d_attempt_id d) (ce_effect_id claimed) ''LEASE_EXPIRED'' expired_text
           started_at])) (\<lambda>_.
      sbind (sread (\<lambda>s. last_attempt_id (direct_attempts s))) (\<lambda>last_id.
      sbind (sreject_if (last_id = 2 ^ 63 - 1) (Database DatabaseFull)) (\<lambda>_.
      sbind (sql_insert attempt_allowed add_attempt
        \<lparr>d_attempt_id = last_id + 1, d_effect_id = ce_effect_id claimed,
         d_case_key = ce_case_key claimed, d_state_revision = revision, d_task_id = task_id,
         d_lease_owner = ce_lease_owner claimed, d_lease_until = until, d_started_at = at,
         d_status = RUNNING\<rparr>) (\<lambda>_.
      if last_id + 1 < 0 then sfail InvalidInteger else sreturn (of_int (last_id + 1))))))))))))))))"

definition attempt_of :: "int \<Rightarrow> string \<Rightarrow> int \<Rightarrow> DirectAttemptRow \<Rightarrow> bool" where
  "attempt_of attempt_id owner now d \<longleftrightarrow>
     d_attempt_id d = attempt_id \<and> d_lease_owner d = owner \<and> d_started_at d \<le> now"

definition complete_direct_attempt :: "codec \<Rightarrow> u64 \<Rightarrow> string \<Rightarrow> u64 \<Rightarrow> json \<Rightarrow> unit store_op" where
  "complete_direct_attempt C attempt_id owner completed_at result =
    sbind ensure_writable (\<lambda>_.
    sbind (sreject_if (attempt_id = 0 \<or> blank owner \<or> \<not> is_object result)
      (InvalidInput ''attempt, owner, and object result are required'')) (\<lambda>_.
    sbind (sreject_if (length (fst (payload C result)) > 4 * 1024 * 1024)
      (InvalidInput ''direct result is too large'')) (\<lambda>_.
    sbind (slift (sql_u64 completed_at)) (\<lambda>at.
    sbind (slift (sql_u64 attempt_id)) (\<lambda>i.
    sbind (end_attempts (attempt_of i owner at)
      (COMPLETE at (fst (payload C result)) (snd (payload C result)))) (\<lambda>updated.
    sreject_if (updated \<noteq> 1) (lost_attempt attempt_id)))))))"

definition fail_direct_attempt :: "u64 \<Rightarrow> string \<Rightarrow> u64 \<Rightarrow> string \<Rightarrow> unit store_op" where
  "fail_direct_attempt attempt_id owner completed_at error =
    sbind ensure_writable (\<lambda>_.
    let error = trim error in
    sbind (sreject_if (attempt_id = 0 \<or> blank owner \<or> error = [] \<or> length error > 4096)
      (InvalidInput ''attempt, owner, and bounded error are required'')) (\<lambda>_.
    sbind (slift (sql_u64 completed_at)) (\<lambda>at.
    sbind (slift (sql_u64 attempt_id)) (\<lambda>i.
    sbind (end_attempts (attempt_of i owner at) (FAILED at error)) (\<lambda>updated.
    sreject_if (updated \<noteq> 1) (lost_attempt attempt_id))))))"

text \<open>\<open>UPDATE outbox SET lease_until = until WHERE\<close> the effect is pending and leased to \<open>owner\<close>.\<close>

definition hold_lease :: "string \<Rightarrow> string \<Rightarrow> int \<Rightarrow> nat store_op" where
  "hold_lease effect_id owner until =
     update_outbox (\<lambda>r. o_effect_id r = effect_id \<and> leased_by owner r \<and> pending r)
       (\<lambda>r. r\<lparr>o_lease := Some (owner, until)\<rparr>)"

text \<open>The cool-down: one minute, doubled with every outage of the effect, an hour at most.\<close>

definition backoff :: "u32 \<Rightarrow> u64" where
  "backoff outages = min (60 * push_bit (unat (min outages 6)) 1) 3600"

definition find_attempt :: "int \<Rightarrow> Store \<Rightarrow> DirectAttemptRow option" where
  "find_attempt attempt_id s = find (\<lambda>d. d_attempt_id d = attempt_id) (direct_attempts s)"

definition outage_count :: "string \<Rightarrow> Store \<Rightarrow> StoreError + u32" where
  "outage_count effect_id s =
    (let n = length (filter (\<lambda>e. ev_kind e = ''DIRECT_RUNTIME_UNAVAILABLE'' \<and> ev_source e = effect_id)
                       (evidence s)) in
     if int n < 2 ^ 32 then Inr (of_nat n) else Inl (Database IntegralValueOutOfRange))"

definition stable_cause :: "string \<Rightarrow> bool" where
  "stable_cause cause \<longleftrightarrow> cause \<noteq> [] \<and> list_all (\<lambda>b. is_ascii_uppercase b \<or> b = CHR ''_'') cause"

definition record_direct_unavailability_with_cause ::
  "codec \<Rightarrow> u64 \<Rightarrow> string \<Rightarrow> u64 \<Rightarrow> string \<Rightarrow> string \<Rightarrow> u64 store_op" where
  "record_direct_unavailability_with_cause C attempt_id owner now error cause =
    sbind ensure_writable (\<lambda>_.
    sbind (sreject_if (\<not> stable_cause cause) (InvalidInput ''stable unavailability cause required'')) (\<lambda>_.
    sbind (sreject_if (attempt_id = 0 \<or> blank owner \<or> blank error \<or> length error > 4096)
      (InvalidInput ''bounded runtime failure required'')) (\<lambda>_.
    stransaction (
      sbind (slift (sql_u64 attempt_id)) (\<lambda>i.
      sbind (sread (find_attempt i)) (\<lambda>found.
      sbind (slift (ok_or found (Database QueryReturnedNoRows))) (\<lambda>attempt.
      sbind (sreject_if (d_lease_owner attempt \<noteq> owner) (LeaseLost (unavailable_id i))) (\<lambda>_.
      sbind (sread (find_evidence (unavailable_id i))) (\<lambda>previous.
      case previous of
        Some row \<Rightarrow>
          sbind (slift (ok_or (json_from_str C (ev_payload_json row)) Serialization)) (\<lambda>value.
          sbind (sreject_if (as_str (json_at value ''error'') \<noteq> Some error)
            (IdempotencyConflict (unavailable_id i))) (\<lambda>_.
          slift (ok_or (as_u64 (json_at value ''retry_at'')) (InvalidInput ''invalid cooldown''))))
      | None \<Rightarrow>
          sbind (squery (outage_count (d_effect_id attempt))) (\<lambda>outages.
          sbind (slift (ok_or (checked_add now (backoff outages)) InvalidInteger)) (\<lambda>retry_at.
          sbind (slift (sql_u64 now)) (\<lambda>at.
          sbind (end_attempts (attempt_of i owner at) (FAILED at error)) (\<lambda>updated.
          sbind (sreject_if (updated \<noteq> 1) (LeaseLost (unavailable_id i))) (\<lambda>_.
          sbind (insert_evidence C (d_case_key attempt) now
            [unavailability i (d_effect_id attempt) cause error retry_at]) (\<lambda>_.
          sbind (slift (sql_u64 retry_at)) (\<lambda>until.
          sbind (hold_lease (d_effect_id attempt) owner until) (\<lambda>held.
          sbind (sreject_if (held \<noteq> 1) (LeaseLost (unavailable_id i))) (\<lambda>_.
          sreturn retry_at))))))))))))))))))"

definition record_direct_unavailability ::
  "codec \<Rightarrow> u64 \<Rightarrow> string \<Rightarrow> u64 \<Rightarrow> string \<Rightarrow> u64 store_op" where
  "record_direct_unavailability C attempt_id owner now error =
     record_direct_unavailability_with_cause C attempt_id owner now error ''PROVIDER_UNAVAILABLE''"

definition fail_direct_attempt_with_cooldown ::
  "u64 \<Rightarrow> string \<Rightarrow> u64 \<Rightarrow> string \<Rightarrow> u64 \<Rightarrow> u64 store_op" where
  "fail_direct_attempt_with_cooldown attempt_id owner completed_at error cooldown =
    sbind ensure_writable (\<lambda>_.
    let error = trim error in
    sbind (sreject_if (attempt_id = 0 \<or> blank owner \<or> error = [] \<or> length error > 4096)
      (InvalidInput ''attempt, owner, and bounded error are required'')) (\<lambda>_.
    sbind (slift (ok_or (checked_add completed_at cooldown) InvalidInteger)) (\<lambda>retry_at.
    stransaction (
      sbind (slift (sql_u64 attempt_id)) (\<lambda>i.
      sbind (sread (find_attempt i)) (\<lambda>found.
      sbind (slift (ok_or found (lost_attempt attempt_id))) (\<lambda>attempt.
      sbind (slift (sql_u64 completed_at)) (\<lambda>at.
      sbind (end_attempts (attempt_of i owner at) (FAILED at error)) (\<lambda>updated.
      sbind (sreject_if (updated \<noteq> 1) (lost_attempt attempt_id)) (\<lambda>_.
      sbind (slift (sql_u64 retry_at)) (\<lambda>until.
      sbind (hold_lease (d_effect_id attempt) owner until) (\<lambda>held.
      sbind (sreject_if (held \<noteq> 1) (lost_attempt attempt_id)) (\<lambda>_.
      sreturn retry_at)))))))))))))"

section \<open>Queries\<close>

datatype DirectAttemptStatus = Running | Complete | Failed

record StoredDirectAttempt =
  sa_attempt_id :: u64
  sa_effect_id :: string
  sa_case_key :: string
  sa_state_revision :: u64
  sa_task_id :: string
  sa_lease_owner :: string
  sa_lease_until :: u64
  sa_started_at :: u64
  sa_completed_at :: "u64 option"
  sa_status :: DirectAttemptStatus
  sa_result :: "json option"
  sa_result_sha256 :: "string option"
  sa_error :: "string option"

definition direct_attempt_from_row :: "codec \<Rightarrow> DirectAttemptRow \<Rightarrow> StoreError + StoredDirectAttempt" where
  "direct_attempt_from_row C d =
    (let stored = (\<lambda>completed status result sha error.
       \<lparr>sa_attempt_id = unsigned (d_attempt_id d), sa_effect_id = d_effect_id d,
        sa_case_key = d_case_key d, sa_state_revision = unsigned (d_state_revision d),
        sa_task_id = d_task_id d, sa_lease_owner = d_lease_owner d,
        sa_lease_until = unsigned (d_lease_until d), sa_started_at = unsigned (d_started_at d),
        sa_completed_at = completed, sa_status = status, sa_result = result,
        sa_result_sha256 = sha, sa_error = error\<rparr>) in
     case d_status d of
       RUNNING \<Rightarrow> Inr (stored None Running None None None)
     | COMPLETE at result sha \<Rightarrow>
         rbind (ok_or (json_from_str C result) (Database FromSqlConversionFailure)) (\<lambda>value.
         Inr (stored (Some (unsigned at)) Complete (Some value) (Some sha) None))
     | FAILED at error \<Rightarrow> Inr (stored (Some (unsigned at)) Failed None None (Some error)))"

definition completed_direct_attempt ::
  "codec \<Rightarrow> string \<Rightarrow> Store \<Rightarrow> StoreError + StoredDirectAttempt option" where
  "completed_direct_attempt C effect_id s =
     rbind (reject_if (blank effect_id) (InvalidInput ''effect id is required'')) (\<lambda>_.
     case find (\<lambda>d. d_effect_id d = effect_id \<and> is_complete (d_status d)) (direct_attempts s) of
       None \<Rightarrow> Inr None
     | Some d \<Rightarrow>
         rbind (direct_attempt_from_row C d) (\<lambda>stored.
         rbind (ok_or (sa_result stored) (InvalidInput ''completed attempt has no result'')) (\<lambda>result.
         if sa_result_sha256 stored \<noteq> Some (payload_hash C result)
         then Inl (IdempotencyConflict (''direct-attempt:'' @ show_word (sa_attempt_id stored)))
         else Inr (Some stored))))"

definition direct_attempt :: "codec \<Rightarrow> u64 \<Rightarrow> Store \<Rightarrow> StoreError + StoredDirectAttempt option" where
  "direct_attempt C attempt_id s =
     rbind (reject_if (attempt_id = 0) (InvalidInput ''attempt id is required'')) (\<lambda>_.
     rbind (sql_u64 attempt_id) (\<lambda>i.
     case find_attempt i s of
       None \<Rightarrow> Inr None
     | Some d \<Rightarrow> rbind (direct_attempt_from_row C d) (\<lambda>stored. Inr (Some stored))))"

text \<open>A failed attempt that an outage explains.\<close>

definition outage_of :: "Store \<Rightarrow> DirectAttemptRow \<Rightarrow> bool" where
  "outage_of s d \<longleftrightarrow>
     list_ex (\<lambda>e. ev_evidence_id e = unavailable_id (d_attempt_id d) \<and>
       ev_kind e = ''DIRECT_RUNTIME_UNAVAILABLE'') (evidence s)"

definition case_required :: "string \<Rightarrow> StoreError + unit" where
  "case_required case_key = reject_if (blank case_key) (InvalidInput ''case key is required'')"

definition stage_failures :: "Store \<Rightarrow> string \<Rightarrow> nat" where
  "stage_failures s effect_id =
     length (filter (\<lambda>d. d_effect_id d = effect_id \<and> is_failed (d_status d) \<and> \<not> outage_of s d)
       (direct_attempts s))"

definition direct_stage_failure_count :: "string \<Rightarrow> Store \<Rightarrow> StoreError + u64" where
  "direct_stage_failure_count case_key s =
     rbind (case_required case_key) (\<lambda>_.
     Inr (unsigned (fold (\<lambda>r m. max (int (stage_failures s (o_effect_id r))) m)
       (filter (\<lambda>r. o_case_key r = case_key \<and> o_effect_type r \<noteq> ''RUN_DIRECT_OBSERVER'' \<and> pending r)
          (outbox s)) 0)))"

record DirectOutage =
  do_effect_id :: string
  do_since :: u64
  do_cause :: string
  do_error :: string

text \<open>\<open>MAX(started_at)\<close> of the attempts at an effect that actually ran, 0 without one.\<close>

definition last_ran :: "Store \<Rightarrow> string \<Rightarrow> int" where
  "last_ran s effect_id =
    (case filter (\<lambda>d. d_effect_id d = effect_id \<and> \<not> outage_of s d) (direct_attempts s) of
       [] \<Rightarrow> 0
     | d # ds \<Rightarrow> fold (\<lambda>x m. max (d_started_at x) m) ds (d_started_at d))"

definition outage_rows :: "string \<Rightarrow> Store \<Rightarrow> EvidenceRow list" where
  "outage_rows case_key s =
     sort_key ev_observed_at (sort_key ev_evidence_id (filter (\<lambda>e.
       ev_case_key e = case_key \<and> ev_kind e = ''DIRECT_RUNTIME_UNAVAILABLE'' \<and>
       list_ex (\<lambda>r. o_effect_id r = ev_source e \<and> o_effect_type r \<noteq> ''RUN_DIRECT_OBSERVER'' \<and>
         pending r) (outbox s) \<and>
       last_ran s (ev_source e) < ev_observed_at e) (evidence s)))"

definition direct_stage_outage :: "codec \<Rightarrow> string \<Rightarrow> Store \<Rightarrow> StoreError + DirectOutage option" where
  "direct_stage_outage C case_key s =
     rbind (case_required case_key) (\<lambda>_.
     case outage_rows case_key s of
       [] \<Rightarrow> Inr None
     | first # rest \<Rightarrow>
         let latest = (case find (\<lambda>e. ev_source e = ev_source first) (rev (first # rest)) of
                         None \<Rightarrow> [] | Some e \<Rightarrow> ev_payload_json e) in
         rbind (ok_or (json_from_str C latest) Serialization) (\<lambda>value.
         Inr (Some
           \<lparr>do_effect_id = ev_source first, do_since = unsigned (ev_observed_at first),
            do_cause = (case as_str (json_at value ''cause'') of
              None \<Rightarrow> ''PROVIDER_UNAVAILABLE'' | Some c \<Rightarrow> c),
            do_error = (case as_str (json_at value ''error'') of None \<Rightarrow> [] | Some c \<Rightarrow> c)\<rparr>)))"

definition failed_direct_attempt_count_for_case :: "string \<Rightarrow> Store \<Rightarrow> StoreError + u64" where
  "failed_direct_attempt_count_for_case case_key s =
     rbind (case_required case_key) (\<lambda>_.
     Inr (unsigned (int (length (filter (\<lambda>d.
       d_case_key d = case_key \<and> is_failed (d_status d) \<and>
       list_ex (\<lambda>r. o_effect_id r = d_effect_id d \<and> o_effect_type r \<noteq> ''RUN_DIRECT_OBSERVER'') (outbox s) \<and>
       \<not> list_ex (\<lambda>e. ev_evidence_id e = unavailable_id (d_attempt_id d) \<and>
           ev_kind e = ''DIRECT_RUNTIME_UNAVAILABLE'' \<and> ev_case_key e = d_case_key d) (evidence s))
       (direct_attempts s))))))"

definition builder_dispatched_before :: "string \<Rightarrow> u64 \<Rightarrow> Store \<Rightarrow> StoreError + bool" where
  "builder_dispatched_before case_key state_revision s =
     rbind (case_required case_key) (\<lambda>_.
     rbind (sql_u64 state_revision) (\<lambda>revision.
     Inr (list_ex (\<lambda>r. o_case_key r = case_key \<and> o_effect_type r = ''DISPATCH_BUILDER'' \<and>
       o_state_revision r < revision) (outbox s))))"

definition running_direct_attempts_for_case :: "string \<Rightarrow> Store \<Rightarrow> u64" where
  "running_direct_attempts_for_case case_key s =
     unsigned (int (length (filter (\<lambda>d. d_case_key d = case_key \<and> d_status d = RUNNING)
       (direct_attempts s))))"

definition live_direct_attempts_for_case :: "string \<Rightarrow> u64 \<Rightarrow> Store \<Rightarrow> StoreError + u64" where
  "live_direct_attempts_for_case case_key now s =
     rbind (sql_u64 now) (\<lambda>at.
     Inr (unsigned (int (length (filter (\<lambda>d. d_case_key d = case_key \<and> d_status d = RUNNING \<and>
       at \<le> d_lease_until d) (direct_attempts s))))))"

definition live_direct_attempts :: "u64 \<Rightarrow> Store \<Rightarrow> StoreError + u64" where
  "live_direct_attempts now s =
     rbind (sql_u64 now) (\<lambda>at.
     Inr (unsigned (int (length (filter (\<lambda>d. d_status d = RUNNING \<and> at \<le> d_lease_until d)
       (direct_attempts s))))))"

section \<open>An attempt ends once\<close>

abbreviation ended :: "(DirectAttemptRow \<Rightarrow> bool) \<Rightarrow> AttemptState \<Rightarrow> DirectAttemptRow list \<Rightarrow> DirectAttemptRow list" where
  "ended sel st \<equiv> update_rows (\<lambda>d. sel d \<and> d_status d = RUNNING) (\<lambda>d. d\<lparr>d_status := st\<rparr>)"

lemma end_attempts_Inr:
  "end_attempts sel st s = (Inr n, t) \<longleftrightarrow>
     attempt_indexes (ended sel st (direct_attempts s)) \<and>
     t = s\<lparr>direct_attempts := ended sel st (direct_attempts s)\<rparr> \<and>
     n = length (filter (\<lambda>d. sel d \<and> d_status d = RUNNING) (direct_attempts s))"
  by (auto simp: end_attempts_def Let_def)

lemma end_attempts_Inl:
  "end_attempts sel st s = (Inl e, t) \<Longrightarrow> t = s"
  by (auto simp: end_attempts_def Let_def sbind_Inl split: if_splits)

text \<open>
  How the table of attempts may develop: rows are added, an attempt that ended stays as it is,
  and a running one changes its status only.
\<close>

definition attempt_step :: "DirectAttemptRow \<Rightarrow> DirectAttemptRow \<Rightarrow> bool" where
  "attempt_step d d' \<longleftrightarrow> d' = d \<or> d_status d = RUNNING \<and> d' = d\<lparr>d_status := d_status d'\<rparr>"

definition attempts_evolve :: "Store \<Rightarrow> Store \<Rightarrow> bool" where
  "attempts_evolve s t \<longleftrightarrow> rows_evolve attempt_step (direct_attempts s) (direct_attempts t)"

lemma attempt_step_trans: "attempt_step a b \<Longrightarrow> attempt_step b c \<Longrightarrow> attempt_step a c"
  unfolding attempt_step_def by (metis DirectAttemptRow.surjective DirectAttemptRow.update_convs(9)
    DirectAttemptRow.select_convs(9))

interpretation attempt: row_relation attempt_step
  by unfold_locales (auto simp: attempt_step_def intro: attempt_step_trans [unfolded attempt_step_def])

interpretation evolving: frame_relation attempts_evolve
  unfolding attempts_evolve_def by (rule attempt.evolving.frame_relation_axioms)

lemma evolve_same: "direct_attempts t = direct_attempts s \<Longrightarrow> attempts_evolve s t"
  by (simp add: attempts_evolve_def attempt.evolve_refl)

lemma end_attempts_evolve: "steps attempts_evolve (end_attempts sel st)"
proof (rule stepsI)
  fix s r t
  assume run: "end_attempts sel st s = (r, t)"
  show "attempts_evolve s t"
  proof (cases r)
    case (Inl e)
    with run show ?thesis using end_attempts_Inl evolving.R_refl by metis
  next
    case (Inr n)
    with run have t: "direct_attempts t = ended sel st (direct_attempts s)"
      by (simp add: end_attempts_Inr)
    show ?thesis unfolding attempts_evolve_def t update_rows_def
      by (rule attempt.evolve_map) (simp add: attempt_step_def)
  qed
qed

lemma add_attempt_evolve: "attempts_evolve s (add_attempt r s)"
  by (simp add: add_attempt_def attempts_evolve_def attempt.evolve_append)

lemmas insert_evolve = steps_sql_insert [of attempts_evolve, OF evolving.R_refl]
lemmas update_evolve = steps_sql_update [of attempts_evolve, OF evolving.R_refl]

lemma insert_evidence_evolve: "steps attempts_evolve (insert_evidence C k at items)"
  unfolding insert_evidence_def insert_evidence_item_def
  by (intro evolving.steps_rules insert_evolve evolve_same) (simp add: add_evidence_def)

lemmas evolve_intros = evolving.steps_rules end_attempts_evolve add_attempt_evolve
  insert_evidence_evolve insert_evolve update_evolve

lemma begin_evolve: "steps attempts_evolve (begin_direct_attempt C claimed task at)"
  unfolding begin_direct_attempt_def ensure_writable_def by (intro evolve_intros)

lemma complete_evolve: "steps attempts_evolve (complete_direct_attempt C i owner at result)"
  unfolding complete_direct_attempt_def ensure_writable_def by (intro evolve_intros)

lemma fail_evolve: "steps attempts_evolve (fail_direct_attempt i owner at error)"
  unfolding fail_direct_attempt_def ensure_writable_def Let_def by (intro evolve_intros)

lemma hold_lease_evolve: "steps attempts_evolve (hold_lease e owner until)"
  unfolding hold_lease_def by (intro evolve_intros evolve_same) simp

lemma unavailable_evolve:
  "steps attempts_evolve (record_direct_unavailability_with_cause C i owner now error cause)"
  unfolding record_direct_unavailability_with_cause_def ensure_writable_def
  by (intro evolve_intros hold_lease_evolve)

lemma cooldown_evolve:
  "steps attempts_evolve (fail_direct_attempt_with_cooldown i owner at error cooldown)"
  unfolding fail_direct_attempt_with_cooldown_def ensure_writable_def Let_def
  by (intro evolve_intros hold_lease_evolve)

section \<open>Outages are not failures\<close>

lemma show_i64_inj [simp]: "show_i64 i = show_i64 j \<longleftrightarrow> i = j"
proof -
  have neg: "CHR ''-'' # xs \<noteq> show_nat n" for xs n
  proof
    assume "CHR ''-'' # xs = show_nat n"
    then have "CHR ''-'' \<in> set (show_nat n)" by (metis list.set_intros(1))
    from show_nat_digits [OF this] show False by (simp add: is_ascii_digit_def byte_def)
  qed
  show ?thesis using neg neg [symmetric] by (auto simp: show_i64_def)
qed

lemma unavailable_id_inj [simp]: "unavailable_id i = unavailable_id j \<longleftrightarrow> i = j"
  by (simp add: unavailable_id_def)

text \<open>The attempts that an \<open>UPDATE\<close> ends are explained by outages recorded with it, and no other.\<close>

lemma stage_failures_outage:
  assumes "distinct (map d_attempt_id (direct_attempts s))"
    and "direct_attempts t = ended sel (FAILED at text) (direct_attempts s)"
    and ev: "evidence t = evidence s @ rows"
    and rows: "\<And>e. e \<in> set rows \<Longrightarrow> ev_kind e = ''DIRECT_RUNTIME_UNAVAILABLE'' \<and>
      (\<exists>d \<in> set (direct_attempts s). sel d \<and> d_status d = RUNNING \<and>
         ev_evidence_id e = unavailable_id (d_attempt_id d))"
    and all: "\<And>d. d \<in> set (direct_attempts s) \<Longrightarrow> sel d \<Longrightarrow> d_status d = RUNNING \<Longrightarrow>
      unavailable_id (d_attempt_id d) \<in> ev_evidence_id ` set rows"
  shows "stage_failures t e = stage_failures s e"
proof -
  let ?f = "\<lambda>d. if sel d \<and> d_status d = RUNNING then d\<lparr>d_status := FAILED at text\<rparr> else d"
  have "d_effect_id (?f d) = e \<and> is_failed (d_status (?f d)) \<and> \<not> outage_of t (?f d) \<longleftrightarrow>
      d_effect_id d = e \<and> is_failed (d_status d) \<and> \<not> outage_of s d"
    if d: "d \<in> set (direct_attempts s)" for d
  proof (cases "sel d \<and> d_status d = RUNNING")
    case True
    then obtain r where "r \<in> set rows" "ev_evidence_id r = unavailable_id (d_attempt_id d)"
      using all [OF d] by force
    then have "outage_of t (?f d)" using True rows by (auto simp: outage_of_def ev list_ex_iff)
    with True show ?thesis by (simp add: is_failed_def)
  next
    case False
    have "ev_evidence_id r \<noteq> unavailable_id (d_attempt_id d)" if r: "r \<in> set rows" for r
    proof
      assume same: "ev_evidence_id r = unavailable_id (d_attempt_id d)"
      from rows [OF r] obtain d' where d': "d' \<in> set (direct_attempts s)" "sel d'" "d_status d' = RUNNING"
        "ev_evidence_id r = unavailable_id (d_attempt_id d')" by blast
      with same have "d_attempt_id d' = d_attempt_id d" by simp
      with assms(1) d d'(1) have "d' = d" by (auto simp: distinct_map dest: inj_onD)
      with False d' show False by simp
    qed
    then have "outage_of t d = outage_of s d" by (auto simp: outage_of_def ev list_ex_iff)
    with False show ?thesis by auto
  qed
  then have "filter ((\<lambda>d. d_effect_id d = e \<and> is_failed (d_status d) \<and> \<not> outage_of t d) \<circ> ?f)
      (direct_attempts s) =
    filter (\<lambda>d. d_effect_id d = e \<and> is_failed (d_status d) \<and> \<not> outage_of s d) (direct_attempts s)"
    by (intro filter_cong) auto
  then show ?thesis
    by (simp add: stage_failures_def assms(2) update_rows_def filter_map)
qed

lemma hold_lease_Inr:
  "hold_lease e owner until s = (Inr n, t) \<longleftrightarrow>
     n = length (filter (\<lambda>r. o_effect_id r = e \<and> leased_by owner r \<and> pending r) (outbox s)) \<and>
     t = s\<lparr>outbox := update_rows (\<lambda>r. o_effect_id r = e \<and> leased_by owner r \<and> pending r)
       (\<lambda>r. r\<lparr>o_lease := Some (owner, until)\<rparr>) (outbox s)\<rparr>"
  by (auto simp: hold_lease_def sql_update_Inr list_all_iff)

text \<open>What a newly recorded outage has done.\<close>

lemma unavailable_new:
  assumes run: "record_direct_unavailability_with_cause C i owner now error cause s = (Inr retry_at, t)"
    and new: "find_evidence (unavailable_id (uint i)) s = None"
  obtains d outages s1 where "find_attempt (uint i) s = Some d" "d_lease_owner d = owner"
    "outage_count (d_effect_id d) s = Inr outages" "checked_add now (backoff outages) = Some retry_at"
    "length (filter (\<lambda>d. attempt_of (uint i) owner (uint now) d \<and> d_status d = RUNNING) (direct_attempts s)) = 1"
    "s1 = s\<lparr>direct_attempts := ended (attempt_of (uint i) owner (uint now)) (FAILED (uint now) error) (direct_attempts s),
      evidence := evidence s @ [evidence_row C (d_case_key d) now
        (unavailability (uint i) (d_effect_id d) cause error retry_at)]\<rparr>"
    "hold_lease (d_effect_id d) owner (uint retry_at) s1 = (Inr 1, t)"
    "\<not> read_only s" "stable_cause cause" "\<not> blank error" "length error \<le> 4096" "i \<noteq> 0" "\<not> blank owner"
proof -
  from run obtain d outages at1 s1 where
    d: "find_attempt (uint i) s = Some d" "d_lease_owner d = owner"
    and out: "outage_count (d_effect_id d) s = Inr outages"
    and retry: "checked_add now (backoff outages) = Some retry_at"
    and ended: "end_attempts (attempt_of (uint i) owner (uint now)) (FAILED (uint now) error) s = (Inr 1, at1)"
    and ev: "insert_evidence C (d_case_key d) now
      [unavailability (uint i) (d_effect_id d) cause error retry_at] at1 = (Inr (), s1)"
    and hold: "hold_lease (d_effect_id d) owner (uint retry_at) s1 = (Inr 1, t)"
    and ok: "\<not> read_only s" "stable_cause cause" "\<not> blank error" "\<not> 4096 < length error" "i \<noteq> 0" "\<not> blank owner"
    by (auto simp: record_direct_unavailability_with_cause_def new)
  have s1: "s1 = s\<lparr>direct_attempts := ended (attempt_of (uint i) owner (uint now)) (FAILED (uint now) error) (direct_attempts s),
      evidence := evidence s @ [evidence_row C (d_case_key d) now
        (unavailability (uint i) (d_effect_id d) cause error retry_at)]\<rparr>"
    using insert_evidence_one [OF ev] ended by (simp add: end_attempts_Inr)
  have one: "length (filter (\<lambda>d. attempt_of (uint i) owner (uint now) d \<and> d_status d = RUNNING)
      (direct_attempts s)) = 1" using ended by (simp add: end_attempts_Inr)
  have len: "length error \<le> 4096" using ok(4) by simp
  show ?thesis by (rule that [OF d out retry one s1 hold ok(1-3) len ok(5,6)])
qed


text \<open>An outage that was recorded before is only read.\<close>

lemma unavailable_replayed:
  assumes "record_direct_unavailability_with_cause C i owner now error cause s = (Inr retry_at, t)"
    and "find_evidence (unavailable_id (uint i)) s \<noteq> None"
  shows "t = s"
  using assms by (auto simp: record_direct_unavailability_with_cause_def)

lemma outage_keeps_failures:
  assumes keys: "distinct (map d_attempt_id (direct_attempts s))"
    and run: "record_direct_unavailability_with_cause C i owner now error cause s = (Inr retry_at, t)"
  shows "stage_failures t e = stage_failures s e"
proof (cases "find_evidence (unavailable_id (uint i)) s")
  case (Some row)
  with unavailable_replayed [OF run] show ?thesis by simp
next
  case None
  show ?thesis
  proof (rule unavailable_new [OF run None])
    fix d outages s1
    let ?sel = "attempt_of (uint i) owner (uint now)"
    assume one: "length (filter (\<lambda>d. ?sel d \<and> d_status d = RUNNING) (direct_attempts s)) = 1"
      and s1: "s1 = s\<lparr>direct_attempts := ended ?sel (FAILED (uint now) error) (direct_attempts s),
        evidence := evidence s @ [evidence_row C (d_case_key d) now
          (unavailability (uint i) (d_effect_id d) cause error retry_at)]\<rparr>"
      and hold: "hold_lease (d_effect_id d) owner (uint retry_at) s1 = (Inr 1, t)"
    have t: "direct_attempts t = ended ?sel (FAILED (uint now) error) (direct_attempts s)"
      "evidence t = evidence s @ [evidence_row C (d_case_key d) now
          (unavailability (uint i) (d_effect_id d) cause error retry_at)]"
      using hold by (auto simp: hold_lease_Inr s1)
    from one obtain r where "filter (\<lambda>d. ?sel d \<and> d_status d = RUNNING) (direct_attempts s) = [r]"
      by (auto simp: length_Suc_conv)
    then have "r \<in> set (filter (\<lambda>d. ?sel d \<and> d_status d = RUNNING) (direct_attempts s))" by simp
    then have "\<exists>r \<in> set (direct_attempts s). ?sel r \<and> d_status r = RUNNING \<and> d_attempt_id r = uint i"
      by (auto simp: attempt_of_def)
    then show ?thesis
      by (intro stage_failures_outage [OF keys t])
        (auto simp: evidence_row_def unavailability_def attempt_of_def)
  qed
qed

lemma insert_expired:
  assumes "sfor ds (\<lambda>d. insert_evidence C (d_case_key d) at [item d]) s = (Inr u, t)"
  shows "t = s\<lparr>evidence := evidence s @ map (\<lambda>d. evidence_row C (d_case_key d) at (item d)) ds\<rparr>"
  using assms
proof (induction ds arbitrary: s)
  case (Cons d ds)
  then obtain v s1 where "insert_evidence C (d_case_key d) at [item d] s = (Inr v, s1)"
    and rest: "sfor ds (\<lambda>d. insert_evidence C (d_case_key d) at [item d]) s1 = (Inr u, t)" by auto
  with insert_evidence_one [of C "d_case_key d" at "item d" s v s1] Cons.IH [OF rest] show ?case by simp
qed simp

lemma begin_keeps_failures:
  assumes keys: "distinct (map d_attempt_id (direct_attempts s))"
    and run: "begin_direct_attempt C claimed task_id at s = (Inr i, t)"
  shows "stage_failures t e = stage_failures s e"
proof -
  let ?sel = "\<lambda>d. d_effect_id d = ce_effect_id claimed \<and> d_lease_until d < uint at"
  let ?item = "\<lambda>d. unavailability (d_attempt_id d) (ce_effect_id claimed) ''LEASE_EXPIRED'' expired_text at"
  let ?expired = "filter (\<lambda>d. d_effect_id d = ce_effect_id claimed \<and> d_status d = RUNNING \<and>
    d_lease_until d < uint at) (direct_attempts s)"
  from run obtain s1 s2 r where
    ended: "end_attempts ?sel (FAILED (uint at) expired_text) s = (Inr (length (filter (\<lambda>d. ?sel d \<and> d_status d = RUNNING) (direct_attempts s))), s1)"
    and ev: "sfor ?expired (\<lambda>d. insert_evidence C (d_case_key d) at [?item d]) s1 = (Inr (), s2)"
    and t: "t = add_attempt r s2" "d_status r = RUNNING"
    by (auto simp: begin_direct_attempt_def end_attempts_Inr split: if_splits)
  have s2: "direct_attempts s2 = ended ?sel (FAILED (uint at) expired_text) (direct_attempts s)"
    "evidence s2 = evidence s @ map (\<lambda>d. evidence_row C (d_case_key d) at (?item d)) ?expired"
    using insert_expired [OF ev] ended by (auto simp: end_attempts_Inr)
  have "stage_failures s2 e = stage_failures s e"
    by (rule stage_failures_outage [OF keys s2])
      (auto simp: evidence_row_def unavailability_def image_image)
  moreover have "stage_failures t e = stage_failures s2 e"
    by (simp add: stage_failures_def t add_attempt_def is_failed_def outage_of_def)
  ultimately show ?thesis by simp
qed

lemma failed_once:
  assumes keys: "distinct (map d_attempt_id (direct_attempts s))"
    and run: "fail_direct_attempt i owner now error s = (Inr (), t)"
    and d: "find_attempt (uint i) s = Some d" "\<not> outage_of s d"
  shows "stage_failures t e = stage_failures s e + (if e = d_effect_id d then 1 else 0)"
proof -
  let ?sel = "attempt_of (uint i) owner (uint now)"
  let ?st = "FAILED (uint now) (trim error)"
  from run have t: "t = s\<lparr>direct_attempts := ended ?sel ?st (direct_attempts s)\<rparr>"
    and one: "length (filter (\<lambda>d. ?sel d \<and> d_status d = RUNNING) (direct_attempts s)) = 1"
    by (auto simp: fail_direct_attempt_def Let_def end_attempts_Inr)
  have mem: "d \<in> set (direct_attempts s)" and id: "d_attempt_id d = uint i"
    using d(1) by (auto simp: find_attempt_def find_Some_iff)
  from one obtain r where r: "filter (\<lambda>d. ?sel d \<and> d_status d = RUNNING) (direct_attempts s) = [r]"
    by (auto simp: length_Suc_conv)
  then have "r \<in> set (filter (\<lambda>d. ?sel d \<and> d_status d = RUNNING) (direct_attempts s))" by simp
  then have "r \<in> set (direct_attempts s)" "?sel r" "d_status r = RUNNING" by auto
  moreover from this(1,2) have "r = d"
    using distinct_key_eq [OF keys _ mem] by (simp add: id attempt_of_def)
  ultimately have running: "?sel d" "d_status d = RUNNING" by simp_all
  let ?f = "\<lambda>x. if ?sel x \<and> d_status x = RUNNING then x\<lparr>d_status := ?st\<rparr> else x"
  let ?P = "\<lambda>x. d_effect_id x = e \<and> is_failed (d_status x) \<and> \<not> outage_of s x"
  obtain as bs where split: "direct_attempts s = as @ d # bs" using mem by (auto simp: in_set_conv_decomp)
  have "d_attempt_id x \<noteq> d_attempt_id d" if "x \<in> set as \<union> set bs" for x
  proof
    assume "d_attempt_id x = d_attempt_id d"
    then have "d_attempt_id d \<in> d_attempt_id ` (set as \<union> set bs)" using that by (metis imageI)
    with keys show False by (auto simp: split)
  qed
  then have other: "?f x = x" if "x \<in> set as \<union> set bs" for x
    using that by (auto simp: attempt_of_def id)
  have maps: "map ?f as = as" "map ?f bs = bs" by (rule map_idI, use other in blast)+
  have len: "length (filter ?P (map ?f (direct_attempts s))) =
      length (filter ?P as) + length (filter ?P [?f d]) + length (filter ?P bs)"
    unfolding split map_append list.map maps by simp
  have "outage_of s (d\<lparr>d_status := ?st\<rparr>) = outage_of s d" by (simp add: outage_of_def)
  then show ?thesis
    using len running d(2)
    by (simp add: stage_failures_def t update_rows_def outage_of_def split is_failed_def)
qed


lemma direct_stage_failure_count_cong:
  assumes "\<And>e. stage_failures t e = stage_failures s e"
    and "map (\<lambda>r. (o_effect_id r, o_case_key r, o_effect_type r, pending r)) (outbox t) =
      map (\<lambda>r. (o_effect_id r, o_case_key r, o_effect_type r, pending r)) (outbox s)"
  shows "direct_stage_failure_count k t = direct_stage_failure_count k s"
proof -
  have "fold (\<lambda>r m. max (f (o_effect_id r)) m)
      (filter (\<lambda>r. o_case_key r = k \<and> o_effect_type r \<noteq> ''RUN_DIRECT_OBSERVER'' \<and> pending r) rows) n =
    fold (\<lambda>q m. max (f (fst q)) m)
      (filter (\<lambda>(e, c, y, p). c = k \<and> y \<noteq> ''RUN_DIRECT_OBSERVER'' \<and> p)
        (map (\<lambda>r. (o_effect_id r, o_case_key r, o_effect_type r, pending r)) rows)) n"
    for f :: "string \<Rightarrow> int" and rows n
    by (induction rows arbitrary: n) auto
  from this [of "\<lambda>e. int (stage_failures s e)"] show ?thesis
    using assms by (simp add: direct_stage_failure_count_def)
qed

lemma hold_lease_pending:
  "map (\<lambda>r. (o_effect_id r, o_case_key r, o_effect_type r, pending r))
     (update_rows sel (\<lambda>r. r\<lparr>o_lease := l\<rparr>) rows) =
   map (\<lambda>r. (o_effect_id r, o_case_key r, o_effect_type r, pending r)) rows"
  by (rule update_rows_map) (simp add: pending_def)

lemma begin_outbox:
  assumes "begin_direct_attempt C claimed task_id at s = (Inr i, t)"
  shows "outbox t = outbox s"
proof -
  have "steps (\<lambda>s t. outbox t = outbox s) (begin_direct_attempt C claimed task_id at)"
    unfolding begin_direct_attempt_def ensure_writable_def end_attempts_def insert_evidence_def
      insert_evidence_item_def Let_def
    by (intro same.steps_rules same.steps_modify steps_sql_insert)
      (simp_all add: add_evidence_def add_attempt_def)
  from stepsD [OF this assms] show ?thesis .
qed

text \<open>C9: only failed work counts against the failure budget of a stage. Starting an attempt, even
  when it ends attempts whose lease ran out, and recording an execution outage leave the count of
  every case as it was; failing an attempt that had no outage adds exactly one to the count of its
  own effect and nothing to any other.\<close>

theorem failure_budget:
  assumes keys: "distinct (map d_attempt_id (direct_attempts s))"
  shows "(begin_direct_attempt C claimed task_id at s = (Inr i, t) \<longrightarrow>
      direct_stage_failure_count k t = direct_stage_failure_count k s) \<and>
    (record_direct_unavailability_with_cause C j owner now error cause s = (Inr retry_at, t) \<longrightarrow>
      direct_stage_failure_count k t = direct_stage_failure_count k s) \<and>
    (fail_direct_attempt j owner now error s = (Inr (), t) \<longrightarrow>
      find_attempt (uint j) s = Some d \<longrightarrow> \<not> outage_of s d \<longrightarrow>
      stage_failures t e = stage_failures s e + (if e = d_effect_id d then 1 else 0))"
proof (intro conjI impI)
  assume run: "begin_direct_attempt C claimed task_id at s = (Inr i, t)"
  show "direct_stage_failure_count k t = direct_stage_failure_count k s"
    using begin_keeps_failures [OF keys run] begin_outbox [OF run]
    by (intro direct_stage_failure_count_cong) simp_all
next
  assume run: "record_direct_unavailability_with_cause C j owner now error cause s = (Inr retry_at, t)"
  have "map (\<lambda>r. (o_effect_id r, o_case_key r, o_effect_type r, pending r)) (outbox t) =
      map (\<lambda>r. (o_effect_id r, o_case_key r, o_effect_type r, pending r)) (outbox s)"
  proof (cases "find_evidence (unavailable_id (uint j)) s")
    case None
    show ?thesis
      by (rule unavailable_new [OF run None]) (simp add: hold_lease_Inr hold_lease_pending)
  qed (use unavailable_replayed [OF run] in simp)
  with outage_keeps_failures [OF keys run]
  show "direct_stage_failure_count k t = direct_stage_failure_count k s"
    by (intro direct_stage_failure_count_cong)
next
  assume "fail_direct_attempt j owner now error s = (Inr (), t)" "find_attempt (uint j) s = Some d"
    "\<not> outage_of s d"
  then show "stage_failures t e = stage_failures s e + (if e = d_effect_id d then 1 else 0)"
    by (rule failed_once [OF keys])
qed

section \<open>The cool-down\<close>

lemma backoff_value: "uint (backoff n) = min (60 * 2 ^ min (unat n) 6) 3600"
proof -
  have "unat (min n 6) = min (unat n) 6" by (simp add: min_def word_le_nat_alt)
  moreover have "uint (min (60 * push_bit k (1 :: u64)) 3600) = min (60 * 2 ^ k) 3600" if "k \<le> 6" for k
  proof -
    from that have "k \<in> {0, 1, 2, 3, 4, 5, 6}" by auto
    then show ?thesis by (auto simp: push_bit_eq_mult min_def)
  qed
  ultimately show ?thesis by (simp add: backoff_def)
qed

text \<open>C8: the cool-down after an execution outage is bounded and kept. A newly recorded outage
  delays the effect by a minute, doubled for every earlier outage of the same effect up to an
  hour; until then no one can claim the effect.\<close>

theorem outage_backoff:
  assumes run: "record_direct_unavailability_with_cause C i owner now error cause s = (Inr retry_at, t)"
    and new: "find_evidence (unavailable_id (uint i)) s = None"
    and ids: "distinct (map o_effect_id (outbox s))"
  shows "\<exists>d n. find_attempt (uint i) s = Some d \<and>
    n = length (filter (\<lambda>e. ev_kind e = ''DIRECT_RUNTIME_UNAVAILABLE'' \<and> ev_source e = d_effect_id d)
      (evidence s)) \<and>
    uint retry_at = uint now + min (60 * 2 ^ min n 6) 3600 \<and>
    uint now + 60 \<le> uint retry_at \<and> uint retry_at \<le> uint now + 3600 \<and>
    (\<forall>q \<in> set (outbox t). o_effect_id q = d_effect_id d \<longrightarrow>
       (\<forall>at \<le> uint retry_at. \<not> (pending q \<and> lease_free at q)))"
proof (rule unavailable_new [OF run new])
  fix d :: DirectAttemptRow and outages s1
  let ?n = "length (filter (\<lambda>e. ev_kind e = ''DIRECT_RUNTIME_UNAVAILABLE'' \<and> ev_source e = d_effect_id d)
      (evidence s))"
  let ?sel = "\<lambda>r. o_effect_id r = d_effect_id d \<and> leased_by owner r \<and> pending r"
  assume d: "find_attempt (uint i) s = Some d" and out: "outage_count (d_effect_id d) s = Inr outages"
    and retry: "checked_add now (backoff outages) = Some retry_at"
    and s1: "s1 = s\<lparr>direct_attempts := ended (attempt_of (uint i) owner (uint now)) (FAILED (uint now) error) (direct_attempts s),
        evidence := evidence s @ [evidence_row C (d_case_key d) now
          (unavailability (uint i) (d_effect_id d) cause error retry_at)]\<rparr>"
    and hold: "hold_lease (d_effect_id d) owner (uint retry_at) s1 = (Inr 1, t)"
  have "unat outages = ?n" using out by (auto simp: outage_count_def Let_def unat_of_nat split: if_splits)
  with checked_add_sum [OF retry, THEN conjunct2]
  have delay: "uint retry_at = uint now + min (60 * 2 ^ min ?n 6) 3600" by (simp add: backoff_value)
  have low: "(60 :: int) \<le> 60 * 2 ^ min ?n 6" by simp
  have out_t: "outbox t = update_rows ?sel (\<lambda>r. r\<lparr>o_lease := Some (owner, uint retry_at)\<rparr>) (outbox s)"
    and "length (filter ?sel (outbox s)) = 1" using hold by (simp_all add: hold_lease_Inr s1)
  then obtain r where "filter ?sel (outbox s) = [r]" by (auto simp: length_Suc_conv)
  then have "r \<in> set (filter ?sel (outbox s))" by simp
  then have r: "r \<in> set (outbox s)" "?sel r" by auto
  have held: "\<not> (pending q \<and> lease_free at q)"
    if q: "q \<in> set (outbox t)" "o_effect_id q = d_effect_id d" and at: "at \<le> uint retry_at" for q at
  proof -
    from q(1) obtain q0 where q0: "q0 \<in> set (outbox s)"
      "q = (if ?sel q0 then q0\<lparr>o_lease := Some (owner, uint retry_at)\<rparr> else q0)"
      by (auto simp: out_t update_rows_set)
    then have "o_effect_id q0 = o_effect_id r" using q(2) r(2) by (auto split: if_splits)
    with distinct_key_eq [OF ids q0(1) r(1)] have "q0 = r" by simp
    with q0(2) r(2) at show ?thesis by (simp add: lease_free_def)
  qed
  show ?thesis
    by (intro exI [of _ d] exI [of _ ?n]) (use d delay low held in auto)
qed

text \<open>Reporting the same outage again changes nothing: the recorded retry time is answered,
  whenever the report is repeated and whatever the ledger has recorded since, so a replay cannot
  extend the cool-down.\<close>

theorem outage_replay:
  assumes "codec_ok C"
    and run: "record_direct_unavailability_with_cause C i owner now error cause s = (Inr retry_at, t)"
    and new: "find_evidence (unavailable_id (uint i)) s = None"
    and later: "prefix (evidence t) (evidence t')" "distinct (map ev_evidence_id (evidence t'))"
      "find_attempt (uint i) t' = Some d'" "d_lease_owner d' = owner" "\<not> read_only t'"
  shows "record_direct_unavailability_with_cause C i owner now' error cause t' = (Inr retry_at, t')"
proof (rule unavailable_new [OF run new])
  fix d :: DirectAttemptRow and outages s1
  let ?item = "unavailability (uint i) (d_effect_id d) cause error retry_at"
  assume s1: "s1 = s\<lparr>direct_attempts := ended (attempt_of (uint i) owner (uint now)) (FAILED (uint now) error) (direct_attempts s),
        evidence := evidence s @ [evidence_row C (d_case_key d) now ?item]\<rparr>"
    and hold: "hold_lease (d_effect_id d) owner (uint retry_at) s1 = (Inr 1, t)"
    and ok: "stable_cause cause" "\<not> blank error" "length error \<le> 4096" "i \<noteq> 0" "\<not> blank owner"
  have "uint i < 2 ^ 63" using run by (auto simp: record_direct_unavailability_with_cause_def)
  have "evidence_row C (d_case_key d) now ?item \<in> set (evidence t)" using hold by (simp add: hold_lease_Inr s1)
  then have "evidence_row C (d_case_key d) now ?item \<in> set (evidence t')"
    using later(1) by (blast dest: set_mono_prefix)
  then have found: "find_evidence (unavailable_id (uint i)) t' = Some (evidence_row C (d_case_key d) now ?item)"
    unfolding find_evidence_def find_unique [OF later(2)] by (simp add: evidence_row_def unavailability_def)
  have "wf_json (evi_payload ?item)" by (simp add: unavailability_def json_i64_def)
  then have "json_from_str C (json_to_string C (evi_payload ?item)) = Some (evi_payload ?item)"
    using assms(1) by (simp add: codec_ok_def)
  then show ?thesis
    using ok later(3-5) found \<open>uint i < 2 ^ 63\<close>
    by (simp add: record_direct_unavailability_with_cause_def sbind_def evidence_row_def unavailability_def
        sql_u64_def json_at_def)
qed


text \<open>A worker of the sample dispatch that is running.\<close>

definition sample_running :: Store where
  "sample_running =
     snd (begin_direct_attempt sample_codec sample_claim ''task1'' 5 sample_claimed_store)"

abbreviation sample_outage :: "u64 \<Rightarrow> u64 store_op" where
  "sample_outage now \<equiv>
     record_direct_unavailability_with_cause sample_codec 1 ''w'' now ''no tokens'' ''PROVIDER_UNAVAILABLE''"

lemma sample_outage_run:
  obtains t where "sample_outage 10 sample_running = (Inr 70, t)"
    "find_evidence (unavailable_id (uint (1 :: u64))) sample_running = None"
    "distinct (map ev_evidence_id (evidence t))" "\<not> read_only t"
    "map_option d_lease_owner (find_attempt (uint (1 :: u64)) t) = Some ''w''"
proof -
  let ?run = "sample_outage 10 sample_running"
  have "fst ?run = Inr 70" by code_simp
  moreover have "evidence sample_running = []" by code_simp
  moreover have "distinct (map ev_evidence_id (evidence (snd ?run)))" by code_simp
  moreover have "\<not> read_only (snd ?run)" by code_simp
  moreover have "map_option d_lease_owner (find_attempt (uint (1 :: u64)) (snd ?run)) = Some ''w''" by code_simp
  ultimately show ?thesis using that by (metis prod.collapse find.simps(1) find_evidence_def)
qed

theorem failure_budget_witness:
  "\<exists>t u. sample_outage 10 sample_running = (Inr 70, t) \<and>
     direct_stage_failure_count ''case1'' t = direct_stage_failure_count ''case1'' sample_running \<and>
     fail_direct_attempt 1 ''w'' 10 ''bad patch'' sample_running = (Inr (), u) \<and>
     stage_failures u ''fx1'' = stage_failures sample_running ''fx1'' + 1"
proof -
  have keys: "distinct (map d_attempt_id (direct_attempts sample_running))" by code_simp
  obtain t where t: "sample_outage 10 sample_running = (Inr 70, t)" by (rule sample_outage_run)
  have "fst (fail_direct_attempt 1 ''w'' 10 ''bad patch'' sample_running) = Inr ()" by code_simp
  then obtain u where u: "fail_direct_attempt 1 ''w'' 10 ''bad patch'' sample_running = (Inr (), u)"
    by (metis prod.collapse)
  have "find_attempt (uint (1 :: u64)) sample_running = Some (hd (direct_attempts sample_running))"
    by code_simp
  moreover have "\<not> outage_of sample_running (hd (direct_attempts sample_running))" by code_simp
  moreover have "d_effect_id (hd (direct_attempts sample_running)) = ''fx1''" by code_simp
  ultimately show ?thesis using failure_budget [OF keys] t u by auto
qed

theorem outage_backoff_witness:
  "\<exists>t. sample_outage 10 sample_running = (Inr 70, t) \<and>
     (\<forall>q \<in> set (outbox t). o_effect_id q = ''fx1'' \<longrightarrow> \<not> (pending q \<and> lease_free 70 q))"
proof -
  have ids: "distinct (map o_effect_id (outbox sample_running))" by code_simp
  have e: "map_option d_effect_id (find_attempt (uint (1 :: u64)) sample_running) = Some ''fx1''" by code_simp
  obtain t where t: "sample_outage 10 sample_running = (Inr 70, t)"
    and n: "find_evidence (unavailable_id (uint (1 :: u64))) sample_running = None"
    by (rule sample_outage_run)
  from outage_backoff [OF t n ids] e have
    "\<forall>q \<in> set (outbox t). o_effect_id q = ''fx1'' \<longrightarrow> \<not> (pending q \<and> lease_free 70 q)" by auto
  with t show ?thesis by blast
qed

theorem outage_replay_witness:
  "\<exists>t. sample_outage 10 sample_running = (Inr 70, t) \<and> sample_outage 65 t = (Inr 70, t)"
proof -
  obtain t d where t: "sample_outage 10 sample_running = (Inr 70, t)"
    and n: "find_evidence (unavailable_id (uint (1 :: u64))) sample_running = None"
    and x: "distinct (map ev_evidence_id (evidence t))" "\<not> read_only t"
    and d: "find_attempt (uint (1 :: u64)) t = Some d" "d_lease_owner d = ''w''"
    by (rule sample_outage_run) auto
  from outage_replay [OF sample_codec_ok t n prefix_order.refl x(1) d x(2)] t show ?thesis by blast
qed

end
