(* ===== verification/Control.thy ===== *)
theory Control
  imports Recovery
begin

text \<open>
  Parked cases and the human commands for them (\<open>control.rs\<close> of \<open>pip-store\<close>), the heartbeat of the
  controller, and the case queries of \<open>control.rs\<close>, \<open>builder_retry.rs\<close> and \<open>reauthorization.rs\<close>. The
  theorems: a command is resolved at most once, and the heartbeat says since when the controller
  has been running without a long gap.
\<close>

section \<open>Commands\<close>

record ControlCommandInput =
  cci_comment_id :: u64
  cci_repository_id :: u64
  cci_thread_number :: u64
  cci_case_key :: "string option"
  cci_actor_id :: u64
  cci_command :: string
  cci_guidance :: string
  cci_received_at :: u64

datatype ControlCommandStatus = Pending | CommandApplied | CommandIgnored

fun status_as_str :: "ControlCommandStatus \<Rightarrow> string" where
  "status_as_str Pending = ''PENDING''"
| "status_as_str CommandApplied = ''APPLIED''"
| "status_as_str CommandIgnored = ''IGNORED''"

record ControlCommand =
  ccm_comment_id :: u64
  ccm_repository_id :: u64
  ccm_thread_number :: u64
  ccm_case_key :: "string option"
  ccm_actor_id :: u64
  ccm_command :: string
  ccm_guidance :: string
  ccm_received_at :: u64
  ccm_status :: ControlCommandStatus

definition command_allowed :: "Store \<Rightarrow> ControlCommandRow \<Rightarrow> bool" where
  "command_allowed s r \<longleftrightarrow>
     (case cc_case_key r of None \<Rightarrow> True | Some k \<Rightarrow> has_case s k) \<and>
     0 < cc_comment_id r \<and> 0 < cc_repository_id r \<and> 0 < cc_thread_number r \<and> 0 < cc_actor_id r \<and>
     cc_command r \<in> {''RESUME'', ''REPLAN'', ''ABANDON''} \<and>
     cc_status r \<in> {''PENDING'', ''APPLIED'', ''IGNORED''} \<and>
     list_all (\<lambda>q. cc_comment_id q \<noteq> cc_comment_id r) (control_commands s)"

definition add_command :: "ControlCommandRow \<Rightarrow> Store \<Rightarrow> Store" where
  "add_command r s = s\<lparr>control_commands := control_commands s @ [r]\<rparr>"

definition bad_command :: "ControlCommandInput \<Rightarrow> bool" where
  "bad_command input \<longleftrightarrow>
     cci_comment_id input = 0 \<or> cci_repository_id input = 0 \<or> cci_thread_number input = 0 \<or>
     cci_actor_id input = 0 \<or> cci_command input \<notin> {''RESUME'', ''REPLAN'', ''ABANDON''} \<or>
     int (length (cci_guidance input)) > 8 * 1024"

text \<open>\<open>INSERT OR IGNORE\<close>: a row whose key exists is not inserted. What the other checks of the
  table demand holds for the validated input; a foreign key that fails is an error.\<close>

definition record_control_command :: "ControlCommandInput \<Rightarrow> ApplyResult store_op" where
  "record_control_command input =
    sbind ensure_writable (\<lambda>_.
    sbind (sreject_if (bad_command input) (InvalidInput ''invalid control command'')) (\<lambda>_.
    sbind (slift (sql_u64 (cci_comment_id input))) (\<lambda>comment.
    sbind (slift (sql_u64 (cci_repository_id input))) (\<lambda>repository.
    sbind (slift (sql_u64 (cci_thread_number input))) (\<lambda>thread.
    sbind (slift (sql_u64 (cci_actor_id input))) (\<lambda>actor.
    sbind (slift (sql_u64 (cci_received_at input))) (\<lambda>received.
    sbind (sread (\<lambda>s. list_ex (\<lambda>q. cc_comment_id q = comment) (control_commands s))) (\<lambda>known.
    if known then sreturn Replayed
    else
      sbind (sql_insert command_allowed add_command
        \<lparr>cc_comment_id = comment, cc_repository_id = repository, cc_thread_number = thread,
         cc_case_key = cci_case_key input, cc_actor_id = actor, cc_command = cci_command input,
         cc_guidance = cci_guidance input, cc_received_at = received, cc_status = ''PENDING'',
         cc_outcome = None, cc_resolved_at = None\<rparr>) (\<lambda>_.
      sreturn Applied)))))))))"

definition command_of_row :: "ControlCommandRow \<Rightarrow> ControlCommand" where
  "command_of_row r =
     \<lparr>ccm_comment_id = unsigned (cc_comment_id r), ccm_repository_id = unsigned (cc_repository_id r),
      ccm_thread_number = unsigned (cc_thread_number r), ccm_case_key = cc_case_key r,
      ccm_actor_id = unsigned (cc_actor_id r), ccm_command = cc_command r,
      ccm_guidance = cc_guidance r, ccm_received_at = unsigned (cc_received_at r),
      ccm_status = Pending\<rparr>"

definition pending_control_commands ::
  "u64 \<Rightarrow> string option \<Rightarrow> Store \<Rightarrow> StoreError + ControlCommand list" where
  "pending_control_commands repository_id case_key s =
     rbind (sql_u64 repository_id) (\<lambda>repository.
     Inr (map command_of_row (sort_key cc_received_at (sort_key cc_comment_id
       (filter (\<lambda>r. cc_repository_id r = repository \<and> cc_status r = ''PENDING'' \<and>
           (case_key = None \<or> cc_case_key r = case_key)) (control_commands s))))))"

definition resolve_control_command ::
  "u64 \<Rightarrow> ControlCommandStatus \<Rightarrow> string \<Rightarrow> u64 \<Rightarrow> unit store_op" where
  "resolve_control_command comment_id status outcome now =
    sbind ensure_writable (\<lambda>_.
    sbind (sreject_if (status = Pending \<or> blank outcome)
      (InvalidInput ''a resolved status and outcome are required'')) (\<lambda>_.
    sbind (slift (sql_u64 now)) (\<lambda>at.
    sbind (slift (sql_u64 comment_id)) (\<lambda>comment.
    sbind (sql_update (\<lambda>_. True) control_commands control_commands_update
      (\<lambda>r. cc_comment_id r = comment \<and> cc_status r = ''PENDING'')
      (\<lambda>r. r\<lparr>cc_status := status_as_str status, cc_outcome := Some outcome,
             cc_resolved_at := Some at\<rparr>)) (\<lambda>updated.
    sreject_if (updated \<noteq> 1) (InvalidInput ''control command is not pending''))))))"

section \<open>Queries of a case\<close>

record ParkingEvent =
  pe_event_type :: string
  pe_previous_state :: string
  pe_state_revision :: u64
  pe_observed_at :: u64
  pe_payload :: json

text \<open>\<open>ORDER BY state_revision DESC LIMIT 1\<close>.\<close>

definition newest :: "('r \<Rightarrow> int) \<Rightarrow> 'r list \<Rightarrow> 'r option" where
  "newest revision rows = (case rev (sort_key revision rows) of [] \<Rightarrow> None | r # _ \<Rightarrow> Some r)"

definition parking_event :: "codec \<Rightarrow> string \<Rightarrow> Store \<Rightarrow> StoreError + ParkingEvent option" where
  "parking_event C case_key s =
    (case query_case case_key s of
       None \<Rightarrow> Inl (MissingCase case_key)
     | Some current \<Rightarrow>
         if sc_state current \<notin> set PARKED_STATES then Inr None
         else
           (case newest e_state_revision (filter (\<lambda>e. e_case_key e = case_key \<and>
                e_next_state e = sc_state current \<and> e_previous_state e \<noteq> Some (e_next_state e)) (events s)) of
              None \<Rightarrow> Inr None
            | Some e \<Rightarrow>
                rbind (ok_or (json_from_str C (e_payload_json e)) Serialization) (\<lambda>payload.
                Inr (Some
                  \<lparr>pe_event_type = e_event_type e,
                   pe_previous_state = (case e_previous_state e of None \<Rightarrow> [] | Some p \<Rightarrow> p),
                   pe_state_revision = unsigned (e_state_revision e),
                   pe_observed_at = unsigned (e_observed_at e), pe_payload = payload\<rparr>))))"

definition granted_remediation_rounds :: "codec \<Rightarrow> string \<Rightarrow> Store \<Rightarrow> StoreError + u32" where
  "granted_remediation_rounds C case_key s =
     rbind (ok_or (sql_sum C (map (\<lambda>e. json_extract C (e_payload_json e) ''$.granted_rounds'')
       (filter (\<lambda>e. e_case_key e = case_key \<and> e_event_type e = ''HUMAN_RESUMED'') (events s))))
       (Database IntegerOverflow)) (\<lambda>total.
     rbind (get_opt_i64 total) (\<lambda>value.
     let rounds = (case value of None \<Rightarrow> 0 | Some v \<Rightarrow> v) in
     if 0 \<le> rounds \<and> rounds < 2 ^ 32 then Inr (of_int rounds) else Inl InvalidInteger))"

definition times_of :: "('r \<Rightarrow> bool) \<Rightarrow> ('r \<Rightarrow> int option) \<Rightarrow> 'r list \<Rightarrow> int list" where
  "times_of sel time rows = List.map_filter time (filter sel rows)"

definition last_case_activity :: "string \<Rightarrow> Store \<Rightarrow> u64" where
  "last_case_activity case_key s =
    (let seen = times_of (\<lambda>e. e_case_key e = case_key) (\<lambda>e. Some (e_observed_at e)) (events s) @
         times_of (\<lambda>d. d_case_key d = case_key) (\<lambda>d. Some (d_started_at d)) (direct_attempts s) @
         times_of (\<lambda>p. tp_case_key p = case_key) tp_reconciled_at (task_projections s) @
         times_of (\<lambda>v. ev_case_key v = case_key) (\<lambda>v. Some (ev_observed_at v)) (evidence s)
     in case max_time seen of None \<Rightarrow> 0 | Some t \<Rightarrow> unsigned t)"

definition pending_effect_types :: "string \<Rightarrow> Store \<Rightarrow> string list" where
  "pending_effect_types case_key s =
     sort (remdups (map o_effect_type
       (filter (\<lambda>r. o_case_key r = case_key \<and> o_delivered_at r = None \<and> o_superseded_at r = None) (outbox s))))"

definition finding_window_start :: "string \<Rightarrow> Store \<Rightarrow> u64" where
  "finding_window_start case_key s =
     (case max_time (times_of (\<lambda>e. e_case_key e = case_key \<and>
          (e_event_type e = ''HUMAN_RESUMED'' \<or> e_next_state e = ''PLANNING'')) (\<lambda>e. Some (e_observed_at e)) (events s)) of
        None \<Rightarrow> 0
      | Some t \<Rightarrow> unsigned t)"

text \<open>\<open>builder_retry.rs\<close>: allowances granted by the retry commands of earlier versions.\<close>

definition retry_grant :: "EventRow \<Rightarrow> bool" where
  "retry_grant e \<longleftrightarrow>
     e_event_type e = ''BUILDER_RETRY_AUTHORIZED'' \<and>
       e_previous_state e \<in> {Some ''READY_TO_BUILD'', Some ''ESCALATED''} \<and>
       e_next_state e = ''READY_TO_BUILD'' \<or>
     e_event_type e = ''REVIEW_RETRY_AUTHORIZED'' \<and> e_previous_state e = Some ''ESCALATED'' \<and>
       e_next_state e = ''WAITING_CI'' \<or>
     e_event_type e = ''PLANNER_RETRY_AUTHORIZED'' \<and> e_previous_state e = Some ''ESCALATED'' \<and>
       e_next_state e = ''PLANNING''"

definition effective_provider_failure_limit :: "codec \<Rightarrow> string \<Rightarrow> u64 \<Rightarrow> Store \<Rightarrow> StoreError + u64" where
  "effective_provider_failure_limit C case_key base s =
     rbind (get_opt_i64 (sql_max C
       (map (\<lambda>e. sql_plus C (json_extract C (e_payload_json e) ''$.failed_attempts'') 1)
         (filter (\<lambda>e. e_case_key e = case_key \<and> retry_grant e) (events s))))) (\<lambda>granted.
     Inr (max base (case granted of None \<Rightarrow> 0 | Some v \<Rightarrow> unsigned v)))"

text \<open>\<open>reauthorization.rs\<close>.\<close>

definition accepted_policy_at_case_revision ::
  "codec \<Rightarrow> string \<Rightarrow> u64 \<Rightarrow> Store \<Rightarrow> StoreError + json" where
  "accepted_policy_at_case_revision C case_key state_revision s =
     rbind (sql_u64 state_revision) (\<lambda>revision.
     case find (\<lambda>e. e_case_key e = case_key \<and> e_state_revision e = revision) (events s) of
       None \<Rightarrow> Inl (Database QueryReturnedNoRows)
     | Some e \<Rightarrow>
         (case find_case case_key s of
            None \<Rightarrow> Inl (Database QueryReturnedNoRows)
          | Some c \<Rightarrow> policy_value C (unsigned (c_repository_id c)) (unsigned (e_policy_revision e)) s))"

definition case_task_ids :: "string \<Rightarrow> Store \<Rightarrow> string list" where
  "case_task_ids case_key s =
     sort (List.map_filter tp_task_id (filter (\<lambda>p. tp_case_key p = case_key) (task_projections s)))"

definition case_authorized_at :: "string \<Rightarrow> Store \<Rightarrow> StoreError + u64 option" where
  "case_authorized_at case_key s =
    (case find_case case_key s of
       None \<Rightarrow> Inr None
     | Some c \<Rightarrow>
         rbind (u64_of_i64 (case max_time (times_of
             (\<lambda>e. e_case_key e = case_key \<and> e_event_type e = ''ISSUE_REAUTHORIZED'')
             (\<lambda>e. Some (e_observed_at e)) (events s)) of
           None \<Rightarrow> c_created_at c
         | Some t \<Rightarrow> t)) (\<lambda>t. Inr (Some t)))"

section \<open>The heartbeat of the controller\<close>

definition CONTROLLER_GAP_SECONDS :: u64 where
  "CONTROLLER_GAP_SECONDS = 600"

definition find_heartbeat :: "int \<Rightarrow> Store \<Rightarrow> HeartbeatRow option" where
  "find_heartbeat repository s = find (\<lambda>h. hb_repository_id h = repository) (controller_heartbeats s)"

text \<open>\<open>INSERT ... ON CONFLICT(repository_id) DO UPDATE\<close>.\<close>

definition put_heartbeat :: "HeartbeatRow \<Rightarrow> unit store_op" where
  "put_heartbeat h =
     sbind (sreject_if (hb_repository_id h \<le> 0) (Database ConstraintViolation)) (\<lambda>_.
     sbind (sread (find_heartbeat (hb_repository_id h))) (\<lambda>known.
     case known of
       None \<Rightarrow> smodify (controller_heartbeats_update (\<lambda>rows. rows @ [h]))
     | Some _ \<Rightarrow> smodify (controller_heartbeats_update
         (update_rows (\<lambda>q. hb_repository_id q = hb_repository_id h) (\<lambda>_. h)))))"

definition record_controller_cycle :: "u64 \<Rightarrow> u64 \<Rightarrow> u64 store_op" where
  "record_controller_cycle repository_id now =
    sbind ensure_writable (\<lambda>_.
    sbind (slift (sql_u64 repository_id)) (\<lambda>repository.
    sbind (sread (find_heartbeat repository)) (\<lambda>previous.
    let running_since =
      (case previous of
         Some h \<Rightarrow> if saturating_sub now (unsigned (hb_last_cycle_at h)) \<le> CONTROLLER_GAP_SECONDS
                   then unsigned (hb_running_since h) else now
       | None \<Rightarrow> now) in
    sbind (slift (sql_u64 now)) (\<lambda>at.
    sbind (slift (sql_u64 running_since)) (\<lambda>since.
    sbind (put_heartbeat \<lparr>hb_repository_id = repository, hb_last_cycle_at = at, hb_running_since = since\<rparr>)
      (\<lambda>_. sreturn running_since))))))"

definition controller_running_since :: "u64 \<Rightarrow> Store \<Rightarrow> StoreError + u64 option" where
  "controller_running_since repository_id s =
     rbind (sql_u64 repository_id) (\<lambda>repository.
     Inr (map_option (\<lambda>h. unsigned (hb_running_since h)) (find_heartbeat repository s)))"

lemma sfor_append: "sfor (xs @ ys) f = sbind (sfor xs f) (\<lambda>_. sfor ys f)"
  by (induction xs) (auto simp: sbind_def fun_eq_iff split: prod.splits sum.splits)

lemma find_heartbeat_put:
  assumes "put_heartbeat h s = (Inr u, t)"
  shows "find_heartbeat (hb_repository_id h) t = Some h"
proof -
  have added: "find (\<lambda>q. hb_repository_id q = hb_repository_id h) (rows @ [h]) = Some h"
    if "find (\<lambda>q. hb_repository_id q = hb_repository_id h) rows = None" for rows
    using that by (induction rows) (auto split: if_splits)
  have replaced: "find (\<lambda>q. hb_repository_id q = hb_repository_id h)
      (update_rows (\<lambda>q. hb_repository_id q = hb_repository_id h) (\<lambda>_. h) rows) = Some h"
    if "find (\<lambda>q. hb_repository_id q = hb_repository_id h) rows = Some q" for rows q
    using that by (induction rows) (auto simp: update_rows_def split: if_splits)
  from assms added replaced show ?thesis
    by (auto simp: put_heartbeat_def find_heartbeat_def split: option.splits)
qed

text \<open>What a cycle answers and leaves in the heartbeat.\<close>

lemma cycle_heartbeat:
  assumes "record_controller_cycle repository now s = (Inr since, t)"
  shows "find_heartbeat (uint repository) t =
      Some \<lparr>hb_repository_id = uint repository, hb_last_cycle_at = uint now, hb_running_since = uint since\<rparr>"
    and "since = (case find_heartbeat (uint repository) s of
        Some h \<Rightarrow> if saturating_sub now (unsigned (hb_last_cycle_at h)) \<le> CONTROLLER_GAP_SECONDS
                  then unsigned (hb_running_since h) else now
      | None \<Rightarrow> now)"
  using assms
  by (auto simp: record_controller_cycle_def Let_def dest!: find_heartbeat_put)

lemma cycle_fits: "record_controller_cycle repository now s = (Inr since, t) \<Longrightarrow> uint repository < 2 ^ 63"
  by (auto simp: record_controller_cycle_def Let_def)

text \<open>Cycles at these times, none of them more than the gap behind the one before.\<close>

definition cycles :: "u64 \<Rightarrow> u64 list \<Rightarrow> unit store_op" where
  "cycles repository ts = sfor ts (\<lambda>now. sbind (record_controller_cycle repository now) (\<lambda>_. sreturn ()))"

definition uninterrupted :: "u64 list \<Rightarrow> bool" where
  "uninterrupted ts \<longleftrightarrow>
     successively (\<lambda>a b. saturating_sub b a \<le> CONTROLLER_GAP_SECONDS) ts"

definition running_from :: "u64 list \<Rightarrow> u64 \<Rightarrow> bool" where
  "running_from ts since \<longleftrightarrow>
     (\<exists>before run. ts = before @ run \<and> run \<noteq> [] \<and> hd run = since \<and> uninterrupted run \<and>
        (before \<noteq> [] \<longrightarrow> CONTROLLER_GAP_SECONDS < saturating_sub since (last before)))"

lemma running_from_one: "running_from [t] t"
  unfolding running_from_def uninterrupted_def by (rule exI [of _ "[]"]) simp

lemma running_from_on:
  assumes "running_from ts since" "saturating_sub t (last ts) \<le> CONTROLLER_GAP_SECONDS"
  shows "running_from (ts @ [t]) since"
proof -
  from assms(1) obtain before run where *: "ts = before @ run" "run \<noteq> []" "hd run = since"
    "uninterrupted run" "before \<noteq> [] \<longrightarrow> CONTROLLER_GAP_SECONDS < saturating_sub since (last before)"
    by (auto simp: running_from_def)
  have "ts @ [t] = before @ (run @ [t])" "hd (run @ [t]) = since" using * by auto
  moreover have "uninterrupted (run @ [t])"
    using * assms(2) by (simp add: uninterrupted_def successively_append_iff)
  ultimately show ?thesis using * unfolding running_from_def by blast
qed

lemma running_from_new:
  assumes "ts \<noteq> []" "\<not> saturating_sub t (last ts) \<le> CONTROLLER_GAP_SECONDS"
  shows "running_from (ts @ [t]) t"
  unfolding running_from_def uninterrupted_def using assms
  by (intro exI [of _ ts] exI [of _ "[t]"]) auto

lemma cycles_heartbeat:
  assumes "cycles repository ts s = (Inr (), t)" "ts \<noteq> []" "find_heartbeat (uint repository) s = None"
  shows "\<exists>since. running_from ts since \<and> find_heartbeat (uint repository) t =
    Some \<lparr>hb_repository_id = uint repository, hb_last_cycle_at = uint (last ts), hb_running_since = uint since\<rparr>"
  using assms(1,2)
proof (induction ts arbitrary: t rule: rev_induct)
  case Nil
  then show ?case by simp
next
  case (snoc now ts)
  then obtain u since where u: "cycles repository ts s = (Inr (), u)"
    and cycle: "record_controller_cycle repository now u = (Inr since, t)"
    by (auto simp: cycles_def sfor_append)
  show ?case
  proof (cases "ts = []")
    case True
    with u have "u = s" by (simp add: cycles_def)
    with cycle_heartbeat [OF cycle] assms(3) True show ?thesis by (auto intro: running_from_one)
  next
    case False
    with snoc.IH [OF u] obtain before where "running_from ts before"
      "find_heartbeat (uint repository) u = Some \<lparr>hb_repository_id = uint repository,
         hb_last_cycle_at = uint (last ts), hb_running_since = uint before\<rparr>" by auto
    with cycle_heartbeat(2) [OF cycle] False have "running_from (ts @ [now]) since"
      by (auto intro: running_from_on running_from_new split: if_splits)
    with cycle_heartbeat(1) [OF cycle] show ?thesis by auto
  qed
qed

section \<open>Theorems\<close>

text \<open>The controller's heartbeat tells how long it has been running. After controller cycles
  at the times \<open>ts\<close>, the first ones recorded for the repository, \<open>controller_running_since\<close> is the
  start of the last uninterrupted stretch of \<open>ts\<close>: no two successive cycles from then on lie
  more than ten minutes apart, and the cycle before it, if there was one, is more than ten
  minutes earlier. (A clock that goes backwards counts as no gap.)\<close>

theorem running_since_last_gap:
  assumes "cycles repository ts s = (Inr (), t)" "ts \<noteq> []"
    and "controller_running_since repository s = Inr None"
  shows "\<exists>since. controller_running_since repository t = Inr (Some since) \<and> running_from ts since"
proof -
  from assms(3) have repository: "uint repository < 2 ^ 63" "find_heartbeat (uint repository) s = None"
    by (auto simp: controller_running_since_def)
  from cycles_heartbeat [OF assms(1,2) this(2)] repository(1) show ?thesis
    by (auto simp: controller_running_since_def)
qed

theorem running_since_last_gap_witness:
  "\<exists>since. controller_running_since 7 (snd (cycles 7 [100, 700, 1400, 1500] empty_store)) = Inr (Some since) \<and>
     running_from [100, 700, 1400, 1500] since"
proof (rule running_since_last_gap [of 7 "[100, 700, 1400, 1500]" empty_store])
  have "fst (cycles 7 [100, 700, 1400, 1500] empty_store) = Inr ()" by code_simp
  then show "cycles 7 [100, 700, 1400, 1500] empty_store =
      (Inr (), snd (cycles 7 [100, 700, 1400, 1500] empty_store))" by (metis prod.collapse)
qed (simp, code_simp)

end
