(* ===== verification/Records.thy ===== *)
theory Records
  imports Projections DirectAttempts Control
begin

text \<open>
  The remaining records of \<open>pip-store\<close> (\<open>lib.rs\<close>): accepted policies, webhook deliveries, retired
  workspaces and the observations of detached reviewers, each written once and then only
  replayed, and the reports read from the ledger (runs of a case, its immutable history, its
  recent activity, the status of the whole ledger).
\<close>

section \<open>Policies\<close>

record PolicyInput =
  pli_repository_id :: u64
  pli_revision :: u64
  pli_accepted_at :: u64
  pli_payload :: json

definition record_policy :: "codec \<Rightarrow> PolicyInput \<Rightarrow> ApplyResult store_op" where
  "record_policy C input =
    sbind ensure_writable (\<lambda>_.
    sbind (sreject_if (pli_repository_id input = 0 \<or> pli_revision input = 0 \<or> \<not> is_object (pli_payload input))
      (InvalidInput ''policy repository, revision, and object payload are required'')) (\<lambda>_.
    sbind (slift (sql_u64 (pli_repository_id input))) (\<lambda>repository.
    sbind (slift (sql_u64 (pli_revision input))) (\<lambda>revision.
    sbind (sread (find_policy repository revision)) (\<lambda>existing.
    case existing of
      Some row \<Rightarrow>
        (if pol_payload_sha256 row = payload_hash C (pli_payload input) then sreturn Replayed
         else sfail (IdempotencyConflict
           (''policy:'' @ show_word (pli_repository_id input) @ '':'' @ show_word (pli_revision input))))
    | None \<Rightarrow>
        sbind (slift (sql_u64 (pli_accepted_at input))) (\<lambda>accepted.
        sbind (sql_insert policy_allowed add_policy
          \<lparr>pol_repository_id = repository, pol_revision = revision,
           pol_payload_json = fst (payload C (pli_payload input)),
           pol_payload_sha256 = snd (payload C (pli_payload input)), pol_accepted_at = accepted\<rparr>) (\<lambda>_.
        sreturn Applied)))))))"

definition accepted_policy :: "codec \<Rightarrow> u64 \<Rightarrow> u64 \<Rightarrow> Store \<Rightarrow> StoreError + json" where
  "accepted_policy C repository_id revision s = policy_value C repository_id revision s"

section \<open>Webhook deliveries\<close>

record WebhookDeliveryInput =
  wdi_delivery_id :: string
  wdi_repository_id :: u64
  wdi_event_name :: string
  wdi_action :: string
  wdi_received_at :: u64
  wdi_payload_sha256 :: string

definition delivery_allowed :: "Store \<Rightarrow> WebhookDeliveryRow \<Rightarrow> bool" where
  "delivery_allowed s r \<longleftrightarrow>
     0 < wd_repository_id r \<and>
     list_all (\<lambda>q. wd_delivery_id q \<noteq> wd_delivery_id r) (webhook_deliveries s)"

definition add_delivery :: "WebhookDeliveryRow \<Rightarrow> Store \<Rightarrow> Store" where
  "add_delivery r s = s\<lparr>webhook_deliveries := webhook_deliveries s @ [r]\<rparr>"

definition record_webhook_delivery :: "WebhookDeliveryInput \<Rightarrow> ApplyResult store_op" where
  "record_webhook_delivery input =
    sbind ensure_writable (\<lambda>_.
    sbind (sreject_if (\<not> valid_identifier (wdi_delivery_id input) 128 \<or> wdi_repository_id input = 0 \<or>
        \<not> valid_identifier (wdi_event_name input) 64 \<or> \<not> valid_identifier (wdi_action input) 64 \<or>
        \<not> valid_sha256 (wdi_payload_sha256 input))
      (InvalidInput ''valid webhook delivery identity, repository, event, action, and digest are required''))
      (\<lambda>_.
    sbind (sread (\<lambda>s. find (\<lambda>r. wd_delivery_id r = wdi_delivery_id input) (webhook_deliveries s)))
      (\<lambda>existing.
    case existing of
      Some r \<Rightarrow>
        (if unsigned (wd_repository_id r) = wdi_repository_id input \<and> wd_event_name r = wdi_event_name input \<and>
            wd_action r = wdi_action input \<and> wd_payload_sha256 r = wdi_payload_sha256 input
         then sreturn Replayed
         else sfail (IdempotencyConflict (''webhook:'' @ wdi_delivery_id input)))
    | None \<Rightarrow>
        sbind (slift (sql_u64 (wdi_repository_id input))) (\<lambda>repository.
        sbind (slift (sql_u64 (wdi_received_at input))) (\<lambda>received.
        sbind (sql_insert delivery_allowed add_delivery
          \<lparr>wd_delivery_id = wdi_delivery_id input, wd_repository_id = repository,
           wd_event_name = wdi_event_name input, wd_action = wdi_action input,
           wd_received_at = received, wd_payload_sha256 = wdi_payload_sha256 input\<rparr>) (\<lambda>_.
        sreturn Applied))))))"

section \<open>Retired workspaces\<close>

datatype WorkspaceRetirementOutcome = Retired | Absent

fun outcome_as_str :: "WorkspaceRetirementOutcome \<Rightarrow> string" where
  "outcome_as_str Retired = ''RETIRED''"
| "outcome_as_str Absent = ''ABSENT''"

record WorkspaceRetirementInput =
  wri_case_key :: string
  wri_state_revision :: u64
  wri_worktree_path :: string
  wri_outcome :: WorkspaceRetirementOutcome
  wri_retired_at :: u64

record WorkspaceRetirementCandidate =
  wrc_case_key :: string
  wrc_repository_id :: u64
  wrc_issue_number :: u64
  wrc_workflow_version :: u32
  wrc_state_revision :: u64
  wrc_updated_at :: u64

definition retired_states :: "string list" where
  "retired_states = [''COMPLETED'', ''ABANDONED'', ''TAKEN_OVER'']"

definition retirable :: "int \<Rightarrow> int \<Rightarrow> Store \<Rightarrow> CaseRow \<Rightarrow> bool" where
  "retirable repository cutoff s c \<longleftrightarrow>
     c_repository_id c = repository \<and> c_state c \<in> set retired_states \<and> c_updated_at c \<le> cutoff \<and>
     list_all (\<lambda>w. \<not> (wr_case_key w = c_case_key c \<and> wr_state_revision w = c_state_revision c))
       (workspace_retirements s) \<and>
     list_all (\<lambda>d. \<not> (d_case_key d = c_case_key c \<and> d_status d = RUNNING)) (direct_attempts s)"

definition terminal_workspace_candidates ::
  "u64 \<Rightarrow> u64 \<Rightarrow> u32 \<Rightarrow> Store \<Rightarrow> StoreError + WorkspaceRetirementCandidate list" where
  "terminal_workspace_candidates repository_id updated_before_or_at limit s =
    (if repository_id = 0 \<or> limit = 0 \<or> limit > 1000
     then Inl (InvalidInput ''repository, retention cutoff, and bounded candidate limit are required'')
     else
       rbind (sql_u64 repository_id) (\<lambda>repository.
       rbind (sql_u64 updated_before_or_at) (\<lambda>cutoff.
       Inr (map (\<lambda>c.
           \<lparr>wrc_case_key = c_case_key c, wrc_repository_id = unsigned (c_repository_id c),
            wrc_issue_number = unsigned (c_issue_number c),
            wrc_workflow_version = unsigned32 (c_workflow_version c),
            wrc_state_revision = unsigned (c_state_revision c), wrc_updated_at = unsigned (c_updated_at c)\<rparr>)
         (take (unat limit) (sort_key c_updated_at (sort_key c_case_key
           (filter (retirable repository cutoff s) (cases_table s)))))))))"

definition retirement_allowed :: "Store \<Rightarrow> WorkspaceRetirementRow \<Rightarrow> bool" where
  "retirement_allowed s r \<longleftrightarrow>
     has_case s (wr_case_key r) \<and> 0 < wr_state_revision r \<and> wr_outcome r \<in> {''RETIRED'', ''ABSENT''} \<and>
     list_all (\<lambda>q. (wr_case_key q, wr_state_revision q) \<noteq> (wr_case_key r, wr_state_revision r))
       (workspace_retirements s)"

definition add_retirement :: "WorkspaceRetirementRow \<Rightarrow> Store \<Rightarrow> Store" where
  "add_retirement r s = s\<lparr>workspace_retirements := workspace_retirements s @ [r]\<rparr>"

text \<open>\<open>Path::is_absolute\<close> on Unix.\<close>

definition is_absolute :: "string \<Rightarrow> bool" where
  "is_absolute path \<longleftrightarrow> prefix ''/'' path"

definition record_workspace_retirement :: "WorkspaceRetirementInput \<Rightarrow> ApplyResult store_op" where
  "record_workspace_retirement input =
    sbind ensure_writable (\<lambda>_.
    sbind (sreject_if (blank (wri_case_key input) \<or> wri_state_revision input = 0 \<or>
        \<not> is_absolute (wri_worktree_path input) \<or> int (length (wri_worktree_path input)) > 4096 \<or>
        has_control (wri_worktree_path input))
      (InvalidInput ''valid workspace retirement identity and absolute path are required'')) (\<lambda>_.
    sbind (slift (sql_u64 (wri_state_revision input))) (\<lambda>revision.
    sbind (sread (\<lambda>s. find (\<lambda>r. wr_case_key r = wri_case_key input \<and> wr_state_revision r = revision)
      (workspace_retirements s))) (\<lambda>existing.
    case existing of
      Some r \<Rightarrow>
        (if unsigned (wr_state_revision r) = wri_state_revision input \<and>
            wr_worktree_path r = wri_worktree_path input \<and>
            wr_outcome r = outcome_as_str (wri_outcome input) \<and>
            unsigned (wr_retired_at r) = wri_retired_at input
         then sreturn Replayed
         else sfail (IdempotencyConflict (''workspace-retirement:'' @ wri_case_key input)))
    | None \<Rightarrow>
        sbind (sread (find_case (wri_case_key input))) (\<lambda>found.
        sbind (slift (ok_or found (MissingCase (wri_case_key input)))) (\<lambda>c.
        sbind (sreject_if (c_state c \<notin> set retired_states)
          (InvalidInput ''workspace retirement requires a terminal case'')) (\<lambda>_.
        sbind (sreject_if (unsigned (c_state_revision c) \<noteq> wri_state_revision input)
          (StaleRevision (wri_state_revision input) (unsigned (c_state_revision c)))) (\<lambda>_.
        sbind (slift (sql_u64 (wri_retired_at input))) (\<lambda>retired.
        sbind (sql_insert retirement_allowed add_retirement
          \<lparr>wr_case_key = wri_case_key input, wr_state_revision = revision,
           wr_worktree_path = wri_worktree_path input, wr_outcome = outcome_as_str (wri_outcome input),
           wr_retired_at = retired\<rparr>) (\<lambda>_.
        sreturn Applied))))))))))"

section \<open>Observations of detached reviewers\<close>

record ReviewObservationInput =
  roi_observation_id :: string
  roi_task_id :: string
  roi_reviewer_id :: string
  roi_role :: string
  roi_review_mode :: string
  roi_plan_version :: u32
  roi_review_round :: u32
  roi_pr_number :: u64
  roi_reviewed_head_sha :: string
  roi_payload :: json

definition bad_observation :: "ReviewObservationInput \<Rightarrow> bool" where
  "bad_observation o' \<longleftrightarrow>
     blank (roi_observation_id o') \<or> blank (roi_task_id o') \<or> \<not> valid_identifier (roi_reviewer_id o') 128 \<or>
     roi_role o' \<notin> {''reviewer-general'', ''reviewer-secperf''} \<or>
     roi_review_mode o' \<notin> {''advisory'', ''shadow''} \<or> roi_plan_version o' = 0 \<or>
     roi_review_round o' = 0 \<or> roi_pr_number o' = 0 \<or> length (roi_reviewed_head_sha o') \<noteq> 40 \<or>
     \<not> list_all is_lower_hex (roi_reviewed_head_sha o') \<or> \<not> is_object (roi_payload o')"

definition observation_row ::
  "codec \<Rightarrow> string \<Rightarrow> string \<Rightarrow> ReviewObservationInput \<Rightarrow> int \<Rightarrow> int \<Rightarrow> ReviewObservationRow" where
  "observation_row C effect_id case_key o' pr_number now =
     \<lparr>ro_observation_id = roi_observation_id o', ro_effect_id = effect_id, ro_case_key = case_key,
      ro_task_id = roi_task_id o', ro_reviewer_id = roi_reviewer_id o', ro_role = roi_role o',
      ro_review_mode = roi_review_mode o', ro_plan_version = sql_u32 (roi_plan_version o'),
      ro_review_round = sql_u32 (roi_review_round o'), ro_pr_number = pr_number,
      ro_reviewed_head_sha = roi_reviewed_head_sha o',
      ro_payload_json = fst (payload C (roi_payload o')),
      ro_payload_sha256 = snd (payload C (roi_payload o')), ro_recorded_at = now\<rparr>"

definition observation_allowed :: "Store \<Rightarrow> ReviewObservationRow \<Rightarrow> bool" where
  "observation_allowed s r \<longleftrightarrow>
     has_effect s (ro_effect_id r) \<and> has_case s (ro_case_key r) \<and>
     ro_review_mode r \<in> {''advisory'', ''shadow''} \<and> 0 < ro_plan_version r \<and> 0 < ro_review_round r \<and>
     0 < ro_pr_number r \<and>
     list_all (\<lambda>q. ro_observation_id q \<noteq> ro_observation_id r \<and> ro_effect_id q \<noteq> ro_effect_id r \<and>
       ro_task_id q \<noteq> ro_task_id r) (review_observations s)"

definition add_observation :: "ReviewObservationRow \<Rightarrow> Store \<Rightarrow> Store" where
  "add_observation r s = s\<lparr>review_observations := review_observations s @ [r]\<rparr>"

definition complete_review_observation_effect ::
  "codec \<Rightarrow> string \<Rightarrow> string \<Rightarrow> u64 \<Rightarrow> ReviewObservationInput \<Rightarrow> ApplyResult store_op" where
  "complete_review_observation_effect C effect_id owner now o' =
    sbind ensure_writable (\<lambda>_.
    sbind (sreject_if (blank effect_id \<or> blank owner \<or> bad_observation o')
      (InvalidInput ''valid detached review observation identity and payload are required'')) (\<lambda>_.
    let conflict = IdempotencyConflict (roi_observation_id o') in
    stransaction (
      sbind (sread (find_effect effect_id)) (\<lambda>found.
      sbind (slift (ok_or found (LeaseLost effect_id))) (\<lambda>row.
      sbind (sread (\<lambda>s. list_ex (\<lambda>q. ro_observation_id q = roi_observation_id o') (review_observations s)))
        (\<lambda>existing.
      if o_delivered_at row \<noteq> None then
        sbind (slift (sql_u64 (roi_pr_number o'))) (\<lambda>pr.
        sbind (sread (\<lambda>s. list_ex
            (\<lambda>q. q\<lparr>ro_recorded_at := 0\<rparr> = observation_row C effect_id (o_case_key row) o' pr 0)
            (review_observations s))) (\<lambda>same.
        sbind (sreject_if (\<not> same) conflict) (\<lambda>_.
        sreturn Replayed)))
      else if o_effect_type row \<noteq> ''RUN_DIRECT_OBSERVER'' \<or> o_superseded_at row \<noteq> None \<or> existing
        then sfail conflict
      else
        sbind (sread (\<lambda>s. list_ex (\<lambda>r. o_effect_id r = effect_id \<and> pending r \<and> leased_by owner r) (outbox s)))
          (\<lambda>valid.
        sbind (sreject_if (\<not> valid) (LeaseLost effect_id)) (\<lambda>_.
        sbind (slift (sql_u64 (roi_pr_number o'))) (\<lambda>pr.
        sbind (slift (sql_u64 now)) (\<lambda>at.
        sbind (sql_insert observation_allowed add_observation
          (observation_row C effect_id (o_case_key row) o' pr at)) (\<lambda>_.
        sbind (update_outbox (\<lambda>r. o_effect_id r = effect_id \<and> leased_by owner r \<and> pending r)
          (\<lambda>r. r\<lparr>o_delivered_at := Some at, o_lease := None\<rparr>)) (\<lambda>updated.
        sbind (sreject_if (updated \<noteq> 1) (LeaseLost effect_id)) (\<lambda>_.
        sreturn Applied)))))))))))))"

section \<open>Reports\<close>

record StoredRun =
  sr_run_id :: string
  sr_case_key :: string
  sr_event_id :: string
  sr_task_id :: string
  sr_role :: string
  sr_payload :: json
  sr_payload_sha256 :: string
  sr_accepted_at :: u64

record StoredReviewObservation =
  so_observation_id :: string
  so_effect_id :: string
  so_case_key :: string
  so_task_id :: string
  so_reviewer_id :: string
  so_role :: string
  so_review_mode :: string
  so_plan_version :: u32
  so_review_round :: u32
  so_pr_number :: u64
  so_reviewed_head_sha :: string
  so_payload :: json
  so_payload_sha256 :: string
  so_recorded_at :: u64

record StoredEvent =
  se_event_id :: string
  se_state_revision :: u64
  se_observed_at :: u64
  se_event_type :: string
  se_payload :: json
  se_payload_sha256 :: string

record StoredEvidence =
  sv_evidence_id :: string
  sv_kind :: string
  sv_source :: string
  sv_observed_at :: u64
  sv_payload :: json
  sv_payload_sha256 :: string

record StoredFinding =
  sf_finding_id :: string
  sf_origin_role :: string
  sf_reviewed_head_sha :: string
  sf_payload :: json
  sf_payload_sha256 :: string
  sf_recorded_at :: u64

record ImmutableCaseHistory =
  ih_events :: "StoredEvent list"
  ih_runs :: "StoredRun list"
  ih_evidence :: "StoredEvidence list"
  ih_findings :: "StoredFinding list"
  ih_review_observations :: "StoredReviewObservation list"

definition parse_stored_run :: "codec \<Rightarrow> RunRow \<Rightarrow> StoreError + StoredRun" where
  "parse_stored_run C r =
     rbind (ok_or (json_from_str C (r_payload_json r)) Serialization) (\<lambda>value.
     Inr \<lparr>sr_run_id = r_run_id r, sr_case_key = r_case_key r, sr_event_id = r_event_id r,
          sr_task_id = r_task_id r, sr_role = r_role r, sr_payload = value,
          sr_payload_sha256 = r_payload_sha256 r, sr_accepted_at = unsigned (r_accepted_at r)\<rparr>)"

definition run_by_task_id :: "codec \<Rightarrow> string \<Rightarrow> Store \<Rightarrow> StoreError + StoredRun option" where
  "run_by_task_id C task_id s =
    (case find (\<lambda>r. r_task_id r = task_id) (runs s) of
       None \<Rightarrow> Inr None
     | Some r \<Rightarrow> rbind (parse_stored_run C r) (\<lambda>run. Inr (Some run)))"

definition by_acceptance :: "RunRow list \<Rightarrow> RunRow list" where
  "by_acceptance rows = sort_key r_accepted_at (sort_key r_run_id rows)"

definition runs_for_case :: "codec \<Rightarrow> string \<Rightarrow> Store \<Rightarrow> StoreError + StoredRun list" where
  "runs_for_case C case_key s =
     rmap (parse_stored_run C) (by_acceptance (filter (\<lambda>r. r_case_key r = case_key) (runs s)))"

text \<open>The revision of the last entry into CI observation or review, which opens a review cohort.\<close>

definition cohort_start :: "string \<Rightarrow> Store \<Rightarrow> int" where
  "cohort_start case_key s =
    (case max_time (map e_state_revision (filter (\<lambda>e. e_case_key e = case_key \<and>
         e_next_state e \<in> {''WAITING_CI'', ''REVIEWING''} \<and>
         e_previous_state e \<noteq> Some (e_next_state e)) (events s))) of
       None \<Rightarrow> 0
     | Some revision \<Rightarrow> revision)"

definition current_review_runs_for_case :: "codec \<Rightarrow> string \<Rightarrow> Store \<Rightarrow> StoreError + StoredRun list" where
  "current_review_runs_for_case C case_key s =
     rmap (parse_stored_run C) (by_acceptance (filter (\<lambda>r. r_case_key r = case_key \<and>
       r_role r \<in> {''reviewer-general'', ''reviewer-secperf''} \<and>
       list_ex (\<lambda>e. e_event_id e = r_event_id r \<and> e_case_key e = r_case_key r \<and>
         e_state_revision e > cohort_start case_key s) (events s)) (runs s)))"

definition u32_of_i64 :: "int \<Rightarrow> StoreError + u32" where
  "u32_of_i64 v = (if 0 \<le> v \<and> v < 2 ^ 32 then Inr (of_int v) else Inl InvalidInteger)"

definition stored_observation :: "codec \<Rightarrow> ReviewObservationRow \<Rightarrow> StoreError + StoredReviewObservation" where
  "stored_observation C r =
     rbind (u32_of_i64 (ro_plan_version r)) (\<lambda>plan_version.
     rbind (u32_of_i64 (ro_review_round r)) (\<lambda>review_round.
     rbind (ok_or (json_from_str C (ro_payload_json r)) Serialization) (\<lambda>value.
     Inr \<lparr>so_observation_id = ro_observation_id r, so_effect_id = ro_effect_id r,
          so_case_key = ro_case_key r, so_task_id = ro_task_id r, so_reviewer_id = ro_reviewer_id r,
          so_role = ro_role r, so_review_mode = ro_review_mode r, so_plan_version = plan_version,
          so_review_round = review_round, so_pr_number = unsigned (ro_pr_number r),
          so_reviewed_head_sha = ro_reviewed_head_sha r, so_payload = value,
          so_payload_sha256 = ro_payload_sha256 r, so_recorded_at = unsigned (ro_recorded_at r)\<rparr>)))"

definition review_observations_for_case ::
  "codec \<Rightarrow> string \<Rightarrow> Store \<Rightarrow> StoreError + StoredReviewObservation list" where
  "review_observations_for_case C case_key s =
    (if blank case_key then Inl (InvalidInput ''case identity is required'')
     else rmap (stored_observation C) (sort_key ro_recorded_at (sort_key ro_observation_id
       (filter (\<lambda>r. ro_case_key r = case_key) (review_observations s)))))"

definition stored_event :: "codec \<Rightarrow> EventRow \<Rightarrow> StoreError + StoredEvent" where
  "stored_event C e =
     rbind (ok_or (json_from_str C (e_payload_json e)) Serialization) (\<lambda>value.
     Inr \<lparr>se_event_id = e_event_id e, se_state_revision = unsigned (e_state_revision e),
          se_observed_at = unsigned (e_observed_at e), se_event_type = e_event_type e,
          se_payload = value, se_payload_sha256 = e_payload_sha256 e\<rparr>)"

definition stored_evidence :: "codec \<Rightarrow> EvidenceRow \<Rightarrow> StoreError + StoredEvidence" where
  "stored_evidence C v =
     rbind (ok_or (json_from_str C (ev_payload_json v)) Serialization) (\<lambda>value.
     Inr \<lparr>sv_evidence_id = ev_evidence_id v, sv_kind = ev_kind v, sv_source = ev_source v,
          sv_observed_at = unsigned (ev_observed_at v), sv_payload = value,
          sv_payload_sha256 = ev_payload_sha256 v\<rparr>)"

definition stored_finding :: "codec \<Rightarrow> FindingRow \<Rightarrow> StoreError + StoredFinding" where
  "stored_finding C f =
     rbind (ok_or (json_from_str C (f_payload_json f)) Serialization) (\<lambda>value.
     Inr \<lparr>sf_finding_id = f_finding_id f, sf_origin_role = f_origin_role f,
          sf_reviewed_head_sha = f_reviewed_head_sha f, sf_payload = value,
          sf_payload_sha256 = f_payload_sha256 f, sf_recorded_at = unsigned (f_recorded_at f)\<rparr>)"

text \<open>A nullable text column in ascending order: nulls first.\<close>

definition null_first_text :: "string option \<Rightarrow> string" where
  "null_first_text t = (case t of None \<Rightarrow> [] | Some i \<Rightarrow> CHR ''.'' # i)"

definition immutable_history_for_case :: "codec \<Rightarrow> string \<Rightarrow> Store \<Rightarrow> StoreError + ImmutableCaseHistory" where
  "immutable_history_for_case C case_key s =
    (if blank case_key then Inl (InvalidInput ''case identity is required'')
     else
       rbind (rmap (stored_event C) (sort_key e_state_revision (sort_key e_event_id
         (filter (\<lambda>e. e_case_key e = case_key) (events s))))) (\<lambda>evs.
       rbind (runs_for_case C case_key s) (\<lambda>rs.
       rbind (rmap (stored_evidence C) (sort_key ev_observed_at (sort_key ev_evidence_id
         (filter (\<lambda>v. ev_case_key v = case_key) (evidence s))))) (\<lambda>evidence_items.
       rbind (rmap (stored_finding C) (sort_key f_recorded_at (sort_key f_finding_id
         (sort_key f_origin_role (sort_key f_reviewed_head_sha (sort_key (\<lambda>f. null_first_text (f_event_id f))
           (filter (\<lambda>f. f_case_key f = case_key) (findings s)))))))) (\<lambda>fs.
       rbind (review_observations_for_case C case_key s) (\<lambda>observations.
       Inr \<lparr>ih_events = evs, ih_runs = rs, ih_evidence = evidence_items, ih_findings = fs,
            ih_review_observations = observations\<rparr>))))))"

definition case_created_at :: "string \<Rightarrow> Store \<Rightarrow> StoreError + u64 option" where
  "case_created_at case_key s =
    (case find_case case_key s of
       None \<Rightarrow> Inr None
     | Some c \<Rightarrow> rbind (u64_of_i64 (c_created_at c)) (\<lambda>t. Inr (Some t)))"

definition latest_event_type :: "string \<Rightarrow> Store \<Rightarrow> string option" where
  "latest_event_type case_key s =
     map_option e_event_type (newest e_state_revision (filter (\<lambda>e. e_case_key e = case_key) (events s)))"

text \<open>\<open>case_activity.rs\<close>: the eight newest events and attempts.\<close>

record CaseActivity =
  ca_recent_events :: "StoredEvent list"
  ca_recent_attempts :: "json list"
  ca_pending_effect_count :: u64

definition status_text :: "AttemptState \<Rightarrow> string" where
  "status_text st =
     (case st of RUNNING \<Rightarrow> ''RUNNING'' | COMPLETE _ _ _ \<Rightarrow> ''COMPLETE'' | FAILED _ _ \<Rightarrow> ''FAILED'')"

definition ended_at :: "AttemptState \<Rightarrow> int option" where
  "ended_at st = (case st of RUNNING \<Rightarrow> None | COMPLETE at _ _ \<Rightarrow> Some at | FAILED at _ \<Rightarrow> Some at)"

definition attempt_value :: "DirectAttemptRow \<Rightarrow> json" where
  "attempt_value d =
     JObj [(''attempt_id'', json_i64 (d_attempt_id d)),
       (''completed_at'', json_opt json_i64 (ended_at (d_status d))),
       (''started_at'', json_i64 (d_started_at d)),
       (''state_revision'', json_i64 (d_state_revision d)),
       (''status'', JStr (status_text (d_status d)))]"

definition case_activity :: "codec \<Rightarrow> string \<Rightarrow> Store \<Rightarrow> StoreError + CaseActivity" where
  "case_activity C case_key s =
     rbind (rmap (stored_event C) (take 8 (rev (sort_key e_state_revision
       (filter (\<lambda>e. e_case_key e = case_key) (events s)))))) (\<lambda>recent.
     Inr \<lparr>ca_recent_events = recent,
       ca_recent_attempts = map attempt_value (take 8 (rev (sort_key d_attempt_id
         (filter (\<lambda>d. d_case_key d = case_key) (direct_attempts s))))),
       ca_pending_effect_count =
         unsigned (int (length (filter (\<lambda>r. o_case_key r = case_key \<and> pending r) (outbox s))))\<rparr>)"

text \<open>The status report. Counts of rows fit their 64-bit integers; the schema is the last one.\<close>

record LedgerStatus =
  ls_dispatch_batches :: u64
  ls_dispatch_create_attempts :: u64
  ls_cases :: "StoredCase list"
  ls_events :: u64
  ls_runs :: u64
  ls_evidence :: u64
  ls_findings :: u64
  ls_outbox_total :: u64
  ls_outbox_pending :: u64
  ls_outbox_leased :: u64
  ls_outbox_delivered :: u64
  ls_outbox_superseded :: u64
  ls_task_projections :: u64
  ls_direct_attempts_running :: u64
  ls_direct_attempts_complete :: u64
  ls_direct_attempts_failed :: u64
  ls_webhook_deliveries :: u64
  ls_workspace_retirements :: u64
  ls_review_observations :: u64

definition count :: "('r \<Rightarrow> bool) \<Rightarrow> 'r list \<Rightarrow> u64" where
  "count sel rows = unsigned (int (length (filter sel rows)))"

definition status :: "u64 \<Rightarrow> Store \<Rightarrow> StoreError + LedgerStatus" where
  "status now s =
     rbind (sql_u64 now) (\<lambda>at.
     Inr \<lparr>ls_dispatch_batches = count (\<lambda>_. True) (dispatch_batches s),
       ls_dispatch_create_attempts = count (\<lambda>_. True) (dispatch_create_attempts s),
       ls_cases = map stored_case (sort_key c_repository_id (sort_key c_issue_number
         (sort_key c_workflow_version (cases_table s)))),
       ls_events = count (\<lambda>_. True) (events s), ls_runs = count (\<lambda>_. True) (runs s),
       ls_evidence = count (\<lambda>_. True) (evidence s), ls_findings = count (\<lambda>_. True) (findings s),
       ls_outbox_total = count (\<lambda>_. True) (outbox s), ls_outbox_pending = count pending (outbox s),
       ls_outbox_leased = count (\<lambda>r. pending r \<and>
         (case o_lease r of None \<Rightarrow> False | Some (_, until) \<Rightarrow> at \<le> until)) (outbox s),
       ls_outbox_delivered = count (\<lambda>r. o_delivered_at r \<noteq> None) (outbox s),
       ls_outbox_superseded = count (\<lambda>r. o_superseded_at r \<noteq> None) (outbox s),
       ls_task_projections = count (\<lambda>_. True) (task_projections s),
       ls_direct_attempts_running = count (\<lambda>d. d_status d = RUNNING) (direct_attempts s),
       ls_direct_attempts_complete = count (\<lambda>d. is_complete (d_status d)) (direct_attempts s),
       ls_direct_attempts_failed = count (\<lambda>d. is_failed (d_status d)) (direct_attempts s),
       ls_webhook_deliveries = count (\<lambda>_. True) (webhook_deliveries s),
       ls_workspace_retirements = count (\<lambda>_. True) (workspace_retirements s),
       ls_review_observations = count (\<lambda>_. True) (review_observations s)\<rparr>)"

end
