(* ===== verification/Conversations.thy ===== *)
theory Conversations
  imports LedgerInputs
begin

text \<open>
  Conversations on GitHub threads (\<open>conversations.rs\<close> of \<open>pip-store\<close>): a message is recorded once,
  a job for it is reserved before the external queue is called, the task is bound, the answer and
  then the rendered reply are frozen, and the conversation is finished. Each operation is one
  \<open>UPDATE\<close> guarded by the state it starts from. The theorems: the columns a row has filled are
  those its state promises, whatever operations ran, nothing that was filled ever changes, and
  the external job is reserved at most once.
\<close>

section \<open>Rows\<close>

record ConversationInput =
  ci_key :: string
  ci_repository_id :: u64
  ci_thread_number :: u64
  ci_actor_id :: u64
  ci_case_key :: "string option"
  ci_received_at :: u64
  ci_payload :: json

record Conversation =
  co_input :: ConversationInput
  co_state :: string
  co_spec :: "json option"
  co_task_id :: "string option"
  co_answer :: "json option"
  co_reply_body :: "string option"

text \<open>The states a conversation ends in.\<close>

definition finished :: "string list" where
  "finished = [''PUBLISHED'', ''IGNORED'', ''FAILED'']"

text \<open>Primary key and foreign key. The texts are written by \<open>serde_json\<close>, so \<open>json_valid\<close> holds.\<close>

definition conversation_allowed :: "Store \<Rightarrow> ConversationRow \<Rightarrow> bool" where
  "conversation_allowed s r \<longleftrightarrow>
     list_all (\<lambda>q. cv_message_key q \<noteq> cv_message_key r) (conversations s) \<and>
     (case cv_case_key r of None \<Rightarrow> True | Some k \<Rightarrow> has_case s k)"

definition add_conversation :: "ConversationRow \<Rightarrow> Store \<Rightarrow> Store" where
  "add_conversation r s = s\<lparr>conversations := conversations s @ [r]\<rparr>"

text \<open>A column that was filled may not change.\<close>

definition set_once :: "'a option \<Rightarrow> 'a option \<Rightarrow> bool" where
  "set_once old new \<longleftrightarrow> old = None \<or> new = old"

text \<open>The trigger \<open>conversations_input_immutable\<close> lets an update pass.\<close>

definition conversation_trigger :: "ConversationRow \<Rightarrow> ConversationRow \<Rightarrow> bool" where
  "conversation_trigger old new \<longleftrightarrow>
     cv_message_key new = cv_message_key old \<and> cv_repository_id new = cv_repository_id old \<and>
     cv_thread_number new = cv_thread_number old \<and> cv_actor_id new = cv_actor_id old \<and>
     cv_case_key new = cv_case_key old \<and> cv_received_at new = cv_received_at old \<and>
     cv_payload_json new = cv_payload_json old \<and> cv_payload_sha256 new = cv_payload_sha256 old \<and>
     set_once (cv_spec_json old) (cv_spec_json new) \<and> set_once (cv_task_id old) (cv_task_id new) \<and>
     set_once (cv_answer_json old) (cv_answer_json new) \<and>
     set_once (cv_reply_id old) (cv_reply_id new) \<and> set_once (cv_reply_body old) (cv_reply_body new)"

text \<open>\<open>task_id TEXT UNIQUE\<close>: nulls do not collide.\<close>

definition tasks_unique :: "ConversationRow list \<Rightarrow> bool" where
  "tasks_unique rows \<longleftrightarrow> distinct (filter (\<lambda>t. t \<noteq> None) (map cv_task_id rows))"

definition update_conversations ::
  "(ConversationRow \<Rightarrow> bool) \<Rightarrow> (ConversationRow \<Rightarrow> ConversationRow) \<Rightarrow> nat store_op" where
  "update_conversations sel f =
     sbind (sread conversations) (\<lambda>rows.
       if list_all (\<lambda>r. sel r \<longrightarrow> conversation_trigger r (f r)) rows \<and> tasks_unique (update_rows sel f rows)
       then sbind (smodify (conversations_update (update_rows sel f))) (\<lambda>_.
            sreturn (length (filter sel rows)))
       else sfail (Database ConstraintViolation))"

definition find_conversation :: "string \<Rightarrow> Store \<Rightarrow> ConversationRow option" where
  "find_conversation key s = find (\<lambda>r. cv_message_key r = key) (conversations s)"

definition read_opt :: "codec \<Rightarrow> string option \<Rightarrow> StoreError + json option" where
  "read_opt C text =
     (case text of
        None \<Rightarrow> Inr None
      | Some t \<Rightarrow> rbind (ok_or (json_from_str C t) Serialization) (\<lambda>v. Inr (Some v)))"

section \<open>Operations\<close>

definition conversation :: "codec \<Rightarrow> string \<Rightarrow> Store \<Rightarrow> StoreError + Conversation option" where
  "conversation C key s =
    (case find_conversation key s of
       None \<Rightarrow> Inr None
     | Some r \<Rightarrow>
         rbind (ok_or (json_from_str C (cv_payload_json r)) Serialization) (\<lambda>value.
         if payload_hash C value \<noteq> cv_payload_sha256 r
         then Inl (InvalidInput ''conversation digest differs'')
         else
           rbind (read_opt C (cv_spec_json r)) (\<lambda>spec.
           rbind (read_opt C (cv_answer_json r)) (\<lambda>answer.
           Inr (Some
             \<lparr>co_input =
                \<lparr>ci_key = key, ci_repository_id = unsigned (cv_repository_id r),
                 ci_thread_number = unsigned (cv_thread_number r),
                 ci_actor_id = unsigned (cv_actor_id r), ci_case_key = cv_case_key r,
                 ci_received_at = unsigned (cv_received_at r), ci_payload = value\<rparr>,
              co_state = cv_state r, co_spec = spec, co_task_id = cv_task_id r, co_answer = answer,
              co_reply_body = cv_reply_body r\<rparr>)))))"

definition bad_conversation :: "codec \<Rightarrow> ConversationInput \<Rightarrow> bool" where
  "bad_conversation C input \<longleftrightarrow>
     \<not> valid_identifier (ci_key input) 256 \<or> ci_repository_id input = 0 \<or>
     ci_thread_number input = 0 \<or> ci_actor_id input = 0 \<or> ci_received_at input = 0 \<or>
     \<not> is_object (ci_payload input) \<or> int (length (json_to_string C (ci_payload input))) > 256 * 1024"

definition record_conversation :: "codec \<Rightarrow> ConversationInput \<Rightarrow> ApplyResult store_op" where
  "record_conversation C input =
    sbind ensure_writable (\<lambda>_.
    sbind (sreject_if (bad_conversation C input) (InvalidInput ''invalid conversation'')) (\<lambda>_.
    sbind (squery (conversation C (ci_key input))) (\<lambda>found.
    case found of
      Some existing \<Rightarrow>
        (if co_input existing = input\<lparr>ci_received_at := ci_received_at (co_input existing)\<rparr>
         then sreturn Replayed else sfail (IdempotencyConflict (ci_key input)))
    | None \<Rightarrow>
        sbind (slift (sql_u64 (ci_repository_id input))) (\<lambda>repository.
        sbind (slift (sql_u64 (ci_thread_number input))) (\<lambda>thread.
        sbind (slift (sql_u64 (ci_actor_id input))) (\<lambda>actor.
        sbind (slift (sql_u64 (ci_received_at input))) (\<lambda>received.
        sbind (sql_insert conversation_allowed add_conversation
          \<lparr>cv_message_key = ci_key input, cv_repository_id = repository,
           cv_thread_number = thread, cv_actor_id = actor, cv_case_key = ci_case_key input,
           cv_received_at = received, cv_payload_json = fst (payload C (ci_payload input)),
           cv_payload_sha256 = snd (payload C (ci_payload input)), cv_state = ''PENDING'',
           cv_spec_json = None, cv_task_id = None, cv_answer_json = None, cv_reply_id = None,
           cv_reply_body = None\<rparr>) (\<lambda>_.
        sreturn Applied))))))))"

definition open_conversations :: "int \<Rightarrow> Store \<Rightarrow> ConversationRow list" where
  "open_conversations repository s =
     sort_key cv_received_at (sort_key cv_message_key
       (filter (\<lambda>r. cv_repository_id r = repository \<and> cv_state r \<notin> set finished) (conversations s)))"

definition list_conversations :: "codec \<Rightarrow> u64 \<Rightarrow> u32 \<Rightarrow> Store \<Rightarrow> StoreError + Conversation list" where
  "list_conversations C repository_id limit s =
     rbind (sql_u64 repository_id) (\<lambda>repository.
     rmap (\<lambda>r. rbind (conversation C (cv_message_key r) s) (\<lambda>found.
           ok_or found (InvalidInput ''missing conversation'')))
       (take (unat (min limit 100)) (open_conversations repository s)))"

definition has_pending_conversation :: "u64 \<Rightarrow> string option \<Rightarrow> Store \<Rightarrow> StoreError + bool" where
  "has_pending_conversation repository_id case_key s =
     rbind (sql_u64 repository_id) (\<lambda>repository.
     Inr (list_ex (\<lambda>r. cv_repository_id r = repository \<and>
         (case_key = None \<or> cv_case_key r = case_key) \<and> cv_state r \<notin> set finished)
       (conversations s)))"

definition reserve_conversation :: "codec \<Rightarrow> string \<Rightarrow> json \<Rightarrow> bool store_op" where
  "reserve_conversation C key spec =
    sbind ensure_writable (\<lambda>_.
    sbind (sreject_if (\<not> is_object spec \<or> int (length (json_to_string C spec)) > 512 * 1024)
      (InvalidInput ''invalid conversation job'')) (\<lambda>_.
    sbind (update_conversations (\<lambda>r. cv_message_key r = key \<and> cv_state r = ''PENDING'')
      (\<lambda>r. r\<lparr>cv_state := ''CREATING'', cv_spec_json := Some (fst (payload C spec))\<rparr>)) (\<lambda>changed.
    sreturn (changed = 1))))"

text \<open>\<open>Ok\<close> when the row was changed or already says the same.\<close>

definition changed_or_same ::
  "codec \<Rightarrow> string \<Rightarrow> nat \<Rightarrow> (Conversation \<Rightarrow> bool) \<Rightarrow> unit store_op" where
  "changed_or_same C key changed same =
    (if changed = 1 then sreturn ()
     else sbind (squery (conversation C key)) (\<lambda>found.
          sreject_if (case found of None \<Rightarrow> True | Some c \<Rightarrow> \<not> same c) (IdempotencyConflict key)))"

definition bind_conversation_task :: "codec \<Rightarrow> string \<Rightarrow> string \<Rightarrow> unit store_op" where
  "bind_conversation_task C key task =
    sbind ensure_writable (\<lambda>_.
    sbind (sreject_if (\<not> valid_identifier task 256) (InvalidInput ''invalid task'')) (\<lambda>_.
    sbind (update_conversations (\<lambda>r. cv_message_key r = key \<and> cv_state r = ''CREATING'')
      (\<lambda>r. r\<lparr>cv_state := ''QUEUED'', cv_task_id := Some task\<rparr>)) (\<lambda>changed.
    changed_or_same C key changed (\<lambda>c. co_task_id c = Some task))))"

definition answer_conversation :: "codec \<Rightarrow> string \<Rightarrow> json \<Rightarrow> unit store_op" where
  "answer_conversation C key answer =
    sbind ensure_writable (\<lambda>_.
    sbind (sreject_if (\<not> is_object answer \<or> int (length (json_to_string C answer)) > 16 * 1024)
      (InvalidInput ''invalid conversation answer'')) (\<lambda>_.
    sbind (update_conversations (\<lambda>r. cv_message_key r = key \<and> cv_state r = ''QUEUED'')
      (\<lambda>r. r\<lparr>cv_state := ''ANSWERED'', cv_answer_json := Some (fst (payload C answer))\<rparr>)) (\<lambda>changed.
    changed_or_same C key changed (\<lambda>c. co_answer c = Some answer))))"

definition finish_conversation :: "string \<Rightarrow> string \<Rightarrow> u64 option \<Rightarrow> unit store_op" where
  "finish_conversation key state reply_id =
    sbind ensure_writable (\<lambda>_.
    sbind (sreject_if (state \<notin> set finished \<or>
        state = ''PUBLISHED'' \<and> (case reply_id of None \<Rightarrow> True | Some i \<Rightarrow> i = 0))
      (InvalidInput ''invalid conversation disposition'')) (\<lambda>_.
    sbind (slift (sql_u64_opt reply_id)) (\<lambda>reply.
    sbind (update_conversations (\<lambda>r. cv_message_key r = key \<and> cv_state r \<notin> set finished \<and>
        (state \<noteq> ''PUBLISHED'' \<or> cv_state r = ''ANSWERED''))
      (\<lambda>r. r\<lparr>cv_state := state, cv_reply_id := reply\<rparr>)) (\<lambda>changed.
    sbind (sread (\<lambda>s. case find_conversation key s of
        None \<Rightarrow> False
      | Some r \<Rightarrow> cv_state r = state \<and> cv_reply_id r = reply)) (\<lambda>replay.
    sreject_if (\<not> (changed = 1 \<or> replay)) (IdempotencyConflict key))))))"

definition prepare_conversation_reply :: "codec \<Rightarrow> string \<Rightarrow> string \<Rightarrow> unit store_op" where
  "prepare_conversation_reply C key body =
    sbind ensure_writable (\<lambda>_.
    sbind (sreject_if (blank body \<or> int (length body) > 16 * 1024) (InvalidInput ''invalid reply'')) (\<lambda>_.
    sbind (update_conversations
      (\<lambda>r. cv_message_key r = key \<and> cv_state r = ''ANSWERED'' \<and> cv_reply_body r = None)
      (\<lambda>r. r\<lparr>cv_reply_body := Some body\<rparr>)) (\<lambda>changed.
    changed_or_same C key changed (\<lambda>c. co_reply_body c = Some body))))"

section \<open>How a conversation develops\<close>

definition rank :: "string \<Rightarrow> nat" where
  "rank st =
    (if st = ''CREATING'' then 1 else if st = ''QUEUED'' then 2 else if st = ''ANSWERED'' then 3
     else if st \<in> set finished then 4 else 0)"

text \<open>
  The columns filled in a state. A conversation may be ignored or fail at any point, so there the
  columns are only filled in their order.
\<close>

definition shape :: "ConversationRow \<Rightarrow> bool" where
  "shape r \<longleftrightarrow>
     (let spec = cv_spec_json r \<noteq> None; task = cv_task_id r \<noteq> None; answer = cv_answer_json r \<noteq> None;
          body = cv_reply_body r \<noteq> None; st = cv_state r in
      st \<in> {''PENDING'', ''CREATING'', ''QUEUED'', ''ANSWERED''} \<union> set finished \<and>
      (body \<longrightarrow> answer) \<and> (answer \<longrightarrow> task) \<and> (task \<longrightarrow> spec) \<and>
      (st \<notin> set finished \<longrightarrow>
         (spec \<longleftrightarrow> 1 \<le> rank st) \<and> (task \<longleftrightarrow> 2 \<le> rank st) \<and> (answer \<longleftrightarrow> 3 \<le> rank st) \<and>
         cv_reply_id r = None) \<and>
      (st = ''PUBLISHED'' \<longrightarrow> answer \<and> (\<exists>i. cv_reply_id r = Some i \<and> 0 < i)))"

definition conversation_step :: "ConversationRow \<Rightarrow> ConversationRow \<Rightarrow> bool" where
  "conversation_step old new \<longleftrightarrow>
     conversation_trigger old new \<and>
     (cv_state new = cv_state old \<or> rank (cv_state old) < rank (cv_state new)) \<and>
     (cv_state old \<in> set finished \<longrightarrow> new = old)"

lemma set_once_trans: "set_once a b \<Longrightarrow> set_once b c \<Longrightarrow> set_once a c"
  by (auto simp: set_once_def)

lemma conversation_trigger_trans:
  "conversation_trigger a b \<Longrightarrow> conversation_trigger b c \<Longrightarrow> conversation_trigger a c"
  unfolding conversation_trigger_def
  by (elim conjE, intro conjI) (simp, simp, simp, simp, simp, simp, simp, simp, (rule set_once_trans, assumption+)+)

interpretation conversing: row_relation conversation_step
proof
  fix a b c :: ConversationRow
  show "conversation_step a a" by (simp add: conversation_step_def conversation_trigger_def set_once_def)
  assume "conversation_step a b" "conversation_step b c"
  then show "conversation_step a c"
    unfolding conversation_step_def using conversation_trigger_trans [of a b c] by auto
qed

text \<open>What is kept of the table: its rows develop, well shaped rows stay so, keys and tasks stay
  unique.\<close>

definition conversations_ok :: "Store \<Rightarrow> bool" where
  "conversations_ok s \<longleftrightarrow>
     list_all shape (conversations s) \<and> distinct (map cv_message_key (conversations s)) \<and>
     tasks_unique (conversations s)"

definition conversations_evolve :: "Store \<Rightarrow> Store \<Rightarrow> bool" where
  "conversations_evolve s t \<longleftrightarrow>
     rows_evolve conversation_step (conversations s) (conversations t) \<and>
     (conversations_ok s \<longrightarrow> conversations_ok t)"

interpretation conversed: frame_relation conversations_evolve
  unfolding conversations_evolve_def
  by unfold_locales (auto intro: conversing.evolve_refl conversing.evolve_trans)

lemma conversations_same: "conversations t = conversations s \<Longrightarrow> conversations_evolve s t"
  by (simp add: conversations_evolve_def conversing.evolve_refl conversations_ok_def)

lemma update_conversations_Inr:
  "update_conversations sel f s = (Inr n, t) \<longleftrightarrow>
     list_all (\<lambda>r. sel r \<longrightarrow> conversation_trigger r (f r)) (conversations s) \<and>
     tasks_unique (update_rows sel f (conversations s)) \<and>
     t = conversations_update (update_rows sel f) s \<and> n = length (filter sel (conversations s))"
  by (auto simp: update_conversations_def)

lemma update_conversations_Inl: "update_conversations sel f s = (Inl e, t) \<Longrightarrow> t = s"
  by (auto simp: update_conversations_def sbind_Inl split: if_splits)

text \<open>An \<open>UPDATE\<close> that moves the rows it selects forward and fills what the new state promises.\<close>

lemma update_conversations_evolve:
  assumes "\<And>r. sel r \<Longrightarrow> conversation_trigger r (f r) \<Longrightarrow> conversation_step r (f r)"
    and "\<And>r. sel r \<Longrightarrow> shape r \<Longrightarrow> shape (f r)"
  shows "steps conversations_evolve (update_conversations sel f)"
proof (rule stepsI)
  fix s r t
  assume run: "update_conversations sel f s = (r, t)"
  show "conversations_evolve s t"
  proof (cases r)
    case (Inl e)
    with run show ?thesis using update_conversations_Inl conversed.R_refl by metis
  next
    case (Inr n)
    with run have trigger: "\<And>r. r \<in> set (conversations s) \<Longrightarrow> sel r \<Longrightarrow> conversation_trigger r (f r)"
      and tasks: "tasks_unique (update_rows sel f (conversations s))"
      and t: "conversations t = update_rows sel f (conversations s)"
      by (auto simp: update_conversations_Inr list_all_iff)
    have keys: "map cv_message_key (conversations t) = map cv_message_key (conversations s)"
      using trigger by (auto simp: t update_rows_def conversation_trigger_def)
    have "rows_evolve conversation_step (conversations s) (conversations t)"
      unfolding t update_rows_def
      by (rule conversing.evolve_map) (auto intro: assms(1) trigger conversing.row_refl)
    moreover have "list_all shape (conversations t)" if "list_all shape (conversations s)"
      using that assms(2) by (auto simp: t update_rows_def list_all_iff)
    ultimately show ?thesis using tasks keys by (simp add: conversations_evolve_def conversations_ok_def t)
  qed
qed

lemma insert_conversation_evolve:
  assumes "shape r" "cv_task_id r = None"
  shows "steps conversations_evolve (sql_insert conversation_allowed add_conversation r)"
proof (rule stepsI)
  fix s a t
  assume run: "sql_insert conversation_allowed add_conversation r s = (a, t)"
  show "conversations_evolve s t"
  proof (cases a)
    case (Inl e)
    with run show ?thesis by (simp add: sql_insert_Inl conversed.R_refl)
  next
    case (Inr u)
    with run assms show ?thesis
      by (auto simp: conversations_evolve_def conversing.evolve_append add_conversation_def
          conversations_ok_def conversation_allowed_def list_all_iff tasks_unique_def)
  qed
qed

lemma changed_or_same_readonly [simp, intro]: "sreadonly (changed_or_same C key changed same)"
  by (simp add: changed_or_same_def sreadonly_def sbind_eval split: sum.splits)

lemmas shape_simps = shape_def Let_def rank_def finished_def

lemma record_conversation_evolve: "steps conversations_evolve (record_conversation C input)"
  unfolding record_conversation_def ensure_writable_def
  by (intro conversed.steps_rules insert_conversation_evolve) (simp_all add: shape_simps)

lemma reserve_conversation_evolve: "steps conversations_evolve (reserve_conversation C key spec)"
  unfolding reserve_conversation_def ensure_writable_def
  by (intro conversed.steps_rules update_conversations_evolve)
    (auto simp: shape_simps conversation_step_def)

lemma bind_conversation_evolve: "steps conversations_evolve (bind_conversation_task C key task)"
  unfolding bind_conversation_task_def ensure_writable_def
  by (intro conversed.steps_rules update_conversations_evolve conversed.steps_readonly)
    (auto simp: shape_simps conversation_step_def)

lemma answer_conversation_evolve: "steps conversations_evolve (answer_conversation C key answer)"
  unfolding answer_conversation_def ensure_writable_def
  by (intro conversed.steps_rules update_conversations_evolve conversed.steps_readonly)
    (auto simp: shape_simps conversation_step_def)

lemma prepare_conversation_evolve: "steps conversations_evolve (prepare_conversation_reply C key body)"
  unfolding prepare_conversation_reply_def ensure_writable_def
  by (intro conversed.steps_rules update_conversations_evolve conversed.steps_readonly)
    (auto simp: shape_simps conversation_step_def)

lemma rank_open: "st \<notin> set finished \<Longrightarrow> st' \<in> set finished \<Longrightarrow> rank st < rank st'"
  by (auto simp: rank_def finished_def)

lemma finish_shape:
  assumes "shape r" "cv_state r \<notin> set finished" "state \<in> set finished"
    and "state = ''PUBLISHED'' \<Longrightarrow> cv_state r = ''ANSWERED'' \<and> (\<exists>i. reply = Some i \<and> 0 < i)"
  shows "shape (r\<lparr>cv_state := state, cv_reply_id := reply\<rparr>)"
proof (cases "state = ''PUBLISHED''")
  case True
  with assms(4) have "cv_state r = ''ANSWERED''" "\<exists>i. reply = Some i \<and> 0 < i" by auto
  with True assms(1) show ?thesis by (auto simp: shape_simps)
next
  case False
  with assms(1,3) show ?thesis by (auto simp: shape_def Let_def)
qed

lemma finish_conversation_evolve: "steps conversations_evolve (finish_conversation key state reply_id)"
proof -
  have reply: "\<exists>i. reply = Some i \<and> 0 < i"
    if "sql_u64_opt reply_id = Inr reply" "\<not> (case reply_id of None \<Rightarrow> True | Some i \<Rightarrow> i = 0)" for reply
  proof -
    from that obtain i where i: "reply_id = Some i" "i \<noteq> 0" by (cases reply_id) auto
    then have "uint i \<noteq> 0" by (simp add: uint_0_iff)
    moreover have "0 \<le> uint i" by simp
    ultimately have "0 < uint i" by linarith
    with i that(1) show ?thesis by simp
  qed
  have update: "steps conversations_evolve (update_conversations
      (\<lambda>r. cv_message_key r = key \<and> cv_state r \<notin> set finished \<and> (state \<noteq> ''PUBLISHED'' \<or> cv_state r = ''ANSWERED''))
      (\<lambda>r. r\<lparr>cv_state := state, cv_reply_id := reply\<rparr>))"
    if "state \<in> set finished" "state = ''PUBLISHED'' \<longrightarrow> (\<exists>i. reply = Some i \<and> 0 < i)" for reply
  proof (rule update_conversations_evolve)
    fix r :: ConversationRow
    assume sel: "cv_message_key r = key \<and> cv_state r \<notin> set finished \<and>
      (state \<noteq> ''PUBLISHED'' \<or> cv_state r = ''ANSWERED'')"
    then show "shape r \<Longrightarrow> shape (r\<lparr>cv_state := state, cv_reply_id := reply\<rparr>)"
      using that by (intro finish_shape) auto
    show "conversation_step r (r\<lparr>cv_state := state, cv_reply_id := reply\<rparr>)"
      if "conversation_trigger r (r\<lparr>cv_state := state, cv_reply_id := reply\<rparr>)"
      using sel that rank_open [of "cv_state r" state] \<open>state \<in> set finished\<close>
      by (simp add: conversation_step_def)
  qed
  show ?thesis
    unfolding finish_conversation_def ensure_writable_def
    apply (rule conversed.steps_bind, intro conversed.steps_rules)
    apply (rule conversed.steps_checked, rule conversed.steps_lifted)
    apply (intro conversed.steps_rules update)
     apply blast
    using reply apply blast
    done
qed

end
