(* ===== verification/LedgerRuns.thy ===== *)
theory LedgerRuns
  imports Transitions Records Conversations
begin

text \<open>
  The ledger as a whole: every writing operation of the store is a \<open>ledger_op\<close>, \<open>exec\<close> performs
  one, and \<open>reachable\<close> are the ledgers that any sequence of them, successful or failing and in
  any interleaving, makes of a new database. What each table may do in one operation is a frame
  relation (\<open>ledger_evolves\<close>); the theorems follow by induction on the run.
\<close>

section \<open>Operations\<close>

datatype ledger_op =
    CreateCase NewCase
  | ApplyBatch "TransitionInput list" "FaultPoint option"
  | RepairCase string
  | Claim string u64 u64 "string list option" "u64 option" "string option"
  | Acknowledge string string u64
  | Release string string
  | CompleteEvidence string string u64 EvidenceInput
  | CompleteDispatch string "TaskProjectionInput list" "EffectInput list" string u64 "FaultPoint option"
  | FreezeIntents ClaimedEffect "DispatchIntent list" u64
  | ReserveCreate ClaimedEffect string u64
  | BeginAttempt ClaimedEffect string u64
  | CompleteAttempt u64 string u64 json
  | FailAttempt u64 string u64 string
  | Unavailable u64 string u64 string string
  | FailCooldown u64 string u64 string u64
  | CompleteObservation string string u64 ReviewObservationInput
  | RecordPolicy PolicyInput
  | RecordWebhook WebhookDeliveryInput
  | RecordRetirement WorkspaceRetirementInput
  | RecordConversation ConversationInput
  | ReserveConversation string json
  | BindConversation string string
  | AnswerConversation string json
  | FinishConversation string string "u64 option"
  | PrepareReply string string
  | RecordCommand ControlCommandInput
  | ResolveCommand u64 ControlCommandStatus string u64
  | RecordCycle u64 u64
  | RejectProjection string u64 string u32 u64
  | RecordTask string string json u64
  | RetainResult string json u64

definition discard :: "'a store_op \<Rightarrow> unit store_op" where
  "discard m = sbind m (\<lambda>_. sreturn ())"

fun exec :: "codec \<Rightarrow> decoders \<Rightarrow> ledger_op \<Rightarrow> unit store_op" where
  "exec C D (CreateCase input) = discard (create_case C input)"
| "exec C D (ApplyBatch inputs fault) = discard (apply_transition_batch C D inputs fault)"
| "exec C D (RepairCase key) = repair_case_projection key"
| "exec C D (Claim owner now lease types repository key) =
     discard (claim_effect_inner C D owner now lease types repository key)"
| "exec C D (Acknowledge effect_id owner now) = acknowledge_effect effect_id owner now"
| "exec C D (Release effect_id owner) = release_effect effect_id owner"
| "exec C D (CompleteEvidence effect_id owner now item) =
     discard (complete_effect_evidence C effect_id owner now item)"
| "exec C D (CompleteDispatch effect_id inputs jobs owner now fault) =
     discard (complete_dispatch_outputs C D effect_id inputs jobs owner now fault)"
| "exec C D (FreezeIntents claimed intents now) = discard (freeze_dispatch_intents C D claimed intents now)"
| "exec C D (ReserveCreate claimed intent now) = discard (reserve_dispatch_create C D claimed intent now)"
| "exec C D (BeginAttempt claimed task now) = discard (begin_direct_attempt C claimed task now)"
| "exec C D (CompleteAttempt i owner now result) = complete_direct_attempt C i owner now result"
| "exec C D (FailAttempt i owner now error) = fail_direct_attempt i owner now error"
| "exec C D (Unavailable i owner now error cause) =
     discard (record_direct_unavailability_with_cause C i owner now error cause)"
| "exec C D (FailCooldown i owner now error cooldown) =
     discard (fail_direct_attempt_with_cooldown i owner now error cooldown)"
| "exec C D (CompleteObservation effect_id owner now input) =
     discard (complete_review_observation_effect C effect_id owner now input)"
| "exec C D (RecordPolicy input) = discard (record_policy C input)"
| "exec C D (RecordWebhook input) = discard (record_webhook_delivery input)"
| "exec C D (RecordRetirement input) = discard (record_workspace_retirement input)"
| "exec C D (RecordConversation input) = discard (record_conversation C input)"
| "exec C D (ReserveConversation key spec) = discard (reserve_conversation C key spec)"
| "exec C D (BindConversation key task) = bind_conversation_task C key task"
| "exec C D (AnswerConversation key answer) = answer_conversation C key answer"
| "exec C D (FinishConversation key state reply) = finish_conversation key state reply"
| "exec C D (PrepareReply key body) = prepare_conversation_reply C key body"
| "exec C D (RecordCommand input) = discard (record_control_command input)"
| "exec C D (ResolveCommand comment st outcome now) = resolve_control_command comment st outcome now"
| "exec C D (RecordCycle repository now) = discard (record_controller_cycle repository now)"
| "exec C D (RejectProjection i now reason max_attempts cooldown) =
     discard (reject_task_projection C i now reason max_attempts cooldown)"
| "exec C D (RecordTask i task observed now) = record_projection_task C i task observed now"
| "exec C D (RetainResult task v now) = discard (retain_task_result C task v now)"

text \<open>The runs of a ledger: a list of operations, each of which may fail.\<close>

fun runs_to :: "codec \<Rightarrow> decoders \<Rightarrow> ledger_op list \<Rightarrow> Store \<Rightarrow> Store" where
  "runs_to C D [] s = s"
| "runs_to C D (op # ops) s = runs_to C D ops (snd (exec C D op s))"

inductive reachable :: "codec \<Rightarrow> decoders \<Rightarrow> Store \<Rightarrow> bool" for C D where
  fresh: "reachable C D empty_store"
| step: "reachable C D s \<Longrightarrow> exec C D op s = (r, t) \<Longrightarrow> reachable C D t"

section \<open>What one operation may do\<close>

text \<open>An effect changes its lease and is delivered or superseded once; then it stays as it is.\<close>

definition effect_step :: "OutboxRow \<Rightarrow> OutboxRow \<Rightarrow> bool" where
  "effect_step r r' \<longleftrightarrow> r' = r \<or>
     pending r \<and> (o_delivered_at r' = None \<or> o_superseded_at r' = None) \<and>
     o_effect_id r' = o_effect_id r \<and> o_case_key r' = o_case_key r \<and>
     o_state_revision r' = o_state_revision r \<and> o_effect_type r' = o_effect_type r \<and>
     o_payload_json r' = o_payload_json r \<and> o_payload_sha256 r' = o_payload_sha256 r \<and>
     o_created_at r' = o_created_at r"

interpretation effecting: row_relation effect_step
proof
  fix a b c :: OutboxRow
  show "effect_step a a" by (simp add: effect_step_def)
  assume "effect_step a b" "effect_step b c"
  then show "effect_step a c" unfolding effect_step_def by (elim disjE) simp_all
qed

text \<open>A command that was resolved stays as it is.\<close>

definition command_step :: "ControlCommandRow \<Rightarrow> ControlCommandRow \<Rightarrow> bool" where
  "command_step r r' \<longleftrightarrow> r' = r \<or> cc_status r = ''PENDING'' \<and> cc_status r' \<noteq> ''PENDING'' \<and>
     cc_comment_id r' = cc_comment_id r"

interpretation commanding: row_relation command_step
  by unfold_locales (auto simp: command_step_def)

text \<open>The keys of a table are unique.\<close>

definition keys_unique :: "Store \<Rightarrow> bool" where
  "keys_unique s \<longleftrightarrow>
     distinct (map o_effect_id (outbox s)) \<and> distinct (map tp_projection_id (task_projections s)) \<and>
     distinct (map ev_evidence_id (evidence s)) \<and> distinct (map cc_comment_id (control_commands s))"

definition ledger_evolves :: "Store \<Rightarrow> Store \<Rightarrow> bool" where
  "ledger_evolves s t \<longleftrightarrow>
     append_only s t \<and> attempts_evolve s t \<and> conversations_evolve s t \<and>
     rows_evolve effect_step (outbox s) (outbox t) \<and>
     rows_evolve command_step (control_commands s) (control_commands t) \<and>
     (keys_unique s \<longrightarrow> keys_unique t)"

lemma ledger_evolves_trans:
  assumes "ledger_evolves s t" "ledger_evolves t u"
  shows "ledger_evolves s u"
  using assms unfolding ledger_evolves_def
  by (elim conjE, intro conjI)
    (blast intro: immutable.R_trans evolving.R_trans conversed.R_trans effecting.evolve_trans
      commanding.evolve_trans)+

interpretation ledger: frame_relation ledger_evolves
proof
  show "ledger_evolves s s" for s
    by (simp add: ledger_evolves_def immutable.R_refl evolving.R_refl conversed.R_refl
        effecting.evolve_refl commanding.evolve_refl)
qed (rule ledger_evolves_trans)

text \<open>The operations that do not move a case leave cases and events alone.\<close>

definition work_step :: "Store \<Rightarrow> Store \<Rightarrow> bool" where
  "work_step s t \<longleftrightarrow> ledger_evolves s t \<and> cases_table t = cases_table s \<and> events t = events s"

interpretation work: frame_relation work_step
  unfolding work_step_def by unfold_locales (auto intro: ledger.R_refl ledger.R_trans)

lemmas evolves_defs = work_step_def ledger_evolves_def append_only_def attempts_evolve_def
  conversations_evolve_def conversations_ok_def keys_unique_def

lemmas refl_rules = attempt.evolve_refl conversing.evolve_refl effecting.evolve_refl commanding.evolve_refl
  attempt.evolve_append conversing.evolve_append effecting.evolve_append commanding.evolve_append

lemma add_ledger_evolves:
  "ledger_evolves s (add_case c s)" "ledger_evolves s (add_event e s)" "ledger_evolves s (add_run r s)"
  "ledger_evolves s (add_finding f s)"
  by (simp_all add: evolves_defs refl_rules add_case_def add_event_def add_run_def add_finding_def)

lemma add_work_step:
  "work_step s (add_policy p s)" "work_step s (add_attempt a s)" "work_step s (add_dispatch_batch b s)"
  "work_step s (add_create_attempt i s)" "work_step s (add_delivery w s)" "work_step s (add_retirement y s)"
  "work_step s (add_observation z s)"
  by (simp_all add: evolves_defs refl_rules add_policy_def add_attempt_def add_dispatch_batch_def
      add_create_attempt_def add_delivery_def add_retirement_def add_observation_def)

lemma add_keyed_step:
  "evidence_allowed s v \<Longrightarrow> work_step s (add_evidence v s)"
  "effect_allowed s x \<Longrightarrow> work_step s (add_effect x s)"
  "projection_allowed s q \<Longrightarrow> work_step s (add_projection q s)"
  "command_allowed s m \<Longrightarrow> work_step s (add_command m s)"
  by (auto simp: evolves_defs refl_rules add_evidence_def evidence_allowed_def add_effect_def
      effect_allowed_def has_effect_ids add_projection_def projection_allowed_def add_command_def
      command_allowed_def list_all_iff)

lemma outbox_work_step:
  assumes "\<And>r. sel r \<Longrightarrow> effect_step r (f r)"
  shows "work_step s (outbox_update (update_rows sel f) s)"
proof -
  have "rows_evolve effect_step (outbox s) (update_rows sel f (outbox s))"
    unfolding update_rows_def by (rule effecting.evolve_map) (auto intro: assms effecting.row_refl)
  moreover have "o_effect_id (if sel r then f r else r) = o_effect_id r" for r
    using assms [of r] by (auto simp: effect_step_def)
  then have "map o_effect_id (update_rows sel f (outbox s)) = map o_effect_id (outbox s)"
    by (simp add: update_rows_def)
  ultimately show ?thesis by (simp add: evolves_defs refl_rules)
qed

lemma commands_work_step:
  assumes "\<And>r. sel r \<Longrightarrow> command_step r (f r)"
  shows "work_step s (control_commands_update (update_rows sel f) s)"
proof -
  have "rows_evolve command_step (control_commands s) (update_rows sel f (control_commands s))"
    unfolding update_rows_def by (rule commanding.evolve_map) (auto intro: assms commanding.row_refl)
  moreover have "cc_comment_id (if sel r then f r else r) = cc_comment_id r" for r
    using assms [of r] by (auto simp: command_step_def)
  then have "map cc_comment_id (update_rows sel f (control_commands s)) = map cc_comment_id (control_commands s)"
    by (simp add: update_rows_def)
  ultimately show ?thesis by (simp add: evolves_defs refl_rules)
qed

lemma projections_work_step:
  "(\<And>p. tp_projection_id (f p) = tp_projection_id p) \<Longrightarrow>
     work_step s (task_projections_update (update_rows sel f) s)"
  by (simp add: evolves_defs refl_rules update_rows_map)

lemma heartbeats_work_step: "work_step s (controller_heartbeats_update f s)"
  by (simp add: evolves_defs refl_rules)

lemma end_attempts_work_step: "steps work_step (end_attempts sel st)"
proof (rule stepsI)
  fix s r t
  assume run: "end_attempts sel st s = (r, t)"
  then have "attempts_evolve s t" by (rule stepsD [OF end_attempts_evolve])
  moreover have "t = s \<or> t = s\<lparr>direct_attempts := ended sel st (direct_attempts s)\<rparr>"
    using run end_attempts_Inl by (cases r) (auto simp: end_attempts_Inr)
  ultimately show "work_step s t"
    by (auto simp: evolves_defs refl_rules update_rows_map)
qed

text \<open>An operation on conversations: the rest of the ledger is as it was.\<close>

definition conversations_only :: "Store \<Rightarrow> Store \<Rightarrow> bool" where
  "conversations_only s t \<longleftrightarrow> t = s\<lparr>conversations := conversations t\<rparr>"

interpretation only_conversations: frame_relation conversations_only
proof
  show "conversations_only s s" for s by (simp add: conversations_only_def)
  fix s t u
  assume "conversations_only s t" "conversations_only t u"
  then obtain x y where "t = s\<lparr>conversations := x\<rparr>" "u = t\<lparr>conversations := y\<rparr>"
    unfolding conversations_only_def by blast
  then show "conversations_only s u" by (simp add: conversations_only_def)
qed

lemma conversations_work_step:
  assumes "steps conversations_evolve m" "steps conversations_only m"
  shows "steps work_step m"
proof (rule stepsI)
  fix s r t
  assume run: "m s = (r, t)"
  have evolve: "conversations_evolve s t" by (rule stepsD [OF assms(1) run])
  have t: "t = s\<lparr>conversations := conversations t\<rparr>"
    using stepsD [OF assms(2) run] by (simp add: conversations_only_def)
  from evolve obtain old new where split: "conversations t = old @ new"
    and rows: "list_all2 conversation_step (conversations s) old"
    by (auto simp: conversations_evolve_def rows_evolve_def)
  from rows have "map cv_message_key old = map cv_message_key (conversations s)"
    by (induction rule: list_all2_induct) (auto simp: conversation_step_def conversation_trigger_def)
  then have "prefix (map cv_message_key (conversations s)) (map cv_message_key (conversations t))"
    by (simp add: split)
  moreover have "ledger_evolves s (s\<lparr>conversations := cs\<rparr>)"
    if "conversations_evolve s (s\<lparr>conversations := cs\<rparr>)"
      "prefix (map cv_message_key (conversations s)) (map cv_message_key cs)" for cs
    using that by (simp add: ledger_evolves_def append_only_def attempts_evolve_def keys_unique_def refl_rules)
  ultimately show "work_step s t"
    using evolve t unfolding work_step_def by (metis Store.ext_inject Store.surjective Store.update_convs(16))
qed

lemma update_conversations_only: "steps conversations_only (update_conversations sel f)"
proof (rule stepsI)
  fix s r t
  assume "update_conversations sel f s = (r, t)"
  then show "conversations_only s t"
    by (cases r) (auto simp: update_conversations_Inr conversations_only_def dest!: update_conversations_Inl)
qed

lemmas work_inserts = steps_sql_insert [of work_step, OF work.R_refl]
lemmas work_updates = steps_sql_update [of work_step, OF work.R_refl]
lemmas ledger_inserts = steps_sql_insert [of ledger_evolves, OF ledger.R_refl]
lemmas ledger_updates = steps_sql_update [of ledger_evolves, OF ledger.R_refl]

lemmas work_rules = work.steps_rules work_inserts add_work_step add_keyed_step end_attempts_work_step
  work.steps_modify heartbeats_work_step

lemma insert_conversation_only:
  "steps conversations_only (sql_insert conversation_allowed add_conversation r)"
  by (rule steps_sql_insert) (simp_all add: conversations_only_def add_conversation_def)

lemma conversation_operations_only:
  "steps conversations_only (record_conversation C input)" "steps conversations_only (reserve_conversation C key spec)"
  "steps conversations_only (bind_conversation_task C key task)"
  "steps conversations_only (answer_conversation C key answer)"
  "steps conversations_only (finish_conversation key state reply)"
  "steps conversations_only (prepare_conversation_reply C key body)"
  unfolding record_conversation_def reserve_conversation_def bind_conversation_task_def
    answer_conversation_def finish_conversation_def prepare_conversation_reply_def ensure_writable_def
  by (intro only_conversations.steps_rules update_conversations_only insert_conversation_only
      only_conversations.steps_readonly changed_or_same_readonly)+

lemmas conversation_operations =
  conversations_work_step [OF record_conversation_evolve conversation_operations_only(1)]
  conversations_work_step [OF reserve_conversation_evolve conversation_operations_only(2)]
  conversations_work_step [OF bind_conversation_evolve conversation_operations_only(3)]
  conversations_work_step [OF answer_conversation_evolve conversation_operations_only(4)]
  conversations_work_step [OF finish_conversation_evolve conversation_operations_only(5)]
  conversations_work_step [OF prepare_conversation_evolve conversation_operations_only(6)]

lemma insert_evidence_work: "steps work_step (insert_evidence C k at items)"
  unfolding insert_evidence_def insert_evidence_item_def by (intro work_rules)

lemma deliver_work: "steps work_step (deliver e owner at)"
  unfolding deliver_def
  by (intro work_updates outbox_work_step) (simp add: effect_step_def pending_def)

lemma hold_lease_work: "steps work_step (hold_lease e owner until)"
  unfolding hold_lease_def
  by (intro work_updates outbox_work_step) (simp add: effect_step_def pending_def)

lemma claim_work: "steps work_step (claim_effect_inner C D owner now lease types repository key)"
  unfolding claim_effect_inner_def ensure_writable_def
  by (intro work_rules work_updates outbox_work_step) (simp add: effect_step_def pending_def)

lemma outbox_operations:
  "steps work_step (acknowledge_effect e owner now)" "steps work_step (release_effect e owner)"
  "steps work_step (complete_effect_evidence C e owner now item)"
  unfolding acknowledge_effect_def release_effect_def complete_effect_evidence_def ensure_writable_def Let_def
  by (intro work_rules deliver_work insert_evidence_work work_updates outbox_work_step;
      simp add: effect_step_def pending_def)+

lemma complete_dispatch_work:
  "steps work_step (complete_dispatch_outputs C D e inputs jobs owner now fault)"
  unfolding complete_dispatch_outputs_def insert_projection_def insert_job_def inject_def ensure_writable_def
  by (intro work_rules deliver_work)

lemma intent_operations:
  "steps work_step (freeze_dispatch_intents C D claimed intents now)"
  "steps work_step (reserve_dispatch_create C D claimed intent now)"
  unfolding freeze_dispatch_intents_def reserve_dispatch_create_def insert_create_attempt_def
    ensure_writable_def Let_def
  by (intro work_rules work.steps_readonly [OF require_dispatch_claim_readonly])+

lemma attempt_operations:
  "steps work_step (begin_direct_attempt C claimed task at)"
  "steps work_step (complete_direct_attempt C i owner at result)"
  "steps work_step (fail_direct_attempt i owner at error)"
  "steps work_step (record_direct_unavailability_with_cause C i owner at error cause)"
  "steps work_step (fail_direct_attempt_with_cooldown i owner at error cooldown)"
  unfolding begin_direct_attempt_def complete_direct_attempt_def fail_direct_attempt_def
    record_direct_unavailability_with_cause_def fail_direct_attempt_with_cooldown_def
    ensure_writable_def Let_def
  by (intro work_rules insert_evidence_work hold_lease_work)+

lemma record_operations:
  "steps work_step (record_policy C p)" "steps work_step (record_webhook_delivery w)"
  "steps work_step (record_workspace_retirement r)"
  "steps work_step (complete_review_observation_effect C e owner now input)"
  unfolding record_policy_def record_webhook_delivery_def record_workspace_retirement_def
    complete_review_observation_effect_def ensure_writable_def Let_def
  by (intro work_rules work_updates outbox_work_step; simp add: effect_step_def pending_def)+

lemma control_operations:
  "steps work_step (record_control_command input)" "steps work_step (record_controller_cycle repository now)"
  unfolding record_control_command_def record_controller_cycle_def put_heartbeat_def ensure_writable_def Let_def
  by (intro work_rules; assumption)+

lemma resolve_work: "steps work_step (resolve_control_command comment st outcome now)"
  unfolding resolve_control_command_def ensure_writable_def
  by (rule work.steps_bind, intro work_rules, rule work.steps_checked)
    (intro work_rules work_updates commands_work_step, cases st, auto simp: command_step_def)

lemma projection_operations:
  "steps work_step (reject_task_projection C i now reason m cooldown)"
  "steps work_step (record_projection_task C i task observed now)"
  "steps work_step (retain_task_result C task v now)"
  unfolding reject_task_projection_def record_projection_task_def retain_task_result_def
    ensure_writable_def Let_def
  by (intro work_rules insert_evidence_work work_updates projections_work_step; simp)+

lemmas work_operations = conversation_operations claim_work outbox_operations complete_dispatch_work
  intent_operations attempt_operations record_operations control_operations resolve_work
  projection_operations

section \<open>The operations that move a case\<close>

lemma work_evolves: "steps work_step m \<Longrightarrow> steps ledger_evolves m"
  by (erule steps_mono) (simp add: work_step_def)

lemma cases_evolves:
  "(\<And>r. c_case_key (f r) = c_case_key r) \<Longrightarrow> ledger_evolves s (cases_table_update (update_rows sel f) s)"
  by (simp add: evolves_defs refl_rules update_rows_map)

lemma work_step_evolves: "work_step s t \<Longrightarrow> ledger_evolves s t"
  by (simp add: work_step_def)

lemmas work_steps_evolve = add_work_step [THEN work_step_evolves] add_keyed_step [THEN work_step_evolves]

lemmas evolve_rules = ledger.steps_rules ledger_inserts add_ledger_evolves work_steps_evolve
  ledger_updates cases_evolves

lemma insert_event_evolves: "steps ledger_evolves (insert_event C r)"
  unfolding insert_event_def by (intro evolve_rules)

lemma insert_effects_evolves: "steps ledger_evolves (insert_effects C k n at fx)"
  unfolding insert_effects_def insert_effect_def by (intro evolve_rules)

lemma create_case_evolves: "steps ledger_evolves (create_case C input)"
  unfolding create_case_def Let_def ensure_writable_def
  by (intro evolve_rules insert_event_evolves insert_effects_evolves)

lemma guard_event_evolves: "steps ledger_evolves (guard_event C D current input)"
  unfolding guard_event_def remediation_extension_validate_def Let_def by (intro evolve_rules)

lemma supersede_evolves:
  "steps ledger_evolves (update_outbox (superseded_effect es current input n) (supersede at e))"
  by (intro work_evolves work_updates outbox_work_step)
    (simp add: effect_step_def pending_def superseded_effect_def supersede_def)

lemma project_case_evolves: "steps ledger_evolves (project_case input n p)"
  unfolding project_case_def by (intro evolve_rules) simp

lemma apply_one_evolves: "steps ledger_evolves (apply_one C D fault input h)"
  unfolding apply_one_def insert_run_def insert_findings_def insert_finding_def inject_def
  by (intro ledger.steps_rules insert_event_evolves insert_effects_evolves guard_event_evolves
      supersede_evolves work_evolves [OF insert_evidence_work] ledger_inserts add_ledger_evolves
      project_case_evolves)

lemma apply_all_evolves: "steps ledger_evolves (apply_all C D fault xs)"
proof (induction C D fault xs rule: apply_all.induct)
  case (1 C D fault)
  show ?case unfolding apply_all.simps by (rule ledger.steps_basic)
next
  case (2 C D fault input h rest)
  then show ?case
    unfolding apply_all.simps inject_def by (intro ledger.steps_rules apply_one_evolves)
qed

lemma apply_batch_evolves: "steps ledger_evolves (apply_transition_batch C D inputs fault)"
  unfolding apply_transition_batch_def Let_def ensure_writable_def
  by (auto intro!: ledger.steps_rules apply_all_evolves split: list.split prod.split)

lemma repair_evolves: "steps ledger_evolves (repair_case_projection k)"
  unfolding repair_case_projection_def ensure_writable_def by (intro evolve_rules) simp

section \<open>Every operation\<close>

lemma discard_steps [simp]: "steps R (discard m) \<longleftrightarrow> steps R m"
proof -
  have "snd (discard m s) = snd (m s)" for s
    by (simp add: discard_def sbind_def split: prod.splits sum.splits)
  then show ?thesis unfolding steps_def by (metis prod.collapse snd_conv)
qed

fun moves_case :: "ledger_op \<Rightarrow> bool" where
  "moves_case (CreateCase _) = True"
| "moves_case (ApplyBatch _ _) = True"
| "moves_case (RepairCase _) = True"
| "moves_case _ = False"

lemma exec_work: "\<not> moves_case op \<Longrightarrow> steps work_step (exec C D op)"
  by (cases op) (simp_all add: work_operations)

lemma exec_evolves: "steps ledger_evolves (exec C D op)"
proof (cases "moves_case op")
  case True
  then show ?thesis
    by (cases op) (simp_all add: create_case_evolves apply_batch_evolves repair_evolves)
next
  case False
  then show ?thesis by (intro work_evolves exec_work)
qed

lemma runs_to_evolves: "ledger_evolves s (runs_to C D ops s)"
proof (induction ops arbitrary: s)
  case (Cons op ops)
  have "ledger_evolves s (snd (exec C D op s))"
    by (rule stepsD [OF exec_evolves]) (rule prod.collapse [symmetric])
  with Cons show ?case by (auto intro: ledger.R_trans)
qed (simp add: ledger.R_refl)

section \<open>Reachable ledgers\<close>

lemma ledger_inv_same:
  "cases_table t = cases_table s \<Longrightarrow> events t = events s \<Longrightarrow> ledger_inv s \<Longrightarrow> ledger_inv t"
  by (simp add: ledger_inv_def history_inv_def has_case_def history_def)

lemma discard_Inr: "discard m s = (Inr u, t) \<Longrightarrow> \<exists>a. m s = (Inr a, t)"
  by (auto simp: discard_def)

lemma discard_Inl: "discard m s = (Inl e, t) \<Longrightarrow> m s = (Inl e, t)"
  by (auto simp: discard_def sbind_Inl)

lemma exec_inv:
  assumes "ledger_inv s" "exec C D op s = (r, t)"
  shows "ledger_inv t"
proof (cases "moves_case op")
  case False
  from stepsD [OF exec_work [OF False] assms(2)] assms(1) show ?thesis
    by (auto simp: work_step_def intro: ledger_inv_same)
next
  case True
  then show ?thesis
  proof (cases op)
    case (CreateCase input)
    with assms show ?thesis
      by (cases r) (auto dest!: discard_Inr discard_Inl dest: create_case_inv satomicD [OF create_case_atomic])
  next
    case (ApplyBatch inputs fault)
    with assms show ?thesis
      by (cases r) (auto dest!: discard_Inr discard_Inl dest: apply_transition_batch_inv
          satomicD [OF apply_transition_batch_atomic])
  next
    case (RepairCase key)
    with assms repair_consistent show ?thesis by auto
  qed simp_all
qed

lemma conversations_ok_empty: "conversations_ok empty_store"
  by (simp add: conversations_ok_def empty_store_def tasks_unique_def)

lemma keys_unique_empty: "keys_unique empty_store"
  by (simp add: keys_unique_def empty_store_def)

lemma reachable_inv: "reachable C D s \<Longrightarrow> ledger_inv s \<and> conversations_ok s \<and> keys_unique s"
proof (induction rule: reachable.induct)
  case fresh
  show ?case by (simp add: ledger_inv_empty conversations_ok_empty keys_unique_empty)
next
  case (step s op r t)
  have "conversations_evolve s t" "keys_unique s \<longrightarrow> keys_unique t"
    using stepsD [OF exec_evolves step.hyps(2)] by (simp_all add: ledger_evolves_def)
  with step exec_inv show ?case by (auto simp: conversations_evolve_def)
qed

section \<open>Leases\<close>

text \<open>The effect is leased to this owner until this time, or was superseded since.\<close>

definition lease_stands :: "string \<Rightarrow> string \<Rightarrow> int \<Rightarrow> Store \<Rightarrow> bool" where
  "lease_stands e owner until s \<longleftrightarrow>
     (\<exists>r \<in> set (outbox s). o_effect_id r = e \<and>
        (pending r \<and> o_lease r = Some (owner, until) \<or> o_superseded_at r \<noteq> None))"

lemma lease_stands_prefix:
  "prefix (outbox s) (outbox t) \<Longrightarrow> lease_stands e owner until s \<Longrightarrow> lease_stands e owner until t"
  by (auto simp: lease_stands_def dest: set_mono_prefix)

definition keeps_lease :: "string \<Rightarrow> string \<Rightarrow> int \<Rightarrow> Store \<Rightarrow> Store \<Rightarrow> bool" where
  "keeps_lease e owner until s t \<longleftrightarrow> (lease_stands e owner until s \<longrightarrow> lease_stands e owner until t)"

interpretation leasing: frame_relation "keeps_lease e owner until" for e owner until
  unfolding keeps_lease_def by unfold_locales auto

lemma lease_stands_update:
  assumes "\<And>r. sel r \<Longrightarrow> pending r \<and> (o_lease r = Some (owner, until) \<longrightarrow>
      o_superseded_at (f r) \<noteq> None \<and> o_effect_id (f r) = o_effect_id r)"
  shows "keeps_lease e owner until s (outbox_update (update_rows sel f) s)"
  unfolding keeps_lease_def
proof
  assume "lease_stands e owner until s"
  then obtain r where r: "r \<in> set (outbox s)" "o_effect_id r = e"
    "pending r \<and> o_lease r = Some (owner, until) \<or> o_superseded_at r \<noteq> None" by (auto simp: lease_stands_def)
  let ?r = "if sel r then f r else r"
  have "?r \<in> set (update_rows sel f (outbox s))" using r(1) by (auto simp: update_rows_def)
  moreover have "o_effect_id ?r = e \<and>
      (pending ?r \<and> o_lease ?r = Some (owner, until) \<or> o_superseded_at ?r \<noteq> None)"
    using assms [of r] r(2,3) by (auto simp: pending_def)
  ultimately show "lease_stands e owner until (outbox_update (update_rows sel f) s)"
    by (auto simp: lease_stands_def)
qed

lemmas lease_updates = steps_sql_update [of "keeps_lease e owner until" for e owner until, OF leasing.R_refl]

definition outbox_appends :: "Store \<Rightarrow> Store \<Rightarrow> bool" where
  "outbox_appends s t \<longleftrightarrow> prefix (outbox s) (outbox t)"

interpretation adding: frame_relation outbox_appends
  unfolding outbox_appends_def by (rule appends.frame_relation_axioms)

lemma grows_lease: "steps outbox_appends m \<Longrightarrow> steps (keeps_lease e owner until) m"
  by (erule steps_mono) (simp add: keeps_lease_def outbox_appends_def lease_stands_prefix)

lemmas outbox_inserts = steps_sql_insert [of outbox_appends, OF adding.R_refl]
lemmas outbox_updates = steps_sql_update [of outbox_appends, OF adding.R_refl]

lemma add_outbox:
  "outbox_appends s (add_policy p s)" "outbox_appends s (add_evidence v s)"
  "outbox_appends s (add_effect x s)" "outbox_appends s (add_projection q s)"
  "outbox_appends s (add_attempt a s)" "outbox_appends s (add_dispatch_batch b s)"
  "outbox_appends s (add_create_attempt i s)" "outbox_appends s (add_delivery w s)"
  "outbox_appends s (add_retirement y s)" "outbox_appends s (add_observation z s)"
  "outbox_appends s (add_command m s)" "outbox_appends s (add_case c s)"
  "outbox_appends s (add_event n s)" "outbox_appends s (add_run r s)"
  "outbox_appends s (add_finding f s)"
  by (simp_all add: outbox_appends_def add_policy_def add_evidence_def add_effect_def add_projection_def
      add_attempt_def add_dispatch_batch_def add_create_attempt_def add_delivery_def add_retirement_def
      add_observation_def add_command_def add_case_def add_event_def add_run_def add_finding_def)

lemma end_attempts_outbox: "steps outbox_appends (end_attempts sel st)"
proof (rule stepsI)
  fix s r t
  assume "end_attempts sel st s = (r, t)"
  then show "outbox_appends s t"
    by (cases r) (auto simp: outbox_appends_def end_attempts_Inr dest!: end_attempts_Inl)
qed

lemma conversations_outbox: "steps conversations_only m \<Longrightarrow> steps outbox_appends m"
proof (erule steps_mono)
  fix s t
  assume "conversations_only s t"
  then obtain cs where "t = s\<lparr>conversations := cs\<rparr>" unfolding conversations_only_def by blast
  then show "outbox_appends s t" by (simp add: outbox_appends_def)
qed

lemma insert_evidence_outbox: "steps outbox_appends (insert_evidence C k at items)"
  unfolding insert_evidence_def insert_evidence_item_def by (intro adding.steps_rules outbox_inserts add_outbox)

lemmas outbox_rules = adding.steps_rules outbox_inserts add_outbox end_attempts_outbox insert_evidence_outbox

lemma outbox_grows:
  "steps outbox_appends (freeze_dispatch_intents C D claimed intents now)"
  "steps outbox_appends (reserve_dispatch_create C D claimed intent now)"
  "steps outbox_appends (begin_direct_attempt C claimed task at)"
  "steps outbox_appends (complete_direct_attempt C i owner at result)"
  "steps outbox_appends (fail_direct_attempt i owner at error)"
  "steps outbox_appends (record_policy C p)"
  "steps outbox_appends (record_webhook_delivery w)"
  "steps outbox_appends (record_workspace_retirement y)"
  "steps outbox_appends (record_control_command m)"
  "steps outbox_appends (reject_task_projection C j now reason k cooldown)"
  "steps outbox_appends (retain_task_result C task v now)"
  "steps outbox_appends (create_case C input)"
  unfolding freeze_dispatch_intents_def reserve_dispatch_create_def insert_create_attempt_def
    begin_direct_attempt_def complete_direct_attempt_def fail_direct_attempt_def record_policy_def
    record_webhook_delivery_def record_workspace_retirement_def record_control_command_def
    reject_task_projection_def retain_task_result_def create_case_def insert_event_def
    insert_effects_def insert_effect_def ensure_writable_def Let_def
  by (intro outbox_rules adding.steps_readonly [OF require_dispatch_claim_readonly])+

lemma other_tables_outbox:
  "steps outbox_appends (record_controller_cycle repository now)"
  "steps outbox_appends (resolve_control_command comment st outcome now)"
  "steps outbox_appends (record_projection_task C j task observed now)"
  "steps outbox_appends (repair_case_projection k)"
  unfolding record_controller_cycle_def put_heartbeat_def resolve_control_command_def
    record_projection_task_def repair_case_projection_def ensure_writable_def Let_def
  by (intro outbox_rules outbox_updates adding.steps_modify; simp add: outbox_appends_def)+

lemma deliver_lease: "owner \<noteq> a \<Longrightarrow> steps (keeps_lease e a until) (deliver e' owner at)"
  unfolding deliver_def by (intro lease_updates lease_stands_update) (auto simp: lease_held_def)

lemma hold_lease_lease: "owner \<noteq> a \<Longrightarrow> steps (keeps_lease e a until) (hold_lease e' owner until')"
  unfolding hold_lease_def by (intro lease_updates lease_stands_update) (auto simp: leased_by_def)

lemmas lease_rules = leasing.steps_rules grows_lease [OF insert_evidence_outbox]
  grows_lease [OF end_attempts_outbox] grows_lease [OF outbox_inserts] add_outbox

lemma claim_lease:
  assumes "uint now \<le> until"
  shows "steps (keeps_lease e a until) (claim_effect_inner C D owner now lease types repository key)"
  unfolding claim_effect_inner_def ensure_writable_def
  by (rule leasing.steps_bind, intro lease_rules, rule leasing.steps_bind, intro lease_rules,
      rule leasing.steps_bind, intro lease_rules, rule leasing.steps_bind, intro lease_rules,
      rule leasing.steps_transaction, rule leasing.steps_lifted,
      intro lease_rules lease_updates lease_stands_update)
    (use assms in \<open>auto simp: lease_free_def\<close>)

lemma owned_lease:
  assumes "owner \<noteq> a"
  shows "steps (keeps_lease e a until) (acknowledge_effect i owner now)"
    "steps (keeps_lease e a until) (release_effect i owner)"
    "steps (keeps_lease e a until) (complete_effect_evidence C i owner now item)"
    "steps (keeps_lease e a until) (complete_dispatch_outputs C D i inputs jobs owner now fault)"
    "steps (keeps_lease e a until) (complete_review_observation_effect C i owner now obs)"
    "steps (keeps_lease e a until) (record_direct_unavailability_with_cause C n owner now error cause)"
    "steps (keeps_lease e a until) (fail_direct_attempt_with_cooldown n owner now error cooldown)"
  unfolding acknowledge_effect_def release_effect_def complete_effect_evidence_def complete_dispatch_outputs_def
    insert_projection_def insert_job_def inject_def complete_review_observation_effect_def
    record_direct_unavailability_with_cause_def fail_direct_attempt_with_cooldown_def ensure_writable_def Let_def
  by (intro lease_rules deliver_lease hold_lease_lease assms lease_updates lease_stands_update;
      use assms in \<open>auto simp: leased_by_def\<close>)+

lemma apply_one_lease: "steps (keeps_lease e a until) (apply_one C D fault input h)"
proof -
  have event: "steps outbox_appends (insert_event C r)" for r
    unfolding insert_event_def by (intro outbox_rules)
  have effects: "steps outbox_appends (insert_effects C k n at fx)" for k n at fx
    unfolding insert_effects_def insert_effect_def by (intro outbox_rules)
  have guard: "steps outbox_appends (guard_event C D current input)" for current
    unfolding guard_event_def remediation_extension_validate_def Let_def by (intro outbox_rules)
  have project: "steps outbox_appends (project_case input n p)" for n p
    unfolding project_case_def by (intro outbox_rules outbox_updates) (simp add: outbox_appends_def)
  have supersede: "steps (keeps_lease e a until) (update_outbox (superseded_effect es c input n) (supersede at i))"
    for es c n at i
    by (intro lease_updates lease_stands_update)
      (simp add: superseded_effect_def supersede_def pending_def)
  show ?thesis
    unfolding apply_one_def insert_run_def insert_findings_def insert_finding_def inject_def
    by (intro lease_rules supersede grows_lease [OF event] grows_lease [OF effects] grows_lease [OF guard]
        grows_lease [OF project])
qed

lemma apply_all_lease: "steps (keeps_lease e a until) (apply_all C D fault xs)"
proof (induction C D fault xs rule: apply_all.induct)
  case (1 C D fault)
  show ?case unfolding apply_all.simps by (rule leasing.steps_basic)
next
  case (2 C D fault input h rest)
  then show ?case
    unfolding apply_all.simps inject_def by (intro leasing.steps_rules apply_one_lease)
qed

lemma apply_batch_lease: "steps (keeps_lease e a until) (apply_transition_batch C D inputs fault)"
  unfolding apply_transition_batch_def Let_def ensure_writable_def
  by (auto intro!: leasing.steps_rules apply_all_lease split: list.split prod.split)

text \<open>An operation of somebody else, while the lease lasts: a claim no later than the lease, or any
  other operation that does not act as the owner.\<close>

fun foreign :: "string \<Rightarrow> int \<Rightarrow> ledger_op \<Rightarrow> bool" where
  "foreign a until (Claim _ now _ _ _ _) = (uint now \<le> until)"
| "foreign a until (Acknowledge _ owner _) = (owner \<noteq> a)"
| "foreign a until (Release _ owner) = (owner \<noteq> a)"
| "foreign a until (CompleteEvidence _ owner _ _) = (owner \<noteq> a)"
| "foreign a until (CompleteDispatch _ _ _ owner _ _) = (owner \<noteq> a)"
| "foreign a until (CompleteObservation _ owner _ _) = (owner \<noteq> a)"
| "foreign a until (Unavailable _ owner _ _ _) = (owner \<noteq> a)"
| "foreign a until (FailCooldown _ owner _ _ _) = (owner \<noteq> a)"
| "foreign a until _ = True"

lemma exec_lease: "foreign a until op \<Longrightarrow> steps (keeps_lease e a until) (exec C D op)"
  by (cases op) (simp_all add: claim_lease owned_lease apply_batch_lease outbox_grows [THEN grows_lease]
      other_tables_outbox [THEN grows_lease]
      conversation_operations_only [THEN conversations_outbox, THEN grows_lease])

lemma runs_to_lease:
  "list_all (foreign a until) ops \<Longrightarrow> lease_stands e a until s \<Longrightarrow> lease_stands e a until (runs_to C D ops s)"
proof (induction ops arbitrary: s)
  case (Cons op ops)
  have "keeps_lease e a until s (snd (exec C D op s))"
    using stepsD [OF exec_lease [of a until op e C D] prod.collapse [symmetric]] Cons.prems(1) by simp
  with Cons show ?case by (simp add: keeps_lease_def)
qed simp

lemma claim_takes_free:
  assumes "claim_effect_inner C D owner now lease types repository key s = (Inr (Some c), t)"
  shows "\<exists>r \<in> set (outbox s). o_effect_id r = ce_effect_id c \<and> pending r \<and> lease_free (uint now) r"
proof -
  from assms obtain r where r: "find (type_allowed types) (claim_rows (uint now) (map_option uint repository) key s) = Some r"
    "ce_effect_id c = o_effect_id r"
    by (auto simp: claim_effect_inner_def split: option.splits if_splits)
  then have "r \<in> set (claim_rows (uint now) (map_option uint repository) key s)"
    by (auto simp: find_Some_iff)
  then show ?thesis using r(2) by (auto simp: claim_rows_def)
qed

lemma reachable_runs: "reachable C D s \<Longrightarrow> reachable C D (runs_to C D ops s)"
proof (induction ops arbitrary: s)
  case (Cons op ops)
  from reachable.step [OF Cons.prems prod.collapse [symmetric]] show ?case by (simp add: Cons.IH)
qed simp

lemma rank_pending: "rank ''PENDING'' = 0"
  by (simp add: rank_def finished_def)

lemma filter_some: "length (filter P xs) = 1 \<Longrightarrow> \<exists>x \<in> set xs. P x"
  by (induction xs) (auto split: if_splits)

section \<open>Theorems\<close>

text \<open>C19: In every ledger that the operations of the store can produce, the projection of each case
  is its history. Whatever operations ran on a new database, in whatever order and whether they
  succeeded or failed, the row of every case equals the case rebuilt from its events, and the
  events of a case carry the revisions 1, 2, 3 and so on, each starting in the state in which
  the one before it ended.\<close>

theorem reachable_consistent:
  assumes "reachable C D s"
  shows "projection_matches_history k s = Inr True \<and>
    (find_case k s \<noteq> None \<longrightarrow> complete_history (history k s))"
proof -
  from reachable_inv [OF assms] have inv: "ledger_inv s" by simp
  then have "complete_history (history k s)" if "find_case k s = Some c" for c
    using that by (auto simp: ledger_inv_def history_inv_def find_case_iff)
  with projection_matches [OF inv] show ?thesis by auto
qed

definition sample_ops :: "ledger_op list" where
  "sample_ops = [CreateCase sample_new_case, Claim ''w'' 11 60 None None None,
     ApplyBatch [sample_transition] None, RepairCase ''repo:1#2@1'']"

lemma sample_reachable: "reachable sample_codec sample_decoders (runs_to sample_codec sample_decoders ops empty_store)"
  by (rule reachable_runs) (rule reachable.fresh)

theorem reachable_consistent_witness:
  "let s = runs_to sample_codec sample_decoders sample_ops empty_store in
     find_case ''repo:1#2@1'' s \<noteq> None \<and> projection_matches_history ''repo:1#2@1'' s = Inr True \<and>
     complete_history (history ''repo:1#2@1'' s)"
proof -
  have "find_case ''repo:1#2@1'' (runs_to sample_codec sample_decoders sample_ops empty_store) \<noteq> None"
    by code_simp
  with reachable_consistent [OF sample_reachable, of "''repo:1#2@1''" sample_ops] show ?thesis
    by (simp add: Let_def)
qed

text \<open>C21: What is settled stays settled. Whatever operations run on a ledger, the append-only tables
  keep their rows and no table loses a key, an effect that was delivered or superseded is never
  touched again, an attempt that ended keeps its outcome, a resolved command and a finished
  conversation stay as they are.\<close>

theorem settled_forever:
  "let t = runs_to C D ops s in append_only s t \<and>
     (\<forall>r \<in> set (outbox s). pending r \<or> r \<in> set (outbox t)) \<and>
     (\<forall>d \<in> set (direct_attempts s). d_status d = RUNNING \<or> d \<in> set (direct_attempts t)) \<and>
     (\<forall>c \<in> set (control_commands s). cc_status c = ''PENDING'' \<or> c \<in> set (control_commands t)) \<and>
     (\<forall>v \<in> set (conversations s). cv_state v \<notin> set finished \<or> v \<in> set (conversations t))"
proof -
  have step: "append_only s t" "attempts_evolve s t" "conversations_evolve s t"
    "rows_evolve effect_step (outbox s) (outbox t)"
    "rows_evolve command_step (control_commands s) (control_commands t)"
    if "t = runs_to C D ops s" for t
    using runs_to_evolves [of s C D ops] that by (simp_all add: ledger_evolves_def)
  define t where "t = runs_to C D ops s"
  have "pending r \<or> r \<in> set (outbox t)" if "r \<in> set (outbox s)" for r
    using effecting.evolve_row [OF step(4) [OF t_def] that] by (auto simp: effect_step_def)
  moreover have "d_status d = RUNNING \<or> d \<in> set (direct_attempts t)" if "d \<in> set (direct_attempts s)" for d
    using attempt.evolve_row [OF step(2) [OF t_def, unfolded attempts_evolve_def] that]
    by (auto simp: attempt_step_def)
  moreover have "cc_status c = ''PENDING'' \<or> c \<in> set (control_commands t)"
    if "c \<in> set (control_commands s)" for c
    using commanding.evolve_row [OF step(5) [OF t_def] that] by (auto simp: command_step_def)
  moreover have "cv_state v \<notin> set finished \<or> v \<in> set (conversations t)"
    if "v \<in> set (conversations s)" for v
    using conversing.evolve_row [OF step(3) [OF t_def, unfolded conversations_evolve_def, THEN conjunct1] that]
    by (auto simp: conversation_step_def)
  ultimately show ?thesis using step(1) [OF t_def] unfolding t_def Let_def by blast
qed


definition sample_leased :: Store where
  "sample_leased = runs_to sample_codec sample_decoders
     [CreateCase sample_new_case, Claim ''w'' 11 60 None None None] empty_store"

definition sample_foreign :: "ledger_op list" where
  "sample_foreign = [Claim ''v'' 70 60 None None None, Release ''fx1'' ''v'', Acknowledge ''fx1'' ''v'' 70,
     RecordCycle 1 70, CreateCase (sample_new_case\<lparr>nc_case_key := ''repo:1#3@1'', nc_issue_number := 3,
       nc_event := \<lparr>ei_event_id = ''e9'', ei_event_type = ''ISSUE_AUTHORIZED'', ei_payload = JObj []\<rparr>,
       nc_effects := [\<lparr>fx_effect_id = ''fx9'', fx_effect_type = ''DISPATCH_PLANNER'', fx_payload = JObj []\<rparr>]\<rparr>)]"


text \<open>C22: An external job for a conversation is reserved at most once. After a reservation was granted
  in a reachable ledger, no later reservation for the same message is granted, whatever
  operations ran in between.\<close>

theorem conversation_reserved_once:
  assumes "reachable C D s" "reserve_conversation C key spec s = (Inr True, t)"
    and "reserve_conversation C key spec' (runs_to C D ops t) = (Inr granted, u)"
  shows "\<not> granted"
proof
  assume granted
  let ?t' = "runs_to C D ops t"
  have exec: "exec C D (ReserveConversation key spec) s = (Inr (), t)" using assms(2) by (auto simp: discard_def sbind_def)
  have t: "reachable C D t" by (rule reachable.step [OF assms(1) exec])
  obtain v where v: "v \<in> set (conversations t)" "cv_message_key v = key" "rank (cv_state v) = 1"
  proof -
    from assms(2) have one: "length (filter (\<lambda>r. cv_message_key r = key \<and> cv_state r = ''PENDING'') (conversations s)) = 1"
      and t': "t = conversations_update (update_rows (\<lambda>r. cv_message_key r = key \<and> cv_state r = ''PENDING'')
        (\<lambda>r. r\<lparr>cv_state := ''CREATING'', cv_spec_json := Some (fst (payload C spec))\<rparr>)) s"
      by (auto simp: reserve_conversation_def update_conversations_Inr)
    obtain v where "v \<in> set (conversations s)" "cv_message_key v = key" "cv_state v = ''PENDING''"
      using filter_some [OF one] by blast
    then show ?thesis
      by (intro that [of "v\<lparr>cv_state := ''CREATING'', cv_spec_json := Some (fst (payload C spec))\<rparr>"])
        (auto simp: t' update_rows_def rank_def)
  qed
  have "rows_evolve conversation_step (conversations t) (conversations ?t')"
    using runs_to_evolves [of t C D ops] by (simp add: ledger_evolves_def conversations_evolve_def)
  from conversing.evolve_row [OF this v(1)] obtain w where w: "w \<in> set (conversations ?t')" "conversation_step v w" .
  then have "cv_message_key w = key" "cv_state w \<noteq> ''PENDING''"
    using v by (auto simp: conversation_step_def conversation_trigger_def rank_pending)
  moreover from assms(3) \<open>granted\<close>
  have "length (filter (\<lambda>r. cv_message_key r = key \<and> cv_state r = ''PENDING'') (conversations ?t')) = 1"
    by (auto simp: reserve_conversation_def update_conversations_Inr)
  from filter_some [OF this]
  obtain x where "x \<in> set (conversations ?t')" "cv_message_key x = key" "cv_state x = ''PENDING''" by blast
  moreover have "distinct (map cv_message_key (conversations ?t'))"
    using reachable_inv [OF reachable_runs [OF t]] by (simp add: conversations_ok_def)
  ultimately show False using distinct_key_eq [of cv_message_key "conversations ?t'" w x] w(1) by auto
qed

definition sample_message :: ConversationInput where
  "sample_message = \<lparr>ci_key = ''m1'', ci_repository_id = 1, ci_thread_number = 2, ci_actor_id = 3,
     ci_case_key = None, ci_received_at = 5, ci_payload = JObj []\<rparr>"

definition sample_conversation :: Store where
  "sample_conversation = runs_to sample_codec sample_decoders [RecordConversation sample_message] empty_store"

theorem conversation_reserved_once_witness:
  "\<exists>t granted u. reserve_conversation sample_codec ''m1'' (JObj []) sample_conversation = (Inr True, t) \<and>
     reserve_conversation sample_codec ''m1'' (JObj [])
       (runs_to sample_codec sample_decoders [BindConversation ''m1'' ''t1''] t) = (Inr granted, u) \<and> \<not> granted"
proof -
  let ?first = "reserve_conversation sample_codec ''m1'' (JObj []) sample_conversation"
  let ?second = "reserve_conversation sample_codec ''m1'' (JObj [])
       (runs_to sample_codec sample_decoders [BindConversation ''m1'' ''t1''] (snd ?first))"
  have "fst ?first = Inr True" by code_simp
  then have first: "?first = (Inr True, snd ?first)" by (metis prod.collapse)
  have "\<not> isl (fst ?second)" by code_simp
  then obtain granted where second: "?second = (Inr granted, snd ?second)"
    by (metis prod.collapse sum.collapse(2))
  from conversation_reserved_once [OF _ first second] sample_reachable have "\<not> granted"
    unfolding sample_conversation_def by blast
  with first second show ?thesis by blast
qed



theorem settled_forever_witness:
  "let t = runs_to sample_codec sample_decoders sample_foreign sample_leased in append_only sample_leased t"
  using settled_forever [of sample_codec sample_decoders sample_foreign sample_leased] by (simp add: Let_def)

end
