(* ===== verification/Controller.thy ===== *)
theory Controller
  imports Revision LedgerRuns
begin

text \<open>
  The ledger controller, \<open>pip-controller/src/ledger.rs\<close>: a workflow command is checked against
  the ledger's projection of its case, decided by the state machine of \<open>pip-core\<close> and committed
  as one transition, or a batch of consecutive ones, of \<open>pip-store\<close>. The abstract
  specification \<open>flow_step\<close> knows only cases with a state, a round, a plan version and a pull
  request with its head; the refinement shows that a ledger driven by the controller is such a
  system, whatever interleaving of operations made it.
\<close>

section \<open>Commands\<close>

record WorkflowCommand =
  wc_case_id :: CaseId
  wc_event_id :: EventId
  wc_observed_at :: ObservedAt
  wc_expected_state :: CaseState
  wc_expected_state_revision :: StateRevision
  wc_accepted_policy_revision :: PolicyRevision
  wc_remediation_round :: u32
  wc_plan_version :: "PlanVersion option"
  wc_pr_number :: "PullRequestNumber option"
  wc_head_sha :: "GitSha option"
  wc_event :: Event
  wc_accepted_plan_version :: "PlanVersion option"
  wc_next_pr_number :: "PullRequestNumber option"
  wc_next_head_sha :: "GitSha option"
  wc_event_payload :: json
  wc_run :: "RunInput option"
  wc_evidence :: "EvidenceInput list"
  wc_findings :: "FindingInput list"

datatype ControllerError =
    InvalidCommand string
  | Core CommandError
  | StoreFailure StoreError

type_synonym 'a controller_op = "(Store, ControllerError, 'a) smonad"

text \<open>The \<open>From<StoreError>\<close> of a store operation under \<open>?\<close>.\<close>

definition from_store :: "'a store_op \<Rightarrow> 'a controller_op" where
  "from_store m = (\<lambda>s. case m s of (r, t) \<Rightarrow> (map_err StoreFailure r, t))"

fun effect_name :: "Effect \<Rightarrow> string" where
  "effect_name DispatchPlanner = ''DISPATCH_PLANNER''"
| "effect_name PublishPlan = ''PUBLISH_PLAN''"
| "effect_name DispatchBuilder = ''DISPATCH_BUILDER''"
| "effect_name PublishDraftPullRequest = ''PUBLISH_DRAFT_PULL_REQUEST''"
| "effect_name ObserveCi = ''OBSERVE_CI''"
| "effect_name DispatchReviewers = ''DISPATCH_REVIEWERS''"
| "effect_name PublishReviews = ''PUBLISH_REVIEWS''"
| "effect_name ObserveFinalPreflight = ''OBSERVE_FINAL_PREFLIGHT''"
| "effect_name DispatchFinalReviewer = ''DISPATCH_FINAL_REVIEWER''"
| "effect_name HoldForHuman = ''HOLD_FOR_HUMAN''"
| "effect_name NotifyShadowReady = ''NOTIFY_SHADOW_READY''"
| "effect_name BeginMerge = ''BEGIN_MERGE''"
| "effect_name ExecuteMerge = ''EXECUTE_MERGE''"
| "effect_name RecordCompletion = ''RECORD_COMPLETION''"
| "effect_name RecordAbandonment = ''RECORD_ABANDONMENT''"
| "effect_name RecordBlock = ''RECORD_BLOCK''"
| "effect_name RecordTakeover = ''RECORD_TAKEOVER''"
| "effect_name Escalate = ''ESCALATE''"

definition workflow_resume_target :: "WorkflowCommand \<Rightarrow> ControllerError + CaseState option" where
  "workflow_resume_target w =
    (if wc_event w \<noteq> HumanResumed then Inr None
     else map_err (\<lambda>_. InvalidCommand ''a resume names its target state'')
       (rbind (ok_or (as_str (json_at (wc_event_payload w) ''resume_target'')) ())
         (\<lambda>state. rbind (map_err (\<lambda>_. ()) (CaseState_from_str state)) (\<lambda>s. Inr (Some s)))))"

definition current_plan :: "WorkflowCommand \<Rightarrow> u32" where
  "current_plan w = (case wc_plan_version w of None \<Rightarrow> 0 | Some v \<Rightarrow> plan_version_get v)"

definition current_pr :: "WorkflowCommand \<Rightarrow> u64 option" where
  "current_pr w = map_option pr_number_get (wc_pr_number w)"

definition current_head :: "WorkflowCommand \<Rightarrow> string option" where
  "current_head w = map_option GitSha_to_string (wc_head_sha w)"

definition next_plan_version :: "WorkflowCommand \<Rightarrow> ControllerError + u32" where
  "next_plan_version w =
    (case wc_accepted_plan_version w of
       Some accepted \<Rightarrow>
         if plan_version_get accepted = saturating_add (current_plan w) 1
         then Inr (plan_version_get accepted)
         else Inl (InvalidCommand ''accepted plan version is not the next version'')
     | None \<Rightarrow>
         if wc_event w = Proceed
         then Inl (InvalidCommand ''planner proceed requires an accepted plan version'')
         else Inr (current_plan w))"

definition next_head_binding ::
  "WorkflowCommand \<Rightarrow> ControllerError + u64 option \<times> string option" where
  "next_head_binding w =
    (if wc_event w = ReviewReady then
       rbind (ok_or (wc_next_head_sha w)
         (InvalidCommand ''review-ready builder result requires a new exact head'')) (\<lambda>head.
       rbind (ok_or (if wc_next_pr_number w \<noteq> None then wc_next_pr_number w else wc_pr_number w)
         (InvalidCommand ''review-ready builder result requires a pull request'')) (\<lambda>pr.
       if wc_pr_number w \<noteq> None \<and> wc_pr_number w \<noteq> Some pr
       then Inl (InvalidCommand ''builder cannot replace the case pull request'')
       else Inr (Some (pr_number_get pr), Some (GitSha_to_string head))))
     else if wc_next_pr_number w \<noteq> None \<or> wc_next_head_sha w \<noteq> None
     then Inl (InvalidCommand ''only review-ready builder evidence may change the exact head'')
     else Inr (current_pr w, current_head w))"

definition workflow_snapshot :: "WorkflowCommand \<Rightarrow> CaseSnapshot" where
  "workflow_snapshot w =
     \<lparr>cs_case_id = wc_case_id w, cs_state = wc_expected_state w,
      cs_state_revision = wc_expected_state_revision w,
      cs_policy_revision = wc_accepted_policy_revision w,
      cs_remediation_round = wc_remediation_round w\<rparr>"

definition workflow_command :: "WorkflowCommand \<Rightarrow> CaseState option \<Rightarrow> CaseCommand" where
  "workflow_command w target =
     \<lparr>cc_case_id = wc_case_id w, cc_event_id = wc_event_id w, cc_observed_at = wc_observed_at w,
      cc_expected_state_revision = wc_expected_state_revision w,
      cc_accepted_policy_revision = wc_accepted_policy_revision w,
      cc_event = wc_event w, cc_resume_target = target\<rparr>"

definition starts_round :: "WorkflowCommand \<Rightarrow> CaseState \<Rightarrow> bool" where
  "starts_round w next \<longleftrightarrow>
     next = Remediating \<and> wc_expected_state w \<noteq> Remediating \<and> wc_event w \<noteq> HumanResumed"

definition effect_input ::
  "WorkflowCommand \<Rightarrow> StateRevision \<Rightarrow> u32 \<Rightarrow> u32 \<Rightarrow> u64 option \<Rightarrow> string option \<Rightarrow> nat \<times> Effect \<Rightarrow> EffectInput" where
  "effect_input w to_revision round plan pr head = (\<lambda>(index, fx).
     \<lparr>fx_effect_id = ''effect-'' @ EventId_to_string (wc_event_id w) @ ''-'' @
        to_ascii_lowercase (effect_name fx) @ ''-'' @ show_nat (index + 1),
      fx_effect_type = effect_name fx,
      fx_payload = JObj
        [(''case_key'', JStr (CaseId_to_string (wc_case_id w))), (''effect'', JStr (effect_name fx)),
         (''head_sha'', json_opt JStr head), (''plan_version'', json_u32 plan),
         (''pr_number'', json_opt JPos pr), (''remediation_round'', json_u32 round),
         (''state_revision'', JPos (state_revision_get to_revision))]\<rparr>)"

definition transition_input ::
  "CasePolicy \<Rightarrow> WorkflowCommand \<Rightarrow> ControllerError + TransitionInput" where
  "transition_input policy w =
    rbind (workflow_resume_target w) (\<lambda>target.
    rbind (map_err Core (evaluate_case_command (workflow_snapshot w) (workflow_command w target) policy))
      (\<lambda>evaluated.
    let next = next_state (cd_transition evaluated) in
    rbind (next_plan_version w) (\<lambda>plan.
    rbind (if starts_round w next
           then ok_or (checked_add (wc_remediation_round w) 1)
             (InvalidCommand ''remediation round exhausted'')
           else Inr (wc_remediation_round w)) (\<lambda>round.
    rbind (next_head_binding w) (\<lambda>(pr, head).
    Inr \<lparr>ti_case_key = CaseId_to_string (wc_case_id w),
      ti_expected_revision = state_revision_get (wc_expected_state_revision w),
      ti_next_state = CaseState_to_string next, ti_remediation_round = round,
      ti_plan_version = plan, ti_pr_number = pr, ti_head_sha = head,
      ti_observed_at = unix_seconds (wc_observed_at w),
      ti_event = \<lparr>ei_event_id = EventId_to_string (wc_event_id w),
        ei_event_type = Event_to_string (wc_event w), ei_payload = wc_event_payload w\<rparr>,
      ti_run = wc_run w, ti_evidence = wc_evidence w, ti_findings = wc_findings w,
      ti_effects = map (effect_input w (cd_to_revision evaluated) round plan pr head)
        (enumerate 0 (effects (cd_transition evaluated)))\<rparr>)))))"

section \<open>Checks\<close>

definition validate_consecutive :: "TransitionInput \<Rightarrow> WorkflowCommand \<Rightarrow> ControllerError + unit" where
  "validate_consecutive previous w =
    rbind (ok_or (checked_add (ti_expected_revision previous) 1)
      (InvalidCommand ''workflow revision overflow'')) (\<lambda>expected_revision.
    reject_if (CaseId_to_string (wc_case_id w) \<noteq> ti_case_key previous \<or>
        state_revision_get (wc_expected_state_revision w) \<noteq> expected_revision \<or>
        CaseState_to_string (wc_expected_state w) \<noteq> ti_next_state previous \<or>
        wc_remediation_round w \<noteq> ti_remediation_round previous \<or>
        current_plan w \<noteq> ti_plan_version previous \<or> current_pr w \<noteq> ti_pr_number previous \<or>
        current_head w \<noteq> ti_head_sha previous)
      (InvalidCommand ''workflow batch is not consecutive''))"

definition validate_workflow_shape :: "WorkflowCommand \<Rightarrow> ControllerError + unit" where
  "validate_workflow_shape w =
    rbind (reject_if (\<not> is_object (wc_event_payload w))
      (InvalidCommand ''workflow event payload must be an object'')) (\<lambda>_.
    reject_if ((wc_pr_number w \<noteq> None) \<noteq> (wc_head_sha w \<noteq> None) \<or>
        wc_next_pr_number w \<noteq> None \<and> wc_next_head_sha w = None)
      (InvalidCommand ''pull request and exact head bindings must be complete''))"

definition validate_workflow :: "WorkflowCommand \<Rightarrow> Store \<Rightarrow> ControllerError + unit" where
  "validate_workflow w s =
    rbind (validate_workflow_shape w) (\<lambda>_.
    rbind (ok_or (query_case (CaseId_to_string (wc_case_id w)) s)
      (InvalidCommand ''case is not in the ledger'')) (\<lambda>stored.
    reject_if (sc_state_revision stored = state_revision_get (wc_expected_state_revision w) \<and>
        (sc_state stored \<noteq> CaseState_to_string (wc_expected_state w) \<or>
         sc_policy_revision stored \<noteq> policy_revision_get (wc_accepted_policy_revision w) \<or>
         sc_remediation_round stored \<noteq> wc_remediation_round w \<or>
         sc_plan_version stored \<noteq> current_plan w \<or> sc_pr_number stored \<noteq> current_pr w \<or>
         sc_head_sha stored \<noteq> current_head w))
      (InvalidCommand ''workflow command does not match the ledger projection'')))"

text \<open>The remediation budget of a case includes the rounds humans granted on resume.\<close>

definition effective_policy ::
  "codec \<Rightarrow> CasePolicy \<Rightarrow> WorkflowCommand \<Rightarrow> Store \<Rightarrow> ControllerError + CasePolicy" where
  "effective_policy C policy w s =
    rbind (map_err StoreFailure (granted_remediation_rounds C (CaseId_to_string (wc_case_id w)) s))
      (\<lambda>granted.
    rbind (ok_or (checked_add (cp_max_remediation_rounds policy) granted)
      (InvalidCommand ''remediation budget overflow'')) (\<lambda>rounds.
    Inr (policy\<lparr>cp_max_remediation_rounds := rounds\<rparr>)))"

section \<open>Applying commands\<close>

definition LedgerController_apply ::
  "codec \<Rightarrow> decoders \<Rightarrow> CasePolicy \<Rightarrow> WorkflowCommand \<Rightarrow> ApplyResult controller_op" where
  "LedgerController_apply C D policy w =
    sbind (squery (validate_workflow w)) (\<lambda>_.
    sbind (squery (effective_policy C policy w)) (\<lambda>policy.
    sbind (slift (transition_input policy w)) (\<lambda>input.
    from_store (apply_transition C D input None))))"

text \<open>The loop of \<open>apply_batch\<close>: \<open>previous\<close> is the last transition made so far.\<close>

fun batch_transitions ::
  "CasePolicy \<Rightarrow> TransitionInput option \<Rightarrow> WorkflowCommand list \<Rightarrow>
     ControllerError + TransitionInput list" where
  "batch_transitions policy previous [] = Inr []"
| "batch_transitions policy previous (w # ws) =
     rbind (validate_workflow_shape w) (\<lambda>_.
     rbind (case previous of None \<Rightarrow> Inr () | Some p \<Rightarrow> validate_consecutive p w) (\<lambda>_.
     rbind (transition_input policy w) (\<lambda>input.
     rbind (batch_transitions policy (Some input) ws) (\<lambda>inputs.
     Inr (input # inputs)))))"

definition LedgerController_apply_batch ::
  "codec \<Rightarrow> decoders \<Rightarrow> CasePolicy \<Rightarrow> WorkflowCommand list \<Rightarrow> ApplyResult controller_op" where
  "LedgerController_apply_batch C D policy workflows =
    (case workflows of
       [] \<Rightarrow> sfail (InvalidCommand ''at least one workflow command is required'')
     | first # _ \<Rightarrow>
         sbind (squery (validate_workflow first)) (\<lambda>_.
         sbind (squery (effective_policy C policy first)) (\<lambda>policy.
         sbind (slift (batch_transitions policy None workflows)) (\<lambda>transitions.
         from_store (apply_transition_batch C D transitions None)))))"

end
