(* ===== verification/Flow.thy ===== *)
theory Flow
  imports Controller
begin

text \<open>
  What the controller promises, without the ledger: the abstract system \<open>flow_step\<close> of cases
  that are opened, moved by one event of the state machine and reopened, and the simulation by
  which the ledger under the controller (\<open>controlled_step\<close>) implements it. Every step of intake,
  of the controller and of every other operation of the store is a sequence of abstract steps,
  so that an invariant of the abstract system holds of every ledger.
\<close>

section \<open>The abstract system\<close>

record flow_case =
  fc_state :: CaseState
  fc_revision :: int
  fc_round :: u32
  fc_plan :: u32
  fc_pr :: "u64 option"
  fc_head :: "string option"

type_synonym flow = "string \<rightharpoonup> flow_case"

definition flow_new :: flow_case where
  "flow_new = \<lparr>fc_state = Planning, fc_revision = 1, fc_round = 0, fc_plan = 0, fc_pr = None,
     fc_head = None\<rparr>"

text \<open>An event moves a case as the state machine says and raises its revision by one. A round is
  spent when work newly returns to the builder, unless a human resumed it. The plan version
  moves by one and must when the planner proceeds. Only \<open>ReviewReady\<close> binds a head, and it keeps
  the pull request the case has.\<close>

definition flow_moves :: "MergeMode \<Rightarrow> flow_case \<Rightarrow> Event \<Rightarrow> flow_case \<Rightarrow> bool" where
  "flow_moves M c e c' \<longleftrightarrow>
     (\<exists>ctx d. transition (fc_state c) e ctx = Inr d \<and> merge_mode ctx = M \<and>
        remediation_round ctx = fc_round c \<and> fc_state c' = next_state d) \<and>
     fc_revision c' = fc_revision c + 1 \<and>
     uint (fc_round c') = uint (fc_round c) +
       (if fc_state c' = Remediating \<and> fc_state c \<noteq> Remediating \<and> e \<noteq> HumanResumed then 1 else 0) \<and>
     (fc_plan c' = saturating_add (fc_plan c) 1 \<or> fc_plan c' = fc_plan c \<and> e \<noteq> Proceed) \<and>
     (if e = ReviewReady
      then fc_head c' \<noteq> None \<and> fc_pr c' \<noteq> None \<and> (fc_pr c \<noteq> None \<longrightarrow> fc_pr c' = fc_pr c)
      else fc_head c' = fc_head c \<and> fc_pr c' = fc_pr c)"

inductive flow_step :: "MergeMode \<Rightarrow> flow \<Rightarrow> flow \<Rightarrow> bool" for M where
  opened: "m k = None \<Longrightarrow> flow_step M m (m(k \<mapsto> flow_new))"
| moved: "m k = Some c \<Longrightarrow> flow_moves M c e c' \<Longrightarrow> flow_step M m (m(k \<mapsto> c'))"
| reopened: "m k = Some c \<Longrightarrow> fc_state c = Abandoned \<Longrightarrow>
    flow_step M m (m(k \<mapsto> c\<lparr>fc_state := Planning, fc_revision := fc_revision c + 1\<rparr>))"

section \<open>Simulation\<close>

locale simulation =
  fixes start :: 's and step :: "'s \<Rightarrow> 's \<Rightarrow> bool"
    and astart :: 'a and astep :: "'a \<Rightarrow> 'a \<Rightarrow> bool"
    and R :: "'s \<Rightarrow> 'a \<Rightarrow> bool"
  assumes start_R: "R start astart"
    and step_R: "R s a \<Longrightarrow> step s t \<Longrightarrow> \<exists>b. astep\<^sup>*\<^sup>* a b \<and> R t b"
begin

lemma steps_R:
  assumes "step\<^sup>*\<^sup>* s t" "R s a"
  shows "\<exists>b. astep\<^sup>*\<^sup>* a b \<and> R t b"
  using assms
proof (induction rule: rtranclp_induct)
  case base
  then show ?case by blast
next
  case (step t u)
  then obtain b where "astep\<^sup>*\<^sup>* a b" "R t b" by blast
  with step_R [OF this(2) step.hyps(2)] show ?case by (blast intro: rtranclp_trans)
qed

lemma refines: "step\<^sup>*\<^sup>* start s \<Longrightarrow> \<exists>a. astep\<^sup>*\<^sup>* astart a \<and> R s a"
  using steps_R start_R by blast

text \<open>An invariant of the abstract system carries over.\<close>

lemma invariant:
  assumes "step\<^sup>*\<^sup>* start s" "P astart" "\<And>a b. P a \<Longrightarrow> astep a b \<Longrightarrow> P b"
  shows "\<exists>a. R s a \<and> P a"
proof -
  from refines [OF assms(1)] obtain a where a: "astep\<^sup>*\<^sup>* astart a" "R s a" by blast
  from a(1) have "P a" by (induction rule: rtranclp_induct) (use assms(2,3) in blast)+
  with a(2) show ?thesis by blast
qed

end

section \<open>The ledger represents an abstract system\<close>

definition represents_row :: "CaseRow \<Rightarrow> flow_case \<Rightarrow> bool" where
  "represents_row r c \<longleftrightarrow>
     c_state r = CaseState_to_string (fc_state c) \<and> c_state_revision r = fc_revision c \<and>
     c_remediation_round r = uint (fc_round c) \<and> c_plan_version r = uint (fc_plan c) \<and>
     c_pr_number r = map_option uint (fc_pr c) \<and> c_head_sha r = fc_head c"

definition represents :: "Store \<Rightarrow> flow \<Rightarrow> bool" where
  "represents s m \<longleftrightarrow> (\<forall>k. rel_option represents_row (find_case k s) (m k))"

lemma represents_cases:
  "cases_table t = cases_table s \<Longrightarrow> represents t m \<longleftrightarrow> represents s m"
  by (simp add: represents_def find_case_def)

lemma represents_find:
  "represents s m \<Longrightarrow> find_case k s = Some r \<Longrightarrow> \<exists>c. m k = Some c \<and> represents_row r c"
  unfolding represents_def by (metis option_rel_Some1)

text \<open>What a command says about its case, and what its transition makes of it.\<close>

definition claims :: "WorkflowCommand \<Rightarrow> flow_case" where
  "claims w = \<lparr>fc_state = wc_expected_state w,
     fc_revision = uint (state_revision_get (wc_expected_state_revision w)),
     fc_round = wc_remediation_round w, fc_plan = current_plan w, fc_pr = current_pr w,
     fc_head = current_head w\<rparr>"

definition results_in :: "TransitionInput \<Rightarrow> flow_case \<Rightarrow> bool" where
  "results_in input c \<longleftrightarrow>
     ti_next_state input = CaseState_to_string (fc_state c) \<and>
     fc_revision c = uint (ti_expected_revision input) + 1 \<and>
     ti_remediation_round input = fc_round c \<and> ti_plan_version input = fc_plan c \<and>
     ti_pr_number input = fc_pr c \<and> ti_head_sha input = fc_head c"

lemma next_plan_version_Inr:
  "next_plan_version w = Inr p \<Longrightarrow>
     p = saturating_add (current_plan w) 1 \<or> p = current_plan w \<and> wc_event w \<noteq> Proceed"
  by (auto simp: next_plan_version_def split: option.splits if_splits)

lemma next_head_binding_Inr:
  "next_head_binding w = Inr (pr, head) \<Longrightarrow>
     (if wc_event w = ReviewReady
      then head \<noteq> None \<and> pr \<noteq> None \<and> (current_pr w \<noteq> None \<longrightarrow> pr = current_pr w)
      else head = current_head w \<and> pr = current_pr w)"
  by (auto simp: next_head_binding_def current_pr_def split: if_splits)

lemma transition_input_moves:
  assumes "transition_input policy w = Inr input"
  shows "ti_case_key input = CaseId_to_string (wc_case_id w) \<and>
    ti_expected_revision input = state_revision_get (wc_expected_state_revision w) \<and>
    (\<exists>c. results_in input c \<and> flow_moves (cp_merge_mode policy) (claims w) (wc_event w) c)"
proof -
  from assms obtain target d plan round pr head where
    d: "evaluate_case_command (workflow_snapshot w) (workflow_command w target) policy = Inr d"
    and plan: "next_plan_version w = Inr plan"
    and round: "(if starts_round w (next_state (cd_transition d))
        then ok_or (checked_add (wc_remediation_round w) 1) (InvalidCommand ''remediation round exhausted'')
        else Inr (wc_remediation_round w)) = Inr round"
    and head: "next_head_binding w = Inr (pr, head)"
    and input: "ti_case_key input = CaseId_to_string (wc_case_id w)"
      "ti_expected_revision input = state_revision_get (wc_expected_state_revision w)"
      "ti_next_state input = CaseState_to_string (next_state (cd_transition d))"
      "ti_remediation_round input = round" "ti_plan_version input = plan"
      "ti_pr_number input = pr" "ti_head_sha input = head"
    by (auto simp: transition_input_def Let_def split: prod.splits)
  let ?c = "\<lparr>fc_state = next_state (cd_transition d),
    fc_revision = uint (state_revision_get (wc_expected_state_revision w)) + 1,
    fc_round = round, fc_plan = plan, fc_pr = pr, fc_head = head\<rparr>"
  have "results_in input ?c" using input by (simp add: results_in_def)
  moreover have "flow_moves (cp_merge_mode policy) (claims w) (wc_event w) ?c"
    unfolding flow_moves_def
  proof (intro conjI)
    from d show "\<exists>ctx d. transition (fc_state (claims w)) (wc_event w) ctx = Inr d \<and>
        merge_mode ctx = cp_merge_mode policy \<and> remediation_round ctx = fc_round (claims w) \<and>
        fc_state ?c = next_state d"
      by (intro exI [of _ "command_context (workflow_snapshot w) (workflow_command w target) policy"]
          exI [of _ "cd_transition d"])
        (auto simp: evaluate_case_command_Inr claims_def workflow_snapshot_def workflow_command_def
          command_context_def)
    show "uint (fc_round ?c) = uint (fc_round (claims w)) +
        (if fc_state ?c = Remediating \<and> fc_state (claims w) \<noteq> Remediating \<and> wc_event w \<noteq> HumanResumed
         then 1 else 0)"
      using round by (auto simp: starts_round_def claims_def checked_add_uint split: if_splits)
  qed (use next_plan_version_Inr [OF plan] next_head_binding_Inr [OF head] in
      \<open>auto simp: claims_def split: if_splits\<close>)
  ultimately show ?thesis using input by blast
qed

section \<open>One transition\<close>

lemma apply_one_find:
  assumes "ledger_inv s" "apply_one C D fault input h s = (Inr u, t)"
  obtains c n p where "find_case (ti_case_key input) s = Some c" "at_revision input c"
    "checked_add (ti_expected_revision input) 1 = Some n"
    "guard_event C D (stored_case c) input s = (Inr p, s\<lparr>policies := policies t\<rparr>)"
    "\<And>k. find_case k t = (if k = ti_case_key input then Some (projected input n p c) else find_case k s)"
  using assms(2)
proof (cases rule: apply_one_Inr)
  case (1 c n p pols rs evs fs)
  have keys: "distinct (map c_case_key (cases_table s))"
    using assms(1) by (simp add: ledger_inv_def history_inv_def)
  note row = updated_row [OF keys 1(1) 1(5)]
  have "cases_table t = update_rows (\<lambda>r. c_case_key r = ti_case_key input) (projected input n p) (cases_table s)"
    using row 1(7) unfolding update_rows_def by (auto simp: at_revision_def)
  then have "find_case k t = (if k = ti_case_key input then Some (projected input n p c) else find_case k s)" for k
    using 1(1) by (simp add: find_case_def find_update_rows projected_def)
  with that row 1(1-3,7) show ?thesis by simp
qed

lemma projected_represents:
  assumes "results_in input c'" "checked_add (ti_expected_revision input) 1 = Some n"
  shows "represents_row (projected input n p r) c'"
  using assms checked_add_uint [OF assms(2)]
  by (simp add: represents_row_def projected_def results_in_def sql_u32_def)

lemma apply_one_represents:
  assumes inv: "ledger_inv s" and rep: "represents s m"
    and run: "apply_one C D fault input h s = (Inr u, t)" and c': "results_in input c'"
  shows "ledger_inv t \<and> represents t (m(ti_case_key input \<mapsto> c'))"
proof (rule apply_one_find [OF inv run])
  fix c n p
  assume "checked_add (ti_expected_revision input) 1 = Some n"
    and find: "\<And>k. find_case k t = (if k = ti_case_key input then Some (projected input n p c) else find_case k s)"
  with c' have "represents_row (projected input n p c) c'" by (blast intro: projected_represents)
  with rep find have "represents t (m(ti_case_key input \<mapsto> c'))" by (simp add: represents_def)
  with apply_one_inv [OF inv run] show ?thesis ..
qed

text \<open>The command is about the case as it is, if its revision is the current one.\<close>

definition current_in :: "flow \<Rightarrow> WorkflowCommand \<Rightarrow> bool" where
  "current_in m w \<longleftrightarrow>
     (\<forall>c. m (CaseId_to_string (wc_case_id w)) = Some c \<longrightarrow> fc_revision c = fc_revision (claims w) \<longrightarrow>
        c = claims w)"

lemma validate_workflow_current:
  assumes "represents s m" "validate_workflow w s = Inr u"
  shows "current_in m w"
  unfolding current_in_def
proof (intro allI impI)
  fix c
  assume c: "m (CaseId_to_string (wc_case_id w)) = Some c" "fc_revision c = fc_revision (claims w)"
  from assms(2) obtain r where r: "find_case (CaseId_to_string (wc_case_id w)) s = Some r"
    by (auto simp: validate_workflow_def query_case_def)
  with assms(1) c have row: "represents_row r c" by (metis represents_find option.inject)
  then have "sc_state_revision (stored_case r) = state_revision_get (wc_expected_state_revision w)"
    using c(2) by (simp add: represents_row_def stored_case_def claims_def)
  with assms(2) r have "sc_state (stored_case r) = CaseState_to_string (wc_expected_state w)"
    "sc_remediation_round (stored_case r) = wc_remediation_round w"
    "sc_plan_version (stored_case r) = current_plan w" "sc_pr_number (stored_case r) = current_pr w"
    "sc_head_sha (stored_case r) = current_head w"
    by (auto simp: validate_workflow_def query_case_def)
  with row c(2) show "c = claims w"
    by (cases c) (simp add: represents_row_def stored_case_def claims_def)
qed

lemma validate_consecutive_current:
  assumes "validate_consecutive previous w = Inr u" "results_in previous c"
  shows "current_in (m(ti_case_key previous \<mapsto> c)) w"
proof -
  from assms have "c = claims w"
    by (cases c) (auto simp: validate_consecutive_def results_in_def claims_def dest: checked_add_uint)
  with assms(1) show ?thesis by (auto simp: current_in_def validate_consecutive_def)
qed

lemma apply_all_moves:
  assumes "batch_transitions policy previous ws = Inr inputs"
    and "apply_all C D fault (zip inputs hashes) s = (Inr u, t)" "length hashes = length inputs"
    and "ledger_inv s" "represents s m"
    and "\<And>w rest. ws = w # rest \<Longrightarrow> current_in m w"
  shows "ledger_inv t \<and> (\<exists>m'. (flow_step (cp_merge_mode policy))\<^sup>*\<^sup>* m m' \<and> represents t m')"
  using assms
proof (induction policy previous ws arbitrary: inputs hashes s m rule: batch_transitions.induct)
  case (1 policy previous)
  then show ?case by auto
next
  case (2 policy previous w ws)
  from "2.prems"(1) obtain input inputs' where
    input: "transition_input policy w = Inr input" and
    rest: "batch_transitions policy (Some input) ws = Inr inputs'" and inputs: "inputs = input # inputs'"
    by auto
  from "2.prems"(3) inputs obtain h hs where hashes: "hashes = h # hs" "length hs = length inputs'"
    by (cases hashes) auto
  from "2.prems"(2) obtain s' where one: "apply_one C D fault input h s = (Inr (), s')"
    and all: "apply_all C D fault (zip inputs' hs) s' = (Inr u, t)"
    by (auto simp: inputs hashes split: if_splits)
  from transition_input_moves [OF input] obtain c' where
    key: "ti_case_key input = CaseId_to_string (wc_case_id w)"
    and rev: "ti_expected_revision input = state_revision_get (wc_expected_state_revision w)"
    and c': "results_in input c'" "flow_moves (cp_merge_mode policy) (claims w) (wc_event w) c'"
    by blast
  have after: "ledger_inv s'" "represents s' (m(ti_case_key input \<mapsto> c'))"
    using apply_one_represents [OF "2.prems"(4,5) one c'(1)] by simp_all
  obtain r where "find_case (ti_case_key input) s = Some r" "at_revision input r"
    using apply_one_find [OF "2.prems"(4) one] by blast
  with "2.prems"(5) obtain c where c: "m (ti_case_key input) = Some c" "fc_revision c = fc_revision (claims w)"
    by (auto simp: at_revision_def represents_row_def claims_def rev dest: represents_find)
  with "2.prems"(6) key have "m (ti_case_key input) = Some (claims w)" by (auto simp: current_in_def)
  then have step: "flow_step (cp_merge_mode policy) m (m(ti_case_key input \<mapsto> c'))"
    using c'(2) by (rule flow_step.moved)
  have "current_in (m(ti_case_key input \<mapsto> c')) w'" if "ws = w' # ws'" for w' ws'
  proof -
    from rest that have "validate_consecutive input w' = Inr ()" by auto
    then show ?thesis using c'(1) by (rule validate_consecutive_current)
  qed
  note ih = "2.IH" [OF rest all hashes(2) after this]
  from conjunct2 [OF ih] obtain m' where
    m': "(flow_step (cp_merge_mode policy))\<^sup>*\<^sup>* (m(ti_case_key input \<mapsto> c')) m' \<and> represents t m'" ..
  from converse_rtranclp_into_rtranclp [of "flow_step (cp_merge_mode policy)", OF step conjunct1 [OF m']]
  show ?case using conjunct1 [OF ih] conjunct2 [OF m'] by (intro conjI exI)
qed

section \<open>The controller\<close>

lemma from_store_Inr [simp]: "from_store m s = (Inr a, t) \<longleftrightarrow> m s = (Inr a, t)"
  by (auto simp: from_store_def split: prod.splits)

lemma from_store_Inl: "from_store m s = (Inl e, t) \<longleftrightarrow> (\<exists>e'. e = StoreFailure e' \<and> m s = (Inl e', t))"
  by (auto simp: from_store_def split: prod.splits)

lemma from_store_atomic: "satomic m \<Longrightarrow> satomic (from_store m)"
  by (auto simp: satomic_def from_store_Inl)

text \<open>A single command is a batch of one.\<close>

lemma apply_is_batch:
  "LedgerController_apply C D policy w = LedgerController_apply_batch C D policy [w]"
proof
  fix s
  show "LedgerController_apply C D policy w s = LedgerController_apply_batch C D policy [w] s"
  proof (cases "validate_workflow w s")
    case (Inl e)
    then show ?thesis
      by (simp add: LedgerController_apply_def LedgerController_apply_batch_def sbind_def)
  next
    case (Inr u)
    then have "validate_workflow_shape w = Inr ()" by (simp add: validate_workflow_def)
    then have "batch_transitions p None [w] = rbind (transition_input p w) (\<lambda>i. Inr [i])" for p by simp
    then show ?thesis
      by (auto simp: LedgerController_apply_def LedgerController_apply_batch_def sbind_def
          apply_transition_def split: sum.splits)
  qed
qed

lemma apply_batch_atomic: "satomic (LedgerController_apply_batch C D policy ws)"
  unfolding LedgerController_apply_batch_def
  by (cases ws) (auto intro!: satomic_bind from_store_atomic apply_transition_batch_atomic)

lemma effective_policy_mode:
  "effective_policy C policy w s = Inr p \<Longrightarrow> cp_merge_mode p = cp_merge_mode policy"
  by (auto simp: effective_policy_def)

lemma apply_batch_moves:
  assumes "ledger_inv s" "represents s m"
    and run: "LedgerController_apply_batch C D policy ws s = (r, t)"
  shows "ledger_inv t \<and> (\<exists>m'. (flow_step (cp_merge_mode policy))\<^sup>*\<^sup>* m m' \<and> represents t m')"
proof (cases r)
  case (Inl e)
  then have "t = s" using satomicD [OF apply_batch_atomic] run by blast
  with assms show ?thesis by blast
next
  case (Inr a)
  with run obtain w rest where ws: "ws = w # rest" by (cases ws) (auto simp: LedgerController_apply_batch_def)
  with Inr run obtain p inputs where valid: "validate_workflow w s = Inr ()"
    and p: "effective_policy C policy w s = Inr p" and inputs: "batch_transitions p None ws = Inr inputs"
    and batch: "apply_transition_batch C D inputs None s = (Inr a, t)"
    by (auto simp: LedgerController_apply_batch_def)
  from apply_transition_batch_Inr [OF batch] show ?thesis
  proof (elim disjE conjE)
    assume "t = s"
    with assms show ?thesis by blast
  next
    assume all: "apply_all C D None (zip inputs (map (\<lambda>input. hash_serialized C (TransitionInput_ser input))
      inputs)) s = (Inr (), t)"
    have "current_in m w" by (rule validate_workflow_current [OF assms(2) valid])
    with apply_all_moves [OF inputs all _ assms(1,2)] ws effective_policy_mode [OF p] show ?thesis by auto
  qed
qed

section \<open>Intake\<close>

lemma find_snoc:
  "find P (xs @ [x]) = (case find P xs of None \<Rightarrow> if P x then Some x else None | Some y \<Rightarrow> Some y)"
  by (induction xs) auto

lemma create_case_find:
  assumes "create_case C input s = (Inr r, t)" "nc_initial_state input = ''PLANNING''"
  shows "cases_table t = cases_table s \<or>
    find_case (nc_case_key input) s = None \<and> (\<exists>row. c_case_key row = nc_case_key input \<and>
      represents_row row flow_new \<and> cases_table t = cases_table s @ [row])"
proof (cases "existing_event (ei_event_id (nc_event input)) s")
  case (Some found)
  with assms(1) show ?thesis by (auto simp: create_case_def Let_def)
next
  case None
  let ?row = "\<lparr>c_case_key = nc_case_key input, c_repository_id = uint (nc_repository_id input),
    c_issue_number = uint (nc_issue_number input), c_workflow_version = sql_u32 (nc_workflow_version input),
    c_state = nc_initial_state input, c_state_revision = 1,
    c_policy_revision = uint (nc_policy_revision input), c_remediation_round = 0, c_plan_version = 0,
    c_pr_number = None, c_head_sha = None, c_created_at = uint (nc_observed_at input),
    c_updated_at = uint (nc_observed_at input)\<rparr>"
  from assms(1) None obtain er s2 where allowed: "case_allowed s ?row"
    and e: "insert_event C er (add_case ?row s) = (Inr (), s2)"
    and x: "insert_effects C (nc_case_key input) 1 (nc_observed_at input) (nc_effects input) s2 = (Inr (), t)"
    by (auto simp: create_case_def Let_def)
  have "cases_table t = cases_table s @ [?row]"
    using insert_effects_Inr [OF x] insert_event_Inr [OF e] by (simp add: add_case_def)
  moreover have "find_case (nc_case_key input) s = None"
    using allowed by (auto simp: case_allowed_def find_case_def has_case_def find_None_iff list_ex_iff)
  moreover have "represents_row ?row flow_new"
    using assms(2) by (simp add: represents_row_def flow_new_def)
  ultimately show ?thesis by (intro disjI2) auto
qed

lemma create_case_moves:
  assumes inv: "ledger_inv s" and rep: "represents s m" and run: "create_case C input s = (r, t)"
    and start: "nc_initial_state input = ''PLANNING''"
  shows "ledger_inv t \<and> (\<exists>m'. (flow_step M)\<^sup>*\<^sup>* m m' \<and> represents t m')"
proof (cases r)
  case (Inl e)
  then have "t = s" using satomicD [OF create_case_atomic] run by blast
  with inv rep show ?thesis by blast
next
  case (Inr a)
  note run = run [unfolded Inr]
  from create_case_inv [OF inv run] have "ledger_inv t" .
  moreover from create_case_find [OF run start] have "\<exists>m'. (flow_step M)\<^sup>*\<^sup>* m m' \<and> represents t m'"
  proof (elim disjE conjE exE)
    assume "cases_table t = cases_table s"
    with rep show ?thesis using represents_cases by blast
  next
    fix row
    let ?k = "nc_case_key input"
    assume new: "find_case ?k s = None" and row: "c_case_key row = ?k" "represents_row row flow_new"
      and t: "cases_table t = cases_table s @ [row]"
    have "m ?k = None" using rep new by (auto simp: represents_def dest: spec [of _ ?k])
    then have "flow_step M m (m(?k \<mapsto> flow_new))" by (rule flow_step.opened)
    moreover have "find_case k t = (if k = ?k then Some row else find_case k s)" for k
      using new row(1) by (auto simp: find_case_def t find_snoc split: option.splits)
    then have "represents t (m(?k \<mapsto> flow_new))" using rep row(2) by (simp add: represents_def)
    ultimately show ?thesis by blast
  qed
  ultimately show ?thesis ..
qed

lemma guard_reauthorization:
  assumes "guard_event C D (stored_case c) input s = (Inr p, s')"
    and "ei_event_type (ti_event input) = ''ISSUE_REAUTHORIZED''"
    and "find_case (c_case_key c) s = Some c" "distinct (map c_case_key (cases_table s))"
  shows "c_state c = ''ABANDONED'' \<and> ti_next_state input = ''PLANNING'' \<and>
    ti_plan_version input = unsigned32 (c_plan_version c) \<and>
    ti_remediation_round input = unsigned32 (c_remediation_round c) \<and>
    ti_pr_number input = map_option unsigned (c_pr_number c) \<and> ti_head_sha input = c_head_sha c"
proof -
  from assms(1,2) have ok: "reauthorization_validate C (stored_case c) input s = Inr p"
    by (auto simp: guard_event_def Let_def)
  then have "list_ex (\<lambda>q. c_case_key q = c_case_key c \<and> c_state q = ''ABANDONED'') (cases_table s)"
    by (auto simp: reauthorization_validate_def reauthorization_eligible_def Let_def stored_case_def
        list_ex_iff)
  with assms(3,4) have "c_state c = ''ABANDONED''"
    by (auto simp: list_ex_iff find_case_iff) (metis distinct_key_eq)
  with ok show ?thesis by (auto simp: reauthorization_validate_def Let_def stored_case_def)
qed

lemma reauthorize_moves:
  assumes inv: "ledger_inv s" and rep: "represents s m"
    and run: "apply_transition C D input None s = (r, t)"
    and event: "ei_event_type (ti_event input) = ''ISSUE_REAUTHORIZED''"
  shows "ledger_inv t \<and> (\<exists>m'. (flow_step M)\<^sup>*\<^sup>* m m' \<and> represents t m')"
proof (cases "\<exists>h. apply_one C D None input h s = (Inr (), t)")
  case False
  have "t = s"
  proof (cases r)
    case (Inl e)
    then show ?thesis
      using satomicD [OF apply_transition_batch_atomic] run unfolding apply_transition_def by blast
  next
    case (Inr a)
    with run apply_transition_batch_Inr [of C D "[input]" None s a t] False show ?thesis
      by (auto simp: apply_transition_def)
  qed
  with inv rep show ?thesis by blast
next
  case True
  then obtain h where one: "apply_one C D None input h s = (Inr (), t)" ..
  have keys: "distinct (map c_case_key (cases_table s))"
    using inv by (simp add: ledger_inv_def history_inv_def)
  show ?thesis
  proof (rule apply_one_find [OF inv one])
    fix row n p
    assume row: "find_case (ti_case_key input) s = Some row" "at_revision input row"
      and g: "guard_event C D (stored_case row) input s = (Inr p, s\<lparr>policies := policies t\<rparr>)"
    from represents_find [OF rep row(1)] obtain c where c: "m (ti_case_key input) = Some c" "represents_row row c"
      by blast
    have "c_case_key row = ti_case_key input" using row(2) by (simp add: at_revision_def)
    with row(1) have "find_case (c_case_key row) s = Some row" by simp
    note same = guard_reauthorization [OF g event this keys]
    let ?c = "c\<lparr>fc_state := Planning, fc_revision := fc_revision c + 1\<rparr>"
    have aband: "fc_state c = Abandoned"
    proof -
      have "CaseState_to_string (fc_state c) = CaseState_to_string Abandoned"
        using same c(2) by (simp add: represents_row_def)
      then show ?thesis unfolding CaseState_to_string_inj .
    qed
    have "results_in input ?c"
      using same c(2) row(2) by (auto simp: results_in_def represents_row_def at_revision_def)
    from apply_one_represents [OF inv rep one this] flow_step.reopened [of m, OF c(1) aband, of M]
    show ?thesis by blast
  qed
qed

section \<open>Ledgers under the controller\<close>

text \<open>The steps a ledger takes in production: intake opens a case or reopens an abandoned one, the
  controller applies commands, and every other operation of the store, in any order; all of
  them may fail.\<close>

inductive controlled_step :: "MergeMode \<Rightarrow> codec \<Rightarrow> decoders \<Rightarrow> Store \<Rightarrow> Store \<Rightarrow> bool" for M C D where
  authorize: "nc_initial_state input = ''PLANNING'' \<Longrightarrow> create_case C input s = (r, t) \<Longrightarrow>
    controlled_step M C D s t"
| reauthorize: "ei_event_type (ti_event input) = ''ISSUE_REAUTHORIZED'' \<Longrightarrow>
    apply_transition C D input None s = (r, t) \<Longrightarrow> controlled_step M C D s t"
| command: "cp_merge_mode policy = M \<Longrightarrow> LedgerController_apply C D policy w s = (r, t) \<Longrightarrow>
    controlled_step M C D s t"
| commands: "cp_merge_mode policy = M \<Longrightarrow> LedgerController_apply_batch C D policy ws s = (r, t) \<Longrightarrow>
    controlled_step M C D s t"
| work: "\<not> moves_case op \<or> op = RepairCase k \<Longrightarrow> exec C D op s = (r, t) \<Longrightarrow> controlled_step M C D s t"

lemma work_moves:
  assumes "ledger_inv s" "represents s m" "\<not> moves_case op \<or> op = RepairCase k" "exec C D op s = (r, t)"
  shows "ledger_inv t \<and> represents t m"
proof -
  have "cases_table t = cases_table s"
    using assms(3)
  proof
    assume "\<not> moves_case op"
    from stepsD [OF exec_work [OF this] assms(4)] show ?thesis by (simp add: work_step_def)
  next
    assume "op = RepairCase k"
    with assms(4) repair_consistent [OF assms(1)] show ?thesis by auto
  qed
  with assms(2) exec_inv [OF assms(1,4)] show ?thesis
    using represents_cases [of t s m] by blast
qed

interpretation controlled: simulation empty_store "controlled_step M C D" Map.empty "flow_step M"
  "\<lambda>s m. ledger_inv s \<and> represents s m" for M C D
proof
  show "ledger_inv empty_store \<and> represents empty_store Map.empty"
    by (rule conjI [OF ledger_inv_empty]) (simp add: represents_def find_case_def empty_store_def)
  fix s m t
  assume R: "ledger_inv s \<and> represents s m" and step: "controlled_step M C D s t"
  then have R: "ledger_inv s" "represents s m" by simp_all
  from step have "ledger_inv t \<and> (\<exists>m'. (flow_step M)\<^sup>*\<^sup>* m m' \<and> represents t m')"
  proof cases
    case (authorize input r)
    with create_case_moves [OF R] show ?thesis by blast
  next
    case (reauthorize input r)
    with reauthorize_moves [OF R] show ?thesis by blast
  next
    case (command policy w r)
    with apply_batch_moves [OF R, of C D policy "[w]"] show ?thesis by (simp add: apply_is_batch)
  next
    case (commands policy ws r)
    with apply_batch_moves [OF R] show ?thesis by blast
  next
    case (work op k r)
    with work_moves [OF R] show ?thesis by blast
  qed
  then show "\<exists>b. (flow_step M)\<^sup>*\<^sup>* m b \<and> ledger_inv t \<and> represents t b" by blast
qed

text \<open>C10: the ledger refines the abstract workflow. Whatever intake, the controller and all other
  operations do to a new ledger, in any order and with any failures, what its projection holds
  is a state of the abstract system: every case was opened in planning at revision one, was
  reopened only when abandoned, and otherwise moved only by legal steps of the state machine,
  each raising the revision by one; a remediation round was spent exactly when work newly
  returned to the builder and no human resumed it, the plan version moved by one when the
  planner proceeded, and only \<open>ReviewReady\<close> bound a new head, keeping the pull request.\<close>

theorem controller_refines:
  "(controlled_step M C D)\<^sup>*\<^sup>* empty_store s \<Longrightarrow>
     \<exists>m. (flow_step M)\<^sup>*\<^sup>* Map.empty m \<and> represents s m"
  using controlled.refines by blast

definition no_merge :: "flow \<Rightarrow> bool" where
  "no_merge m \<longleftrightarrow> (\<forall>k c. m k = Some c \<longrightarrow> fc_state c \<notin> {ReadyToMerge, Merging})"

lemma no_merge_step: "no_merge m \<Longrightarrow> flow_step Shadow m m' \<Longrightarrow> no_merge m'"
  by (erule flow_step.cases)
    (auto simp: no_merge_def flow_new_def flow_moves_def split: if_splits dest: transition_into)

text \<open>C11: a ledger that is driven in shadow mode never holds a case that is ready to merge or
  merging, however intake, commands, batches, repairs and leases interleave.\<close>

theorem shadow_ledger_never_merges:
  assumes "(controlled_step Shadow C D)\<^sup>*\<^sup>* empty_store s" "r \<in> set (cases_table s)"
  shows "c_state r \<notin> {''READY_TO_MERGE'', ''MERGING''}"
proof -
  have "no_merge Map.empty" by (simp add: no_merge_def)
  from controlled.invariant [where P = no_merge, OF assms(1) this] no_merge_step obtain m where
    m: "ledger_inv s" "represents s m" "no_merge m" by blast
  then have "find_case (c_case_key r) s = Some r"
    using assms(2) by (simp add: ledger_inv_def history_inv_def find_case_iff)
  with represents_find [OF m(2)] obtain c where c: "m (c_case_key r) = Some c" "represents_row r c" by blast
  then have "fc_state c \<noteq> ReadyToMerge" "fc_state c \<noteq> Merging" using m(3) by (auto simp: no_merge_def)
  then have "CaseState_to_string (fc_state c) \<noteq> CaseState_to_string ReadyToMerge"
    "CaseState_to_string (fc_state c) \<noteq> CaseState_to_string Merging"
    unfolding CaseState_to_string_inj .
  with c(2) show ?thesis by (simp add: represents_row_def)
qed

section \<open>A sample run\<close>

definition sample_workflow :: WorkflowCommand where
  "sample_workflow =
     \<lparr>wc_case_id = \<lparr>cid_repository = RepositoryId 1, cid_issue = IssueNumber 2,
        cid_workflow = WorkflowVersion 1\<rparr>,
      wc_event_id = EventId ''e2'', wc_observed_at = ObservedAt 20, wc_expected_state = Planning,
      wc_expected_state_revision = StateRevision 1, wc_accepted_policy_revision = PolicyRevision 1,
      wc_remediation_round = 0, wc_plan_version = None, wc_pr_number = None, wc_head_sha = None,
      wc_event = Proceed, wc_accepted_plan_version = Some (PlanVersion 1),
      wc_next_pr_number = None, wc_next_head_sha = None, wc_event_payload = JObj [],
      wc_run = None, wc_evidence = [], wc_findings = []\<rparr>"

definition sample_case_policy :: CasePolicy where
  "sample_case_policy = \<lparr>cp_revision = PolicyRevision 1, cp_merge_mode = Shadow,
     cp_max_remediation_rounds = 3\<rparr>"

definition sample_controlled :: Store where
  "sample_controlled =
     snd (LedgerController_apply sample_codec sample_decoders sample_case_policy sample_workflow sample_ledger)"

lemma sample_controlled_steps: "(controlled_step Shadow sample_codec sample_decoders)\<^sup>*\<^sup>* empty_store sample_controlled"
proof -
  have "controlled_step Shadow sample_codec sample_decoders empty_store sample_ledger"
    by (rule controlled_step.authorize [OF _ sample_created]) (simp add: sample_new_case_def)
  moreover have "controlled_step Shadow sample_codec sample_decoders sample_ledger sample_controlled"
    unfolding sample_controlled_def
    by (rule controlled_step.command [OF _ prod.collapse [symmetric]]) (simp add: sample_case_policy_def)
  ultimately show ?thesis by (meson converse_rtranclp_into_rtranclp rtranclp.rtrancl_refl)
qed

lemma sample_controlled_cases: "map c_state (cases_table sample_controlled) = [''READY_TO_BUILD'']"
  by code_simp

theorem controller_refines_witness:
  "map c_state (cases_table sample_controlled) = [''READY_TO_BUILD''] \<and>
   (\<exists>m. (flow_step Shadow)\<^sup>*\<^sup>* Map.empty m \<and> represents sample_controlled m)"
  using sample_controlled_cases controller_refines [OF sample_controlled_steps] by blast

theorem shadow_ledger_never_merges_witness:
  "\<exists>r \<in> set (cases_table sample_controlled). c_state r \<notin> {''READY_TO_MERGE'', ''MERGING''}"
proof -
  have "cases_table sample_controlled \<noteq> []" using sample_controlled_cases by auto
  then have "hd (cases_table sample_controlled) \<in> set (cases_table sample_controlled)" by simp
  with shadow_ledger_never_merges [OF sample_controlled_steps this] show ?thesis by blast
qed

end
