(* ===== verification/RolePolicies.thy ===== *)
theory RolePolicies
  imports Contracts Recovery
begin

text \<open>
  The role policy of a workflow, the first half of \<open>pip-controller/src/scheduling.rs\<close>: which
  worker plays which role under which provider, model and skills, the checks \<open>WorkflowPolicy::new\<close>
  makes before such a policy can exist, and the builders that extend it. \<open>wf_policy\<close> is what a
  \<open>WorkflowPolicy\<close> guarantees to its users; construction establishes it and every builder keeps it.
  \<open>std::path\<close> is modelled as far as the source uses it, on UTF-8 paths of Unix.
\<close>

section \<open>Texts and paths\<close>

definition valid_id :: "string \<Rightarrow> bool" where
  "valid_id value \<longleftrightarrow> value \<noteq> [] \<and>
     list_all (\<lambda>b. is_ascii_alphanumeric b \<or> b \<in> {CHR ''-'', CHR ''_'', CHR ''.''}) value"

text \<open>\<open>value.chars().any(char::is_whitespace)\<close> on the encoded text.\<close>

fun has_whitespace :: "string \<Rightarrow> bool" where
  "has_whitespace [] = False"
| "has_whitespace (c # s) = (list_ex (\<lambda>w. starts_with w (c # s)) ws_encodings \<or> has_whitespace s)"

definition valid_opaque :: "string \<Rightarrow> nat \<Rightarrow> bool" where
  "valid_opaque value max_len \<longleftrightarrow> value \<noteq> [] \<and> length value \<le> max_len \<and>
     \<not> has_control value \<and> \<not> has_whitespace value"

definition valid_text :: "string \<Rightarrow> nat \<Rightarrow> bool" where
  "valid_text value max_len \<longleftrightarrow> \<not> blank value \<and> length value \<le> max_len \<and> \<not> has_control value"

definition ends_with :: "string \<Rightarrow> string \<Rightarrow> bool" where
  "ends_with p value \<longleftrightarrow> starts_with (rev p) (rev value)"

definition trim_end_matches :: "char \<Rightarrow> string \<Rightarrow> string" where
  "trim_end_matches c value = rev (dropWhile (\<lambda>b. b = c) (rev value))"

definition valid_branch_prefix :: "string \<Rightarrow> bool" where
  "valid_branch_prefix value \<longleftrightarrow> ends_with ''/'' value \<and> length value \<le> 128 \<and>
     list_all valid_id (split_on (CHR ''/'') (trim_end_matches (CHR ''/'') value))"

text \<open>\<open>std::path::Component\<close>. Separators that repeat and \<open>.\<close> elements are normalised away, except
  for a leading \<open>.\<close> of a relative path.\<close>

datatype Component = RootDir | CurDir | ParentDir | Normal string

definition normal_components :: "string list \<Rightarrow> Component list" where
  "normal_components parts =
     map (\<lambda>p. if p = ''..'' then ParentDir else Normal p) (filter (\<lambda>p. p \<noteq> [] \<and> p \<noteq> ''.'') parts)"

definition path_components :: "string \<Rightarrow> Component list" where
  "path_components path =
    (let parts = split_on (CHR ''/'') path in
     if starts_with ''/'' path then RootDir # normal_components parts
     else (if hd parts = ''.'' then [CurDir] else []) @ normal_components parts)"

definition is_absolute :: "string \<Rightarrow> bool" where
  "is_absolute path \<longleftrightarrow> starts_with ''/'' path"

definition path_starts_with :: "string \<Rightarrow> string \<Rightarrow> bool" where
  "path_starts_with path base \<longleftrightarrow> prefix (path_components base) (path_components path)"

section \<open>Role policies\<close>

datatype ExecutionKind = Hermes | Direct

record RolePolicy =
  rp_role :: WorkerRole
  rp_reviewer_id :: "string option"
  rp_review_mode :: "ReviewMode option"
  rp_profile :: string
  rp_execution :: ExecutionKind
  rp_provider :: string
  rp_model :: string
  rp_max_runtime :: string
  rp_priority :: u32
  rp_skills :: "string list"

record WorkflowPolicy =
  wp_board :: string
  wp_workspace :: string
  wp_branch_prefix :: string
  wp_sensitive_scope_categories :: "string list"
  wp_max_provider_failures :: u32
  wp_max_hermes_attempts :: "u32 option"
  wp_hermes_scratch_root :: "string option"
  wp_isolated_reviews :: bool
  wp_cargo_jobs :: "u32 option"
  wp_roles :: "RolePolicy list"

datatype DispatchError =
    InvalidPolicy | InvalidEffectId | MissingPlan | MissingPullRequest | MissingExactHead |
    WrongExecutor | InvalidStoredCase | InvalidEvidenceBundle | EvidenceBundleTooLarge int int |
    StaleEffect | UnsupportedEffect

definition is_reviewer :: "WorkerRole \<Rightarrow> bool" where
  "is_reviewer role \<longleftrightarrow> role \<in> {ReviewerGeneral, ReviewerSecperf}"

fun role_skill_name :: "WorkerRole \<Rightarrow> string" where
  "role_skill_name Planner = ''planner''"
| "role_skill_name Builder = ''builder''"
| "role_skill_name ReviewerGeneral = ''reviewer-general''"
| "role_skill_name ReviewerSecperf = ''reviewer-secperf''"
| "role_skill_name FinalReviewer = ''final-reviewer''"

definition execution_valid :: "RolePolicy \<Rightarrow> bool" where
  "execution_valid role =
    (case rp_role role of
       Builder \<Rightarrow> rp_execution role = ExecutionKind.Direct \<and> rp_provider role = ''cursor''
     | Planner \<Rightarrow> rp_execution role = ExecutionKind.Hermes \<and> rp_provider role \<noteq> ''cursor''
     | FinalReviewer \<Rightarrow> rp_execution role = ExecutionKind.Hermes \<and> rp_provider role \<noteq> ''cursor''
     | _ \<Rightarrow> (case rp_execution role of
              ExecutionKind.Direct \<Rightarrow> rp_provider role = ''cursor''
            | ExecutionKind.Hermes \<Rightarrow> rp_provider role \<noteq> ''cursor''))"

definition review_binding_valid :: "RolePolicy \<Rightarrow> bool" where
  "review_binding_valid role =
    (if is_reviewer (rp_role role) then
       (case rp_reviewer_id role of None \<Rightarrow> False | Some i \<Rightarrow> valid_id i) \<and>
       rp_review_mode role \<noteq> None \<and>
       (rp_review_mode role = Some Required \<or> rp_execution role = ExecutionKind.Direct)
     else rp_reviewer_id role = None \<and> rp_review_mode role = None)"

definition valid_role_policy :: "RolePolicy \<Rightarrow> bool" where
  "valid_role_policy role \<longleftrightarrow>
     execution_valid role \<and> review_binding_valid role \<and> valid_id (rp_profile role) \<and>
     valid_id (rp_provider role) \<and> valid_id (rp_model role) \<and>
     to_ascii_lowercase (rp_model role) \<notin> {''auto'', ''default'', ''latest''} \<and>
     valid_id (rp_max_runtime role) \<and> length (rp_skills role) = 2 \<and>
     list_all valid_id (rp_skills role) \<and>
     list_ex (\<lambda>skill. skill = ''workflow-contract'') (rp_skills role) \<and>
     list_ex (\<lambda>skill. skill = role_skill_name (rp_role role) \<or>
       rp_role role = Builder \<and> skill = ''builder-grok'') (rp_skills role)"

definition WorkflowPolicy_new ::
  "string \<Rightarrow> string \<Rightarrow> string \<Rightarrow> RolePolicy list \<Rightarrow> DispatchError + WorkflowPolicy" where
  "WorkflowPolicy_new board workspace branch_prefix roles =
    (let fixed_valid = list_all (\<lambda>expected. length (filter (\<lambda>r. rp_role r = expected) roles) = 1)
           [Planner, Builder, FinalReviewer];
         reviewer_ids = remdups (List.map_filter rp_reviewer_id roles);
         reviewer_count = length (filter (\<lambda>r. is_reviewer (rp_role r)) roles);
         required_lanes = list_all (\<lambda>expected.
           list_ex (\<lambda>r. rp_role r = expected \<and> rp_review_mode r = Some Required) roles)
           [ReviewerGeneral, ReviewerSecperf];
         valid_roles = (fixed_valid \<and> 2 \<le> reviewer_count \<and>
           length reviewer_ids = reviewer_count \<and> required_lanes);
         valid_bindings = list_all valid_role_policy roles in
     if \<not> valid_id board \<or> \<not> starts_with ''/'' workspace \<or> \<not> valid_text workspace 4096 \<or>
        \<not> valid_branch_prefix branch_prefix \<or> \<not> valid_roles \<or> \<not> valid_bindings
     then Inl InvalidPolicy
     else Inr \<lparr>wp_board = board, wp_workspace = workspace, wp_branch_prefix = branch_prefix,
       wp_sensitive_scope_categories = [], wp_max_provider_failures = 1,
       wp_max_hermes_attempts = None, wp_hermes_scratch_root = None, wp_isolated_reviews = False,
       wp_cargo_jobs = None, wp_roles = roles\<rparr>)"

definition with_isolated_reviews :: "WorkflowPolicy \<Rightarrow> WorkflowPolicy" where
  "with_isolated_reviews policy = policy\<lparr>wp_isolated_reviews := True\<rparr>"

definition with_cargo_jobs :: "u32 \<Rightarrow> WorkflowPolicy \<Rightarrow> DispatchError + WorkflowPolicy" where
  "with_cargo_jobs jobs policy =
    (if \<not> (1 \<le> jobs \<and> jobs \<le> 8) then Inl InvalidPolicy
     else Inr (policy\<lparr>wp_cargo_jobs := Some jobs\<rparr>))"

definition with_max_provider_failures :: "u32 \<Rightarrow> WorkflowPolicy \<Rightarrow> DispatchError + WorkflowPolicy" where
  "with_max_provider_failures n policy =
    (if n = 0 then Inl InvalidPolicy else Inr (policy\<lparr>wp_max_provider_failures := n\<rparr>))"

definition with_max_hermes_attempts :: "u32 \<Rightarrow> WorkflowPolicy \<Rightarrow> DispatchError + WorkflowPolicy" where
  "with_max_hermes_attempts n policy =
    (if n = 0 then Inl InvalidPolicy else Inr (policy\<lparr>wp_max_hermes_attempts := Some n\<rparr>))"

definition with_hermes_scratch_root :: "string \<Rightarrow> WorkflowPolicy \<Rightarrow> DispatchError + WorkflowPolicy" where
  "with_hermes_scratch_root root policy =
    (if \<not> is_absolute root \<or> ends_with ''/'' root \<or> \<not> valid_text root 4096 \<or>
        list_ex (\<lambda>part. part \<in> {ParentDir, CurDir}) (path_components root) \<or>
        path_starts_with root (wp_workspace policy) \<or> path_starts_with (wp_workspace policy) root
     then Inl InvalidPolicy
     else Inr (policy\<lparr>wp_hermes_scratch_root := Some root\<rparr>))"

definition with_sensitive_scope_categories ::
  "string list \<Rightarrow> WorkflowPolicy \<Rightarrow> DispatchError + WorkflowPolicy" where
  "with_sensitive_scope_categories categories policy =
    (if categories = [] \<or> length (remdups categories) \<noteq> length categories \<or>
        list_ex (\<lambda>category. \<not> valid_text category 128) categories
     then Inl InvalidPolicy
     else Inr (policy\<lparr>wp_sensitive_scope_categories := categories\<rparr>))"

definition policy_role :: "WorkflowPolicy \<Rightarrow> WorkerRole \<Rightarrow> DispatchError + RolePolicy" where
  "policy_role policy role =
     ok_or (find (\<lambda>r. rp_role r = role \<and> rp_reviewer_id r = None) (wp_roles policy)) InvalidPolicy"

definition reviewers :: "WorkflowPolicy \<Rightarrow> RolePolicy list" where
  "reviewers policy = filter (\<lambda>r. is_reviewer (rp_role r)) (wp_roles policy)"

definition required_reviewers :: "WorkflowPolicy \<Rightarrow> RolePolicy list" where
  "required_reviewers policy = filter (\<lambda>r. rp_review_mode r = Some Required) (reviewers policy)"

definition reviewer :: "WorkflowPolicy \<Rightarrow> string \<Rightarrow> DispatchError + RolePolicy" where
  "reviewer policy reviewer_id =
     ok_or (find (\<lambda>r. rp_reviewer_id r = Some reviewer_id) (reviewers policy)) InvalidPolicy"

section \<open>What a policy guarantees\<close>

definition wf_policy :: "WorkflowPolicy \<Rightarrow> bool" where
  "wf_policy policy \<longleftrightarrow>
     valid_id (wp_board policy) \<and> is_absolute (wp_workspace policy) \<and>
     valid_branch_prefix (wp_branch_prefix policy) \<and>
     (\<forall>r \<in> set (wp_roles policy). valid_role_policy r) \<and>
     (\<forall>role. \<not> is_reviewer role \<longrightarrow> length (filter (\<lambda>r. rp_role r = role) (wp_roles policy)) = 1) \<and>
     distinct (map rp_reviewer_id (reviewers policy)) \<and>
     (\<forall>role. is_reviewer role \<longrightarrow> (\<exists>r \<in> set (required_reviewers policy). rp_role r = role)) \<and>
     0 < wp_max_provider_failures policy \<and> wp_max_hermes_attempts policy \<noteq> Some 0 \<and>
     (\<forall>jobs. wp_cargo_jobs policy = Some jobs \<longrightarrow> 1 \<le> jobs \<and> jobs \<le> 8) \<and>
     distinct (wp_sensitive_scope_categories policy) \<and>
     (\<forall>root. wp_hermes_scratch_root policy = Some root \<longrightarrow>
        is_absolute root \<and> ParentDir \<notin> set (path_components root) \<and>
        \<not> path_starts_with root (wp_workspace policy) \<and> \<not> path_starts_with (wp_workspace policy) root)"

lemma map_filter_reviewer_ids:
  "list_all valid_role_policy roles \<Longrightarrow>
     List.map_filter rp_reviewer_id roles =
       map (\<lambda>r. the (rp_reviewer_id r)) (filter (\<lambda>r. is_reviewer (rp_role r)) roles) \<and>
     (\<forall>r \<in> set roles. is_reviewer (rp_role r) \<longleftrightarrow> rp_reviewer_id r \<noteq> None)"
  by (induction roles)
    (auto simp: List.map_filter_simps valid_role_policy_def review_binding_valid_def
      split: option.splits if_splits)

lemma reviewer_ids_distinct:
  assumes "list_all valid_role_policy roles"
    and "length (remdups (List.map_filter rp_reviewer_id roles)) = length (filter (\<lambda>r. is_reviewer (rp_role r)) roles)"
  shows "distinct (map rp_reviewer_id (filter (\<lambda>r. is_reviewer (rp_role r)) roles))"
proof -
  let ?rs = "filter (\<lambda>r. is_reviewer (rp_role r)) roles"
  note ids = map_filter_reviewer_ids [OF assms(1)]
  have "length (remdups (map (\<lambda>r. the (rp_reviewer_id r)) ?rs)) = length (map (\<lambda>r. the (rp_reviewer_id r)) ?rs)"
    using assms(2) ids by simp
  then have "distinct (map (\<lambda>r. the (rp_reviewer_id r)) ?rs)"
    by (simp only: length_remdups_eq remdups_id_iff_distinct)
  then have "distinct (map Some (map (\<lambda>r. the (rp_reviewer_id r)) ?rs))"
    unfolding distinct_map [of Some] by (intro conjI inj_onI) simp_all
  moreover have "map rp_reviewer_id ?rs = map Some (map (\<lambda>r. the (rp_reviewer_id r)) ?rs)"
    using ids by auto
  ultimately show ?thesis by argo
qed

lemma not_reviewer: "\<not> is_reviewer role \<longleftrightarrow> role \<in> {Planner, Builder, FinalReviewer}"
  by (cases role) (simp_all add: is_reviewer_def)

lemma WorkflowPolicy_new_wf:
  assumes "WorkflowPolicy_new board workspace branch_prefix roles = Inr policy"
  shows "wf_policy policy"
proof -
  from assms have valid: "valid_id board" "starts_with ''/'' workspace" "valid_branch_prefix branch_prefix"
    "list_all valid_role_policy roles"
    and fixed: "\<forall>role \<in> {Planner, Builder, FinalReviewer}. length (filter (\<lambda>r. rp_role r = role) roles) = 1"
    and ids: "length (remdups (List.map_filter rp_reviewer_id roles)) =
      length (filter (\<lambda>r. is_reviewer (rp_role r)) roles)"
    and lanes: "\<forall>role \<in> {ReviewerGeneral, ReviewerSecperf}.
      \<exists>r \<in> set roles. rp_role r = role \<and> rp_review_mode r = Some Required"
    and policy: "wp_board policy = board" "wp_workspace policy = workspace" "wp_branch_prefix policy = branch_prefix"
      "wp_roles policy = roles" "wp_max_provider_failures policy = 1" "wp_max_hermes_attempts policy = None"
      "wp_cargo_jobs policy = None" "wp_sensitive_scope_categories policy = []" "wp_hermes_scratch_root policy = None"
    by (auto simp: WorkflowPolicy_new_def Let_def list_ex_iff split: if_splits)
  have "\<exists>r \<in> set (required_reviewers policy). rp_role r = role" if "is_reviewer role" for role
    using lanes that by (fastforce simp: required_reviewers_def reviewers_def policy is_reviewer_def)
  moreover have "distinct (map rp_reviewer_id (reviewers policy))"
    using reviewer_ids_distinct [OF valid(4) ids] by (simp add: reviewers_def policy)
  ultimately show ?thesis
    using valid fixed unfolding wf_policy_def not_reviewer policy by (auto simp: list_all_iff is_absolute_def)
qed

lemmas wf_fields = wf_policy_def reviewers_def required_reviewers_def

lemma wf_updates:
  assumes "wf_policy p"
  shows "wf_policy (p\<lparr>wp_isolated_reviews := b\<rparr>)"
    and "1 \<le> n \<Longrightarrow> n \<le> 8 \<Longrightarrow> wf_policy (p\<lparr>wp_cargo_jobs := Some n\<rparr>)"
    and "n \<noteq> 0 \<Longrightarrow> wf_policy (p\<lparr>wp_max_provider_failures := n\<rparr>)"
    and "n \<noteq> 0 \<Longrightarrow> wf_policy (p\<lparr>wp_max_hermes_attempts := Some n\<rparr>)"
    and "is_absolute root \<Longrightarrow> ParentDir \<notin> set (path_components root) \<Longrightarrow>
      \<not> path_starts_with root (wp_workspace p) \<Longrightarrow> \<not> path_starts_with (wp_workspace p) root \<Longrightarrow>
      wf_policy (p\<lparr>wp_hermes_scratch_root := Some root\<rparr>)"
    and "distinct cs \<Longrightarrow> wf_policy (p\<lparr>wp_sensitive_scope_categories := cs\<rparr>)"
  using assms unfolding wf_fields by (simp_all add: word_gt_0)

lemma builder_wf:
  assumes "wf_policy p"
  shows "wf_policy (with_isolated_reviews p)"
    and "with_cargo_jobs n p = Inr q \<Longrightarrow> wf_policy q"
    and "with_max_provider_failures n p = Inr q \<Longrightarrow> wf_policy q"
    and "with_max_hermes_attempts n p = Inr q \<Longrightarrow> wf_policy q"
    and "with_hermes_scratch_root root p = Inr q \<Longrightarrow> wf_policy q"
    and "with_sensitive_scope_categories cs p = Inr q \<Longrightarrow> wf_policy q"
  using wf_updates [OF assms]
  by (auto simp: with_isolated_reviews_def with_cargo_jobs_def with_max_provider_failures_def
      with_max_hermes_attempts_def with_hermes_scratch_root_def with_sensitive_scope_categories_def
      length_remdups_eq list_ex_iff split: if_splits)

text \<open>The policies a program can hold: the fields of \<open>WorkflowPolicy\<close> are private, so that each one
  came from \<open>new\<close> through builders.\<close>

inductive built_policy :: "WorkflowPolicy \<Rightarrow> bool" where
  new: "WorkflowPolicy_new board workspace branch_prefix roles = Inr p \<Longrightarrow> built_policy p"
| isolated: "built_policy p \<Longrightarrow> built_policy (with_isolated_reviews p)"
| jobs: "built_policy p \<Longrightarrow> with_cargo_jobs n p = Inr q \<Longrightarrow> built_policy q"
| failures: "built_policy p \<Longrightarrow> with_max_provider_failures n p = Inr q \<Longrightarrow> built_policy q"
| attempts: "built_policy p \<Longrightarrow> with_max_hermes_attempts n p = Inr q \<Longrightarrow> built_policy q"
| scratch: "built_policy p \<Longrightarrow> with_hermes_scratch_root root p = Inr q \<Longrightarrow> built_policy q"
| scopes: "built_policy p \<Longrightarrow> with_sensitive_scope_categories cs p = Inr q \<Longrightarrow> built_policy q"

lemma built_wf: "built_policy p \<Longrightarrow> wf_policy p"
  by (induction rule: built_policy.induct) (blast intro: WorkflowPolicy_new_wf builder_wf)+

text \<open>The binding of a role that is played once, and of a reviewer, is found and is a valid one.\<close>

lemma policy_role_found:
  assumes "wf_policy p" "\<not> is_reviewer role"
  obtains r where "policy_role p role = Inr r" "r \<in> set (wp_roles p)" "rp_role r = role"
    "rp_reviewer_id r = None" "valid_role_policy r"
proof -
  from assms have one: "length (filter (\<lambda>r. rp_role r = role) (wp_roles p)) = 1"
    and valid: "\<forall>r \<in> set (wp_roles p). valid_role_policy r"
    by (simp_all add: wf_policy_def)
  from one have "filter (\<lambda>r. rp_role r = role) (wp_roles p) \<noteq> []" by auto
  then obtain r where r: "r \<in> set (wp_roles p)" "rp_role r = role" by (auto simp: filter_empty_conv)
  with valid assms(2) have "rp_reviewer_id r = None"
    by (auto simp: valid_role_policy_def review_binding_valid_def)
  with r obtain q where "find (\<lambda>r. rp_role r = role \<and> rp_reviewer_id r = None) (wp_roles p) = Some q"
    by (cases "find (\<lambda>r. rp_role r = role \<and> rp_reviewer_id r = None) (wp_roles p)") (auto simp: find_None_iff)
  then show ?thesis using that [of q] valid by (auto simp: policy_role_def find_Some_iff)
qed

lemma reviewer_valid:
  assumes "wf_policy p" "r \<in> set (reviewers p)"
  shows "valid_role_policy r \<and> is_reviewer (rp_role r) \<and> (\<exists>i. rp_reviewer_id r = Some i \<and> valid_id i) \<and>
    rp_review_mode r \<noteq> None"
proof -
  from assms have "valid_role_policy r" "is_reviewer (rp_role r)" by (auto simp: wf_policy_def reviewers_def)
  then show ?thesis by (auto simp: valid_role_policy_def review_binding_valid_def split: option.splits)
qed

lemma reviewer_found:
  assumes "wf_policy p" "r \<in> set (reviewers p)"
  shows "reviewer p (the (rp_reviewer_id r)) = Inr r"
proof -
  from reviewer_valid [OF assms] obtain i where i: "rp_reviewer_id r = Some i" by blast
  have "distinct (map rp_reviewer_id (reviewers p))" using assms(1) by (simp add: wf_policy_def)
  with assms(2) i show ?thesis by (simp add: reviewer_def find_unique)
qed

section \<open>A sample policy\<close>

definition sample_role :: "WorkerRole \<Rightarrow> string option \<Rightarrow> ExecutionKind \<Rightarrow> string \<Rightarrow> RolePolicy" where
  "sample_role role i execution provider =
     \<lparr>rp_role = role, rp_reviewer_id = i, rp_review_mode = map_option (\<lambda>_. Required) i,
      rp_profile = ''p'', rp_execution = execution, rp_provider = provider, rp_model = ''m-1'',
      rp_max_runtime = ''PT30M'', rp_priority = 1, rp_skills = [''workflow-contract'', role_skill_name role]\<rparr>"

definition sample_roles :: "RolePolicy list" where
  "sample_roles =
     [sample_role Planner None ExecutionKind.Hermes ''openai'', sample_role Builder None ExecutionKind.Direct ''cursor'',
      sample_role ReviewerGeneral (Some ''general'') ExecutionKind.Hermes ''openai'',
      sample_role ReviewerSecperf (Some ''secperf'') ExecutionKind.Direct ''cursor'',
      sample_role FinalReviewer None ExecutionKind.Hermes ''openai'']"

definition sample_policy :: WorkflowPolicy where
  "sample_policy = \<lparr>wp_board = ''pip'', wp_workspace = ''/w'', wp_branch_prefix = ''pip/'',
     wp_sensitive_scope_categories = [], wp_max_provider_failures = 1, wp_max_hermes_attempts = None,
     wp_hermes_scratch_root = None, wp_isolated_reviews = False, wp_cargo_jobs = None,
     wp_roles = sample_roles\<rparr>"

lemma sample_policy_new: "WorkflowPolicy_new ''pip'' ''/w'' ''pip/'' sample_roles = Inr sample_policy"
proof -
  have "\<not> blank ''/w''" by (simp add: byte_def)
  then have "valid_text ''/w'' 4096" by (simp add: valid_text_def byte_def)
  moreover have "list_all valid_role_policy sample_roles" by code_simp
  moreover have "valid_branch_prefix ''pip/''" "valid_id ''pip''" by code_simp+
  ultimately show ?thesis
    by (simp add: WorkflowPolicy_new_def Let_def starts_with_def sample_policy_def)
      (simp add: sample_roles_def sample_role_def is_reviewer_def List.map_filter_simps)
qed



end
