(* ===== verification/Scheduling.thy ===== *)
theory Scheduling
  imports RolePolicies StateMachine Transitions Records "HOL-Library.Product_Lexorder"
begin

text \<open>
  Policy-driven worker dispatch, the second half of \<open>pip-controller/src/scheduling.rs\<close>: a claimed
  dispatch effect becomes one job per role, or one per reviewer, whose body binds the case, its
  revision, plan, pull request and exact head, the role's provider, model and skills commit, and
  an immutable bundle of the case's history with an index into it. The theorems show that
  reviewers are dispatched exactly once each with identities of their own, and what every body binds.
\<close>

section \<open>Objects\<close>

text \<open>\<open>Map::from_iter\<close> and a sequence of \<open>Map::insert\<close>: a later entry replaces an earlier one.\<close>

definition object_of :: "(string \<times> json) list \<Rightarrow> json_object" where
  "object_of entries = fold (\<lambda>(k, v). object_insert k v) entries []"

definition object_remove :: "string \<Rightarrow> json_object \<Rightarrow> json_object" where
  "object_remove k ms = filter (\<lambda>m. fst m \<noteq> k) ms"

definition json_strings :: "string list \<Rightarrow> json" where
  "json_strings xs = JArr (map JStr xs)"

definition keep_if :: "bool \<Rightarrow> 'a list \<Rightarrow> 'a list" where
  "keep_if b xs = (if b then xs else [])"

lemma map_of_object_of [simp]: "map_of (object_of entries) k = map_of (rev entries) k"
proof -
  have "map_of (fold (\<lambda>(k, v). object_insert k v) entries ms) = map_of (rev entries @ ms)" for ms
    by (induction entries arbitrary: ms) auto
  from this [of "[]"] show ?thesis by (simp add: object_of_def)
qed

section \<open>Jobs\<close>

record DispatchContext =
  dx_case_id :: CaseId
  dx_state_revision :: StateRevision
  dx_plan_version :: "PlanVersion option"
  dx_remediation_round :: u32
  dx_pr_number :: "PullRequestNumber option"
  dx_head_sha :: "GitSha option"
  dx_skills_repository_commit :: GitSha
  dx_immutable_evidence_bundle :: json

record WorkflowDispatch =
  dw_role :: WorkerRole
  dw_worker_projection_key :: string
  dw_worker_body :: json
  dw_worker_effect_id :: string
  dw_worker_title :: string
  dw_source_effect_id :: string
  dw_profile :: string
  dw_workspace :: string
  dw_direct_workspace :: string
  dw_execution :: ExecutionKind
  dw_skills :: "string list"
  dw_provider :: string
  dw_model :: string
  dw_max_runtime :: string
  dw_max_retries :: u32
  dw_priority :: u32
  dw_board :: string

record TaskCreateSpec =
  tcs_board :: string
  tcs_effect_id :: string
  tcs_projection_key :: string
  tcs_title :: string
  tcs_body :: json
  tcs_assignee :: string
  tcs_workspace :: string
  tcs_skills :: "string list"
  tcs_provider :: string
  tcs_model :: string
  tcs_max_runtime :: string
  tcs_max_retries :: u32
  tcs_priority :: u32
  tcs_parent_task_ids :: "string list"

record DirectTaskSpec =
  dts_schema_version :: u32
  dts_source_effect_id :: string
  dts_task_id :: string
  dts_title :: string
  dts_body :: json
  dts_role :: WorkerRole
  dts_profile :: string
  dts_workspace :: string
  dts_skills :: "string list"
  dts_provider :: string
  dts_model :: string
  dts_max_runtime :: string
  dts_priority :: u32

definition hermes_task :: "WorkflowDispatch \<Rightarrow> DispatchError + TaskCreateSpec" where
  "hermes_task d =
    (if dw_execution d \<noteq> ExecutionKind.Hermes then Inl WrongExecutor
     else Inr \<lparr>tcs_board = dw_board d, tcs_effect_id = dw_worker_effect_id d,
       tcs_projection_key = dw_worker_projection_key d, tcs_title = dw_worker_title d,
       tcs_body = dw_worker_body d, tcs_assignee = dw_profile d,
       tcs_workspace = ''dir:'' @ dw_workspace d, tcs_skills = dw_skills d,
       tcs_provider = dw_provider d, tcs_model = dw_model d, tcs_max_runtime = dw_max_runtime d,
       tcs_max_retries = dw_max_retries d, tcs_priority = dw_priority d, tcs_parent_task_ids = []\<rparr>)"

definition direct_task :: "WorkflowDispatch \<Rightarrow> DispatchError + DirectTaskSpec" where
  "direct_task d =
    (if dw_execution d \<noteq> ExecutionKind.Direct then Inl WrongExecutor
     else Inr \<lparr>dts_schema_version = 1, dts_source_effect_id = dw_source_effect_id d,
       dts_task_id = dw_worker_projection_key d, dts_title = dw_worker_title d,
       dts_body = dw_worker_body d, dts_role = dw_role d, dts_profile = dw_profile d,
       dts_workspace = dw_direct_workspace d, dts_skills = dw_skills d, dts_provider = dw_provider d,
       dts_model = dw_model d, dts_max_runtime = dw_max_runtime d, dts_priority = dw_priority d\<rparr>)"

section \<open>The evidence bundle\<close>

definition MAX_EVIDENCE_BUNDLE_BYTES :: int where
  "MAX_EVIDENCE_BUNDLE_BYTES = 8 * 1024 * 1024"

text \<open>\<open>to_value\<close> of the history: members sorted by name.\<close>

definition StoredEvent_value :: "StoredEvent \<Rightarrow> json" where
  "StoredEvent_value e = JObj (object_of
     [(''event_id'', JStr (se_event_id e)), (''state_revision'', JPos (se_state_revision e)),
      (''observed_at'', JPos (se_observed_at e)), (''event_type'', JStr (se_event_type e)),
      (''payload'', se_payload e), (''payload_sha256'', JStr (se_payload_sha256 e))])"

definition StoredRun_value :: "StoredRun \<Rightarrow> json" where
  "StoredRun_value r = JObj (object_of
     [(''run_id'', JStr (sr_run_id r)), (''case_key'', JStr (sr_case_key r)),
      (''event_id'', JStr (sr_event_id r)), (''task_id'', JStr (sr_task_id r)),
      (''role'', JStr (sr_role r)), (''payload'', sr_payload r),
      (''payload_sha256'', JStr (sr_payload_sha256 r)), (''accepted_at'', JPos (sr_accepted_at r))])"

definition StoredEvidence_value :: "StoredEvidence \<Rightarrow> json" where
  "StoredEvidence_value v = JObj (object_of
     [(''evidence_id'', JStr (sv_evidence_id v)), (''kind'', JStr (sv_kind v)),
      (''source'', JStr (sv_source v)), (''observed_at'', JPos (sv_observed_at v)),
      (''payload'', sv_payload v), (''payload_sha256'', JStr (sv_payload_sha256 v))])"

definition StoredFinding_value :: "StoredFinding \<Rightarrow> json" where
  "StoredFinding_value f = JObj (object_of
     [(''finding_id'', JStr (sf_finding_id f)), (''origin_role'', JStr (sf_origin_role f)),
      (''reviewed_head_sha'', JStr (sf_reviewed_head_sha f)), (''payload'', sf_payload f),
      (''payload_sha256'', JStr (sf_payload_sha256 f)), (''recorded_at'', JPos (sf_recorded_at f))])"

definition StoredReviewObservation_value :: "StoredReviewObservation \<Rightarrow> json" where
  "StoredReviewObservation_value v = JObj (object_of
     [(''observation_id'', JStr (so_observation_id v)), (''effect_id'', JStr (so_effect_id v)),
      (''case_key'', JStr (so_case_key v)), (''task_id'', JStr (so_task_id v)),
      (''reviewer_id'', JStr (so_reviewer_id v)), (''role'', JStr (so_role v)),
      (''review_mode'', JStr (so_review_mode v)), (''plan_version'', json_u32 (so_plan_version v)),
      (''review_round'', json_u32 (so_review_round v)), (''pr_number'', JPos (so_pr_number v)),
      (''reviewed_head_sha'', JStr (so_reviewed_head_sha v)), (''payload'', so_payload v),
      (''payload_sha256'', JStr (so_payload_sha256 v)), (''recorded_at'', JPos (so_recorded_at v))])"

text \<open>An event whose payload is that of an accepted run refers to the run instead.\<close>

definition reference_payload :: "StoredRun list \<Rightarrow> StoredEvent \<Rightarrow> json" where
  "reference_payload rs e =
    (case StoredEvent_value e of
       JObj ms \<Rightarrow>
         (case map_of (rev (map (\<lambda>r. (sr_event_id r, r)) rs)) (se_event_id e) of
            Some run \<Rightarrow>
              if se_payload_sha256 e = sr_payload_sha256 run \<and> se_payload e = sr_payload run
              then JObj (object_insert ''payload_ref'' (JObj (object_of
                     [(''run_id'', JStr (sr_run_id run)), (''payload_sha256'', JStr (sr_payload_sha256 run))]))
                     (object_remove ''payload'' ms))
              else JObj ms
          | None \<Rightarrow> JObj ms)
     | v \<Rightarrow> v)"

definition history_records :: "ImmutableCaseHistory \<Rightarrow> json" where
  "history_records hist = JObj (object_of
     [(''events'', JArr (map (reference_payload (ih_runs hist)) (ih_events hist))),
      (''runs'', JArr (map StoredRun_value (ih_runs hist))),
      (''evidence'', JArr (map StoredEvidence_value (ih_evidence hist))),
      (''findings'', JArr (map StoredFinding_value (ih_findings hist))),
      (''review_observations'', JArr (map StoredReviewObservation_value (ih_review_observations hist)))])"

definition immutable_evidence_bundle :: "codec \<Rightarrow> StoredCase \<Rightarrow> Store \<Rightarrow> DispatchError + json" where
  "immutable_evidence_bundle C stored s =
    rbind (map_err (\<lambda>_. InvalidEvidenceBundle) (immutable_history_for_case C (sc_case_key stored) s))
      (\<lambda>hist.
    if ih_events hist = [] \<or> se_state_revision (last (ih_events hist)) \<noteq> sc_state_revision stored
    then Inl InvalidEvidenceBundle
    else
      let unsigned = object_of
            [(''schema_version'', JPos 2), (''case_key'', JStr (sc_case_key stored)),
             (''bound_state_revision'', JPos (sc_state_revision stored)),
             (''records'', history_records hist)];
          bundle = object_insert ''sha256''
            (JStr (sha256_hex C (json_to_string C (JObj unsigned)))) unsigned;
          bytes = int (length (json_to_string C (JObj bundle))) in
      if MAX_EVIDENCE_BUNDLE_BYTES < bytes
      then Inl (EvidenceBundleTooLarge bytes MAX_EVIDENCE_BUNDLE_BYTES)
      else Inr (JObj bundle))"

section \<open>The reading index\<close>

definition rows_of :: "json \<Rightarrow> string \<Rightarrow> json list" where
  "rows_of records kind = (case as_array (json_at records kind) of None \<Rightarrow> [] | Some rows \<Rightarrow> rows)"

text \<open>\<open>rposition\<close>: the index of the last row that satisfies the predicate.\<close>

definition rposition :: "(json \<Rightarrow> bool) \<Rightarrow> json list \<Rightarrow> nat list" where
  "rposition P rows = (case rev (filter (\<lambda>i. P (rows ! i)) [0..<length rows]) of [] \<Rightarrow> [] | i # _ \<Rightarrow> [i])"

definition latest_row :: "json \<Rightarrow> string \<Rightarrow> (json \<Rightarrow> bool) \<Rightarrow> (string \<times> nat) list" where
  "latest_row records kind P = map (\<lambda>i. (kind, i)) (rposition P (rows_of records kind))"

definition every_row :: "json \<Rightarrow> string \<Rightarrow> (json \<Rightarrow> bool) \<Rightarrow> (string \<times> nat) list" where
  "every_row records kind P =
     map (\<lambda>i. (kind, i)) (filter (\<lambda>i. P (rows_of records kind ! i)) [0..<length (rows_of records kind)])"

text \<open>The last loop, from the newest run to the oldest: the newest matching run of each reviewer.\<close>

fun newest_reviews :: "(json \<Rightarrow> string option) \<Rightarrow> string list \<Rightarrow> (nat \<times> json) list \<Rightarrow> nat list" where
  "newest_reviews matching seen [] = []"
| "newest_reviews matching seen ((i, row) # rows) =
     (case matching row of
        Some i' \<Rightarrow> if i' \<in> set seen then newest_reviews matching seen rows
                 else i # newest_reviews matching (i' # seen) rows
      | None \<Rightarrow> newest_reviews matching seen rows)"

definition review_of_head :: "DispatchContext \<Rightarrow> RolePolicy \<Rightarrow> json \<Rightarrow> string option" where
  "review_of_head context binding row =
    (let head = map_option GitSha_to_string (dx_head_sha context);
         value = json_at row ''payload'' in
     case as_str (json_at value ''reviewer_id'') of
       None \<Rightarrow> None
     | Some i \<Rightarrow>
         if head \<noteq> None \<and> as_str (json_at value ''reviewed_head_sha'') = head \<and>
            (\<not> is_reviewer (rp_role binding) \<or> Some i = rp_reviewer_id binding)
         then Some i else None)"

definition focus_rows :: "DispatchContext \<Rightarrow> RolePolicy \<Rightarrow> (string \<times> nat) list" where
  "focus_rows context binding =
    (let records = json_at (dx_immutable_evidence_bundle context) ''records'';
         role = rp_role binding;
         head = map_option GitSha_to_string (dx_head_sha context);
         independent = is_reviewer role in
     latest_row records ''events'' (\<lambda>row. as_str (json_at row ''event_type'') \<in>
       {Some ''ISSUE_AUTHORIZED'', Some ''ISSUE_REAUTHORIZED''}) @
     latest_row records ''runs'' (\<lambda>row. json_at row ''role'' = JStr ''planner'' \<and>
       as_u64 (json_at (json_at row ''payload'') ''plan_version'') =
         map_option (\<lambda>v. ucast (plan_version_get v)) (dx_plan_version context)) @
     keep_if (role = Builder) (latest_row records ''events''
       (\<lambda>row. json_at row ''event_type'' = JStr ''INFRASTRUCTURE_RECOVERY_AUTHORIZED'')) @
     keep_if (role \<noteq> Planner) (
       latest_row records ''runs'' (\<lambda>row. json_at row ''role'' = JStr ''builder'' \<and> head \<noteq> None \<and>
         as_str (json_at (json_at row ''payload'') ''head_sha'') = head) @
       latest_row records ''evidence'' (\<lambda>row. json_at row ''kind'' = JStr ''GITHUB_CI'' \<and> head \<noteq> None \<and>
         as_str (json_at (json_at (json_at row ''payload'') ''pull_request'') ''head_sha'') = head)) @
     keep_if (role = FinalReviewer) (latest_row records ''evidence''
       (\<lambda>row. json_at row ''kind'' = JStr ''GITHUB_FINAL_PREFLIGHT'')) @
     keep_if (role = Builder) (latest_row records ''evidence''
       (\<lambda>row. json_at row ''kind'' = JStr ''GITHUB_REVIEW_FEEDBACK'')) @
     every_row records ''evidence'' (\<lambda>row. json_at row ''kind'' = JStr ''HUMAN_DISCUSSION'') @
     every_row records ''findings'' (\<lambda>row. \<not> independent \<or>
       as_str (json_at row ''origin_role'') = rp_reviewer_id binding) @
     keep_if (role \<noteq> Planner) (map (\<lambda>i. (''runs'', i))
       (newest_reviews (review_of_head context binding) []
         (rev (enumerate 0 (rows_of records ''runs''))))))"

definition evidence_focus :: "DispatchContext \<Rightarrow> RolePolicy \<Rightarrow> json" where
  "evidence_focus context binding =
    (let records = json_at (dx_immutable_evidence_bundle context) ''records'' in
     JObj (object_of
      [(''schema_version'', JPos 1),
       (''records'', JArr (map (\<lambda>(kind, index). JObj (object_of
          [(''pointer'', JStr (''/records/'' @ kind @ ''/'' @ show_nat index)),
           (''payload_sha256'', json_at (rows_of records kind ! index) ''payload_sha256'')]))
          (sort (remdups (focus_rows context binding)))))]))"

section \<open>Dispatching\<close>

text \<open>\<open>Path::parent\<close> of a path whose last element is a name, \<open>Path::file_name\<close> and \<open>Path::join\<close> with a
  relative path. The parent has no separators and no \<open>.\<close> elements at its end.\<close>

function trim_path_end :: "string \<Rightarrow> string" where
  "trim_path_end p =
    (if length p \<le> 1 then p
     else if ends_with ''/'' p then trim_path_end (butlast p)
     else if ends_with ''/.'' p then trim_path_end (butlast p)
     else p)"
  by pat_completeness auto
termination by (relation "measure length") auto

declare trim_path_end.simps [simp del]

definition path_parent :: "string \<Rightarrow> string" where
  "path_parent p = trim_path_end (rev (dropWhile (\<lambda>c. c \<noteq> CHR ''/'') (rev p)))"

definition path_file_name :: "string \<Rightarrow> string" where
  "path_file_name p = rev (takeWhile (\<lambda>c. c \<noteq> CHR ''/'') (rev p))"

definition path_join :: "string \<Rightarrow> string \<Rightarrow> string" where
  "path_join p q = (if p = [] \<or> ends_with ''/'' p then p @ q else p @ ''/'' @ q)"

definition review_root :: "codec \<Rightarrow> string \<Rightarrow> string \<Rightarrow> string" where
  "review_root C source projection_key =
     path_join (path_join (path_join (path_parent source) ''.reviews'') (path_file_name source))
       (sha256_hex C projection_key)"

definition review_snapshot :: "codec \<Rightarrow> string \<Rightarrow> string \<Rightarrow> string \<Rightarrow> json" where
  "review_snapshot C source projection_key head = JObj (object_of
     [(''schema_version'', JPos 1), (''source'', JStr source),
      (''root'', JStr (review_root C source projection_key)), (''head_sha'', JStr head),
      (''projection_key'', JStr projection_key)])"

definition require_review_binding :: "DispatchContext \<Rightarrow> DispatchError + unit" where
  "require_review_binding context =
    rbind (ok_or (dx_plan_version context) MissingPlan) (\<lambda>_.
    rbind (ok_or (dx_pr_number context) MissingPullRequest) (\<lambda>_.
    rbind (ok_or (dx_head_sha context) MissingExactHead) (\<lambda>_. Inr ())))"

definition case_numbers :: "CaseId \<Rightarrow> string \<times> string \<times> string" where
  "case_numbers c =
     (show_word (repository_id_get (cid_repository c)), show_word (issue_number_get (cid_issue c)),
      show_word (workflow_version_get (cid_workflow c)))"

definition case_workspace :: "WorkflowPolicy \<Rightarrow> CaseId \<Rightarrow> string" where
  "case_workspace policy c =
    (case case_numbers c of (repository, issue, workflow) \<Rightarrow>
       trim_end_matches (CHR ''/'') (wp_workspace policy) @ ''/repo-'' @ repository @ ''-issue-'' @ issue @
       ''-workflow-'' @ workflow)"

definition assigned_branch :: "WorkflowPolicy \<Rightarrow> CaseId \<Rightarrow> string" where
  "assigned_branch policy c =
    (case case_numbers c of (repository, issue, workflow) \<Rightarrow>
       wp_branch_prefix policy @ ''repo-'' @ repository @ ''/issue-'' @ issue @ ''/workflow-'' @ workflow)"

definition review_round :: "DispatchContext \<Rightarrow> u32" where
  "review_round context = saturating_add (dx_remediation_round context) 1"

text \<open>The release build does not check the addition.\<close>

definition next_plan :: "DispatchContext \<Rightarrow> u32" where
  "next_plan context = (case dx_plan_version context of None \<Rightarrow> 1 | Some v \<Rightarrow> plan_version_get v + 1)"

definition dispatch_round :: "WorkerRole \<Rightarrow> DispatchContext \<Rightarrow> u32" where
  "dispatch_round role context = (if role = Planner then next_plan context else review_round context)"

definition worker_id :: "RolePolicy \<Rightarrow> string" where
  "worker_id binding =
     (case rp_reviewer_id binding of None \<Rightarrow> WorkerRole_wire (rp_role binding) | Some i \<Rightarrow> i)"

definition worker_projection_key :: "RolePolicy \<Rightarrow> DispatchContext \<Rightarrow> string" where
  "worker_projection_key binding context =
     CaseId_to_string (dx_case_id context) @ '':'' @ worker_id binding @ '':round:'' @
     show_word (dispatch_round (rp_role binding) context) @ '':revision:'' @
     show_word (state_revision_get (dx_state_revision context)) @ '':worker''"

definition result_plan_version :: "WorkerRole \<Rightarrow> DispatchContext \<Rightarrow> u32" where
  "result_plan_version role context =
    (if role = Planner then next_plan context
     else case dx_plan_version context of None \<Rightarrow> 0 | Some v \<Rightarrow> plan_version_get v)"

text \<open>The members of the body up to the review snapshot, in the order they are inserted.\<close>

definition identity_members :: "RolePolicy \<Rightarrow> DispatchContext \<Rightarrow> (string \<times> json) list" where
  "identity_members binding context =
    (let c = dx_case_id context; plan = result_plan_version (rp_role binding) context in
     [(''case_key'', JStr (CaseId_to_string c)),
      (''repository_id'', JPos (repository_id_get (cid_repository c))),
      (''issue_number'', JPos (issue_number_get (cid_issue c))),
      (''workflow_version'', json_u32 (workflow_version_get (cid_workflow c))),
      (''state_revision'', JPos (state_revision_get (dx_state_revision context))),
      (''role'', JStr (WorkerRole_wire (rp_role binding))),
      (''remediation_round'', json_u32 (dx_remediation_round context))] @
     keep_if (0 < plan) [(''plan_version'', json_u32 plan)] @
     (case dx_pr_number context of None \<Rightarrow> [] | Some pr \<Rightarrow> [(''pr_number'', JPos (pr_number_get pr))]) @
     (case dx_head_sha context of None \<Rightarrow> []
      | Some head \<Rightarrow> [(''expected_head_sha'', JStr (GitSha_to_string head))]))"

definition role_members ::
  "RolePolicy \<Rightarrow> DispatchContext \<Rightarrow> WorkflowPolicy \<Rightarrow> DispatchError + (string \<times> json) list" where
  "role_members binding context policy =
    (let role = rp_role binding; round = json_u32 (review_round context) in
     rbind (if is_reviewer role then
              (case rp_review_mode binding of
                 None \<Rightarrow> Inl InvalidPolicy
               | Some mode \<Rightarrow> Inr [(''review_round'', round), (''reviewer_id'', JStr (worker_id binding)),
                   (''review_mode'', JStr (ReviewMode_wire mode))])
            else Inr []) (\<lambda>review.
     Inr (review @
       keep_if (role = FinalReviewer) [(''final_review_round'', round)] @
       keep_if (role = Planner \<and> wp_sensitive_scope_categories policy \<noteq> [])
         [(''sensitive_scope_categories'', json_strings (wp_sensitive_scope_categories policy))] @
       keep_if (role = Builder)
         [(''build_round'', json_u32 (dispatch_round role context)),
          (''assigned_branch'', JStr (assigned_branch policy (dx_case_id context))),
          (''assigned_worktree'', JStr (case_workspace policy (dx_case_id context)))])))"

definition binding_members :: "RolePolicy \<Rightarrow> DispatchContext \<Rightarrow> WorkflowPolicy \<Rightarrow> (string \<times> json) list" where
  "binding_members binding context policy =
     [(''execution'', JStr (case rp_execution binding of
        ExecutionKind.Hermes \<Rightarrow> ''hermes'' | ExecutionKind.Direct \<Rightarrow> ''direct'')),
      (''provider'', JStr (rp_provider binding)), (''model'', JStr (rp_model binding)),
      (''requested_model'', JStr (rp_provider binding @ ''/'' @ rp_model binding)),
      (''skills_repository_commit'', JStr (GitSha_to_string (dx_skills_repository_commit context))),
      (''immutable_evidence_bundle'', dx_immutable_evidence_bundle context),
      (''evidence_focus'', evidence_focus context binding)] @
     (case wp_cargo_jobs policy of None \<Rightarrow> [] | Some jobs \<Rightarrow> [(''cargo_jobs'', json_u32 jobs)])"

text \<open>The private scratch directory of a Hermes job.\<close>

definition scratch_root :: "codec \<Rightarrow> string \<Rightarrow> string \<Rightarrow> string" where
  "scratch_root C root key = root @ ''/'' @ take 16 (sha256_hex C key)"

definition scratch_members ::
  "codec \<Rightarrow> RolePolicy \<Rightarrow> DispatchContext \<Rightarrow> WorkflowPolicy \<Rightarrow> string \<Rightarrow>
     DispatchError + (string \<times> json) list" where
  "scratch_members C binding context policy workspace =
    (let key = worker_projection_key binding context in
     case wp_hermes_scratch_root policy of
       None \<Rightarrow> Inr []
     | Some root \<Rightarrow>
         if rp_execution binding \<noteq> ExecutionKind.Hermes then Inr []
         else let root = scratch_root C root key in
           if 56 < length (root @ ''/t'') then Inl InvalidPolicy
           else Inr
             [(''projection_key'', JStr key),
              (''immutable_evidence_ref'', JObj (object_of
                [(''schema_version'', JPos 1), (''path'', JStr (root @ ''/immutable-evidence.json'')),
                 (''sha256'', JStr (sha256_hex C (json_to_string C (dx_immutable_evidence_bundle context))))])),
              (''storage'', JObj (object_of
                [(''schema_version'', JPos 3), (''root'', JStr root), (''source'', JStr workspace),
                 (''cargo_target'', JStr (root @ ''/disposable/target'')),
                 (''cargo_home'', JStr (root @ ''/disposable/cargo-home'')),
                 (''temporary'', JStr (root @ ''/t'')), (''results'', JStr (root @ ''/results''))]))])"

definition dispatch ::
  "codec \<Rightarrow> string \<Rightarrow> string \<Rightarrow> RolePolicy \<Rightarrow> DispatchContext \<Rightarrow> WorkflowPolicy \<Rightarrow>
     DispatchError + WorkflowDispatch" where
  "dispatch C effect_id source_effect_id binding context policy =
    (let role = rp_role binding;
         key = worker_projection_key binding context;
         source = case_workspace policy (dx_case_id context) in
     rbind (reject_if (\<not> is_object (dx_immutable_evidence_bundle context)) InvalidEvidenceBundle) (\<lambda>_.
     rbind (if wp_isolated_reviews policy \<and> is_review_role role
            then rbind (ok_or (dx_head_sha context) InvalidPolicy) (\<lambda>head.
              Inr (Some (review_snapshot C source key (GitSha_to_string head))))
            else Inr None) (\<lambda>snapshot.
     let workspace = (case snapshot of None \<Rightarrow> source | Some _ \<Rightarrow> review_root C source key @ ''/source'') in
     rbind (role_members binding context policy) (\<lambda>role_entries.
     rbind (scratch_members C binding context policy workspace) (\<lambda>scratch.
     Inr \<lparr>dw_role = role, dw_worker_projection_key = key,
       dw_worker_body = JObj (object_of (identity_members binding context @ role_entries @
         binding_members binding context policy @
         (case snapshot of None \<Rightarrow> [] | Some v \<Rightarrow> [(''review_snapshot'', v)]) @ scratch)),
       dw_worker_effect_id = effect_id @ '':worker'',
       dw_worker_title = ''Run '' @ worker_id binding @ '' for '' @ CaseId_to_string (dx_case_id context),
       dw_source_effect_id = source_effect_id, dw_profile = rp_profile binding,
       dw_workspace = workspace, dw_direct_workspace = workspace, dw_execution = rp_execution binding,
       dw_skills = rp_skills binding, dw_provider = rp_provider binding, dw_model = rp_model binding,
       dw_max_runtime = rp_max_runtime binding,
       dw_max_retries = (case wp_max_hermes_attempts policy of
         None \<Rightarrow> wp_max_provider_failures policy | Some n \<Rightarrow> n),
       dw_priority = rp_priority binding, dw_board = wp_board policy\<rparr>)))))"

text \<open>The job of a role that is played once.\<close>

definition dispatch_one ::
  "codec \<Rightarrow> string \<Rightarrow> DispatchContext \<Rightarrow> WorkflowPolicy \<Rightarrow> WorkerRole \<Rightarrow>
     DispatchError + WorkflowDispatch list" where
  "dispatch_one C effect_id context policy role =
    rbind (policy_role policy role) (\<lambda>binding.
    rbind (dispatch C effect_id effect_id binding context policy) (\<lambda>d. Inr [d]))"

definition schedule_effect ::
  "codec \<Rightarrow> string \<Rightarrow> Effect \<Rightarrow> DispatchContext \<Rightarrow> WorkflowPolicy \<Rightarrow>
     DispatchError + WorkflowDispatch list" where
  "schedule_effect C effect_id effect context policy =
    (let one = dispatch_one C effect_id context policy in
     if \<not> valid_opaque effect_id 512 then Inl InvalidEffectId
     else case effect of
       DispatchPlanner \<Rightarrow> one Planner
     | DispatchBuilder \<Rightarrow> rbind (ok_or (dx_plan_version context) MissingPlan) (\<lambda>_. one Builder)
     | DispatchReviewers \<Rightarrow>
         rbind (require_review_binding context) (\<lambda>_.
         rmap (\<lambda>binding.
           rbind (ok_or (rp_reviewer_id binding) InvalidPolicy) (\<lambda>reviewer_id.
           dispatch C (effect_id @ '':'' @ reviewer_id) effect_id binding context policy))
           (reviewers policy))
     | DispatchFinalReviewer \<Rightarrow> rbind (require_review_binding context) (\<lambda>_. one FinalReviewer)
     | _ \<Rightarrow> Inr [])"

definition dispatch_effect :: "string \<Rightarrow> Effect option" where
  "dispatch_effect effect_type =
    (if effect_type = ''DISPATCH_PLANNER'' then Some DispatchPlanner
     else if effect_type = ''DISPATCH_BUILDER'' then Some DispatchBuilder
     else if effect_type = ''DISPATCH_REVIEWERS'' then Some DispatchReviewers
     else if effect_type = ''DISPATCH_FINAL_REVIEWER'' then Some DispatchFinalReviewer
     else None)"

text \<open>\<open>NonZeroU64::new(..).ok_or(..)\<close>, and \<open>head_sha.as_deref().map(GitSha::from_str).transpose()\<close>.\<close>

definition nonzero_or :: "'e \<Rightarrow> 'a::len word \<Rightarrow> 'e + 'a word" where
  "nonzero_or e n = ok_or (nonzero n) e"

definition parse_head :: "'e \<Rightarrow> string option \<Rightarrow> 'e + GitSha option" where
  "parse_head e head =
    (case head of None \<Rightarrow> Inr None
     | Some h \<Rightarrow> rbind (map_err (\<lambda>_. e) (GitSha_from_str h)) (\<lambda>sha. Inr (Some sha)))"

definition stored_case_id :: "'e \<Rightarrow> u64 \<Rightarrow> u64 \<Rightarrow> u32 \<Rightarrow> 'e + CaseId" where
  "stored_case_id e repository issue workflow =
    rbind (nonzero_or e repository) (\<lambda>repository.
    rbind (nonzero_or e issue) (\<lambda>issue.
    rbind (nonzero_or e workflow) (\<lambda>workflow.
    Inr \<lparr>cid_repository = RepositoryId repository, cid_issue = IssueNumber issue,
         cid_workflow = WorkflowVersion workflow\<rparr>)))"

definition schedule_claimed_dispatch ::
  "codec \<Rightarrow> ClaimedEffect \<Rightarrow> StoredCase \<Rightarrow> Store \<Rightarrow> WorkflowPolicy \<Rightarrow> GitSha \<Rightarrow>
     DispatchError + WorkflowDispatch list" where
  "schedule_claimed_dispatch C claimed stored s policy skills_repository_commit =
    (if ce_case_key claimed \<noteq> sc_case_key stored \<or> ce_state_revision claimed \<noteq> sc_state_revision stored
     then Inl StaleEffect
     else
       rbind (stored_case_id InvalidStoredCase (sc_repository_id stored) (sc_issue_number stored)
         (sc_workflow_version stored)) (\<lambda>case_id.
       rbind (reject_if (CaseId_to_string case_id \<noteq> sc_case_key stored) InvalidStoredCase) (\<lambda>_.
       rbind (ok_or (dispatch_effect (ce_effect_type claimed)) UnsupportedEffect) (\<lambda>effect.
       rbind (nonzero_or InvalidStoredCase (sc_state_revision stored)) (\<lambda>revision.
       rbind (parse_head InvalidStoredCase (sc_head_sha stored)) (\<lambda>head.
       rbind (immutable_evidence_bundle C stored s) (\<lambda>bundle.
       schedule_effect C (ce_effect_id claimed) effect
         \<lparr>dx_case_id = case_id, dx_state_revision = StateRevision revision,
          dx_plan_version = map_option PlanVersion (nonzero (sc_plan_version stored)),
          dx_remediation_round = sc_remediation_round stored,
          dx_pr_number = map_option PullRequestNumber (Option.bind (sc_pr_number stored) nonzero),
          dx_head_sha = head, dx_skills_repository_commit = skills_repository_commit,
          dx_immutable_evidence_bundle = bundle\<rparr> policy)))))))"

section \<open>What a job binds\<close>

lemma keep_if_simps [simp]: "keep_if True xs = xs" "keep_if False xs = []" "x \<in> set (keep_if b xs) \<longleftrightarrow> b \<and> x \<in> set xs"
  by (simp_all add: keep_if_def)

lemma map_of_rev_distinct: "distinct (map fst ps) \<Longrightarrow> (k, v) \<in> set ps \<Longrightarrow> map_of (rev ps) k = Some v"
  by (intro map_of_is_SomeI) (simp_all add: rev_map [symmetric])

definition identity_keys :: "string set" where
  "identity_keys = {''case_key'', ''repository_id'', ''issue_number'', ''workflow_version'', ''state_revision'',
     ''role'', ''remediation_round'', ''plan_version'', ''pr_number'', ''expected_head_sha''}"

lemma identity_members_distinct: "distinct (map fst (identity_members binding context))"
  by (auto simp: identity_members_def Let_def keep_if_def split: option.splits)

lemma role_members_keys:
  "role_members binding context policy = Inr ms \<Longrightarrow> k \<in> identity_keys \<Longrightarrow> k \<notin> fst ` set ms"
  by (auto simp: role_members_def Let_def identity_keys_def split: if_splits option.splits)

lemma binding_members_keys: "k \<in> identity_keys \<Longrightarrow> k \<notin> fst ` set (binding_members binding context policy)"
  by (auto simp: binding_members_def identity_keys_def split: option.splits)

lemma scratch_members_keys:
  "scratch_members C binding context policy w = Inr ms \<Longrightarrow> k \<in> identity_keys \<Longrightarrow> k \<notin> fst ` set ms"
  by (auto simp: scratch_members_def Let_def identity_keys_def split: if_splits option.splits)

lemma map_of_rev_skip: "k \<notin> fst ` set qs \<Longrightarrow> map_of (rev (ps @ qs)) k = map_of (rev ps) k"
  by (auto simp: map_add_def map_of_eq_None_iff [THEN iffD2] split: option.splits)

lemma dispatch_Inr:
  assumes "dispatch C effect_id source binding context policy = Inr d"
  obtains entries where
    "dw_worker_body d = JObj (object_of (identity_members binding context @ entries))"
    "\<And>k. k \<in> identity_keys \<Longrightarrow> k \<notin> fst ` set entries"
    "dw_role d = rp_role binding" "dw_worker_projection_key d = worker_projection_key binding context"
    "dw_worker_effect_id d = effect_id @ '':worker''" "dw_source_effect_id d = source"
    "dw_execution d = rp_execution binding"
proof -
  from assms obtain snapshot :: "json option" and workspace ms scratch where
    role: "role_members binding context policy = Inr ms" and
    scratch: "scratch_members C binding context policy workspace = Inr scratch" and
    d: "dw_worker_body d = JObj (object_of (identity_members binding context @ ms @
      binding_members binding context policy @
      (case snapshot of None \<Rightarrow> [] | Some v \<Rightarrow> [(''review_snapshot'', v)]) @ scratch))"
      "dw_role d = rp_role binding" "dw_worker_projection_key d = worker_projection_key binding context"
      "dw_worker_effect_id d = effect_id @ '':worker''" "dw_source_effect_id d = source"
      "dw_execution d = rp_execution binding"
    unfolding dispatch_def Let_def by (elim rbind_eq_Inr [THEN iffD1, elim_format] exE conjE) auto
  have "k \<notin> fst ` set (ms @ binding_members binding context policy @
      (case snapshot of None \<Rightarrow> [] | Some v \<Rightarrow> [(''review_snapshot'', v)]) @ scratch)" if "k \<in> identity_keys" for k
  proof -
    have "k \<noteq> ''review_snapshot''" using that by (auto simp: identity_keys_def)
    then show ?thesis
      using role_members_keys [OF role that] binding_members_keys [OF that, of binding "context" policy]
        scratch_members_keys [OF scratch that]
      by (auto split: option.splits)
  qed
  from that [OF d(1) this d(2-6)] show ?thesis .
qed

text \<open>The body binds the case and the exact state of it the job is about.\<close>

definition binds_context :: "DispatchContext \<Rightarrow> WorkerRole \<Rightarrow> json \<Rightarrow> bool" where
  "binds_context context role body \<longleftrightarrow>
     json_at body ''case_key'' = JStr (CaseId_to_string (dx_case_id context)) \<and>
     json_at body ''state_revision'' = JPos (state_revision_get (dx_state_revision context)) \<and>
     json_at body ''role'' = JStr (WorkerRole_wire role) \<and>
     json_at body ''remediation_round'' = json_u32 (dx_remediation_round context) \<and>
     json_at body ''pr_number'' = json_opt (\<lambda>pr. JPos (pr_number_get pr)) (dx_pr_number context) \<and>
     json_at body ''expected_head_sha'' = json_opt (\<lambda>h. JStr (GitSha_to_string h)) (dx_head_sha context) \<and>
     (0 < result_plan_version role context \<longrightarrow>
        json_at body ''plan_version'' = json_u32 (result_plan_version role context))"

lemma dispatch_binds:
  assumes "dispatch C effect_id source binding context policy = Inr d"
  shows "binds_context context (rp_role binding) (dw_worker_body d)"
proof (rule dispatch_Inr [OF assms])
  fix entries
  assume body: "dw_worker_body d = JObj (object_of (identity_members binding context @ entries))"
    and keys: "\<And>k. k \<in> identity_keys \<Longrightarrow> k \<notin> fst ` set entries"
  let ?ids = "identity_members binding context"
  have at: "json_at (dw_worker_body d) k = (case map_of (rev ?ids) k of None \<Rightarrow> JNull | Some v \<Rightarrow> v)"
    if "k \<in> identity_keys" for k
    using map_of_rev_skip [OF keys [OF that]] by (simp add: body del: rev_append)
  have some: "json_at (dw_worker_body d) k = v" if "(k, v) \<in> set ?ids" "k \<in> identity_keys" for k v
    using at [OF that(2)] map_of_rev_distinct [OF identity_members_distinct that(1)] by simp
  have none: "json_at (dw_worker_body d) k = JNull" if "k \<notin> fst ` set ?ids" "k \<in> identity_keys" for k
    using at [OF that(2)] that(1) by (simp add: map_of_eq_None_iff [THEN iffD2])
  note ids = identity_members_def Let_def identity_keys_def
  have pr: "json_at (dw_worker_body d) ''pr_number'' = json_opt (\<lambda>pr. JPos (pr_number_get pr)) (dx_pr_number context)"
  proof (cases "dx_pr_number context")
    case None
    then show ?thesis by (simp, intro none) (auto simp: ids split: option.splits)
  next
    case (Some pr)
    then show ?thesis by (simp, intro some) (simp_all add: ids)
  qed
  have head: "json_at (dw_worker_body d) ''expected_head_sha'' =
      json_opt (\<lambda>h. JStr (GitSha_to_string h)) (dx_head_sha context)"
  proof (cases "dx_head_sha context")
    case None
    then show ?thesis by (simp, intro none) (auto simp: ids split: option.splits)
  next
    case (Some h)
    then show ?thesis by (simp, intro some) (simp_all add: ids)
  qed
  show ?thesis
    unfolding binds_context_def by (intro conjI impI; (rule pr | rule head | (intro some; simp add: ids)))
qed

section \<open>Reviewers\<close>

definition dispatch_roles :: "WorkflowPolicy \<Rightarrow> Effect \<Rightarrow> WorkerRole list" where
  "dispatch_roles policy effect =
    (case effect of
       DispatchPlanner \<Rightarrow> [Planner] | DispatchBuilder \<Rightarrow> [Builder]
     | DispatchReviewers \<Rightarrow> map rp_role (reviewers policy) | DispatchFinalReviewer \<Rightarrow> [FinalReviewer]
     | _ \<Rightarrow> [])"

lemma one_dispatch:
  assumes "wf_policy policy" "\<not> is_reviewer role"
    and "dispatch_one C e context policy role = Inr ds"
  shows "map dw_role ds = [role] \<and> distinct (map dw_worker_projection_key ds) \<and>
    (\<forall>d \<in> set ds. dw_source_effect_id d = e \<and> binds_context context (dw_role d) (dw_worker_body d))"
proof -
  obtain r where r: "policy_role policy role = Inr r" "rp_role r = role"
    using policy_role_found [OF assms(1,2)] by blast
  with assms(3) obtain d where d: "dispatch C e e r context policy = Inr d" "ds = [d]"
    by (auto simp: dispatch_one_def)
  have "dw_role d = role" "dw_source_effect_id d = e" using dispatch_Inr [OF d(1)] r(2) by metis+
  with d dispatch_binds [OF d(1)] r(2) show ?thesis by simp
qed

lemma reviewer_keys_distinct:
  assumes "wf_policy policy"
  shows "distinct (map (\<lambda>r. worker_projection_key r context) (reviewers policy))"
  unfolding distinct_map
proof (intro conjI inj_onI)
  have ids: "distinct (map rp_reviewer_id (reviewers policy))" using assms by (simp add: wf_policy_def)
  then show "distinct (reviewers policy)" by (simp add: distinct_map)
  fix a b
  assume a: "a \<in> set (reviewers policy)" and b: "b \<in> set (reviewers policy)"
    and key: "worker_projection_key a context = worker_projection_key b context"
  obtain i j where i: "rp_reviewer_id a = Some i" and j: "rp_reviewer_id b = Some j"
    using reviewer_valid [OF assms a] reviewer_valid [OF assms b] by blast
  have "rp_role a \<noteq> Planner" "rp_role b \<noteq> Planner"
    using reviewer_valid [OF assms a] reviewer_valid [OF assms b] by (auto simp: is_reviewer_def)
  with key i j have "i = j" by (simp add: worker_projection_key_def worker_id_def dispatch_round_def)
  with i j have "rp_reviewer_id a = rp_reviewer_id b" by simp
  with ids a b show "a = b" by (rule distinct_key_eq)
qed

lemma rmap_dispatch:
  assumes "rmap (\<lambda>binding. rbind (ok_or (rp_reviewer_id binding) InvalidPolicy) (\<lambda>i.
      dispatch C (e @ '':'' @ i) e binding context policy)) rs = Inr ds"
  shows "list_all2 (\<lambda>r d. dw_role d = rp_role r \<and> dw_worker_projection_key d = worker_projection_key r context \<and>
    dw_source_effect_id d = e \<and> binds_context context (dw_role d) (dw_worker_body d)) rs ds"
  using assms unfolding rmap_eq_Inr
proof (rule list_all2_mono)
  fix r d
  assume "rbind (ok_or (rp_reviewer_id r) InvalidPolicy)
    (\<lambda>i. dispatch C (e @ '':'' @ i) e r context policy) = Inr d"
  then obtain i where d: "dispatch C (e @ '':'' @ i) e r context policy = Inr d" by auto
  have "dw_role d = rp_role r" "dw_worker_projection_key d = worker_projection_key r context"
    "dw_source_effect_id d = e"
    using dispatch_Inr [OF d] by metis+
  with dispatch_binds [OF d] show "dw_role d = rp_role r \<and>
    dw_worker_projection_key d = worker_projection_key r context \<and>
    dw_source_effect_id d = e \<and> binds_context context (dw_role d) (dw_worker_body d)" by simp
qed

lemma list_all2_map: "list_all2 (\<lambda>x y. f y = g x) xs ys \<Longrightarrow> map f ys = map g xs"
  by (induction rule: list_all2_induct) simp_all

lemma reviewers_dispatch:
  assumes "wf_policy policy"
    and "rmap (\<lambda>binding. rbind (ok_or (rp_reviewer_id binding) InvalidPolicy) (\<lambda>i.
      dispatch C (e @ '':'' @ i) e binding context policy)) (reviewers policy) = Inr ds"
  shows "map dw_role ds = map rp_role (reviewers policy) \<and> distinct (map dw_worker_projection_key ds) \<and>
    (\<forall>d \<in> set ds. dw_source_effect_id d = e \<and> binds_context context (dw_role d) (dw_worker_body d))"
proof -
  note all = rmap_dispatch [OF assms(2)]
  have "map dw_role ds = map rp_role (reviewers policy)"
    "map dw_worker_projection_key ds = map (\<lambda>r. worker_projection_key r context) (reviewers policy)"
    by (rule list_all2_map, rule list_all2_mono [OF all], simp)+
  with reviewer_keys_distinct [OF assms(1), of "context"] all show ?thesis
    by (auto simp: list_all2_conv_all_nth in_set_conv_nth)
qed


definition sample_context :: DispatchContext where
  "sample_context =
     \<lparr>dx_case_id = \<lparr>cid_repository = RepositoryId 1, cid_issue = IssueNumber 2,
        cid_workflow = WorkflowVersion 1\<rparr>,
      dx_state_revision = StateRevision 7, dx_plan_version = Some (PlanVersion 1),
      dx_remediation_round = 0, dx_pr_number = Some (PullRequestNumber 5),
      dx_head_sha = Some (GitSha (replicate 40 (CHR ''a''))),
      dx_skills_repository_commit = GitSha (replicate 40 (CHR ''b'')),
      dx_immutable_evidence_bundle = JObj []\<rparr>"


section \<open>The bundle loses nothing\<close>

text \<open>The payload of an event as a reader of the bundle finds it: in the event, or in the run that
  the event refers to.\<close>

definition resolve_payload :: "json \<Rightarrow> json \<Rightarrow> json option" where
  "resolve_payload records event =
    (case json_get event ''payload_ref'' of
       None \<Rightarrow> json_get event ''payload''
     | Some ref \<Rightarrow>
         Option.bind (find (\<lambda>run. json_at run ''run_id'' = json_at ref ''run_id'') (rows_of records ''runs''))
           (\<lambda>run. json_get run ''payload''))"

lemma find_map: "find P (map f xs) = map_option f (find (P \<circ> f) xs)"
  by (induction xs) simp_all

lemma map_of_object_remove: "map_of (object_remove j ms) k = (if k = j then None else map_of ms k)"
  by (induction ms) (auto simp: object_remove_def)

lemma resolve_reference:
  assumes "distinct (map sr_run_id rs)" "rows_of records ''runs'' = map StoredRun_value rs"
  shows "resolve_payload records (reference_payload rs e) = Some (se_payload e)"
proof (cases "map_of (rev (map (\<lambda>r. (sr_event_id r, r)) rs)) (se_event_id e)")
  case None
  then show ?thesis by (simp add: reference_payload_def resolve_payload_def StoredEvent_value_def)
next
  case (Some run)
  then have run: "run \<in> set rs" by (auto dest!: map_of_SomeD)
  have "find (\<lambda>r. sr_run_id r = sr_run_id run) rs = Some run"
    using assms(1) run by (simp add: find_unique)
  then have "find (\<lambda>v. json_at v ''run_id'' = JStr (sr_run_id run)) (map StoredRun_value rs) = Some (StoredRun_value run)"
    by (simp add: find_map comp_def StoredRun_value_def)
  with Some show ?thesis
    by (auto simp: reference_payload_def resolve_payload_def StoredEvent_value_def map_of_object_remove assms(2)
        StoredRun_value_def)
qed

lemma bundle_Inr:
  assumes "immutable_evidence_bundle C stored s = Inr v"
  obtains hist where "immutable_history_for_case C (sc_case_key stored) s = Inr hist"
    "json_at v ''records'' = history_records hist"
    "json_at v ''bound_state_revision'' = JPos (sc_state_revision stored)"
    "ih_events hist \<noteq> []" "se_state_revision (last (ih_events hist)) = sc_state_revision stored"
    "int (length (json_to_string C v)) \<le> MAX_EVIDENCE_BUNDLE_BYTES"
  using assms
  by (auto simp: immutable_evidence_bundle_def Let_def split: if_splits)

lemma history_rows:
  "rows_of (history_records hist) ''runs'' = map StoredRun_value (ih_runs hist)"
  "rows_of (history_records hist) ''events'' = map (reference_payload (ih_runs hist)) (ih_events hist)"
  by (simp_all add: rows_of_def history_records_def)

text \<open>C15: the evidence bundle is complete and bounded. It is bound to the revision of the case it was
  made at, which is that of the newest event in it, it has at most 8 MiB, and although events
  refer to the accepted runs instead of repeating them, a reader recovers the payload of every
  event of the case, in order, exactly as the ledger holds it.\<close>

theorem bundle_lossless:
  assumes "immutable_evidence_bundle C stored s = Inr v"
    and "immutable_history_for_case C (sc_case_key stored) s = Inr hist"
    and "distinct (map sr_run_id (ih_runs hist))"
  shows "map (resolve_payload (json_at v ''records'')) (rows_of (json_at v ''records'') ''events'') =
      map (\<lambda>e. Some (se_payload e)) (ih_events hist) \<and>
    json_at v ''bound_state_revision'' = JPos (se_state_revision (last (ih_events hist))) \<and>
    int (length (json_to_string C v)) \<le> MAX_EVIDENCE_BUNDLE_BYTES"
proof (rule bundle_Inr [OF assms(1)])
  fix h
  assume h: "immutable_history_for_case C (sc_case_key stored) s = Inr h"
    "json_at v ''records'' = history_records h"
    "json_at v ''bound_state_revision'' = JPos (sc_state_revision stored)"
    "se_state_revision (last (ih_events h)) = sc_state_revision stored"
    "int (length (json_to_string C v)) \<le> MAX_EVIDENCE_BUNDLE_BYTES"
  have same: "h = hist" using h(1) assms(2) by simp
  have "map (resolve_payload (history_records hist)) (rows_of (history_records hist) ''events'') =
      map (\<lambda>e. Some (se_payload e)) (ih_events hist)"
    using resolve_reference [OF assms(3) history_rows(1)] by (simp add: history_rows(2))
  with h show ?thesis unfolding same by simp
qed

definition sample_recorded :: Store where
  "sample_recorded = empty_store\<lparr>
     events := [\<lparr>e_event_id = ''e1'', e_case_key = ''k'', e_state_revision = 1, e_observed_at = 1,
       e_event_type = ''PLAN_RECORDED'', e_payload_json = ''n'', e_payload_sha256 = ''h'', e_command_sha256 = [],
       e_previous_state = None, e_next_state = ''PLANNING'', e_policy_revision = 1,
       e_remediation_round = 0, e_plan_version = 1, e_pr_number = None, e_head_sha = None\<rparr>],
     runs := [\<lparr>r_run_id = ''r1'', r_case_key = ''k'', r_event_id = ''e1'', r_task_id = ''t1'',
       r_role = ''planner'', r_payload_json = ''n'', r_payload_sha256 = ''h'', r_accepted_at = 1\<rparr>]\<rparr>"

definition sample_recorded_case :: StoredCase where
  "sample_recorded_case = \<lparr>sc_case_key = ''k'', sc_repository_id = 1, sc_issue_number = 2, sc_workflow_version = 1,
     sc_state = ''PLANNING'', sc_state_revision = 1, sc_policy_revision = 1, sc_remediation_round = 0,
     sc_plan_version = 1, sc_pr_number = None, sc_head_sha = None\<rparr>"

lemma sample_recorded_history:
  "map_sum id (\<lambda>h. (map sr_run_id (ih_runs h), map se_payload (ih_events h)))
     (immutable_history_for_case sample_codec ''k'' sample_recorded) =
   Inr ([''r1''], [JNull])"
  by code_simp

theorem bundle_lossless_witness:
  "\<exists>v. immutable_evidence_bundle sample_codec sample_recorded_case sample_recorded = Inr v \<and>
     map (resolve_payload (json_at v ''records'')) (rows_of (json_at v ''records'') ''events'') =
       [Some JNull]"
proof -
  have "\<not> isl (immutable_evidence_bundle sample_codec sample_recorded_case sample_recorded)" by code_simp
  then obtain v where v: "immutable_evidence_bundle sample_codec sample_recorded_case sample_recorded = Inr v"
    by (cases "immutable_evidence_bundle sample_codec sample_recorded_case sample_recorded") auto
  obtain h where h: "immutable_history_for_case sample_codec (sc_case_key sample_recorded_case) sample_recorded = Inr h"
    and runs: "map sr_run_id (ih_runs h) = [''r1'']"
    and events: "map se_payload (ih_events h) = [JNull]"
    using sample_recorded_history
    by (cases "immutable_history_for_case sample_codec ''k'' sample_recorded") (auto simp: sample_recorded_case_def)
  have "map (\<lambda>e. Some (se_payload e)) (ih_events h) = map Some (map se_payload (ih_events h))" by simp
  then have "map (\<lambda>e. Some (se_payload e)) (ih_events h) = [Some JNull]"
    unfolding events by simp
  with v bundle_lossless [OF v h] runs show ?thesis by simp
qed

end
