(* ===== verification/WorkerWire.thy ===== *)
theory WorkerWire
  imports Contracts Scheduling
begin

text \<open>
  The JSON form of worker results, \<open>pip-contracts/src/lib.rs\<close>: the names the
  \<open>rename_all\<close> attributes give the variants, the \<open>to_value\<close> of every result, with the common
  fields flattened into the object, and \<open>WorkerResult::decode\<close>, which selects the shape by the
  declared role. Reading a shape back is third-party code, the fields of \<open>result_decoders\<close>.
\<close>

fun PlannerOutcome_wire :: "PlannerOutcome \<Rightarrow> string" where
  "PlannerOutcome_wire PlannerOutcome.Proceed = ''PROCEED''"
| "PlannerOutcome_wire PlannerOutcome.AlreadyFixed = ''ALREADY_FIXED''"
| "PlannerOutcome_wire PlannerOutcome.NotReproducible = ''NOT_REPRODUCIBLE''"
| "PlannerOutcome_wire PlannerOutcome.Duplicate = ''DUPLICATE''"
| "PlannerOutcome_wire PlannerOutcome.RootCauseDifferentScope = ''ROOT_CAUSE_DIFFERENT_SCOPE''"
| "PlannerOutcome_wire PlannerOutcome.CrossRepoDependency = ''CROSS_REPO_DEPENDENCY''"
| "PlannerOutcome_wire PlannerOutcome.WaitingForIssueCreator = ''WAITING_FOR_ISSUE_CREATOR''"
| "PlannerOutcome_wire PlannerOutcome.NeedsHumanScopeDecision = ''NEEDS_HUMAN_SCOPE_DECISION''"
| "PlannerOutcome_wire PlannerOutcome.Abandon = ''ABANDON''"
| "PlannerOutcome_wire PlannerOutcome.Blocked = ''BLOCKED''"
| "PlannerOutcome_wire PlannerOutcome.BlockedUnexpectedModel = ''BLOCKED_UNEXPECTED_MODEL''"

fun SensitiveScope_wire :: "SensitiveScope \<Rightarrow> string" where
  "SensitiveScope_wire Cryptography = ''CRYPTOGRAPHY''"
| "SensitiveScope_wire MlsCgka = ''MLS_CGKA''"
| "SensitiveScope_wire KeyHandling = ''KEY_HANDLING''"
| "SensitiveScope_wire TrustAnchor = ''TRUST_ANCHOR''"
| "SensitiveScope_wire MembershipAuthorization = ''MEMBERSHIP_AUTHORIZATION''"
| "SensitiveScope_wire AdminAuthorization = ''ADMIN_AUTHORIZATION''"
| "SensitiveScope_wire PushPayloadContext = ''PUSH_PAYLOAD_CONTEXT''"

fun BuilderOutcome_wire :: "BuilderOutcome \<Rightarrow> string" where
  "BuilderOutcome_wire BuilderOutcome.ReviewReady = ''REVIEW_READY''"
| "BuilderOutcome_wire BuilderOutcome.ReturnToPlanning = ''RETURN_TO_PLANNING''"
| "BuilderOutcome_wire BuilderOutcome.Blocked = ''BLOCKED''"
| "BuilderOutcome_wire BuilderOutcome.Abandon = ''ABANDON''"
| "BuilderOutcome_wire BuilderOutcome.BlockedUnexpectedModel = ''BLOCKED_UNEXPECTED_MODEL''"

fun ReviewOutcome_wire :: "ReviewOutcome \<Rightarrow> string" where
  "ReviewOutcome_wire Approve = ''APPROVE''"
| "ReviewOutcome_wire ReviewOutcome.RequestChanges = ''REQUEST_CHANGES''"
| "ReviewOutcome_wire ReviewOutcome.Blocked = ''BLOCKED''"
| "ReviewOutcome_wire ReviewOutcome.BlockedUnexpectedModel = ''BLOCKED_UNEXPECTED_MODEL''"

fun ConfirmationStatus_wire :: "ConfirmationStatus \<Rightarrow> string" where
  "ConfirmationStatus_wire ConfirmedResolved = ''CONFIRMED_RESOLVED''"
| "ConfirmationStatus_wire StillOpen = ''STILL_OPEN''"

fun FinalOutcome_wire :: "FinalOutcome \<Rightarrow> string" where
  "FinalOutcome_wire FinalOutcome.Ready = ''READY''"
| "FinalOutcome_wire FinalOutcome.ReturnToBuild = ''RETURN_TO_BUILD''"
| "FinalOutcome_wire FinalOutcome.ReturnToReview = ''RETURN_TO_REVIEW''"
| "FinalOutcome_wire FinalOutcome.ReturnToPlanning = ''RETURN_TO_PLANNING''"
| "FinalOutcome_wire FinalOutcome.WaitForIssueCreator = ''WAIT_FOR_ISSUE_CREATOR''"
| "FinalOutcome_wire FinalOutcome.Blocked = ''BLOCKED''"
| "FinalOutcome_wire FinalOutcome.Abandon = ''ABANDON''"
| "FinalOutcome_wire FinalOutcome.BlockedUnexpectedModel = ''BLOCKED_UNEXPECTED_MODEL''"

definition CommonResult_members :: "CommonResult \<Rightarrow> (string \<times> json) list" where
  "CommonResult_members c =
     [(''contract_version'', json_u32 (cr_contract_version c)),
      (''workflow_version'', json_u32 (cr_workflow_version c)),
      (''case'', CaseIdentity_value (cr_case c)), (''task_id'', JStr (cr_task_id c)),
      (''role'', JStr (WorkerRole_wire (cr_role c))), (''requested_model'', JStr (cr_requested_model c)),
      (''actual_model'', JStr (cr_actual_model c)),
      (''skills_repository_commit'', JStr (cr_skills_repository_commit c)),
      (''started_at_unix'', JPos (cr_started_at_unix c)),
      (''completed_at_unix'', JPos (cr_completed_at_unix c)), (''evidence'', JObj (cr_evidence c))]"

definition PlannerResult_value :: "PlannerResult \<Rightarrow> json" where
  "PlannerResult_value r = JObj (object_of (CommonResult_members (plr_common r) @
     [(''outcome'', JStr (PlannerOutcome_wire (plr_outcome r))), (''plan_version'', json_u32 (plr_plan_version r)),
      (''planned_base_sha'', JStr (plr_planned_base_sha r)), (''root_cause'', JStr (plr_root_cause r)),
      (''authorized_scope'', JStr (plr_authorized_scope r)),
      (''sensitive_scope'', json_strings (map SensitiveScope_wire (plr_sensitive_scope r))),
      (''dependencies'', JArr (plr_dependencies r)), (''open_decisions'', json_strings (plr_open_decisions r)),
      (''plan_artifact'', JStr (plr_plan_artifact r))]))"

definition FindingResolution_value :: "FindingResolution \<Rightarrow> json" where
  "FindingResolution_value f = JObj (object_of
     [(''finding_id'', JStr (fr_finding_id f)), (''resolution_commit'', JStr (fr_resolution_commit f)),
      (''resolved_head_sha'', JStr (fr_resolved_head_sha f)),
      (''resolution_summary'', JStr (fr_resolution_summary f)), (''tests'', json_strings (fr_tests f))])"

definition BuilderResult_value :: "BuilderResult \<Rightarrow> json" where
  "BuilderResult_value r = JObj (object_of (CommonResult_members (blr_common r) @
     [(''outcome'', JStr (BuilderOutcome_wire (blr_outcome r))), (''plan_version'', json_u32 (blr_plan_version r)),
      (''build_round'', json_u32 (blr_build_round r))] @
     (case blr_head_sha r of None \<Rightarrow> [] | Some head \<Rightarrow> [(''head_sha'', JStr head)]) @
     [(''local_checks'', json_strings (blr_local_checks r)),
      (''finding_resolutions'', JArr (map FindingResolution_value (blr_finding_resolutions r)))]))"

definition BlockingFinding_value :: "BlockingFinding \<Rightarrow> json" where
  "BlockingFinding_value f = JObj (object_of
     [(''id'', JStr (bf_id f)), (''summary'', JStr (bf_summary f)), (''defect'', JStr (bf_defect f)),
      (''consequence'', JStr (bf_consequence f)),
      (''corrective_direction'', JStr (bf_corrective_direction f)),
      (''required_evidence'', json_strings (bf_required_evidence f))])"

definition Suggestion_value :: "Suggestion \<Rightarrow> json" where
  "Suggestion_value x = JObj (object_of
     [(''summary'', JStr (sg_summary x)), (''rationale'', JStr (sg_rationale x))])"

definition FindingConfirmation_value :: "FindingConfirmation \<Rightarrow> json" where
  "FindingConfirmation_value f = JObj (object_of
     [(''finding_id'', JStr (fc_finding_id f)), (''status'', JStr (ConfirmationStatus_wire (fc_status f))),
      (''reviewed_fix_sha'', JStr (fc_reviewed_fix_sha f)), (''evidence'', json_strings (fc_evidence f))])"

definition ReviewResult_value :: "ReviewResult \<Rightarrow> json" where
  "ReviewResult_value r = JObj (object_of (CommonResult_members (rvr_common r) @
     [(''reviewer_id'', JStr (rvr_reviewer_id r)), (''outcome'', JStr (ReviewOutcome_wire (rvr_outcome r))),
      (''plan_version'', json_u32 (rvr_plan_version r)), (''review_round'', json_u32 (rvr_review_round r)),
      (''pr_number'', JPos (rvr_pr_number r)), (''reviewed_head_sha'', JStr (rvr_reviewed_head_sha r)),
      (''blocking_findings'', JArr (map BlockingFinding_value (rvr_blocking_findings r))),
      (''suggestions'', JArr (map Suggestion_value (rvr_suggestions r))),
      (''finding_confirmations'', JArr (map FindingConfirmation_value (rvr_finding_confirmations r)))]))"

definition FinalResult_value :: "FinalResult \<Rightarrow> json" where
  "FinalResult_value r = JObj (object_of (CommonResult_members (fnr_common r) @
     [(''outcome'', JStr (FinalOutcome_wire (fnr_outcome r))), (''plan_version'', json_u32 (fnr_plan_version r)),
      (''final_review_round'', json_u32 (fnr_final_review_round r)), (''pr_number'', JPos (fnr_pr_number r)),
      (''reviewed_head_sha'', JStr (fnr_reviewed_head_sha r)),
      (''residual_uncertainties'', json_strings (fnr_residual_uncertainties r)),
      (''decision_rationale'', JStr (fnr_decision_rationale r))]))"

fun WorkerResult_value :: "WorkerResult \<Rightarrow> json" where
  "WorkerResult_value (PlannerW r) = PlannerResult_value r"
| "WorkerResult_value (BuilderW r) = BuilderResult_value r"
| "WorkerResult_value (ReviewW r) = ReviewResult_value r"
| "WorkerResult_value (FinalW r) = FinalResult_value r"

text \<open>Third-party code: \<open>serde_json::from_value\<close> at the types the source reads.\<close>

record result_decoders =
  role_from_value :: "json \<Rightarrow> WorkerRole option"
  planner_from_value :: "json \<Rightarrow> PlannerResult option"
  builder_from_value :: "json \<Rightarrow> BuilderResult option"
  review_from_value :: "json \<Rightarrow> ReviewResult option"
  final_from_value :: "json \<Rightarrow> FinalResult option"

definition WorkerResult_decode :: "result_decoders \<Rightarrow> json \<Rightarrow> WorkerResult option" where
  "WorkerResult_decode R v =
     Option.bind (role_from_value R (json_at v ''role'')) (\<lambda>role.
     case role of
       Planner \<Rightarrow> map_option PlannerW (planner_from_value R v)
     | Builder \<Rightarrow> map_option BuilderW (builder_from_value R v)
     | ReviewerGeneral \<Rightarrow> map_option ReviewW (review_from_value R v)
     | ReviewerSecperf \<Rightarrow> map_option ReviewW (review_from_value R v)
     | FinalReviewer \<Rightarrow> map_option FinalW (final_from_value R v))"

end
