(* ===== verification/Results.thy ===== *)
theory Results
  imports Flow WorkerWire
begin

text \<open>
  Accepting worker results, \<open>pip-controller/src/results.rs\<close>: a result is checked against the
  binding of its task and against the case, mapped to an event of the state machine, joined with
  the reviews of the same cohort, and applied through the ledger controller together with its
  run, its evidence and its findings. The theorems show that a task is credited with one result,
  that a review cohort approves exactly when every required reviewer approved the same head, and
  that accepting results is a step of the controlled ledger.
\<close>

section \<open>Results and errors\<close>

datatype IngestResult = IngestApplied u32 | IngestReplayed

datatype IngestError =
    IngestContract ContractError
  | IngestStore StoreError
  | IngestController ControllerError
  | InvalidBinding
  | InvalidState
  | ConflictingRun
  | ConflictingReviews
  | IngestSerialization

record MappedEvent =
  me_event :: Event
  me_accepted_plan_version :: "u32 option"
  me_next_pr_number :: "u64 option"
  me_next_head_sha :: "string option"

definition mapped :: "Event \<Rightarrow> MappedEvent" where
  "mapped event = \<lparr>me_event = event, me_accepted_plan_version = None, me_next_pr_number = None,
     me_next_head_sha = None\<rparr>"

definition result_event_id :: "codec \<Rightarrow> string \<Rightarrow> string \<Rightarrow> string" where
  "result_event_id C kind task_id = ''event-'' @ kind @ ''-'' @ sha256_hex C task_id"

definition binding_case_id :: "WorkerBinding \<Rightarrow> IngestError + CaseId" where
  "binding_case_id binding =
     stored_case_id InvalidBinding (ci_repository_id (wb_case binding)) (ci_issue_number (wb_case binding))
       (ci_workflow_version (wb_case binding))"

definition validate_case_binding :: "StoredCase \<Rightarrow> WorkerBinding \<Rightarrow> CasePolicy \<Rightarrow> IngestError + unit" where
  "validate_case_binding stored binding policy =
     reject_if (sc_repository_id stored \<noteq> ci_repository_id (wb_case binding) \<or>
         sc_issue_number stored \<noteq> ci_issue_number (wb_case binding) \<or>
         sc_workflow_version stored \<noteq> ci_workflow_version (wb_case binding) \<or>
         sc_policy_revision stored \<noteq> policy_revision_get (cp_revision policy))
       InvalidBinding"

definition validate_review_policy_binding :: "WorkflowPolicy \<Rightarrow> WorkerBinding \<Rightarrow> IngestError + unit" where
  "validate_review_policy_binding policy binding =
    (if \<not> is_reviewer (wb_role binding) then Inr ()
     else
       rbind (reject_if (wb_review_mode binding \<noteq> Some Required) InvalidBinding) (\<lambda>_.
       rbind (ok_or (wb_reviewer_id binding) InvalidBinding) (\<lambda>i.
       rbind (map_err (\<lambda>_. InvalidBinding) (reviewer policy i)) (\<lambda>configured.
       reject_if (rp_role configured \<noteq> wb_role binding \<or>
           rp_review_mode configured \<noteq> wb_review_mode binding \<or>
           rp_provider configured @ ''/'' @ rp_model configured \<noteq> wb_requested_model binding)
         InvalidBinding))))"

fun result_findings :: "WorkerResult \<Rightarrow> FindingInput list" where
  "result_findings (ReviewW r) =
     map (\<lambda>f. \<lparr>fi_finding_id = bf_id f, fi_origin_role = rvr_reviewer_id r,
       fi_reviewed_head_sha = rvr_reviewed_head_sha r, fi_payload = BlockingFinding_value f\<rparr>)
       (rvr_blocking_findings r)"
| "result_findings _ = []"

section \<open>Joining reviews\<close>

definition same_cohort :: "ReviewResult \<Rightarrow> ReviewResult \<Rightarrow> bool" where
  "same_cohort a b \<longleftrightarrow>
     rvr_plan_version a = rvr_plan_version b \<and> rvr_review_round a = rvr_review_round b \<and>
     rvr_pr_number a = rvr_pr_number b \<and> rvr_reviewed_head_sha a = rvr_reviewed_head_sha b"

text \<open>The loop over the runs of the cohort, and the reviews of the same round and head among them.\<close>

definition matching_reviews ::
  "codec \<Rightarrow> result_decoders \<Rightarrow> string \<Rightarrow> ReviewResult \<Rightarrow> Store \<Rightarrow> IngestError + ReviewResult list" where
  "matching_reviews C R case_key current s =
    rbind (map_err IngestStore (current_review_runs_for_case C case_key s)) (\<lambda>stored.
    rbind (rmap (\<lambda>run. ok_or (WorkerResult_decode R (sr_payload run)) IngestSerialization) stored) (\<lambda>results.
    Inr (filter (\<lambda>previous. same_cohort previous current)
      (List.map_filter (\<lambda>r. case r of ReviewW previous \<Rightarrow> Some previous | _ \<Rightarrow> None) results))))"

text \<open>The required reviewers: those of the policy, or, without one, the first of each role; \<open>Inr None\<close>
  is the early return while one of the two roles has no review.\<close>

definition required_ids ::
  "WorkflowPolicy option \<Rightarrow> ReviewResult list \<Rightarrow> IngestError + string list option" where
  "required_ids policy reviews =
    (case policy of
       Some policy \<Rightarrow>
         rbind (rmap (\<lambda>r. ok_or (rp_reviewer_id r) InvalidBinding) (required_reviewers policy)) (\<lambda>ids.
         Inr (Some ids))
     | None \<Rightarrow>
         (case (find (\<lambda>r. cr_role (rvr_common r) = ReviewerGeneral) reviews,
                find (\<lambda>r. cr_role (rvr_common r) = ReviewerSecperf) reviews) of
            (Some general, Some secperf) \<Rightarrow>
              Inr (Some [rvr_reviewer_id general, rvr_reviewer_id secperf])
          | _ \<Rightarrow> Inr None))"

definition join_review ::
  "codec \<Rightarrow> result_decoders \<Rightarrow> StoredCase \<Rightarrow> WorkflowPolicy option \<Rightarrow> ReviewResult \<Rightarrow> Store \<Rightarrow>
     IngestError + Event" where
  "join_review C R stored policy current s =
    rbind (matching_reviews C R (sc_case_key stored) current s) (\<lambda>prior.
    rbind (reject_if (list_ex (\<lambda>p. rvr_reviewer_id p = rvr_reviewer_id current) prior) ConflictingReviews) (\<lambda>_.
    let reviews = prior @ [current]; observed = set (map rvr_reviewer_id reviews) in
    rbind (required_ids policy reviews) (\<lambda>required.
    case required of
      None \<Rightarrow> Inr ReviewRecorded
    | Some ids \<Rightarrow>
        if \<not> set ids \<subseteq> observed then Inr ReviewRecorded
        else if \<not> observed \<subseteq> set ids \<or>
            list_ex (\<lambda>r. rvr_outcome r \<notin> {Approve, ReviewOutcome.RequestChanges}) reviews
          then Inl ConflictingReviews
        else if list_ex (\<lambda>r. rvr_outcome r = ReviewOutcome.RequestChanges) reviews
          then Inr Event.RequestChanges
        else Inr ReviewsApproved)))"

section \<open>Mapping results to events\<close>

fun builder_event :: "BuilderOutcome \<Rightarrow> Event" where
  "builder_event BuilderOutcome.ReviewReady = BuildRecorded"
| "builder_event BuilderOutcome.ReturnToPlanning = Event.ReturnToPlanning"
| "builder_event BuilderOutcome.Blocked = Event.Blocked"
| "builder_event BuilderOutcome.Abandon = Event.Abandon"
| "builder_event BuilderOutcome.BlockedUnexpectedModel = Event.BlockedUnexpectedModel"

fun final_event :: "FinalOutcome \<Rightarrow> Event" where
  "final_event FinalOutcome.Ready = Event.Ready"
| "final_event FinalOutcome.ReturnToBuild = Event.ReturnToBuild"
| "final_event FinalOutcome.ReturnToReview = Event.ReturnToReview"
| "final_event FinalOutcome.ReturnToPlanning = Event.ReturnToPlanning"
| "final_event FinalOutcome.WaitForIssueCreator = Event.WaitForIssueCreator"
| "final_event FinalOutcome.Blocked = Event.Blocked"
| "final_event FinalOutcome.Abandon = Event.Abandon"
| "final_event FinalOutcome.BlockedUnexpectedModel = Event.BlockedUnexpectedModel"

definition map_event ::
  "codec \<Rightarrow> result_decoders \<Rightarrow> StoredCase \<Rightarrow> WorkflowPolicy option \<Rightarrow> WorkerResult \<Rightarrow> Store \<Rightarrow>
     IngestError + MappedEvent" where
  "map_event C R stored policy result s =
    (case result of
       PlannerW r \<Rightarrow>
         if sc_state stored = ''PLANNING'' then
           Inr (mapped (if plr_outcome r = PlannerOutcome.BlockedUnexpectedModel
             then Event.BlockedUnexpectedModel else PlanRecorded))
         else Inl InvalidState
     | BuilderW r \<Rightarrow>
         if sc_state stored \<in> {''BUILDING'', ''REMEDIATING''}
         then Inr (mapped (builder_event (blr_outcome r))) else Inl InvalidState
     | ReviewW r \<Rightarrow>
         if sc_state stored = ''REVIEWING'' then
           rbind (case rvr_outcome r of
               ReviewOutcome.Blocked \<Rightarrow> Inr Event.Blocked
             | ReviewOutcome.BlockedUnexpectedModel \<Rightarrow> Inr Event.BlockedUnexpectedModel
             | _ \<Rightarrow> join_review C R stored policy r s) (\<lambda>event. Inr (mapped event))
         else Inl InvalidState
     | FinalW r \<Rightarrow>
         if sc_state stored = ''FINAL_REVIEW'' \<and>
            latest_event_type (sc_case_key stored) s = Some ''FINAL_PREFLIGHT_ACCEPTED''
         then Inr (mapped (final_event (fnr_outcome r))) else Inl InvalidState)"

section \<open>Building the command\<close>

definition next_binding :: "u64 option \<Rightarrow> string option \<Rightarrow> (u64 \<times> string) option" where
  "next_binding pr head = Option.bind pr (\<lambda>pr. map_option (\<lambda>head. (pr, head)) head)"

definition result_base ::
  "StoredCase \<Rightarrow> CaseId \<Rightarrow> Event \<Rightarrow> string \<Rightarrow> u64 \<Rightarrow> json \<Rightarrow> RunInput option \<Rightarrow> u32 option \<Rightarrow>
     (u64 \<times> string) option \<Rightarrow> EvidenceInput list \<Rightarrow> IngestError + WorkflowCommand" where
  "result_base stored case_id event event_id observed_at value run accepted_plan_version binding items =
    rbind (map_err (\<lambda>_. InvalidBinding) (EventId_from_str event_id)) (\<lambda>event_id.
    rbind (map_err (\<lambda>_. InvalidState) (CaseState_from_str (sc_state stored))) (\<lambda>state.
    rbind (nonzero_or InvalidState (sc_state_revision stored)) (\<lambda>state_revision.
    rbind (nonzero_or InvalidState (sc_policy_revision stored)) (\<lambda>policy_revision.
    rbind (parse_head InvalidState (sc_head_sha stored)) (\<lambda>head.
    rbind (parse_head InvalidBinding (map_option snd binding)) (\<lambda>next_head.
    Inr \<lparr>wc_case_id = case_id, wc_event_id = event_id, wc_observed_at = ObservedAt observed_at,
      wc_expected_state = state, wc_expected_state_revision = StateRevision state_revision,
      wc_accepted_policy_revision = PolicyRevision policy_revision,
      wc_remediation_round = sc_remediation_round stored,
      wc_plan_version = map_option PlanVersion (nonzero (sc_plan_version stored)),
      wc_pr_number = map_option PullRequestNumber (Option.bind (sc_pr_number stored) nonzero),
      wc_head_sha = head, wc_event = event,
      wc_accepted_plan_version = map_option PlanVersion (Option.bind accepted_plan_version nonzero),
      wc_next_pr_number = map_option PullRequestNumber
        (Option.bind (map_option fst binding) nonzero),
      wc_next_head_sha = next_head, wc_event_payload = value, wc_run = run, wc_evidence = items,
      wc_findings = []\<rparr>))))))"

definition result_run :: "WorkerBinding \<Rightarrow> json \<Rightarrow> RunInput" where
  "result_run binding value =
     \<lparr>ri_run_id = ''run-'' @ wb_task_id binding, ri_task_id = wb_task_id binding,
      ri_role = WorkerRole_wire (wb_role binding), ri_payload = value\<rparr>"

definition result_workflow ::
  "codec \<Rightarrow> result_decoders \<Rightarrow> StoredCase \<Rightarrow> CaseId \<Rightarrow> WorkflowPolicy option \<Rightarrow> WorkerBinding \<Rightarrow>
     WorkerResult \<Rightarrow> json \<Rightarrow> Store \<Rightarrow> IngestError + WorkflowCommand" where
  "result_workflow C R stored case_id policy binding result value s =
    rbind (map_event C R stored policy result s) (\<lambda>event.
    rbind (result_base stored case_id (me_event event) (result_event_id C ''result'' (wb_task_id binding))
      (cr_completed_at_unix (WorkerResult_common result)) value (Some (result_run binding value))
      (me_accepted_plan_version event) (next_binding (me_next_pr_number event) (me_next_head_sha event))
      [\<lparr>evi_evidence_id = ''evidence-worker-'' @ wb_task_id binding, evi_kind = ''WORKER_RESULT_EVIDENCE'',
        evi_source = wb_task_id binding, evi_payload = JObj (cr_evidence (WorkerResult_common result))\<rparr>])
      (\<lambda>command.
    Inr (command\<lparr>wc_findings := result_findings result\<rparr>)))"

section \<open>Ingesting\<close>

type_synonym 'a ingest_op = "(Store, IngestError, 'a) smonad"

definition from_controller :: "'a controller_op \<Rightarrow> 'a ingest_op" where
  "from_controller m = (\<lambda>s. case m s of (r, t) \<Rightarrow> (map_err IngestController r, t))"

definition dispatch_command ::
  "codec \<Rightarrow> StoredCase \<Rightarrow> CaseId \<Rightarrow> WorkerBinding \<Rightarrow> WorkerResult \<Rightarrow> IngestError + WorkflowCommand" where
  "dispatch_command C stored case_id binding result =
     result_base stored case_id BuilderDispatched (result_event_id C ''dispatch'' (wb_task_id binding))
       (cr_started_at_unix (WorkerResult_common result))
       (JObj (object_of [(''task_id'', JStr (wb_task_id binding)), (''role'', JStr ''builder'')])) None None None []"

definition ingest_new ::
  "codec \<Rightarrow> decoders \<Rightarrow> result_decoders \<Rightarrow> CasePolicy \<Rightarrow> WorkflowPolicy option \<Rightarrow> WorkerBinding \<Rightarrow>
     WorkerResult \<Rightarrow> json \<Rightarrow> IngestResult ingest_op" where
  "ingest_new C D R policy workflow_policy binding result value =
    sbind (slift (binding_case_id binding)) (\<lambda>case_id.
    sbind (squery (\<lambda>s. ok_or (query_case (CaseId_to_string case_id) s) InvalidBinding)) (\<lambda>stored.
    sbind (slift (validate_case_binding stored binding policy)) (\<lambda>_.
    if (case result of BuilderW _ \<Rightarrow> True | _ \<Rightarrow> False) \<and> sc_state stored = ''READY_TO_BUILD'' then
      sbind (slift (dispatch_command C stored case_id binding result)) (\<lambda>synthetic.
      sbind (slift (ok_or (checked_add (sc_state_revision stored) 1) InvalidState)) (\<lambda>revision.
      sbind (squery (result_workflow C R (stored\<lparr>sc_state := ''BUILDING'', sc_state_revision := revision\<rparr>)
        case_id workflow_policy binding result value)) (\<lambda>command.
      sbind (from_controller (LedgerController_apply_batch C D policy [synthetic, command])) (\<lambda>_.
      sreturn (IngestApplied 2)))))
    else
      sbind (squery (result_workflow C R stored case_id workflow_policy binding result value)) (\<lambda>command.
      sbind (from_controller (LedgerController_apply C D policy command)) (\<lambda>_.
      sreturn (IngestApplied 1))))))"

definition ingest_worker_result_inner ::
  "codec \<Rightarrow> decoders \<Rightarrow> result_decoders \<Rightarrow> CasePolicy \<Rightarrow> WorkflowPolicy option \<Rightarrow> WorkerBinding \<Rightarrow>
     WorkerResult \<Rightarrow> IngestResult ingest_op" where
  "ingest_worker_result_inner C D R policy workflow_policy binding result =
    sbind (slift (map_err IngestContract (validate_binding result binding))) (\<lambda>_.
    sbind (slift (case workflow_policy of None \<Rightarrow> Inr ()
      | Some p \<Rightarrow> validate_review_policy_binding p binding)) (\<lambda>_.
    let value = WorkerResult_value result in
    sbind (squery (\<lambda>s. map_err IngestStore (run_by_task_id C (wb_task_id binding) s))) (\<lambda>existing.
    case existing of
      Some run \<Rightarrow>
        sbind (slift (binding_case_id binding)) (\<lambda>case_id.
        if sr_case_key run = CaseId_to_string case_id \<and> sr_role run = WorkerRole_wire (wb_role binding) \<and>
           sr_payload run = value
        then sreturn IngestReplayed else sfail ConflictingRun)
    | None \<Rightarrow> ingest_new C D R policy workflow_policy binding result value)))"

definition ingest_worker_result ::
  "codec \<Rightarrow> decoders \<Rightarrow> result_decoders \<Rightarrow> CasePolicy \<Rightarrow> WorkerBinding \<Rightarrow> WorkerResult \<Rightarrow>
     IngestResult ingest_op" where
  "ingest_worker_result C D R policy binding result =
     ingest_worker_result_inner C D R policy None binding result"

definition ingest_worker_result_with_policy ::
  "codec \<Rightarrow> decoders \<Rightarrow> result_decoders \<Rightarrow> CasePolicy \<Rightarrow> WorkflowPolicy \<Rightarrow> WorkerBinding \<Rightarrow>
     WorkerResult \<Rightarrow> IngestResult ingest_op" where
  "ingest_worker_result_with_policy C D R policy workflow_policy binding result =
     ingest_worker_result_inner C D R policy (Some workflow_policy) binding result"

section \<open>Ingesting is a step of the controlled ledger\<close>

lemma from_controller_Inr [simp]: "from_controller m s = (Inr a, t) \<longleftrightarrow> m s = (Inr a, t)"
  by (auto simp: from_controller_def split: prod.splits)

lemma from_controller_step: "from_controller m s = (r, t) \<Longrightarrow> \<exists>q. m s = (q, t)"
  by (auto simp: from_controller_def split: prod.splits)

interpretation controlled_run: frame_relation "(controlled_step M C D)\<^sup>*\<^sup>*" for M C D
  by unfold_locales auto

lemma controller_steps:
  assumes "cp_merge_mode policy = M"
  shows "steps (controlled_step M C D)\<^sup>*\<^sup>* (from_controller (LedgerController_apply C D policy w))"
    and "steps (controlled_step M C D)\<^sup>*\<^sup>* (from_controller (LedgerController_apply_batch C D policy ws))"
  by (rule stepsI, drule from_controller_step, blast intro: controlled_step.command controlled_step.commands assms)+

lemma ingest_steps:
  assumes "cp_merge_mode policy = M"
  shows "steps (controlled_step M C D)\<^sup>*\<^sup>* (ingest_worker_result_inner C D R policy workflow_policy binding result)"
  unfolding ingest_worker_result_inner_def ingest_new_def Let_def
  by (intro controlled_run.steps_rules controller_steps assms)

section \<open>Approval of a cohort\<close>

lemma required_ids_policy:
  assumes "wf_policy policy"
  shows "\<exists>ids. required_ids (Some policy) reviews = Inr (Some ids) \<and>
    set ids = (\<lambda>r. the (rp_reviewer_id r)) ` set (required_reviewers policy)"
proof -
  have some: "\<exists>i. rp_reviewer_id r = Some i" if "r \<in> set (required_reviewers policy)" for r
    using that reviewer_valid [OF assms, of r] by (auto simp: required_reviewers_def)
  have "list_all2 (\<lambda>r i. ok_or (rp_reviewer_id r) InvalidBinding = Inr i) (required_reviewers policy)
      (map (\<lambda>r. the (rp_reviewer_id r)) (required_reviewers policy))"
    using some by (fastforce simp: list_all2_conv_all_nth in_set_conv_nth)
  then show ?thesis by (simp add: required_ids_def rmap_eq_Inr [THEN iffD2])
qed

text \<open>C12: a review cohort is approved exactly when it is complete and unanimous. With the reviews of
  this plan, round, pull request and head that are already in, the next one ends the cohort with
  approval if and only if its reviewer has not reviewed before, the reviewers are exactly the
  required ones of the policy, and every one of them approved.\<close>

theorem cohort_approved:
  assumes "wf_policy policy" "matching_reviews C R (sc_case_key stored) current s = Inr prior"
  shows "join_review C R stored (Some policy) current s = Inr ReviewsApproved \<longleftrightarrow>
    (\<forall>r \<in> set prior. rvr_reviewer_id r \<noteq> rvr_reviewer_id current) \<and>
    rvr_reviewer_id ` set (prior @ [current]) =
      (\<lambda>r. the (rp_reviewer_id r)) ` set (required_reviewers policy) \<and>
    (\<forall>r \<in> set (prior @ [current]). rvr_outcome r = Approve)"
proof -
  from required_ids_policy [OF assms(1)] obtain ids where
    ids: "required_ids (Some policy) (prior @ [current]) = Inr (Some ids)"
    and set: "set ids = (\<lambda>r. the (rp_reviewer_id r)) ` set (required_reviewers policy)" by blast
  let ?reviews = "prior @ [current]"
  have "join_review C R stored (Some policy) current s = Inr ReviewsApproved \<longleftrightarrow>
    \<not> list_ex (\<lambda>p. rvr_reviewer_id p = rvr_reviewer_id current) prior \<and>
    set ids = set (map rvr_reviewer_id ?reviews) \<and>
    \<not> list_ex (\<lambda>r. rvr_outcome r \<notin> {Approve, ReviewOutcome.RequestChanges}) ?reviews \<and>
    \<not> list_ex (\<lambda>r. rvr_outcome r = ReviewOutcome.RequestChanges) ?reviews"
    using assms(2) ids by (simp add: join_review_def Let_def set_eq_subset del: list_ex_append)
  moreover have "\<not> list_ex (\<lambda>r. rvr_outcome r \<notin> {Approve, ReviewOutcome.RequestChanges}) ?reviews \<and>
    \<not> list_ex (\<lambda>r. rvr_outcome r = ReviewOutcome.RequestChanges) ?reviews \<longleftrightarrow>
    (\<forall>r \<in> set ?reviews. rvr_outcome r = Approve)"
    unfolding list_ex_iff by (metis ReviewOutcome.distinct(1) insert_iff singletonD)
  moreover have "\<not> list_ex (\<lambda>p. rvr_reviewer_id p = rvr_reviewer_id current) prior \<longleftrightarrow>
    (\<forall>r \<in> set prior. rvr_reviewer_id r \<noteq> rvr_reviewer_id current)"
    unfolding list_ex_iff by blast
  ultimately show ?thesis unfolding set [symmetric] by (simp only: set_map eq_commute [of "set ids"])
qed

section \<open>One result per task\<close>

definition run_rows :: "codec \<Rightarrow> TransitionInput \<Rightarrow> RunRow list" where
  "run_rows C input =
    (case ti_run input of
       None \<Rightarrow> []
     | Some run \<Rightarrow>
         [\<lparr>r_run_id = ri_run_id run, r_case_key = ti_case_key input,
           r_event_id = ei_event_id (ti_event input), r_task_id = ri_task_id run, r_role = ri_role run,
           r_payload_json = fst (payload C (ri_payload run)),
           r_payload_sha256 = snd (payload C (ri_payload run)),
           r_accepted_at = uint (ti_observed_at input)\<rparr>])"

definition keeps_runs :: "Store \<Rightarrow> Store \<Rightarrow> bool" where
  "keeps_runs s t \<longleftrightarrow> runs t = runs s"

interpretation running: frame_relation keeps_runs
  unfolding keeps_runs_def by unfold_locales auto

lemma add_keeps_runs:
  "keeps_runs s (add_policy p s)" "keeps_runs s (add_event e s)" "keeps_runs s (add_evidence v s)"
  "keeps_runs s (add_finding f s)" "keeps_runs s (add_effect x s)"
  "keeps_runs s (cases_table_update g s)" "keeps_runs s (outbox_update h s)"
  by (simp_all add: keeps_runs_def add_policy_def add_event_def add_evidence_def add_finding_def add_effect_def)

lemmas run_rules = running.steps_rules add_keeps_runs
  steps_sql_insert [of keeps_runs, OF running.R_refl] steps_sql_update [of keeps_runs, OF running.R_refl]

lemma parts_keep_runs:
  "steps keeps_runs (guard_event C D current input)" "steps keeps_runs (insert_event C r)"
  "steps keeps_runs (insert_evidence C k at items)" "steps keeps_runs (insert_findings C k e at found)"
  "steps keeps_runs (insert_effects C k n at fx)" "steps keeps_runs (project_case input n p)"
  "steps keeps_runs (update_outbox sel f)"
  unfolding guard_event_def remediation_extension_validate_def insert_event_def insert_evidence_def
    insert_evidence_item_def insert_findings_def insert_finding_def insert_effects_def insert_effect_def
    project_case_def Let_def
  by (intro run_rules)+

lemma insert_run_Inr:
  "insert_run C (ti_case_key input) (ei_event_id (ti_event input)) (ti_observed_at input) run s = (Inr u, t) \<Longrightarrow>
     ti_run input = Some run \<Longrightarrow> runs t = runs s @ run_rows C input"
  by (auto simp: insert_run_def run_rows_def add_run_def)

lemma apply_one_runs:
  assumes "apply_one C D fault input h s = (Inr u, t)"
  shows "runs t = runs s @ run_rows C input"
proof -
  from assms obtain c n p s1 s2 s3 s4 s5 s6 s7 es k k' where
    g: "guard_event C D (stored_case c) input s = (Inr p, s1)" and
    e: "insert_event C (event_record (stored_case c) input h n p) s1 = (Inr (), s2)" and
    r: "(case ti_run input of None \<Rightarrow> sreturn ()
         | Some run \<Rightarrow> insert_run C (ti_case_key input) (ei_event_id (ti_event input))
             (ti_observed_at input) run) s2 = (Inr (), s3)" and
    v: "insert_evidence C (ti_case_key input) (ti_observed_at input) (ti_evidence input) s3 = (Inr (), s4)" and
    f: "insert_findings C (ti_case_key input) (ei_event_id (ti_event input)) (ti_observed_at input)
       (ti_findings input) s4 = (Inr (), s5)" and
    j: "project_case input n p s5 = (Inr k, s6)" and
    o: "update_outbox (superseded_effect es (stored_case c) input (uint n))
       (supersede (uint (ti_observed_at input)) (ei_event_id (ti_event input))) s6 = (Inr k', s7)" and
    x: "insert_effects C (ti_case_key input) n (ti_observed_at input) (ti_effects input) s7 = (Inr (), t)"
    unfolding apply_one_def query_case_def by auto
  have "runs s3 = runs s2 @ run_rows C input"
    using r by (cases "ti_run input") (auto simp: run_rows_def dest: insert_run_Inr)
  then show ?thesis
    using stepsD [OF parts_keep_runs(1) g] stepsD [OF parts_keep_runs(2) e] stepsD [OF parts_keep_runs(3) v]
      stepsD [OF parts_keep_runs(4) f] stepsD [OF parts_keep_runs(6) j] stepsD [OF parts_keep_runs(7) o]
      stepsD [OF parts_keep_runs(5) x]
    by (simp add: keeps_runs_def)
qed

lemma apply_all_runs:
  "apply_all C D fault xs s = (Inr u, t) \<Longrightarrow> runs t = runs s @ concat (map (\<lambda>(input, h). run_rows C input) xs)"
  by (induction C D fault xs arbitrary: s rule: apply_all.induct)
    (auto split: if_splits dest: apply_one_runs)

lemma transition_input_run:
  "transition_input policy w = Inr input \<Longrightarrow>
     ti_run input = wc_run w \<and> ti_case_key input = CaseId_to_string (wc_case_id w) \<and>
     ei_event_id (ti_event input) = EventId_to_string (wc_event_id w)"
  by (auto simp: transition_input_def Let_def split: prod.splits)

lemma result_base_run:
  "result_base stored case_id event event_id at v run plan binding items = Inr w \<Longrightarrow>
     wc_run w = run \<and> wc_case_id w = case_id \<and> EventId_to_string (wc_event_id w) = event_id"
  by (auto simp: result_base_def EventId_from_str_iff)

lemma result_workflow_run:
  "result_workflow C R stored case_id policy binding result v s = Inr w \<Longrightarrow>
     wc_run w = Some (result_run binding v) \<and> wc_case_id w = case_id \<and>
     EventId_to_string (wc_event_id w) = result_event_id C ''result'' (wb_task_id binding)"
  by (auto simp: result_workflow_def dest: result_base_run)

lemma batch_transitions_all:
  "batch_transitions p prev ws = Inr inputs \<Longrightarrow> list_all2 (\<lambda>w i. transition_input p w = Inr i) ws inputs"
  by (induction p prev ws arbitrary: inputs rule: batch_transitions.induct) auto

text \<open>A batch whose last event is new is applied, and the runs of its commands are recorded.\<close>

lemma apply_batch_runs:
  assumes "LedgerController_apply_batch C D policy ws s = (Inr a, t)" "ws \<noteq> []"
    and "\<not> has_event s (EventId_to_string (wc_event_id (last ws)))"
  shows "\<exists>inputs p. list_all2 (\<lambda>w i. transition_input p w = Inr i) ws inputs \<and>
    runs t = runs s @ concat (map (run_rows C) inputs)"
proof -
  from assms(1,2) obtain p inputs where inputs: "batch_transitions p None ws = Inr inputs"
    and batch: "apply_transition_batch C D inputs None s = (Inr a, t)"
    by (cases ws) (auto simp: LedgerController_apply_batch_def)
  note all = batch_transitions_all [OF inputs]
  have ne: "inputs \<noteq> []" using all assms(2) by auto
  have "transition_input p (last ws) = Inr (last inputs)"
    using all assms(2) ne by (auto simp: list_all2_conv_all_nth last_conv_nth)
  then have "existing_event (ei_event_id (ti_event (last inputs))) s = None"
    using assms(3) transition_input_run by (auto simp: existing_event_def has_event_def find_None_iff list_ex_iff)
  then have "\<not> list_all (\<lambda>x. x \<noteq> None) (map (\<lambda>input. existing_event (ei_event_id (ti_event input)) s) inputs)"
    using last_in_set [OF ne] by (auto simp: list_all_iff intro!: bexI [of _ "last inputs"])
  then have "a \<noteq> Replayed"
    using batch by (auto simp: apply_transition_batch_def Let_def simp del: list.pred_map
        split: list.splits if_splits option.splits prod.splits)
  then have "apply_all C D None (zip inputs (map (\<lambda>input. hash_serialized C (TransitionInput_ser input)) inputs)) s
      = (Inr (), t)"
    using apply_transition_batch_Inr [OF batch] by blast
  from apply_all_runs [OF this] have "runs t = runs s @ concat (map (run_rows C) (map fst
      (zip inputs (map (\<lambda>input. hash_serialized C (TransitionInput_ser input)) inputs))))"
    by (simp add: split_def comp_def del: map_fst_zip)
  then have "runs t = runs s @ concat (map (run_rows C) inputs)" by (simp only: map_fst_zip length_map)
  with all show ?thesis by blast
qed

definition result_row :: "codec \<Rightarrow> WorkerBinding \<Rightarrow> json \<Rightarrow> RunRow \<Rightarrow> bool" where
  "result_row C binding v row \<longleftrightarrow>
     r_task_id row = wb_task_id binding \<and> r_role row = WorkerRole_wire (wb_role binding) \<and>
     r_payload_json row = json_to_string C v \<and>
     binding_case_id binding \<noteq> Inl InvalidBinding \<and>
     (\<forall>c. binding_case_id binding = Inr c \<longrightarrow> r_case_key row = CaseId_to_string c)"

lemma run_rows_result:
  assumes "transition_input p w = Inr input" "wc_run w = Some (result_run binding v)" "wc_case_id w = c"
    "binding_case_id binding = Inr c"
  shows "\<exists>row. run_rows C input = [row] \<and> result_row C binding v row"
  using transition_input_run [OF assms(1)] assms(2-)
  by (auto simp: run_rows_def result_row_def result_run_def payload_def Let_def)

lemma ingest_new_run:
  assumes "ingest_new C D R policy wp binding result v s = (Inr r, t)"
    and "\<not> has_event s (result_event_id C ''result'' (wb_task_id binding))"
  shows "\<exists>row. runs t = runs s @ [row] \<and> result_row C binding v row"
proof -
  from assms(1) obtain c stored where c: "binding_case_id binding = Inr c"
    and rest: "(\<exists>first revision w a. dispatch_command C stored c binding result = Inr first \<and>
        result_workflow C R (stored\<lparr>sc_state := ''BUILDING'', sc_state_revision := revision\<rparr>) c wp binding
          result v s = Inr w \<and>
        LedgerController_apply_batch C D policy [first, w] s = (Inr a, t)) \<or>
      (\<exists>w a. result_workflow C R stored c wp binding result v s = Inr w \<and>
        LedgerController_apply C D policy w s = (Inr a, t))"
    by (auto simp: ingest_new_def split: if_splits) blast+
  have one: "\<exists>row. run_rows C input = [row] \<and> result_row C binding v row"
    if "transition_input p w = Inr input" "result_workflow C R st c wp binding result v s = Inr w"
    for p w input st
    using run_rows_result [OF that(1)] result_workflow_run [OF that(2)] c by blast
  from rest show ?thesis
  proof (elim disjE exE conjE)
    fix first revision w a
    assume first: "dispatch_command C stored c binding result = Inr first"
      and w: "result_workflow C R (stored\<lparr>sc_state := ''BUILDING'', sc_state_revision := revision\<rparr>) c wp
        binding result v s = Inr w"
      and batch: "LedgerController_apply_batch C D policy [first, w] s = (Inr a, t)"
    have "\<not> has_event s (EventId_to_string (wc_event_id (last [first, w])))"
      using assms(2) result_workflow_run [OF w] by simp
    from apply_batch_runs [OF batch _ this] obtain p i j where
      ij: "transition_input p first = Inr i" "transition_input p w = Inr j"
      "runs t = runs s @ run_rows C i @ run_rows C j"
      by (auto simp: list_all2_Cons1)
    have "run_rows C i = []"
      using transition_input_run [OF ij(1)] first
      by (auto simp: run_rows_def dispatch_command_def dest!: result_base_run)
    with ij(3) one [OF ij(2) w] show ?thesis by auto
  next
    fix w a
    assume w: "result_workflow C R stored c wp binding result v s = Inr w"
      and "LedgerController_apply C D policy w s = (Inr a, t)"
    then have batch: "LedgerController_apply_batch C D policy [w] s = (Inr a, t)" by (simp add: apply_is_batch)
    have "\<not> has_event s (EventId_to_string (wc_event_id (last [w])))"
      using assms(2) result_workflow_run [OF w] by simp
    from apply_batch_runs [OF batch _ this] obtain p i where
      i: "transition_input p w = Inr i" "runs t = runs s @ run_rows C i"
      by (auto simp: list_all2_Cons1)
    with one [OF i(1) w] show ?thesis by auto
  qed
qed

text \<open>C13: a task is credited with one result. After a result was applied, the same result handed in
  again is recognised as a replay, and any other result for the task is refused as a conflict,
  whatever it says; neither touches the ledger.\<close>

theorem task_credited_once:
  assumes "codec_ok C" "wf_json (WorkerResult_value result)"
    and "\<not> has_event s (result_event_id C ''result'' (wb_task_id binding))"
    and run: "ingest_worker_result_inner C D R policy wp binding result s = (Inr (IngestApplied n), t)"
  shows "ingest_worker_result_inner C D R policy wp binding result t = (Inr IngestReplayed, t) \<and>
    (\<forall>other. validate_binding other binding = Inr () \<longrightarrow>
       WorkerResult_value other \<noteq> WorkerResult_value result \<longrightarrow>
       ingest_worker_result_inner C D R policy wp binding other t = (Inl ConflictingRun, t))"
proof -
  let ?v = "WorkerResult_value result"
  from run have valid: "validate_binding result binding = Inr ()"
    "(case wp of None \<Rightarrow> Inr () | Some p \<Rightarrow> validate_review_policy_binding p binding) = Inr ()"
    and none: "run_by_task_id C (wb_task_id binding) s = Inr None"
    and new: "ingest_new C D R policy wp binding result ?v s = (Inr (IngestApplied n), t)"
    by (auto simp: ingest_worker_result_inner_def Let_def split: option.splits if_splits)
  from ingest_new_run [OF new assms(3)] obtain row where
    row: "runs t = runs s @ [row]" "result_row C binding ?v row" by blast
  from row(2) obtain c where c: "binding_case_id binding = Inr c"
    by (cases "binding_case_id binding")
      (auto simp: result_row_def binding_case_id_def stored_case_id_def nonzero_or_def rbind_eq_Inl)
  have "find (\<lambda>r. r_task_id r = wb_task_id binding) (runs s) = None"
    using none by (auto simp: run_by_task_id_def split: option.splits)
  then have "find (\<lambda>r. r_task_id r = wb_task_id binding) (runs t) = Some row"
    using row by (simp add: row(1) find_snoc result_row_def)
  moreover have "json_from_str C (json_to_string C ?v) = Some ?v"
    using assms(1,2) by (simp add: codec_ok_def)
  ultimately obtain stored where stored: "run_by_task_id C (wb_task_id binding) t = Inr (Some stored)"
    "sr_case_key stored = CaseId_to_string c" "sr_role stored = WorkerRole_wire (wb_role binding)"
    "sr_payload stored = ?v"
    using row(2) c by (auto simp: run_by_task_id_def parse_stored_run_def result_row_def)
  then show ?thesis
    using valid c by (simp add: ingest_worker_result_inner_def Let_def sbind_def)
qed

section \<open>Sample results\<close>

definition sample_result_decoders :: result_decoders where
  "sample_result_decoders =
     \<lparr>role_from_value = (\<lambda>v. Some ReviewerGeneral), planner_from_value = (\<lambda>v. None),
      builder_from_value = (\<lambda>v. None), review_from_value = (\<lambda>v. Some sample_review),
      final_from_value = (\<lambda>v. None)\<rparr>"

definition sample_reviewed :: Store where
  "sample_reviewed = empty_store\<lparr>
     events := [\<lparr>e_event_id = ''e1'', e_case_key = ''k'', e_state_revision = 5, e_observed_at = 1,
       e_event_type = ''REVIEW_RECORDED'', e_payload_json = [], e_payload_sha256 = [], e_command_sha256 = [],
       e_previous_state = Some ''REVIEWING'', e_next_state = ''REVIEWING'', e_policy_revision = 1,
       e_remediation_round = 0, e_plan_version = 1, e_pr_number = Some 5, e_head_sha = None\<rparr>],
     runs := [\<lparr>r_run_id = ''run-t1'', r_case_key = ''k'', r_event_id = ''e1'', r_task_id = ''t1'',
       r_role = ''reviewer-general'', r_payload_json = ''n'', r_payload_sha256 = [], r_accepted_at = 1\<rparr>]\<rparr>"

definition sample_stored :: StoredCase where
  "sample_stored = \<lparr>sc_case_key = ''k'', sc_repository_id = 1, sc_issue_number = 2, sc_workflow_version = 1,
     sc_state = ''REVIEWING'', sc_state_revision = 5, sc_policy_revision = 1, sc_remediation_round = 0,
     sc_plan_version = 1, sc_pr_number = Some 5, sc_head_sha = None\<rparr>"

theorem cohort_approved_witness:
  "join_review sample_codec sample_result_decoders sample_stored (Some sample_policy)
     (sample_review\<lparr>rvr_reviewer_id := ''secperf''\<rparr>) sample_reviewed = Inr ReviewsApproved"
proof -
  have wf: "wf_policy sample_policy" by (rule built_wf [OF built_policy.new [OF sample_policy_new]])
  have prior: "matching_reviews sample_codec sample_result_decoders (sc_case_key sample_stored)
      (sample_review\<lparr>rvr_reviewer_id := ''secperf''\<rparr>) sample_reviewed = Inr [sample_review]"
    by code_simp
  have "map (\<lambda>r. the (rp_reviewer_id r)) (required_reviewers sample_policy) = [''general'', ''secperf'']" by code_simp
  then have ids: "(\<lambda>r. the (rp_reviewer_id r)) ` set (required_reviewers sample_policy) = {''general'', ''secperf''}"
    unfolding set_map [symmetric] by simp
  show ?thesis
    unfolding cohort_approved [OF wf prior] ids by (auto simp: sample_review_def)
qed

definition sample_planner_result :: WorkerResult where
  "sample_planner_result = PlannerW
     \<lparr>plr_common = \<lparr>cr_contract_version = 2, cr_workflow_version = 1,
        cr_case = \<lparr>ci_repository_id = 1, ci_issue_number = 2, ci_workflow_version = 1\<rparr>,
        cr_task_id = ''t1'', cr_role = Planner, cr_requested_model = ''openai/m-1'',
        cr_actual_model = ''openai/m-1'', cr_skills_repository_commit = replicate 40 (CHR ''a''),
        cr_started_at_unix = 1, cr_completed_at_unix = 20, cr_evidence = []\<rparr>,
      plr_outcome = PlannerOutcome.Proceed, plr_plan_version = 1,
      plr_planned_base_sha = replicate 40 (CHR ''b''), plr_root_cause = [], plr_authorized_scope = ''x'',
      plr_sensitive_scope = [], plr_dependencies = [], plr_open_decisions = [], plr_plan_artifact = ''p''\<rparr>"

definition sample_planner_binding :: WorkerBinding where
  "sample_planner_binding =
     \<lparr>wb_case = \<lparr>ci_repository_id = 1, ci_issue_number = 2, ci_workflow_version = 1\<rparr>,
      wb_task_id = ''t1'', wb_role = Planner, wb_reviewer_id = None, wb_review_mode = None,
      wb_requested_model = ''openai/m-1'', wb_skills_repository_commit = replicate 40 (CHR ''a''),
      wb_plan_version = 1, wb_pr_number = None, wb_expected_head_sha = None\<rparr>"

theorem task_credited_once_witness:
  "\<exists>t. ingest_worker_result_inner sample_codec sample_decoders sample_result_decoders sample_case_policy
       (Some sample_policy) sample_planner_binding sample_planner_result sample_ledger = (Inr (IngestApplied 1), t) \<and>
     ingest_worker_result_inner sample_codec sample_decoders sample_result_decoders sample_case_policy
       (Some sample_policy) sample_planner_binding sample_planner_result t = (Inr IngestReplayed, t)"
proof -
  have "fst (ingest_worker_result_inner sample_codec sample_decoders sample_result_decoders sample_case_policy
       (Some sample_policy) sample_planner_binding sample_planner_result sample_ledger) = Inr (IngestApplied 1)"
    by code_simp
  then obtain t where t: "ingest_worker_result_inner sample_codec sample_decoders sample_result_decoders
      sample_case_policy (Some sample_policy) sample_planner_binding sample_planner_result sample_ledger =
      (Inr (IngestApplied 1), t)" by (metis prod.collapse)
  have new: "\<not> has_event sample_ledger (result_event_id sample_codec ''result'' (wb_task_id sample_planner_binding))"
    by code_simp
  have wf: "wf_json (WorkerResult_value sample_planner_result)" by code_simp
  show ?thesis using t task_credited_once [OF sample_codec_ok wf new t] by blast
qed

end
