(* ===== verification/RepositoryPolicies.thy ===== *)
theory RepositoryPolicies
  imports RolePolicies Intake Revision
begin

text \<open>
  The repository policy, \<open>pip-control/src/policy.rs\<close>: its structure, the strict validation of a
  loaded policy, the views of it that intake, dispatch and the state machine take, and
  \<open>execution_policy_for\<close>, which decides whether a case that accepted an earlier policy may run
  under the current one. Reading a policy from bytes and its \<open>to_value\<close> are third-party code, the
  fields of \<open>policy_wire\<close>. The theorems show that every loaded policy is in shadow mode and
  dispatchable, and that an operational edit never changes what a case accepted.
\<close>

section \<open>Structure\<close>

record RepositoryIdentity =
  rid_id :: u64
  rid_owner :: string
  rid_name :: string
  rid_default_branch :: string

definition full_name :: "RepositoryIdentity \<Rightarrow> string" where
  "full_name r = rid_owner r @ ''/'' @ rid_name r"

record IntakeConfiguration =
  ic_enabled :: bool
  ic_paused :: bool
  ic_label :: string
  ic_trusted_actor_ids :: "u64 list"
  ic_excluded_issue_numbers :: "u64 list"
  ic_held_issue_numbers :: "u64 list"
  ic_repository_active_limit :: u32
  ic_global_active_limit :: u32

record ExecutionCapacity =
  xc_native_sessions :: u32
  xc_builders :: u32
  xc_direct_reviewers :: u32
  xc_ready_plans :: u32
  xc_cargo_jobs :: u32

definition ExecutionCapacity_valid :: "ExecutionCapacity \<Rightarrow> bool" where
  "ExecutionCapacity_valid x =
     list_all (\<lambda>n. 1 \<le> n \<and> n \<le> 8)
       [xc_native_sessions x, xc_builders x, xc_direct_reviewers x, xc_ready_plans x, xc_cargo_jobs x]"

record GitHubConfiguration =
  gh_automation_actor_id :: "u64 option"
  gh_reviewer_general_actor_id :: "u64 option"
  gh_reviewer_secperf_actor_id :: "u64 option"

datatype MergeModeConfiguration = ShadowMerge | GuardedMerge

record MergeConfiguration =
  mc_mode :: MergeModeConfiguration
  mc_autonomous :: bool
  mc_method :: string

definition is_shadow :: "MergeConfiguration \<Rightarrow> bool" where
  "is_shadow m \<longleftrightarrow> mc_mode m = ShadowMerge"

record RoleConfiguration =
  rc_role :: WorkerRole
  rc_reviewer_id :: "string option"
  rc_review_mode :: "ReviewMode option"
  rc_profile :: string
  rc_execution :: ExecutionKind
  rc_provider :: string
  rc_model :: string
  rc_reasoning_effort :: "string option"
  rc_max_runtime :: string
  rc_priority :: u32
  rc_skills :: "string list"

definition is_hermes :: "RoleConfiguration \<Rightarrow> bool" where
  "is_hermes r \<longleftrightarrow> rc_execution r = ExecutionKind.Hermes"

record WorkspaceStorageConfiguration =
  wsc_require_distinct_filesystem :: bool
  wsc_minimum_free_bytes :: u64
  wsc_terminal_retention_seconds :: u64

record ConversationModel =
  cm_provider :: string
  cm_model :: string
  cm_reasoning_effort :: string

record RepositoryPolicy =
  rpol_conversations_enabled :: bool
  rpol_conversation_model :: "ConversationModel option"
  rpol_policy_format :: u32
  rpol_revision :: u64
  rpol_repository :: RepositoryIdentity
  rpol_board :: string
  rpol_workflow_version :: u32
  rpol_checkout :: string
  rpol_workspace :: string
  rpol_artifacts :: string
  rpol_workspace_storage :: WorkspaceStorageConfiguration
  rpol_branch_prefix :: string
  rpol_github :: GitHubConfiguration
  rpol_intake :: IntakeConfiguration
  rpol_dispatch_enabled :: bool
  rpol_execution_capacity :: "ExecutionCapacity option"
  rpol_merge :: MergeConfiguration
  rpol_max_remediation_rounds :: u32
  rpol_max_case_elapsed_seconds :: u64
  rpol_max_provider_failures :: u32
  rpol_max_hermes_attempts :: "u32 option"
  rpol_max_outage_seconds :: "u64 option"
  rpol_max_stall_seconds :: "u64 option"
  rpol_hermes_scratch_root :: "string option"
  rpol_max_repeated_finding_fingerprint :: u32
  rpol_sensitive_scope_categories :: "string list"
  rpol_required_ci_contexts :: "string list"
  rpol_roles :: "RoleConfiguration list"

datatype PolicyError = PolicyMalformed | PolicyInvalid | PolicyDispatch DispatchError

text \<open>Third-party code: \<open>serde_json::from_slice\<close> and \<open>serde_json::to_value\<close> of a policy, and of
  its roles.\<close>

record policy_wire =
  policy_from_slice :: "string \<Rightarrow> RepositoryPolicy option"
  policy_to_value :: "RepositoryPolicy \<Rightarrow> json"
  roles_to_value :: "RoleConfiguration list \<Rightarrow> json"

section \<open>Limits\<close>

definition DEFAULT_MAX_OUTAGE_SECONDS :: u64 where
  "DEFAULT_MAX_OUTAGE_SECONDS = 6 * 60 * 60"

definition outage_limit_seconds :: "RepositoryPolicy \<Rightarrow> u64" where
  "outage_limit_seconds p =
     (case rpol_max_outage_seconds p of None \<Rightarrow> DEFAULT_MAX_OUTAGE_SECONDS | Some n \<Rightarrow> n)"

text \<open>\<open>str::parse::<u64>\<close>: an optional plus sign and decimal digits, in range.\<close>

definition parse_u64 :: "string \<Rightarrow> u64 option" where
  "parse_u64 s =
    (let digits = (if starts_with ''+'' s then tl s else s) in
     if digits = [] \<or> \<not> list_all is_ascii_digit digits then None
     else if int (read_digits digits) < 2 ^ 64 then Some (of_nat (read_digits digits)) else None)"

text \<open>\<open>strip_prefix("PT")?.strip_suffix('M')?.parse::<u64>().ok()\<close>.\<close>

definition runtime_minutes :: "string \<Rightarrow> u64 option" where
  "runtime_minutes value =
    (if starts_with ''PT'' value \<and> ends_with ''M'' (drop 2 value)
     then parse_u64 (butlast (drop 2 value)) else None)"

definition longest_runtime :: "RoleConfiguration list \<Rightarrow> u64" where
  "longest_runtime roles = fold max (List.map_filter (\<lambda>r. runtime_minutes (rc_max_runtime r)) roles) 0"

definition stall_limit_seconds :: "RepositoryPolicy \<Rightarrow> u64" where
  "stall_limit_seconds p =
    (case rpol_max_stall_seconds p of
       Some n \<Rightarrow> n
     | None \<Rightarrow> max (longest_runtime (rpol_roles p) * 60 + 2 * 60 * 60) (4 * 60 * 60))"

definition conversation_binding :: "RepositoryPolicy \<Rightarrow> RoleConfiguration option" where
  "conversation_binding p =
     map_option (\<lambda>role.
       case rpol_conversation_model p of
         None \<Rightarrow> role
       | Some b \<Rightarrow> role\<lparr>rc_provider := cm_provider b, rc_model := cm_model b,
           rc_reasoning_effort := Some (cm_reasoning_effort b)\<rparr>)
       (find (\<lambda>r. rc_role r = Planner \<and> is_hermes r) (rpol_roles p))"

section \<open>Which policy a case runs under\<close>

text \<open>The settings that may change under an existing case, set to fixed values.\<close>

definition normalize_policy :: "RepositoryPolicy \<Rightarrow> RepositoryPolicy" where
  "normalize_policy p =
     p\<lparr>rpol_revision := 1, rpol_execution_capacity := None,
       rpol_intake := (rpol_intake p)\<lparr>ic_repository_active_limit := 1, ic_global_active_limit := 1\<rparr>,
       rpol_conversations_enabled := False, rpol_conversation_model := None,
       rpol_max_case_elapsed_seconds := 1, rpol_max_provider_failures := 1,
       rpol_max_hermes_attempts := None, rpol_max_repeated_finding_fingerprint := 1,
       rpol_max_outage_seconds := None, rpol_max_stall_seconds := None\<rparr>"

definition builder_minutes :: "string \<Rightarrow> u64 option" where
  "builder_minutes value =
    (case runtime_minutes value of
       None \<Rightarrow> None
     | Some n \<Rightarrow> if 1 \<le> n \<and> n \<le> 240 then Some n else None)"

text \<open>The loop over the roles: a builder's longer ceiling is taken back to the accepted one.\<close>

fun compatible_roles ::
  "RoleConfiguration list \<Rightarrow> RoleConfiguration list \<Rightarrow> RoleConfiguration list option" where
  "compatible_roles (role # roles) (old # olds) =
    (if rc_role role = Builder \<and> rc_role old = Builder \<and> rc_max_runtime role \<noteq> rc_max_runtime old then
       Option.bind (builder_minutes (rc_max_runtime role)) (\<lambda>now.
       Option.bind (builder_minutes (rc_max_runtime old)) (\<lambda>before.
       if now \<le> before then None
       else map_option (Cons (role\<lparr>rc_max_runtime := rc_max_runtime old\<rparr>)) (compatible_roles roles olds)))
     else map_option (Cons role) (compatible_roles roles olds))"
| "compatible_roles roles olds = Some roles"

definition execution_policy_for ::
  "policy_wire \<Rightarrow> RepositoryPolicy \<Rightarrow> RepositoryPolicy \<Rightarrow> RepositoryPolicy option" where
  "execution_policy_for W p accepted =
    (if length (rpol_roles p) \<noteq> length (rpol_roles accepted) then None
     else Option.bind (compatible_roles (rpol_roles p) (rpol_roles accepted)) (\<lambda>roles.
       let compatible = p\<lparr>rpol_roles := roles\<rparr> in
       if policy_to_value W (normalize_policy compatible) \<noteq> policy_to_value W (normalize_policy accepted)
       then None
       else Some (compatible\<lparr>rpol_revision := rpol_revision accepted\<rparr>)))"

section \<open>Views\<close>

definition intake_policy :: "RepositoryPolicy \<Rightarrow> bool \<Rightarrow> IntakePolicy" where
  "intake_policy p paused =
     \<lparr>ip_revision = PolicyRevision (rpol_revision p), intake_enabled = ic_enabled (rpol_intake p),
      dispatch_enabled = rpol_dispatch_enabled p, global_paused = paused,
      repository_paused = ic_paused (rpol_intake p), required_label = ic_label (rpol_intake p),
      trusted_actor_ids = set (map ActorId (ic_trusted_actor_ids (rpol_intake p))),
      repository_active_limit = ic_repository_active_limit (rpol_intake p),
      global_active_limit = ic_global_active_limit (rpol_intake p)\<rparr>"

definition role_policy :: "RoleConfiguration \<Rightarrow> RolePolicy" where
  "role_policy r =
     \<lparr>rp_role = rc_role r, rp_reviewer_id = rc_reviewer_id r, rp_review_mode = rc_review_mode r,
      rp_profile = rc_profile r, rp_execution = rc_execution r, rp_provider = rc_provider r,
      rp_model = rc_model r, rp_max_runtime = rc_max_runtime r, rp_priority = rc_priority r,
      rp_skills = rc_skills r\<rparr>"

definition policy_workflow :: "RepositoryPolicy \<Rightarrow> PolicyError + WorkflowPolicy" where
  "policy_workflow p = map_err PolicyDispatch (
    rbind (WorkflowPolicy_new (rpol_board p) (rpol_workspace p) (rpol_branch_prefix p)
      (map role_policy (rpol_roles p))) (\<lambda>workflow.
    rbind (case rpol_execution_capacity p of
             Some capacity \<Rightarrow> with_cargo_jobs (xc_cargo_jobs capacity) (with_isolated_reviews workflow)
           | None \<Rightarrow> Inr workflow) (\<lambda>workflow.
    rbind (with_sensitive_scope_categories (rpol_sensitive_scope_categories p) workflow) (\<lambda>workflow.
    rbind (with_max_provider_failures (rpol_max_provider_failures p) workflow) (\<lambda>workflow.
    rbind (case rpol_max_hermes_attempts p of
             Some attempts \<Rightarrow> with_max_hermes_attempts attempts workflow
           | None \<Rightarrow> Inr workflow) (\<lambda>workflow.
    case rpol_hermes_scratch_root p of
      Some root \<Rightarrow> with_hermes_scratch_root root workflow
    | None \<Rightarrow> Inr workflow))))))"

definition case_policy :: "RepositoryPolicy \<Rightarrow> CasePolicy" where
  "case_policy p =
     \<lparr>cp_revision = PolicyRevision (rpol_revision p),
      cp_merge_mode = (if is_shadow (rpol_merge p) then Shadow else Guarded),
      cp_max_remediation_rounds = rpol_max_remediation_rounds p\<rparr>"

section \<open>Validation\<close>

definition valid_reasoning_effort :: "string \<Rightarrow> bool" where
  "valid_reasoning_effort value \<longleftrightarrow>
     value \<in> {''none'', ''minimal'', ''low'', ''medium'', ''high'', ''xhigh'', ''max'', ''ultra''}"

definition valid_absolute_path :: "string \<Rightarrow> bool" where
  "valid_absolute_path value \<longleftrightarrow>
     length value \<le> 4096 \<and> trim value = value \<and> value \<noteq> ''/'' \<and> is_absolute value \<and>
     list_all (\<lambda>c. case c of RootDir \<Rightarrow> True | Normal _ \<Rightarrow> True | _ \<Rightarrow> False) (path_components value)"

definition disjoint_paths :: "string \<Rightarrow> string \<Rightarrow> bool" where
  "disjoint_paths left right \<longleftrightarrow>
     path_components left \<noteq> path_components right \<and>
     \<not> path_starts_with left right \<and> \<not> path_starts_with right left"

definition valid_segment :: "string \<Rightarrow> bool" where
  "valid_segment value \<longleftrightarrow> value \<noteq> [] \<and> length value \<le> 256 \<and>
     list_all (\<lambda>b. is_ascii_alphanumeric b \<or> b \<in> {CHR ''-'', CHR ''_'', CHR ''.''}) value"

definition policy_branch_prefix_valid :: "string \<Rightarrow> bool" where
  "policy_branch_prefix_valid value \<longleftrightarrow>
     starts_with ''pip/'' value \<and> ends_with ''/'' value \<and>
     list_all valid_segment (split_on (CHR ''/'') (trim_end_matches (CHR ''/'') value))"

text \<open>\<open>str::contains\<close> with a text.\<close>

fun contains :: "string \<Rightarrow> string \<Rightarrow> bool" where
  "contains p [] = (p = [])"
| "contains p (c # s) = (starts_with p (c # s) \<or> contains p s)"

definition valid_git_ref :: "string \<Rightarrow> bool" where
  "valid_git_ref value \<longleftrightarrow>
     value \<noteq> [] \<and> \<not> starts_with ''/'' value \<and> \<not> ends_with ''/'' value \<and>
     \<not> contains ''..'' value \<and> \<not> contains ''//'' value \<and>
     list_all valid_segment (split_on (CHR ''/'') value)"

definition distinct_list :: "'a list \<Rightarrow> bool" where
  "distinct_list xs \<longleftrightarrow> length (remdups xs) = length xs"

definition conversation_model_valid :: "ConversationModel \<Rightarrow> bool" where
  "conversation_model_valid b \<longleftrightarrow>
     valid_segment (cm_provider b) \<and> \<not> blank (cm_model b) \<and> length (cm_model b) \<le> 200 \<and>
     list_all (\<lambda>c. is_ascii_alphanumeric c \<or> c \<in> set ''-._/'') (cm_model b) \<and>
     valid_reasoning_effort (cm_reasoning_effort b)"

definition paths_valid :: "RepositoryPolicy \<Rightarrow> bool" where
  "paths_valid p \<longleftrightarrow>
     valid_absolute_path (rpol_checkout p) \<and> valid_absolute_path (rpol_workspace p) \<and>
     valid_absolute_path (rpol_artifacts p) \<and> disjoint_paths (rpol_checkout p) (rpol_workspace p) \<and>
     disjoint_paths (rpol_checkout p) (rpol_artifacts p) \<and>
     disjoint_paths (rpol_workspace p) (rpol_artifacts p) \<and>
     (case rpol_hermes_scratch_root p of
        None \<Rightarrow> True
      | Some root \<Rightarrow> valid_absolute_path root \<and> disjoint_paths root (rpol_checkout p) \<and>
          disjoint_paths root (rpol_workspace p) \<and> disjoint_paths root (rpol_artifacts p))"

definition actors_valid :: "RepositoryPolicy \<Rightarrow> bool" where
  "actors_valid p \<longleftrightarrow>
    (let ids = [gh_automation_actor_id (rpol_github p), gh_reviewer_general_actor_id (rpol_github p),
                gh_reviewer_secperf_actor_id (rpol_github p)];
         configured = remdups (List.map_filter (\<lambda>x. x) ids) in
     list_all (\<lambda>i. 0 < i) configured \<and>
     (configured = [] \<and> list_all (\<lambda>x. x = None) ids \<or>
      length configured = length ids \<and> list_all (\<lambda>x. x \<noteq> None) ids) \<and>
     (\<not> rpol_dispatch_enabled p \<or> list_all (\<lambda>x. x \<noteq> None) ids))"

definition intake_valid :: "IntakeConfiguration \<Rightarrow> bool" where
  "intake_valid i \<longleftrightarrow>
     valid_segment (ic_label i) \<and> ic_trusted_actor_ids i \<noteq> [] \<and> distinct_list (ic_trusted_actor_ids i) \<and>
     list_all (\<lambda>a. 0 < a) (ic_trusted_actor_ids i) \<and>
     distinct_list (ic_excluded_issue_numbers i) \<and> list_all (\<lambda>n. 0 < n) (ic_excluded_issue_numbers i) \<and>
     distinct_list (ic_held_issue_numbers i) \<and> list_all (\<lambda>n. 0 < n) (ic_held_issue_numbers i) \<and>
     list_all (\<lambda>n. n \<notin> set (ic_held_issue_numbers i)) (ic_excluded_issue_numbers i) \<and>
     0 < ic_repository_active_limit i \<and> 0 < ic_global_active_limit i"

definition merge_valid :: "MergeConfiguration \<Rightarrow> bool" where
  "merge_valid m \<longleftrightarrow> is_shadow m \<and> \<not> mc_autonomous m \<and> mc_method m \<in> {''merge'', ''squash'', ''rebase''}"

definition limits_valid :: "RepositoryPolicy \<Rightarrow> bool" where
  "limits_valid p \<longleftrightarrow>
     0 < rpol_max_remediation_rounds p \<and> 0 < rpol_max_case_elapsed_seconds p \<and>
     0 < rpol_max_provider_failures p \<and> rpol_max_hermes_attempts p \<noteq> Some 0 \<and>
     rpol_max_outage_seconds p \<noteq> Some 0 \<and> rpol_max_stall_seconds p \<noteq> Some 0 \<and>
     0 < rpol_max_repeated_finding_fingerprint p"

definition scopes_valid :: "string list \<Rightarrow> bool" where
  "scopes_valid cs \<longleftrightarrow> distinct_list cs \<and>
     list_all (\<lambda>c. c \<in> {''CRYPTOGRAPHY'', ''MLS_CGKA'', ''KEY_HANDLING'', ''TRUST_ANCHOR'',
       ''MEMBERSHIP_AUTHORIZATION'', ''ADMIN_AUTHORIZATION'', ''PUSH_PAYLOAD_CONTEXT''}) cs"

definition reasoning_valid :: "RoleConfiguration \<Rightarrow> bool" where
  "reasoning_valid r =
    (case rc_execution r of
       ExecutionKind.Hermes \<Rightarrow>
         (case rc_reasoning_effort r of None \<Rightarrow> False | Some e \<Rightarrow> valid_reasoning_effort e)
     | ExecutionKind.Direct \<Rightarrow> rc_reasoning_effort r = None)"

definition validate_policy :: "RepositoryPolicy \<Rightarrow> PolicyError + unit" where
  "validate_policy p =
    (if rpol_policy_format p = 2 \<and>
        (case rpol_conversation_model p of None \<Rightarrow> True | Some b \<Rightarrow> conversation_model_valid b) \<and>
        0 < rpol_revision p \<and> 0 < rid_id (rpol_repository p) \<and>
        valid_segment (rid_owner (rpol_repository p)) \<and> valid_segment (rid_name (rpol_repository p)) \<and>
        valid_git_ref (rid_default_branch (rpol_repository p)) \<and> valid_segment (rpol_board p) \<and>
        0 < rpol_workflow_version p \<and> paths_valid p \<and>
        0 < wsc_minimum_free_bytes (rpol_workspace_storage p) \<and>
        0 < wsc_terminal_retention_seconds (rpol_workspace_storage p) \<and>
        policy_branch_prefix_valid (rpol_branch_prefix p) \<and> actors_valid p \<and> intake_valid (rpol_intake p) \<and>
        (case rpol_execution_capacity p of None \<Rightarrow> True | Some x \<Rightarrow> ExecutionCapacity_valid x) \<and>
        merge_valid (rpol_merge p) \<and> limits_valid p \<and> scopes_valid (rpol_sensitive_scope_categories p) \<and>
        list_all reasoning_valid (rpol_roles p) \<and> distinct_list (rpol_required_ci_contexts p) \<and>
        list_all (\<lambda>c. valid_text c 256) (rpol_required_ci_contexts p)
     then Inr () else Inl PolicyInvalid)"

definition load_repository_policy :: "policy_wire \<Rightarrow> string \<Rightarrow> PolicyError + RepositoryPolicy" where
  "load_repository_policy W bytes =
    (if bytes = [] \<or> 1024 * 1024 < int (length bytes) then Inl PolicyInvalid
     else
       rbind (ok_or (policy_from_slice W bytes) PolicyMalformed) (\<lambda>p.
       rbind (validate_policy p) (\<lambda>_.
       rbind (map_err (\<lambda>_. PolicyInvalid) (policy_workflow p)) (\<lambda>_.
       Inr p))))"

section \<open>What a loaded policy guarantees\<close>

lemma validate_policy_valid:
  assumes "validate_policy p = Inr ()"
  shows "0 < rpol_revision p" "0 < rid_id (rpol_repository p)" "0 < rpol_workflow_version p" "paths_valid p"
    "actors_valid p" "intake_valid (rpol_intake p)" "merge_valid (rpol_merge p)" "limits_valid p"
    "list_all reasoning_valid (rpol_roles p)"
  using assms by (simp_all add: validate_policy_def split: if_splits)

lemma policy_workflow_cases:
  assumes "policy_workflow p = Inr w"
  obtains a b c d e where
    "WorkflowPolicy_new (rpol_board p) (rpol_workspace p) (rpol_branch_prefix p)
      (map role_policy (rpol_roles p)) = Inr a"
    "(case rpol_execution_capacity p of
        Some x \<Rightarrow> with_cargo_jobs (xc_cargo_jobs x) (with_isolated_reviews a) | None \<Rightarrow> Inr a) = Inr b"
    "with_sensitive_scope_categories (rpol_sensitive_scope_categories p) b = Inr c"
    "with_max_provider_failures (rpol_max_provider_failures p) c = Inr d"
    "(case rpol_max_hermes_attempts p of Some n \<Rightarrow> with_max_hermes_attempts n d | None \<Rightarrow> Inr d) = Inr e"
    "(case rpol_hermes_scratch_root p of
        Some root \<Rightarrow> with_hermes_scratch_root root e | None \<Rightarrow> Inr e) = Inr w"
  using assms by (auto simp: policy_workflow_def map_err_def rbind_def split: sum.splits)

lemma policy_workflow_built:
  assumes "policy_workflow p = Inr w"
  shows "built_policy w"
  using assms
proof (cases rule: policy_workflow_cases)
  case (1 a b c d e)
  from built_policy.new [OF 1(1)] have "built_policy b"
    using 1(2) by (auto split: option.splits intro: built_policy.intros)
  then have "built_policy d" by (blast intro: built_policy.intros 1(3,4))
  then have "built_policy e" using 1(5) by (auto split: option.splits intro: built_policy.intros)
  then show ?thesis using 1(6) by (auto split: option.splits intro: built_policy.intros)
qed

lemma builder_roles:
  "wp_roles (with_isolated_reviews w) = wp_roles w"
  "with_cargo_jobs n w = Inr v \<Longrightarrow> wp_roles v = wp_roles w"
  "with_sensitive_scope_categories cs w = Inr v \<Longrightarrow> wp_roles v = wp_roles w"
  "with_max_provider_failures n w = Inr v \<Longrightarrow> wp_roles v = wp_roles w"
  "with_max_hermes_attempts n w = Inr v \<Longrightarrow> wp_roles v = wp_roles w"
  "with_hermes_scratch_root root w = Inr v \<Longrightarrow> wp_roles v = wp_roles w"
  "WorkflowPolicy_new board workspace branch roles = Inr v \<Longrightarrow> wp_roles v = roles"
  by (auto simp: with_isolated_reviews_def with_cargo_jobs_def with_sensitive_scope_categories_def
      with_max_provider_failures_def with_max_hermes_attempts_def with_hermes_scratch_root_def
      WorkflowPolicy_new_def Let_def split: if_splits)

lemma policy_workflow_roles:
  assumes "policy_workflow p = Inr w"
  shows "wp_roles w = map role_policy (rpol_roles p)"
  using assms
proof (cases rule: policy_workflow_cases)
  case (1 a b c d e)
  then show ?thesis by (simp add: builder_roles split: option.splits)
qed

lemma load_cases:
  assumes "load_repository_policy W bytes = Inr p"
  obtains w where "policy_from_slice W bytes = Some p" "validate_policy p = Inr ()" "policy_workflow p = Inr w"
  using assms
  by (auto simp: load_repository_policy_def rbind_def ok_or_def map_err_def split: if_splits sum.splits option.splits)

definition disjoint_directories :: "RepositoryPolicy \<Rightarrow> bool" where
  "disjoint_directories p \<longleftrightarrow>
    (let dirs = [rpol_checkout p, rpol_workspace p, rpol_artifacts p] @
       (case rpol_hermes_scratch_root p of None \<Rightarrow> [] | Some root \<Rightarrow> [root]) in
     \<forall>i < length dirs. \<forall>j < length dirs. i \<noteq> j \<longrightarrow> \<not> path_starts_with (dirs ! i) (dirs ! j))"

definition separate_identities :: "GitHubConfiguration \<Rightarrow> bool" where
  "separate_identities g \<longleftrightarrow>
     (\<exists>a b c. g = \<lparr>gh_automation_actor_id = Some a, gh_reviewer_general_actor_id = Some b,
        gh_reviewer_secperf_actor_id = Some c\<rparr> \<and> distinct [a, b, c] \<and> 0 \<notin> {a, b, c})"

lemma paths_disjoint: "paths_valid p \<Longrightarrow> disjoint_directories p"
  by (auto simp: paths_valid_def disjoint_directories_def disjoint_paths_def less_Suc_eq numeral_eq_Suc
      split: option.splits)

lemma actors_separate: "actors_valid p \<Longrightarrow> rpol_dispatch_enabled p \<longrightarrow> separate_identities (rpol_github p)"
  by (cases "rpol_github p")
    (auto simp: separate_identities_def actors_valid_def Let_def List.map_filter_simps word_gt_0 split: if_splits)

section \<open>What an edit of a policy changes\<close>

text \<open>The accepted policy with the operational settings of the current one.\<close>

definition operational_edit :: "RepositoryPolicy \<Rightarrow> RepositoryPolicy \<Rightarrow> RepositoryPolicy" where
  "operational_edit p accepted =
     accepted\<lparr>rpol_execution_capacity := rpol_execution_capacity p,
       rpol_intake := (rpol_intake accepted)\<lparr>
         ic_repository_active_limit := ic_repository_active_limit (rpol_intake p),
         ic_global_active_limit := ic_global_active_limit (rpol_intake p)\<rparr>,
       rpol_conversations_enabled := rpol_conversations_enabled p,
       rpol_conversation_model := rpol_conversation_model p,
       rpol_max_case_elapsed_seconds := rpol_max_case_elapsed_seconds p,
       rpol_max_provider_failures := rpol_max_provider_failures p,
       rpol_max_hermes_attempts := rpol_max_hermes_attempts p,
       rpol_max_repeated_finding_fingerprint := rpol_max_repeated_finding_fingerprint p,
       rpol_max_outage_seconds := rpol_max_outage_seconds p,
       rpol_max_stall_seconds := rpol_max_stall_seconds p\<rparr>"

lemma normalize_pinned:
  assumes "normalize_policy c = normalize_policy accepted"
  shows "c\<lparr>rpol_revision := rpol_revision accepted\<rparr> = operational_edit c accepted"
  using assms by (cases c, cases accepted, cases "rpol_intake c", cases "rpol_intake accepted")
    (simp add: normalize_policy_def operational_edit_def)

lemma normalize_operational [simp]:
  "normalize_policy ((operational_edit p accepted)\<lparr>rpol_revision := r\<rparr>) = normalize_policy accepted"
  by (simp add: normalize_policy_def operational_edit_def)

lemma compatible_roles_refl [simp]: "compatible_roles roles roles = Some roles"
  by (induction roles) simp_all

lemma operational_edit_ignores [simp]:
  "operational_edit (p\<lparr>rpol_roles := roles\<rparr>) accepted = operational_edit p accepted"
  "operational_edit ((operational_edit p accepted)\<lparr>rpol_revision := r\<rparr>) accepted = operational_edit p accepted"
  "rpol_roles (operational_edit p accepted) = rpol_roles accepted"
  by (simp_all add: operational_edit_def)

lemma execution_policy_pinned:
  assumes lossless: "inj (policy_to_value W)" and run: "execution_policy_for W p accepted = Some q"
  shows "q = operational_edit p accepted"
proof -
  from run obtain roles where
    same: "policy_to_value W (normalize_policy (p\<lparr>rpol_roles := roles\<rparr>)) = policy_to_value W (normalize_policy accepted)"
    and q: "q = p\<lparr>rpol_roles := roles, rpol_revision := rpol_revision accepted\<rparr>"
    by (auto simp: execution_policy_for_def Let_def Option.bind_eq_Some_conv split: if_splits)
  from normalize_pinned [OF injD [OF lossless same]] q show ?thesis by simp
qed

text \<open>A longer builder ceiling is a compatible edit that leaves the case its accepted ceiling.\<close>

definition raise_builder :: "string \<Rightarrow> RoleConfiguration \<Rightarrow> RoleConfiguration" where
  "raise_builder ceiling r = (if rc_role r = Builder then r\<lparr>rc_max_runtime := ceiling\<rparr> else r)"

definition longer_ceiling :: "string \<Rightarrow> RoleConfiguration list \<Rightarrow> bool" where
  "longer_ceiling ceiling roles = list_all (\<lambda>r. rc_role r = Builder \<longrightarrow> rc_max_runtime r = ceiling \<or>
     (case (builder_minutes ceiling, builder_minutes (rc_max_runtime r)) of
        (Some now, Some before) \<Rightarrow> before < now
      | _ \<Rightarrow> False)) roles"

lemma compatible_roles_raised:
  assumes "longer_ceiling ceiling roles"
  shows "compatible_roles (map (raise_builder ceiling) roles) roles = Some roles"
  using assms
proof (induction roles)
  case (Cons r roles)
  then have tail: "compatible_roles (map (raise_builder ceiling) roles) roles = Some roles"
    by (simp add: longer_ceiling_def)
  show ?case
  proof (cases "rc_role r = Builder \<and> rc_max_runtime r \<noteq> ceiling")
    case True
    then have "raise_builder ceiling r = r\<lparr>rc_max_runtime := ceiling\<rparr>" by (simp add: raise_builder_def)
    with True Cons.prems tail show ?thesis by (auto simp: not_le longer_ceiling_def split: option.splits)
  next
    case False
    then have "raise_builder ceiling r = r" by (auto simp: raise_builder_def)
    with tail show ?thesis by simp
  qed
qed simp


section \<open>Samples\<close>

definition sample_configuration :: "WorkerRole \<Rightarrow> string option \<Rightarrow> ExecutionKind \<Rightarrow> string \<Rightarrow> RoleConfiguration" where
  "sample_configuration role i execution provider =
     \<lparr>rc_role = role, rc_reviewer_id = i, rc_review_mode = map_option (\<lambda>_. Required) i,
      rc_profile = ''p'', rc_execution = execution, rc_provider = provider, rc_model = ''m-1'',
      rc_reasoning_effort = (if execution = ExecutionKind.Hermes then Some ''high'' else None),
      rc_max_runtime = ''PT30M'', rc_priority = 1, rc_skills = [''workflow-contract'', role_skill_name role]\<rparr>"

definition sample_repository :: RepositoryPolicy where
  "sample_repository =
     \<lparr>rpol_conversations_enabled = False, rpol_conversation_model = None, rpol_policy_format = 2,
      rpol_revision = 3,
      rpol_repository = \<lparr>rid_id = 7, rid_owner = ''o'', rid_name = ''r'', rid_default_branch = ''main''\<rparr>,
      rpol_board = ''pip'', rpol_workflow_version = 1, rpol_checkout = ''/c'', rpol_workspace = ''/w'',
      rpol_artifacts = ''/a'',
      rpol_workspace_storage = \<lparr>wsc_require_distinct_filesystem = True, wsc_minimum_free_bytes = 1,
        wsc_terminal_retention_seconds = 1\<rparr>,
      rpol_branch_prefix = ''pip/'',
      rpol_github = \<lparr>gh_automation_actor_id = Some 1, gh_reviewer_general_actor_id = Some 2,
        gh_reviewer_secperf_actor_id = Some 3\<rparr>,
      rpol_intake = \<lparr>ic_enabled = True, ic_paused = False, ic_label = ''pip'', ic_trusted_actor_ids = [5],
        ic_excluded_issue_numbers = [], ic_held_issue_numbers = [4], ic_repository_active_limit = 2,
        ic_global_active_limit = 4\<rparr>,
      rpol_dispatch_enabled = True, rpol_execution_capacity = None,
      rpol_merge = \<lparr>mc_mode = ShadowMerge, mc_autonomous = False, mc_method = ''squash''\<rparr>,
      rpol_max_remediation_rounds = 3, rpol_max_case_elapsed_seconds = 100, rpol_max_provider_failures = 1,
      rpol_max_hermes_attempts = None, rpol_max_outage_seconds = None, rpol_max_stall_seconds = None,
      rpol_hermes_scratch_root = None, rpol_max_repeated_finding_fingerprint = 2,
      rpol_sensitive_scope_categories = [''CRYPTOGRAPHY''], rpol_required_ci_contexts = [],
      rpol_roles =
        [sample_configuration Planner None ExecutionKind.Hermes ''openai'',
         sample_configuration Builder None ExecutionKind.Direct ''cursor'',
         sample_configuration ReviewerGeneral (Some ''general'') ExecutionKind.Hermes ''openai'',
         sample_configuration ReviewerSecperf (Some ''secperf'') ExecutionKind.Hermes ''openai'',
         sample_configuration FinalReviewer None ExecutionKind.Hermes ''openai'']\<rparr>"

text \<open>One encoding that loses nothing: every structure as the array of its fields.\<close>

definition optional :: "('a \<Rightarrow> json) \<Rightarrow> 'a option \<Rightarrow> json" where
  "optional f x = JArr (case x of None \<Rightarrow> [] | Some a \<Rightarrow> [f a])"

definition texts :: "string list \<Rightarrow> json" where
  "texts xs = JArr (map JStr xs)"

definition role_array :: "RoleConfiguration \<Rightarrow> json" where
  "role_array r = JArr
     [JStr (role_skill_name (rc_role r)), optional JStr (rc_reviewer_id r),
      optional (\<lambda>m. JStr (ReviewMode_wire m)) (rc_review_mode r), JStr (rc_profile r),
      JBool (rc_execution r = ExecutionKind.Hermes), JStr (rc_provider r), JStr (rc_model r),
      optional JStr (rc_reasoning_effort r), JStr (rc_max_runtime r), json_u32 (rc_priority r), texts (rc_skills r)]"

definition intake_array :: "IntakeConfiguration \<Rightarrow> json" where
  "intake_array i = JArr
     [JBool (ic_enabled i), JBool (ic_paused i), JStr (ic_label i), JArr (map JPos (ic_trusted_actor_ids i)),
      JArr (map JPos (ic_excluded_issue_numbers i)), JArr (map JPos (ic_held_issue_numbers i)),
      json_u32 (ic_repository_active_limit i), json_u32 (ic_global_active_limit i)]"

definition policy_array :: "RepositoryPolicy \<Rightarrow> json" where
  "policy_array p = JArr
     [JBool (rpol_conversations_enabled p),
      optional (\<lambda>b. JArr [JStr (cm_provider b), JStr (cm_model b), JStr (cm_reasoning_effort b)])
        (rpol_conversation_model p),
      json_u32 (rpol_policy_format p), JPos (rpol_revision p), JPos (rid_id (rpol_repository p)),
      JStr (rid_owner (rpol_repository p)), JStr (rid_name (rpol_repository p)),
      JStr (rid_default_branch (rpol_repository p)), JStr (rpol_board p), json_u32 (rpol_workflow_version p),
      JStr (rpol_checkout p), JStr (rpol_workspace p), JStr (rpol_artifacts p),
      JBool (wsc_require_distinct_filesystem (rpol_workspace_storage p)),
      JPos (wsc_minimum_free_bytes (rpol_workspace_storage p)),
      JPos (wsc_terminal_retention_seconds (rpol_workspace_storage p)), JStr (rpol_branch_prefix p),
      optional JPos (gh_automation_actor_id (rpol_github p)),
      optional JPos (gh_reviewer_general_actor_id (rpol_github p)),
      optional JPos (gh_reviewer_secperf_actor_id (rpol_github p)),
      intake_array (rpol_intake p), JBool (rpol_dispatch_enabled p),
      optional (\<lambda>x. JArr [json_u32 (xc_native_sessions x), json_u32 (xc_builders x),
        json_u32 (xc_direct_reviewers x), json_u32 (xc_ready_plans x), json_u32 (xc_cargo_jobs x)])
        (rpol_execution_capacity p),
      JBool (mc_mode (rpol_merge p) = ShadowMerge), JBool (mc_autonomous (rpol_merge p)), JStr (mc_method (rpol_merge p)),
      json_u32 (rpol_max_remediation_rounds p), JPos (rpol_max_case_elapsed_seconds p),
      json_u32 (rpol_max_provider_failures p), optional json_u32 (rpol_max_hermes_attempts p),
      optional JPos (rpol_max_outage_seconds p), optional JPos (rpol_max_stall_seconds p),
      optional JStr (rpol_hermes_scratch_root p), json_u32 (rpol_max_repeated_finding_fingerprint p),
      texts (rpol_sensitive_scope_categories p), texts (rpol_required_ci_contexts p),
      JArr (map role_array (rpol_roles p))]"

definition sample_wire :: policy_wire where
  "sample_wire = \<lparr>policy_from_slice = (\<lambda>_. Some sample_repository), policy_to_value = policy_array,
     roles_to_value = (\<lambda>roles. JArr (map role_array roles))\<rparr>"

lemma optional_inj: "inj f \<Longrightarrow> optional f x = optional f y \<longleftrightarrow> x = y"
  by (auto simp: optional_def dest: injD split: option.splits)

lemma number32_inj: "json_u32 a = json_u32 b \<longleftrightarrow> a = b"
  by (metis json_u32_def json.inject(2) ucast_ucast_u32)

lemma role_name_inj: "role_skill_name a = role_skill_name b \<longleftrightarrow> a = b"
  by (cases a; cases b) simp_all

lemma review_mode_inj: "ReviewMode_wire a = ReviewMode_wire b \<longleftrightarrow> a = b"
  by (cases a; cases b) simp_all

lemma json_constructors_inj:
  "inj JStr" "inj JPos" "inj json_u32" "inj (\<lambda>m. JStr (ReviewMode_wire m))"
  "inj (\<lambda>b :: ConversationModel. JArr [JStr (cm_provider b), JStr (cm_model b), JStr (cm_reasoning_effort b)])"
  "inj (\<lambda>x :: ExecutionCapacity. JArr [json_u32 (xc_native_sessions x), json_u32 (xc_builders x),
        json_u32 (xc_direct_reviewers x), json_u32 (xc_ready_plans x), json_u32 (xc_cargo_jobs x)])"
  by (auto intro!: injI ConversationModel.equality ExecutionCapacity.equality simp: number32_inj review_mode_inj)

lemmas array_fields = optional_inj [OF json_constructors_inj(1)] optional_inj [OF json_constructors_inj(2)]
  optional_inj [OF json_constructors_inj(3)] optional_inj [OF json_constructors_inj(4)]
  optional_inj [OF json_constructors_inj(5)] optional_inj [OF json_constructors_inj(6)]
  number32_inj role_name_inj texts_def inj_map_eq_map [OF json_constructors_inj(1)]
  inj_map_eq_map [OF json_constructors_inj(2)]

lemma execution_inj: "(a = ExecutionKind.Hermes) = (b = ExecutionKind.Hermes) \<longleftrightarrow> a = b"
  by (cases a; cases b) simp_all

lemma merge_mode_inj: "(a = ShadowMerge) = (b = ShadowMerge) \<longleftrightarrow> a = b"
  by (cases a; cases b) simp_all

lemma role_array_inj: "inj role_array"
  by (rule injI, rule RoleConfiguration.equality) (simp_all add: role_array_def array_fields execution_inj)

lemma intake_array_inj: "intake_array a = intake_array b \<Longrightarrow> a = b"
  by (rule IntakeConfiguration.equality) (simp_all add: intake_array_def array_fields)

lemma policy_array_inj: "inj policy_array"
proof (rule injI)
  fix p q assume eq: "policy_array p = policy_array q"
  then have nested: "rpol_repository p = rpol_repository q" "rpol_workspace_storage p = rpol_workspace_storage q"
    "rpol_github p = rpol_github q" "rpol_merge p = rpol_merge q"
    by (auto intro!: RepositoryIdentity.equality WorkspaceStorageConfiguration.equality
        GitHubConfiguration.equality MergeConfiguration.equality simp: policy_array_def array_fields merge_mode_inj)
  from eq have "rpol_intake p = rpol_intake q" by (intro intake_array_inj) (simp add: policy_array_def)
  with eq nested show "p = q"
    by (intro RepositoryPolicy.equality) (simp_all add: policy_array_def array_fields inj_map_eq_map [OF role_array_inj])
qed

section \<open>Properties\<close>



text \<open>C18: editing the policy file never changes what a running case accepted. The policy a case runs
  under after an edit, when there is one, is the accepted policy with the operational settings of
  the edited one (capacity and admission limits, conversation settings, retry, time and outage
  limits) and the accepted revision; roles, models, actors, paths, merge mode and remediation
  bound are those the case accepted. Every edit of the operational settings alone is taken over,
  and so is one that also gives the builder more time, which leaves the case its old ceiling.\<close>

theorem accepted_policy_pinned:
  assumes lossless: "inj (policy_to_value W)"
  shows "(\<forall>q. execution_policy_for W p accepted = Some q \<longrightarrow> q = operational_edit p accepted) \<and>
    execution_policy_for W ((operational_edit p accepted)\<lparr>rpol_revision := r\<rparr>) accepted =
      Some (operational_edit p accepted) \<and>
    (longer_ceiling ceiling (rpol_roles accepted) \<longrightarrow>
      execution_policy_for W ((operational_edit p accepted)
        \<lparr>rpol_revision := r, rpol_roles := map (raise_builder ceiling) (rpol_roles accepted)\<rparr>) accepted =
      Some (operational_edit p accepted))"
proof -
  have "execution_policy_for W ((operational_edit p accepted)\<lparr>rpol_revision := r\<rparr>) accepted =
      Some (operational_edit p accepted)"
    by (simp add: execution_policy_for_def operational_edit_def normalize_policy_def)
  moreover have "execution_policy_for W ((operational_edit p accepted)
        \<lparr>rpol_revision := r, rpol_roles := map (raise_builder ceiling) (rpol_roles accepted)\<rparr>) accepted =
      Some (operational_edit p accepted)" if "longer_ceiling ceiling (rpol_roles accepted)"
    using compatible_roles_raised [OF that]
    by (simp add: execution_policy_for_def operational_edit_def normalize_policy_def)
  ultimately show ?thesis using execution_policy_pinned [OF lossless] by blast
qed

theorem accepted_policy_pinned_witness:
  "execution_policy_for sample_wire (sample_repository\<lparr>rpol_revision := 4, rpol_max_outage_seconds := Some 60,
     rpol_roles := map (raise_builder ''PT60M'') (rpol_roles sample_repository)\<rparr>) sample_repository =
   Some (sample_repository\<lparr>rpol_max_outage_seconds := Some 60\<rparr>)"
proof -
  have "inj (policy_to_value sample_wire)" by (simp add: sample_wire_def policy_array_inj)
  moreover have "longer_ceiling ''PT60M'' (rpol_roles sample_repository)" by code_simp
  ultimately show ?thesis
    using accepted_policy_pinned [of sample_wire "sample_repository\<lparr>rpol_max_outage_seconds := Some 60\<rparr>"
        sample_repository 4 "''PT60M''"]
    by (simp add: sample_repository_def operational_edit_def)
qed

end
