(* ===== verification/GitHubEvidence.thy ===== *)
theory GitHubEvidence
  imports RepositoryPolicies Scheduling
begin

text \<open>
  What the controller reads from GitHub: the snapshots of \<open>pip-github/src/lib.rs\<close> and
  \<open>discussion.rs\<close>, the interface \<open>IntakeSource\<close> of \<open>pip-control/src/shadow.rs\<close> and the read-only
  shadow reconciliation of the same file. The code is generic over the source, whose
  implementation calls the GitHub service: a source is a record of functions that every operation
  using it takes as an argument.
\<close>

section \<open>Snapshots\<close>

datatype GitHubError =
    InvalidConfiguration
  | InvalidRepository
  | InvalidIssueNumber
  | HttpStatus "16 word"
  | ResponseTooLarge
  | MalformedJson string
  | InvalidIdentity
  | PaginationLimit
  | UnsafePaginationUrl
  | InvalidMutation
  | MarkerConflict
  | DuplicateOwnership
  | OwnershipConflict
  | MutationDisabled
  | RateLimited u64
  | Transport string

record RepositorySnapshot =
  rs_id :: u64
  rs_full_name :: string
  rs_default_branch :: string

text \<open>A \<open>BTreeSet\<close> is the sorted list of its elements.\<close>

record IssueSnapshot =
  is_id :: u64
  is_number :: u64
  is_open :: bool
  is_is_pull_request :: bool
  is_labels :: "string list"
  is_assignee_ids :: "u64 list"

definition matches_discovery :: "IssueSnapshot \<Rightarrow> IssueSnapshot \<Rightarrow> bool" where
  "matches_discovery issue discovery \<longleftrightarrow>
     is_id issue = is_id discovery \<and> is_number issue = is_number discovery \<and>
     is_open issue = is_open discovery \<and> is_is_pull_request issue = is_is_pull_request discovery \<and>
     is_labels issue = is_labels discovery"

definition issue_assigned_to_other :: "IssueSnapshot \<Rightarrow> u64 option \<Rightarrow> bool" where
  "issue_assigned_to_other issue automation_actor_id \<longleftrightarrow>
     list_ex (\<lambda>actor. Some actor \<noteq> automation_actor_id) (is_assignee_ids issue)"

record IssueContentSnapshot =
  ics_author_id :: u64
  ics_title :: string
  ics_body :: string
  ics_created_at :: string
  ics_updated_at :: string

record LabelEvent =
  le_id :: u64
  le_labeled :: bool
  le_actor_id :: u64
  le_label :: string
  le_created_at :: string

record IssueCommentSnapshot =
  icm_id :: u64
  icm_actor_id :: u64
  icm_issue_number :: u64
  icm_html_url :: string
  icm_body :: string
  icm_body_sha256 :: string
  icm_created_at :: string
  icm_updated_at :: string

record IntakeSnapshot =
  ins_repository :: RepositorySnapshot
  ins_issue :: IssueSnapshot
  ins_issue_content :: IssueContentSnapshot
  ins_label_events :: "LabelEvent list"
  ins_comments :: "IssueCommentSnapshot list"

record DiscussionComment =
  dc_id :: u64
  dc_actor_id :: u64
  dc_human :: bool
  dc_body :: string
  dc_updated_at :: string
  dc_reply_to :: "u64 option"
  dc_context :: json

section \<open>Wire forms\<close>

text \<open>The derived \<open>Serialize\<close> as a \<open>Value\<close>.\<close>

definition RepositorySnapshot_value :: "RepositorySnapshot \<Rightarrow> json" where
  "RepositorySnapshot_value r = JObj (object_of
     [(''id'', JPos (rs_id r)), (''full_name'', JStr (rs_full_name r)),
      (''default_branch'', JStr (rs_default_branch r))])"

definition IssueSnapshot_value :: "IssueSnapshot \<Rightarrow> json" where
  "IssueSnapshot_value i = JObj (object_of
     [(''id'', JPos (is_id i)), (''number'', JPos (is_number i)), (''open'', JBool (is_open i)),
      (''is_pull_request'', JBool (is_is_pull_request i)), (''labels'', JArr (map JStr (is_labels i))),
      (''assignee_ids'', JArr (map JPos (is_assignee_ids i)))])"

definition IssueContentSnapshot_value :: "IssueContentSnapshot \<Rightarrow> json" where
  "IssueContentSnapshot_value c = JObj (object_of
     [(''author_id'', JPos (ics_author_id c)), (''title'', JStr (ics_title c)), (''body'', JStr (ics_body c)),
      (''created_at'', JStr (ics_created_at c)), (''updated_at'', JStr (ics_updated_at c))])"

definition IssueCommentSnapshot_value :: "IssueCommentSnapshot \<Rightarrow> json" where
  "IssueCommentSnapshot_value c = JObj (object_of
     [(''id'', JPos (icm_id c)), (''actor_id'', JPos (icm_actor_id c)), (''issue_number'', JPos (icm_issue_number c)),
      (''html_url'', JStr (icm_html_url c)), (''body'', JStr (icm_body c)), (''body_sha256'', JStr (icm_body_sha256 c)),
      (''created_at'', JStr (icm_created_at c)), (''updated_at'', JStr (icm_updated_at c))])"

definition DiscussionComment_value :: "DiscussionComment \<Rightarrow> json" where
  "DiscussionComment_value c = JObj (object_of
     ([(''id'', JPos (dc_id c)), (''actor_id'', JPos (dc_actor_id c)), (''human'', JBool (dc_human c)),
       (''body'', JStr (dc_body c)), (''updated_at'', JStr (dc_updated_at c)),
       (''reply_to'', json_opt JPos (dc_reply_to c))] @
      (if dc_context c = JNull then [] else [(''context'', dc_context c)])))"

section \<open>The source\<close>

text \<open>Owner and name come first in every call.\<close>

record intake_source =
  src_claim_issue :: "string \<Rightarrow> string \<Rightarrow> IssueSnapshot \<Rightarrow> u64 \<Rightarrow> GitHubError + IssueSnapshot"
  src_actor_login :: "u64 \<Rightarrow> GitHubError + string"
  src_discussion_comment :: "string \<Rightarrow> string \<Rightarrow> u64 \<Rightarrow> string \<Rightarrow> u64 \<Rightarrow> GitHubError + DiscussionComment"
  src_discover :: "string \<Rightarrow> string \<Rightarrow> string \<Rightarrow> GitHubError + IssueSnapshot list"
  src_intake :: "string \<Rightarrow> string \<Rightarrow> u64 \<Rightarrow> GitHubError + IntakeSnapshot"

section \<open>Label events\<close>

text \<open>\<open>Iterator::max_by_key\<close>, which returns the last of several maxima.\<close>

definition max_by :: "('a \<Rightarrow> 'a \<Rightarrow> bool) \<Rightarrow> 'a list \<Rightarrow> 'a option" where
  "max_by le xs =
     foldl (\<lambda>best x. case best of None \<Rightarrow> Some x | Some b \<Rightarrow> if le b x then Some x else Some b) None xs"

definition label_not_after :: "LabelEvent \<Rightarrow> LabelEvent \<Rightarrow> bool" where
  "label_not_after a b \<longleftrightarrow>
     le_created_at a < le_created_at b \<or> le_created_at a = le_created_at b \<and> le_id a \<le> le_id b"

definition latest_label_event :: "RepositoryPolicy \<Rightarrow> IntakeSnapshot \<Rightarrow> LabelEvent option" where
  "latest_label_event policy snapshot =
     max_by label_not_after (filter (\<lambda>e. le_label e = ic_label (rpol_intake policy)) (ins_label_events snapshot))"

definition latest_label_actor :: "LabelEvent option \<Rightarrow> u64 option" where
  "latest_label_actor latest =
    (case latest of None \<Rightarrow> None | Some e \<Rightarrow> if le_labeled e then Some (le_actor_id e) else None)"

section \<open>Shadow reconciliation\<close>

text \<open>The text of \<open>Evidence\<close> is that of a GitHub error or a message of its own.\<close>

datatype ShadowError =
    ShadowDispatchEnabled
  | ShadowEvidence GitHubError
  | ShadowMessage string
  | RepositoryDrift
  | DiscoveryDrift

record ShadowCandidate =
  sca_issue_number :: u64
  sca_issue_id :: u64
  sca_latest_label_actor_id :: "u64 option"
  sca_decision :: string
  sca_blockers :: "string list"

record ShadowReport =
  sre_report_format :: u32
  sre_observed_at :: u64
  sre_repository_id :: u64
  sre_repository :: string
  sre_policy_revision :: u64
  sre_intake_enabled :: bool
  sre_dispatch_enabled :: bool
  sre_mutation_count :: u64
  sre_candidates :: "ShadowCandidate list"

definition same_repository :: "RepositoryPolicy \<Rightarrow> IntakeSnapshot \<Rightarrow> bool" where
  "same_repository policy snapshot \<longleftrightarrow>
     rs_id (ins_repository snapshot) = rid_id (rpol_repository policy) \<and>
     rs_full_name (ins_repository snapshot) = full_name (rpol_repository policy) \<and>
     rs_default_branch (ins_repository snapshot) = rid_default_branch (rpol_repository policy)"

text \<open>The observation of an issue that \<open>evaluate_intake\<close> reads.\<close>

definition observe_issue ::
  "RepositoryPolicy \<Rightarrow> IntakeSnapshot \<Rightarrow> u64 \<Rightarrow> bool \<Rightarrow> u32 \<Rightarrow> u32 \<Rightarrow> IssueObservation" where
  "observe_issue policy snapshot number taken repository_active global_active =
     \<lparr>io_open = is_open (ins_issue snapshot), io_is_pull_request = is_is_pull_request (ins_issue snapshot),
      io_labels = set (is_labels (ins_issue snapshot)),
      latest_label_actor_id = map_option ActorId
        (Option.bind (latest_label_actor (latest_label_event policy snapshot)) nonzero),
      io_excluded = number \<in> set (ic_excluded_issue_numbers (rpol_intake policy)),
      io_held = number \<in> set (ic_held_issue_numbers (rpol_intake policy)), already_owned = taken,
      assigned_to_other = issue_assigned_to_other (ins_issue snapshot) (gh_automation_actor_id (rpol_github policy)),
      repository_active_cases = repository_active, global_active_cases = global_active\<rparr>"

definition decision_text :: "IntakeDecision \<Rightarrow> string \<times> string list" where
  "decision_text d =
    (case d of
       Eligible \<Rightarrow> (''ELIGIBLE'', [])
     | Ineligible blockers \<Rightarrow> (''INELIGIBLE'', map IntakeBlocker_to_string blockers))"

definition shadow_candidate ::
  "intake_source \<Rightarrow> RepositoryPolicy \<Rightarrow> u32 \<Rightarrow> u32 \<Rightarrow> IssueSnapshot \<Rightarrow> ShadowError + ShadowCandidate" where
  "shadow_candidate src policy repository_active global_active issue =
     rbind (map_err ShadowEvidence (src_intake src (rid_owner (rpol_repository policy))
       (rid_name (rpol_repository policy)) (is_number issue))) (\<lambda>snapshot.
     rbind (reject_if (\<not> same_repository policy snapshot) RepositoryDrift) (\<lambda>_.
     rbind (reject_if (\<not> matches_discovery (ins_issue snapshot) issue) DiscoveryDrift) (\<lambda>_.
     let (decision, blockers) = decision_text (evaluate_intake (intake_policy policy False)
       (observe_issue policy snapshot (is_number issue) False repository_active global_active)) in
     Inr \<lparr>sca_issue_number = is_number issue, sca_issue_id = is_id issue,
       sca_latest_label_actor_id = latest_label_actor (latest_label_event policy snapshot),
       sca_decision = decision, sca_blockers = blockers\<rparr>)))"

definition discovered_issues :: "intake_source \<Rightarrow> RepositoryPolicy \<Rightarrow> GitHubError + IssueSnapshot list" where
  "discovered_issues src policy =
     rbind (src_discover src (rid_owner (rpol_repository policy)) (rid_name (rpol_repository policy))
       (ic_label (rpol_intake policy))) (\<lambda>discovered.
     Inr (sort_key is_number discovered))"

definition reconcile_read_only ::
  "intake_source \<Rightarrow> RepositoryPolicy \<Rightarrow> u64 \<Rightarrow> u32 \<Rightarrow> u32 \<Rightarrow> ShadowError + ShadowReport" where
  "reconcile_read_only src policy observed_at repository_active global_active =
     rbind (reject_if (rpol_dispatch_enabled policy) ShadowDispatchEnabled) (\<lambda>_.
     rbind (map_err ShadowEvidence (discovered_issues src policy)) (\<lambda>discovered.
     rbind (rmap (shadow_candidate src policy repository_active global_active) discovered) (\<lambda>candidates.
     Inr \<lparr>sre_report_format = 1, sre_observed_at = observed_at,
       sre_repository_id = rid_id (rpol_repository policy), sre_repository = full_name (rpol_repository policy),
       sre_policy_revision = rpol_revision policy, sre_intake_enabled = ic_enabled (rpol_intake policy),
       sre_dispatch_enabled = rpol_dispatch_enabled policy, sre_mutation_count = 0,
       sre_candidates = candidates\<rparr>)))"

end
