(* ===== verification/ActiveIntake.thy ===== *)
theory ActiveIntake
  imports GitHubEvidence Flow
begin

text \<open>
  Live intake, \<open>pip-control/src/intake.rs\<close>: the evidence of the discovered issues is read and
  checked against the policy, and every issue that a trusted actor authorized, while there is
  capacity, becomes a case of the ledger or reopens an abandoned one. The process lock around
  admission is not part of the model: an admission starts with the lock held, so that no other
  intake runs between its observation of capacity and its write. The theorems show that intake
  takes steps of the controlled ledger, that it opens only cases whose evidence authorizes them,
  and that it never raises the number of active cases above the limits.
\<close>

section \<open>Errors and reports\<close>

datatype ActiveIntakeError =
    ActivationDisabled
  | IntakeEvidence ShadowError
  | IntakeStore StoreError
  | IntakeInvalidIdentity
  | InvalidWebhook string
  | Coordination string

record IntakeCandidateResult =
  icr_issue_number :: u64
  icr_issue_id :: u64
  icr_decision :: string
  icr_blockers :: "string list"
  icr_case_key :: "string option"

record ActiveIntakeReport =
  air_report_format :: u32
  air_observed_at :: u64
  air_repository_id :: u64
  air_repository :: string
  air_policy_revision :: u64
  air_mutation_count :: u64
  air_candidates :: "IntakeCandidateResult list"

type_synonym 'a intake_op = "(Store, ActiveIntakeError, 'a) smonad"

definition intake_store :: "'a store_op \<Rightarrow> 'a intake_op" where
  "intake_store m = (\<lambda>s. case m s of (r, t) \<Rightarrow> (map_err IntakeStore r, t))"

definition intake_read :: "(Store \<Rightarrow> StoreError + 'a) \<Rightarrow> 'a intake_op" where
  "intake_read f = squery (\<lambda>s. map_err IntakeStore (f s))"

definition evidence_error :: "GitHubError \<Rightarrow> ActiveIntakeError" where
  "evidence_error e = IntakeEvidence (ShadowEvidence e)"

section \<open>Policies and capacity\<close>

definition record_case_policy :: "codec \<Rightarrow> policy_wire \<Rightarrow> RepositoryPolicy \<Rightarrow> u64 \<Rightarrow> ApplyResult intake_op" where
  "record_case_policy C W policy observed_at =
     intake_store (record_policy C
       \<lparr>pli_repository_id = rid_id (rpol_repository policy), pli_revision = rpol_revision policy,
        pli_accepted_at = observed_at,
        pli_payload = policy_to_value W (policy\<lparr>rpol_conversations_enabled := False,
          rpol_conversation_model := None\<rparr>)\<rparr>)"

definition active_state :: "string \<Rightarrow> bool" where
  "active_state state \<longleftrightarrow>
     state \<notin> {''SHADOW_READY'', ''COMPLETED'', ''ABANDONED'', ''TAKEN_OVER'', ''ESCALATED'', ''BLOCKED'',
       ''WAITING_HUMAN''}"

definition intake_case_id :: "RepositoryPolicy \<Rightarrow> u64 \<Rightarrow> ActiveIntakeError + CaseId" where
  "intake_case_id policy issue_number =
     rbind (nonzero_or IntakeInvalidIdentity (rid_id (rpol_repository policy))) (\<lambda>repository.
     rbind (nonzero_or IntakeInvalidIdentity issue_number) (\<lambda>issue.
     rbind (nonzero_or IntakeInvalidIdentity (rpol_workflow_version policy)) (\<lambda>workflow.
     Inr \<lparr>cid_repository = RepositoryId repository, cid_issue = IssueNumber issue,
       cid_workflow = WorkflowVersion workflow\<rparr>)))"

text \<open>\<open>u32::try_from(count).unwrap_or(u32::MAX)\<close>.\<close>

definition count_u32 :: "nat \<Rightarrow> u32" where
  "count_u32 n = (if int n < 2 ^ 32 then of_nat n else - 1)"

definition repository_active :: "RepositoryPolicy \<Rightarrow> LedgerStatus \<Rightarrow> nat" where
  "repository_active policy report =
     length (filter (\<lambda>c. sc_repository_id c = rid_id (rpol_repository policy) \<and> active_state (sc_state c))
       (ls_cases report))"

definition global_active :: "LedgerStatus \<Rightarrow> nat" where
  "global_active report = length (filter (\<lambda>c. active_state (sc_state c)) (ls_cases report))"

definition lookahead_full :: "RepositoryPolicy \<Rightarrow> LedgerStatus \<Rightarrow> bool" where
  "lookahead_full policy report =
    (case rpol_execution_capacity policy of
       None \<Rightarrow> False
     | Some capacity \<Rightarrow>
         unat (xc_ready_plans capacity) <
           length (filter (\<lambda>c. sc_repository_id c = rid_id (rpol_repository policy) \<and>
             sc_state c \<in> {''PLANNING'', ''READY_TO_BUILD''}) (ls_cases report)))"

section \<open>Admission of one issue\<close>

definition removed_label_id :: "RepositoryPolicy \<Rightarrow> IntakeSnapshot \<Rightarrow> u64" where
  "removed_label_id policy snapshot =
     foldl max 0 (map le_id (filter (\<lambda>e. le_label e = ic_label (rpol_intake policy) \<and> \<not> le_labeled e \<and>
       (case latest_label_event policy snapshot of None \<Rightarrow> False | Some latest \<Rightarrow> le_id e < le_id latest))
       (ins_label_events snapshot)))"

definition issue_context :: "IntakeSnapshot \<Rightarrow> IssueSnapshot \<Rightarrow> u64 \<Rightarrow> json" where
  "issue_context snapshot issue observed_at = JObj (object_of
     [(''schema_version'', JPos 1), (''observed_at'', JPos observed_at),
      (''repository'', RepositorySnapshot_value (ins_repository snapshot)),
      (''issue'', IssueSnapshot_value issue),
      (''issue_content'', IssueContentSnapshot_value (ins_issue_content snapshot)),
      (''comments'', JArr (map IssueCommentSnapshot_value (ins_comments snapshot)))])"

definition ineligible :: "IssueSnapshot \<Rightarrow> string list \<Rightarrow> IntakeCandidateResult" where
  "ineligible issue blockers =
     \<lparr>icr_issue_number = is_number issue, icr_issue_id = is_id issue, icr_decision = ''INELIGIBLE'',
      icr_blockers = blockers, icr_case_key = None\<rparr>"

definition claim_issue :: "intake_source \<Rightarrow> RepositoryPolicy \<Rightarrow> IssueSnapshot \<Rightarrow> GitHubError + IssueSnapshot" where
  "claim_issue src policy issue =
    (case gh_automation_actor_id (rpol_github policy) of
       None \<Rightarrow> Inl InvalidIdentity
     | Some actor \<Rightarrow>
         if actor = 0 then Inl InvalidIdentity
         else src_claim_issue src (rid_owner (rpol_repository policy)) (rid_name (rpol_repository policy)) issue actor)"

definition claim_confirmed :: "RepositoryPolicy \<Rightarrow> IssueSnapshot \<Rightarrow> IssueSnapshot \<Rightarrow> bool" where
  "claim_confirmed policy issue claimed \<longleftrightarrow>
     claimed\<lparr>is_assignee_ids := is_assignee_ids issue\<rparr> = issue \<and>
     \<not> issue_assigned_to_other claimed (gh_automation_actor_id (rpol_github policy)) \<and>
     (case gh_automation_actor_id (rpol_github policy) of
        None \<Rightarrow> False
      | Some actor \<Rightarrow> actor \<in> set (is_assignee_ids claimed))"

definition intake_identity :: "RepositoryPolicy \<Rightarrow> IssueSnapshot \<Rightarrow> LabelEvent \<Rightarrow> string" where
  "intake_identity policy issue label_event =
     ''repo'' @ show_word (rid_id (rpol_repository policy)) @ ''-issue'' @ show_word (is_number issue) @
     ''-workflow'' @ show_word (rpol_workflow_version policy) @ ''-label'' @ show_word (le_id label_event)"

definition authorization_payload ::
  "RepositoryPolicy \<Rightarrow> IssueSnapshot \<Rightarrow> LabelEvent \<Rightarrow> json \<Rightarrow> json_object" where
  "authorization_payload policy issue label_event observed = object_of
     [(''repository_id'', JPos (rid_id (rpol_repository policy))), (''issue_id'', JPos (is_id issue)),
      (''issue_number'', JPos (is_number issue)), (''label'', JStr (ic_label (rpol_intake policy))),
      (''label_event_id'', JPos (le_id label_event)), (''label_actor_id'', JPos (le_actor_id label_event)),
      (''issue_context'', observed)]"

definition planner_effect :: "string \<Rightarrow> string \<Rightarrow> u64 \<Rightarrow> EffectInput" where
  "planner_effect identity case_key revision =
     \<lparr>fx_effect_id = ''effect-intake-'' @ identity @ ''-planner'', fx_effect_type = ''DISPATCH_PLANNER'',
      fx_payload = JObj (object_of [(''case_key'', JStr case_key), (''state_revision'', JPos revision),
        (''effect'', JStr ''DISPATCH_PLANNER'')])\<rparr>"

definition intake_new_case ::
  "RepositoryPolicy \<Rightarrow> string \<Rightarrow> IssueSnapshot \<Rightarrow> LabelEvent \<Rightarrow> json \<Rightarrow> u64 \<Rightarrow> NewCase" where
  "intake_new_case policy case_key issue label_event context observed_at =
    (let identity = intake_identity policy issue label_event in
     \<lparr>nc_case_key = case_key, nc_repository_id = rid_id (rpol_repository policy), nc_issue_number = is_number issue,
      nc_workflow_version = rpol_workflow_version policy, nc_policy_revision = rpol_revision policy,
      nc_initial_state = CaseState_to_string Planning, nc_observed_at = observed_at,
      nc_event = \<lparr>ei_event_id = ''event-intake-'' @ identity, ei_event_type = ''ISSUE_AUTHORIZED'',
        ei_payload = JObj (authorization_payload policy issue label_event context)\<rparr>,
      nc_effects = [planner_effect identity case_key 1]\<rparr>)"

definition intake_reopening ::
  "RepositoryPolicy \<Rightarrow> StoredCase \<Rightarrow> string \<Rightarrow> IssueSnapshot \<Rightarrow> LabelEvent \<Rightarrow> u64 \<Rightarrow> json \<Rightarrow> u64 \<Rightarrow> TransitionInput" where
  "intake_reopening policy c case_key issue label_event removed context observed_at =
    (let identity = intake_identity policy issue label_event in
     \<lparr>ti_case_key = case_key, ti_expected_revision = sc_state_revision c, ti_next_state = ''PLANNING'',
      ti_remediation_round = sc_remediation_round c, ti_plan_version = sc_plan_version c,
      ti_pr_number = sc_pr_number c, ti_head_sha = sc_head_sha c, ti_observed_at = observed_at,
      ti_event = \<lparr>ei_event_id = ''event-intake-'' @ identity, ei_event_type = ''ISSUE_REAUTHORIZED'',
        ei_payload = JObj (object_insert ''policy_revision'' (JPos (rpol_revision policy))
          (object_insert ''removed_label_event_id'' (JPos removed)
            (authorization_payload policy issue label_event context)))\<rparr>,
      ti_run = None, ti_evidence = [], ti_findings = [],
      ti_effects = [planner_effect identity case_key (sc_state_revision c + 1)]\<rparr>)"

text \<open>Claims the issue and writes the case, once everything else allows it.\<close>

definition admit ::
  "codec \<Rightarrow> decoders \<Rightarrow> intake_source \<Rightarrow> RepositoryPolicy \<Rightarrow> u64 \<Rightarrow> IntakeSnapshot \<Rightarrow> CaseId \<Rightarrow>
     StoredCase option \<Rightarrow> (IntakeCandidateResult \<times> ApplyResult option) intake_op" where
  "admit C D src policy observed_at snapshot case_id existing =
    (let issue = ins_issue snapshot; case_key = CaseId_to_string case_id in
     case claim_issue src policy issue of
       Inl _ \<Rightarrow> sreturn (ineligible issue [''ISSUE_ASSIGNMENT_UNCONFIRMED''], None)
     | Inr claimed \<Rightarrow>
         sbind (sreject_if (\<not> claim_confirmed policy issue claimed) IntakeInvalidIdentity) (\<lambda>_.
         sbind (slift (ok_or (case latest_label_event policy snapshot of
             None \<Rightarrow> None
           | Some e \<Rightarrow> if le_labeled e then Some e else None) IntakeInvalidIdentity)) (\<lambda>label_event.
         let context = issue_context snapshot claimed observed_at in
         sbind (case existing of
             Some c \<Rightarrow> intake_store (apply_transition C D (intake_reopening policy c case_key issue label_event
               (removed_label_id policy snapshot) context observed_at) None)
           | None \<Rightarrow> intake_store (create_case C (intake_new_case policy case_key issue label_event context observed_at)))
         (\<lambda>result.
         sreturn (\<lparr>icr_issue_number = is_number issue, icr_issue_id = is_id issue, icr_decision = ''ELIGIBLE'',
           icr_blockers = [], icr_case_key = Some case_key\<rparr>, Some result)))))"

definition observe_at :: "RepositoryPolicy \<Rightarrow> IntakeSnapshot \<Rightarrow> bool \<Rightarrow> LedgerStatus \<Rightarrow> IssueObservation" where
  "observe_at policy snapshot taken report =
     observe_issue policy snapshot (is_number (ins_issue snapshot)) taken
       (count_u32 (repository_active policy report)) (count_u32 (global_active report))"

definition reconcile_issue ::
  "codec \<Rightarrow> decoders \<Rightarrow> intake_source \<Rightarrow> RepositoryPolicy \<Rightarrow> u64 \<Rightarrow> bool \<Rightarrow> (string list \<Rightarrow> bool) \<Rightarrow> IntakeSnapshot \<Rightarrow>
     (IntakeCandidateResult \<times> ApplyResult option) intake_op" where
  "reconcile_issue C D src policy observed_at paused quiescent snapshot =
    (let issue = ins_issue snapshot in
     sbind (slift (intake_case_id policy (is_number issue))) (\<lambda>case_id.
     let case_key = CaseId_to_string case_id in
     sbind (sread (query_case case_key)) (\<lambda>existing.
     sbind (if existing \<noteq> None
         then intake_read (reauthorization_eligible C case_key
           (case latest_label_event policy snapshot of None \<Rightarrow> 0 | Some e \<Rightarrow> le_id e) (removed_label_id policy snapshot))
         else sreturn False) (\<lambda>reauthorize.
     sbind (intake_read (status observed_at)) (\<lambda>report.
     case evaluate_intake (intake_policy policy paused)
         (observe_at policy snapshot (existing \<noteq> None \<and> \<not> reauthorize) report) of
       Ineligible blockers \<Rightarrow> sreturn (ineligible issue (map IntakeBlocker_to_string blockers), None)
     | Eligible \<Rightarrow>
         if lookahead_full policy report then sreturn (ineligible issue [''PLANNING_LOOKAHEAD_FULL''], None)
         else
           sbind (sread (\<lambda>s. reauthorize \<and> \<not> quiescent (case_task_ids case_key s))) (\<lambda>busy.
           if busy then sreturn (ineligible issue [''PREVIOUS_WORK_NOT_QUIESCENT''], None)
           else
             sbind (sreject_if (256 * 1024 < int (length (json_to_string C (issue_context snapshot issue observed_at))))
               (InvalidWebhook ''issue context exceeds worker evidence bound'')) (\<lambda>_.
             admit C D src policy observed_at snapshot case_id existing)))))))"

definition applied_count :: "ApplyResult option \<Rightarrow> u64" where
  "applied_count r = (if r = Some Applied then 1 else 0)"

fun reconcile_issues ::
  "codec \<Rightarrow> decoders \<Rightarrow> intake_source \<Rightarrow> RepositoryPolicy \<Rightarrow> u64 \<Rightarrow> bool \<Rightarrow> (string list \<Rightarrow> bool) \<Rightarrow>
     IntakeSnapshot list \<Rightarrow> (IntakeCandidateResult list \<times> u64) intake_op" where
  "reconcile_issues C D src policy observed_at paused quiescent [] = sreturn ([], 0)"
| "reconcile_issues C D src policy observed_at paused quiescent (snapshot # snapshots) =
     sbind (reconcile_issue C D src policy observed_at paused quiescent snapshot) (\<lambda>(candidate, result).
     sbind (reconcile_issues C D src policy observed_at paused quiescent snapshots) (\<lambda>(candidates, mutations).
     sreturn (candidate # candidates, applied_count result + mutations)))"

definition reconcile_validated_evidence ::
  "codec \<Rightarrow> decoders \<Rightarrow> policy_wire \<Rightarrow> intake_source \<Rightarrow> RepositoryPolicy \<Rightarrow> u64 \<Rightarrow> bool \<Rightarrow> IntakeSnapshot list \<Rightarrow>
     (string list \<Rightarrow> bool) \<Rightarrow> ActiveIntakeReport intake_op" where
  "reconcile_validated_evidence C D W src policy observed_at paused validated quiescent =
     sbind (record_case_policy C W policy observed_at) (\<lambda>policy_result.
     sbind (reconcile_issues C D src policy observed_at paused quiescent validated) (\<lambda>(candidates, mutations).
     sreturn \<lparr>air_report_format = 1, air_observed_at = observed_at,
       air_repository_id = rid_id (rpol_repository policy), air_repository = full_name (rpol_repository policy),
       air_policy_revision = rpol_revision policy,
       air_mutation_count = applied_count (Some policy_result) + mutations, air_candidates = candidates\<rparr>))"

section \<open>Polling\<close>

definition validated_snapshot ::
  "intake_source \<Rightarrow> RepositoryPolicy \<Rightarrow> IssueSnapshot \<Rightarrow> ActiveIntakeError + IntakeSnapshot" where
  "validated_snapshot src policy issue =
     rbind (map_err evidence_error (src_intake src (rid_owner (rpol_repository policy))
       (rid_name (rpol_repository policy)) (is_number issue))) (\<lambda>snapshot.
     rbind (reject_if (\<not> same_repository policy snapshot) (IntakeEvidence RepositoryDrift)) (\<lambda>_.
     rbind (reject_if (\<not> matches_discovery (ins_issue snapshot) issue) (IntakeEvidence DiscoveryDrift)) (\<lambda>_.
     Inr snapshot)))"

definition reconcile_intake_with_quiescence ::
  "codec \<Rightarrow> decoders \<Rightarrow> policy_wire \<Rightarrow> intake_source \<Rightarrow> RepositoryPolicy \<Rightarrow> u64 \<Rightarrow> bool \<Rightarrow>
     (string list \<Rightarrow> bool) \<Rightarrow> ActiveIntakeReport intake_op" where
  "reconcile_intake_with_quiescence C D W src policy observed_at paused quiescent =
     sbind (sreject_if (\<not> ic_enabled (rpol_intake policy) \<or> ic_paused (rpol_intake policy) \<or>
       \<not> rpol_dispatch_enabled policy \<or> paused) ActivationDisabled) (\<lambda>_.
     sbind (slift (map_err evidence_error (discovered_issues src policy))) (\<lambda>discovered.
     sbind (slift (rmap (validated_snapshot src policy) discovered)) (\<lambda>validated.
     reconcile_validated_evidence C D W src policy observed_at paused validated quiescent)))"

definition reconcile_intake ::
  "codec \<Rightarrow> decoders \<Rightarrow> policy_wire \<Rightarrow> intake_source \<Rightarrow> RepositoryPolicy \<Rightarrow> u64 \<Rightarrow> bool \<Rightarrow>
     ActiveIntakeReport intake_op" where
  "reconcile_intake C D W src policy observed_at paused =
     reconcile_intake_with_quiescence C D W src policy observed_at paused (\<lambda>_. False)"

section \<open>Admission is authorized and bounded\<close>

text \<open>The write of an admission: a new case or the reopening of an abandoned one.\<close>

inductive admission :: "codec \<Rightarrow> decoders \<Rightarrow> string \<Rightarrow> Store \<Rightarrow> Store \<Rightarrow> bool" for C D k where
  opens: "nc_case_key input = k \<Longrightarrow> nc_initial_state input = ''PLANNING'' \<Longrightarrow> create_case C input s = (r, t) \<Longrightarrow>
    admission C D k s t"
| reopens: "ti_case_key input = k \<Longrightarrow> ei_event_type (ti_event input) = ''ISSUE_REAUTHORIZED'' \<Longrightarrow>
    apply_transition C D input None s = (r, t) \<Longrightarrow> admission C D k s t"

lemma admission_step: "admission C D k s t \<Longrightarrow> controlled_step M C D s t"
  by (erule admission.cases) (auto intro: controlled_step.authorize controlled_step.reauthorize)

lemma admission_touches:
  assumes "ledger_inv s" "admission C D k s t" "j \<noteq> k"
  shows "find_case j t = find_case j s"
  using assms(2)
proof cases
  case (opens input r)
  show ?thesis
  proof (cases r)
    case (Inl e)
    then show ?thesis using satomicD [OF create_case_atomic] opens(3) by blast
  next
    case (Inr a)
    from create_case_find [OF opens(3) [unfolded Inr] opens(2)] assms(3) opens(1) show ?thesis
      by (auto simp: find_case_def find_snoc split: option.splits)
  qed
next
  case (reopens input r)
  show ?thesis
  proof (cases "\<exists>h. apply_one C D None input h s = (Inr (), t)")
    case True
    then obtain h where one: "apply_one C D None input h s = (Inr (), t)" ..
    show ?thesis by (rule apply_one_find [OF assms(1) one]) (use assms(3) reopens(1) in auto)
  next
    case False
    have "t = s"
    proof (cases r)
      case (Inl e)
      then show ?thesis
        using satomicD [OF apply_transition_batch_atomic] reopens(3) unfolding apply_transition_def by blast
    next
      case (Inr a)
      with reopens(3) apply_transition_batch_Inr [of C D "[input]" None s a t] False show ?thesis
        by (auto simp: apply_transition_def)
    qed
    then show ?thesis by simp
  qed
qed

lemma intake_store_run: "intake_store m s = (r, t) \<Longrightarrow> \<exists>r'. m s = (r', t)"
  by (auto simp: intake_store_def split: prod.splits)

lemma admit_run:
  assumes "admit C D src policy observed_at snapshot case_id existing s = (r, t)"
  shows "t = s \<or> admission C D (CaseId_to_string case_id) s t"
proof -
  have create: "admission C D k s t" if "intake_store (create_case C (intake_new_case policy k issue e v observed_at)) s = (x, t)"
    for k issue e v x t
    using intake_store_run [OF that] by (auto intro!: admission.opens simp: intake_new_case_def Let_def)
  have reopen: "admission C D k s t"
    if "intake_store (apply_transition C D (intake_reopening policy c k issue e n v observed_at) None) s = (x, t)"
    for k c issue e n v x t
    using intake_store_run [OF that] by (auto intro!: admission.reopens simp: intake_reopening_def Let_def)
  show ?thesis
    using assms unfolding admit_def Let_def
    by (auto simp: sbind_def sreturn_def slift_def sreject_if_def sfail_def split: sum.splits prod.splits option.splits if_splits
        dest: create reopen)
qed

lemma reconcile_issue_run:
  assumes "reconcile_issue C D src policy observed_at paused quiescent snapshot s = (r, t)"
  shows "t = s \<or> (\<exists>case_id report taken. intake_case_id policy (is_number (ins_issue snapshot)) = Inr case_id \<and>
    status observed_at s = Inr report \<and>
    evaluate_intake (intake_policy policy paused) (observe_at policy snapshot taken report) = Eligible \<and>
    admission C D (CaseId_to_string case_id) s t)"
  using assms unfolding reconcile_issue_def Let_def
  by (auto simp: sbind_def sreturn_def slift_def sread_def sreject_if_def sfail_def squery_def intake_read_def map_err_def
      split: sum.splits prod.splits IntakeDecision.splits if_splits dest!: admit_run)

lemma eligible_iff: "evaluate_intake p i = Eligible \<longleftrightarrow> (\<forall>b. \<not> blocked_by p i b)"
  unfolding evaluate_intake_filter Let_def
  by (auto simp: filter_empty_conv set_IntakeBlocker_ALL)

lemma count_u32_less:
  assumes "unat (count_u32 n) < unat (m :: u32)"
  shows "n < unat m"
proof (cases "int n < 2 ^ 32")
  case True
  then have "n mod 4294967296 = n" by simp
  with True assms show ?thesis by (simp add: count_u32_def unat_of_nat)
next
  case False
  have "unat m \<le> 2 ^ 32 - 1" using unsigned_less [of m, where 'a = nat] by simp
  with False assms show ?thesis by (simp add: count_u32_def unsigned_minus_1_eq_mask mask_eq_exp_minus_1)
qed

text \<open>What an issue needs before it becomes a case.\<close>

definition authorizes :: "RepositoryPolicy \<Rightarrow> bool \<Rightarrow> IntakeSnapshot \<Rightarrow> bool" where
  "authorizes policy paused snapshot \<longleftrightarrow>
     ic_enabled (rpol_intake policy) \<and> \<not> ic_paused (rpol_intake policy) \<and> rpol_dispatch_enabled policy \<and> \<not> paused \<and>
     is_open (ins_issue snapshot) \<and> \<not> is_is_pull_request (ins_issue snapshot) \<and>
     ic_label (rpol_intake policy) \<in> set (is_labels (ins_issue snapshot)) \<and>
     (\<exists>e. latest_label_event policy snapshot = Some e \<and> le_labeled e \<and>
        le_actor_id e \<in> set (ic_trusted_actor_ids (rpol_intake policy))) \<and>
     is_number (ins_issue snapshot) \<notin> set (ic_excluded_issue_numbers (rpol_intake policy)) \<and>
     is_number (ins_issue snapshot) \<notin> set (ic_held_issue_numbers (rpol_intake policy)) \<and>
     \<not> issue_assigned_to_other (ins_issue snapshot) (gh_automation_actor_id (rpol_github policy))"

lemma eligible_authorizes:
  assumes "evaluate_intake (intake_policy policy paused) (observe_at policy snapshot taken report) = Eligible"
  shows "authorizes policy paused snapshot"
    and "repository_active policy report < unat (ic_repository_active_limit (rpol_intake policy))"
    and "global_active report < unat (ic_global_active_limit (rpol_intake policy))"
proof -
  note free = assms [unfolded eligible_iff, THEN spec]
  have "authorized_label (intake_policy policy paused) (observe_at policy snapshot taken report)"
    using free [of RequiredLabelMissing] free [of UntrustedLabelActor] by auto
  then show "authorizes policy paused snapshot"
    using free [of IntakeDisabled] free [of GlobalPaused] free [of RepositoryPaused] free [of DispatchDisabled]
      free [of IssueClosed] free [of PullRequest] free [of Excluded] free [of Held] free [of AssignedToOther]
    by (auto simp: authorizes_def authorized_label_def intake_policy_def observe_at_def observe_issue_def
        latest_label_actor_def bind_eq_Some_conv split: option.splits if_splits)
  show "repository_active policy report < unat (ic_repository_active_limit (rpol_intake policy))"
    using free [of RepositoryLimitReached]
    by (auto simp: intake_policy_def observe_at_def observe_issue_def not_le intro: count_u32_less)
  show "global_active report < unat (ic_global_active_limit (rpol_intake policy))"
    using free [of GlobalLimitReached]
    by (auto simp: intake_policy_def observe_at_def observe_issue_def not_le intro: count_u32_less)
qed

text \<open>The cases that hold a slot, in a repository and in all.\<close>

definition holds_slot :: "u64 \<Rightarrow> StoredCase \<Rightarrow> bool" where
  "holds_slot repository c \<longleftrightarrow> sc_repository_id c = repository \<and> active_state (sc_state c)"

definition slots :: "(StoredCase \<Rightarrow> bool) \<Rightarrow> Store \<Rightarrow> nat" where
  "slots P s = length (filter (\<lambda>r. P (stored_case r)) (cases_table s))"

lemma slots_status:
  assumes "status now s = Inr report"
  shows "length (filter P (ls_cases report)) = slots P s"
proof -
  have "ls_cases report = map stored_case (sort_key c_repository_id (sort_key c_issue_number
      (sort_key c_workflow_version (cases_table s))))"
    using assms by (auto simp: status_def)
  then show ?thesis by (simp add: slots_def filter_map filter_sort comp_def)
qed

lemma slots_card:
  assumes "distinct (map c_case_key (cases_table s))"
  shows "slots P s = card {k. \<exists>r. find_case k s = Some r \<and> P (stored_case r)}"
proof -
  let ?rows = "filter (\<lambda>r. P (stored_case r)) (cases_table s)"
  have "distinct (map c_case_key ?rows)" using assms by (rule distinct_map_filter)
  moreover have "{k. \<exists>r. find_case k s = Some r \<and> P (stored_case r)} = set (map c_case_key ?rows)"
    using assms by (auto simp: find_case_iff)
  ultimately show ?thesis unfolding slots_def by (metis distinct_card length_map)
qed

lemma slots_touched:
  assumes "distinct (map c_case_key (cases_table s))" "distinct (map c_case_key (cases_table t))"
    and "\<And>j. j \<noteq> k \<Longrightarrow> find_case j t = find_case j s"
  shows "slots P t \<le> slots P s + 1"
proof -
  let ?S = "\<lambda>s. {k. \<exists>r. find_case k s = Some r \<and> P (stored_case r)}"
  have "?S s \<subseteq> c_case_key ` set (cases_table s)" using assms(1) by (auto simp: find_case_iff)
  then have "finite (?S s)" by (rule finite_subset) simp
  have "?S t \<subseteq> insert k (?S s)" 
  proof
    fix j
    assume "j \<in> ?S t"
    with assms(3) [of j] show "j \<in> insert k (?S s)" by (cases "j = k") auto
  qed
  then have "card (?S t) \<le> card (insert k (?S s))" using \<open>finite (?S s)\<close> by (intro card_mono) auto
  also have "\<dots> \<le> card (?S s) + 1" using \<open>finite (?S s)\<close> by (simp add: card_insert_if)
  finally show ?thesis using assms(1,2) by (simp add: slots_card)
qed

text \<open>An intake from \<open>s\<close> to \<open>t\<close> on these snapshots: steps of the controlled ledger that touch only
  cases of authorized issues and fill no slot beyond the limits.\<close>

definition bounded_slots :: "RepositoryPolicy \<Rightarrow> Store \<Rightarrow> Store \<Rightarrow> bool" where
  "bounded_slots policy s t \<longleftrightarrow>
     slots (holds_slot (rid_id (rpol_repository policy))) t \<le>
       max (slots (holds_slot (rid_id (rpol_repository policy))) s) (unat (ic_repository_active_limit (rpol_intake policy))) \<and>
     slots (\<lambda>c. active_state (sc_state c)) t \<le>
       max (slots (\<lambda>c. active_state (sc_state c)) s) (unat (ic_global_active_limit (rpol_intake policy)))"

definition authorized_changes :: "RepositoryPolicy \<Rightarrow> bool \<Rightarrow> IntakeSnapshot list \<Rightarrow> Store \<Rightarrow> Store \<Rightarrow> bool" where
  "authorized_changes policy paused snapshots s t \<longleftrightarrow>
     (\<forall>k. find_case k t \<noteq> find_case k s \<longrightarrow>
        (\<exists>snapshot \<in> set snapshots. \<exists>case_id. authorizes policy paused snapshot \<and>
           intake_case_id policy (is_number (ins_issue snapshot)) = Inr case_id \<and> k = CaseId_to_string case_id))"

definition intake_ok ::
  "codec \<Rightarrow> decoders \<Rightarrow> RepositoryPolicy \<Rightarrow> bool \<Rightarrow> IntakeSnapshot list \<Rightarrow> Store \<Rightarrow> Store \<Rightarrow> bool" where
  "intake_ok C D policy paused snapshots s t \<longleftrightarrow>
     (controlled_step Shadow C D)\<^sup>*\<^sup>* s t \<and> bounded_slots policy s t \<and> authorized_changes policy paused snapshots s t"

lemma intake_ok_same: "cases_table t = cases_table s \<Longrightarrow> (controlled_step Shadow C D)\<^sup>*\<^sup>* s t \<Longrightarrow>
    intake_ok C D policy paused snapshots s t"
  by (simp add: intake_ok_def bounded_slots_def authorized_changes_def slots_def find_case_def)

lemma intake_ok_trans:
  assumes "intake_ok C D policy paused xs s t" "intake_ok C D policy paused ys t u"
  shows "intake_ok C D policy paused (xs @ ys) s u"
proof -
  have "authorized_changes policy paused (xs @ ys) s u"
    unfolding authorized_changes_def
  proof (intro allI impI)
    fix k
    assume "find_case k u \<noteq> find_case k s"
    then have "find_case k t \<noteq> find_case k s \<or> find_case k u \<noteq> find_case k t" by auto
    with assms show "\<exists>snapshot \<in> set (xs @ ys). \<exists>case_id. authorizes policy paused snapshot \<and>
        intake_case_id policy (is_number (ins_issue snapshot)) = Inr case_id \<and> k = CaseId_to_string case_id"
      unfolding intake_ok_def authorized_changes_def set_append by blast
  qed
  moreover have "bounded_slots policy s u" using assms by (auto simp: intake_ok_def bounded_slots_def)
  moreover have "(controlled_step Shadow C D)\<^sup>*\<^sup>* s u" using assms by (auto simp: intake_ok_def)
  ultimately show ?thesis by (simp add: intake_ok_def)
qed

lemma controlled_inv: "ledger_inv s \<Longrightarrow> represents s m \<Longrightarrow> (controlled_step M C D)\<^sup>*\<^sup>* s t \<Longrightarrow> \<exists>m. ledger_inv t \<and> represents t m"
  using controlled.steps_R by blast

lemma reconcile_issue_ok:
  assumes inv: "ledger_inv s" "represents s m"
    and run: "reconcile_issue C D src policy observed_at paused quiescent snapshot s = (r, t)"
  shows "intake_ok C D policy paused [snapshot] s t"
  using reconcile_issue_run [OF run]
proof (elim disjE exE conjE)
  assume "t = s"
  then show ?thesis by (simp add: intake_ok_same)
next
  fix case_id report taken
  assume id: "intake_case_id policy (is_number (ins_issue snapshot)) = Inr case_id"
    and report: "status observed_at s = Inr report"
    and eligible: "evaluate_intake (intake_policy policy paused) (observe_at policy snapshot taken report) = Eligible"
    and move: "admission C D (CaseId_to_string case_id) s t"
  have step: "(controlled_step Shadow C D)\<^sup>*\<^sup>* s t" using admission_step [OF move] by blast
  from controlled_inv [OF inv step] have "distinct (map c_case_key (cases_table t))" "distinct (map c_case_key (cases_table s))"
    using inv(1) by (auto simp: ledger_inv_def history_inv_def)
  then have grown: "slots P t \<le> slots P s + 1" for P
    using admission_touches [OF inv(1) move] by (intro slots_touched) auto
  have "slots (holds_slot (rid_id (rpol_repository policy))) s < unat (ic_repository_active_limit (rpol_intake policy))"
    using eligible_authorizes(2) [OF eligible] unfolding repository_active_def holds_slot_def slots_status [OF report]
    by (simp add: holds_slot_def [abs_def])
  moreover have "slots (\<lambda>c. active_state (sc_state c)) s < unat (ic_global_active_limit (rpol_intake policy))"
    using eligible_authorizes(3) [OF eligible] unfolding global_active_def slots_status [OF report] .
  ultimately have "bounded_slots policy s t"
    using grown [of "holds_slot (rid_id (rpol_repository policy))"] grown [of "\<lambda>c. active_state (sc_state c)"]
    unfolding bounded_slots_def by linarith
  moreover have "authorized_changes policy paused [snapshot] s t"
    using admission_touches [OF inv(1) move] eligible_authorizes(1) [OF eligible] id
    unfolding authorized_changes_def by auto
  ultimately show ?thesis using step by (simp add: intake_ok_def)
qed

lemma reconcile_issues_ok:
  assumes "ledger_inv s" "represents s m"
    and "reconcile_issues C D src policy observed_at paused quiescent snapshots s = (r, t)"
  shows "intake_ok C D policy paused snapshots s t"
  using assms
proof (induction snapshots arbitrary: s m r t)
  case Nil
  then show ?case by (simp add: sreturn_def intake_ok_same)
next
  case (Cons snapshot snapshots)
  obtain x u where one: "reconcile_issue C D src policy observed_at paused quiescent snapshot s = (x, u)"
    by fastforce
  note ok = reconcile_issue_ok [OF Cons.prems(1,2) one]
  from ok have "(controlled_step Shadow C D)\<^sup>*\<^sup>* s u" by (simp add: intake_ok_def)
  from controlled_inv [OF Cons.prems(1,2) this] obtain m' where m': "ledger_inv u" "represents u m'" by blast
  show ?case
  proof (cases x)
    case (Inl e)
    with Cons.prems(3) one have "t = u" by (simp add: sbind_def)
    with intake_ok_trans [OF ok intake_ok_same [of u u C D policy paused snapshots]] show ?thesis by simp
  next
    case (Inr cr)
    with Cons.prems(3) one obtain r' where
      "reconcile_issues C D src policy observed_at paused quiescent snapshots u = (r', t)"
      by (auto simp: sbind_def sreturn_def split: prod.splits sum.splits)
    from intake_ok_trans [OF ok Cons.IH [OF m' this]] show ?thesis by simp
  qed
qed

text \<open>C26: Intake opens only what is authorized, and never more than fits. Whether or not it runs to
  its end, it takes steps the controlled ledger may take; every case that it opens or reopens
  belongs to an issue of the evidence that is open, no pull request, neither excluded nor held
  nor assigned to somebody else, and whose required label a trusted actor set last; and when it
  stops, the slots in use are within the limits of the repository and of the installation, unless
  they exceeded them before.\<close>

theorem intake_bounded:
  assumes "(controlled_step Shadow C D)\<^sup>*\<^sup>* empty_store s"
    and "reconcile_validated_evidence C D W src policy observed_at paused validated quiescent s = (r, t)"
  shows "intake_ok C D policy paused validated s t"
proof -
  from controlled.refines [OF assms(1)] obtain m where m: "ledger_inv s" "represents s m" by blast
  obtain x u where pol: "record_case_policy C W policy observed_at s = (x, u)" by fastforce
  from intake_store_run [OF pol [unfolded record_case_policy_def]] obtain input y where
    "record_policy C input s = (y, u)" by blast
  then obtain z where work: "exec C D (RecordPolicy input) s = (z, u)"
    by (cases y) (auto simp: discard_def sbind_def sreturn_def)
  then have "controlled_step Shadow C D s u" by (intro controlled_step.work [where op = "RecordPolicy input"]) auto
  then have step: "(controlled_step Shadow C D)\<^sup>*\<^sup>* s u" by blast
  have "cases_table u = cases_table s"
    using stepsD [OF exec_work [of "RecordPolicy input"] work] by (simp add: work_step_def)
  from intake_ok_same [OF this step] have ok: "intake_ok C D policy paused [] s u" .
  from work_moves [OF m _ work] have u: "ledger_inv u" "represents u m" by simp_all
  show ?thesis
  proof (cases x)
    case (Inl e)
    with assms(2) pol have "t = u" by (simp add: reconcile_validated_evidence_def sbind_def)
    with intake_ok_trans [OF ok intake_ok_same [of u u C D policy paused validated]] show ?thesis by simp
  next
    case (Inr a)
    with assms(2) pol obtain r' where
      "reconcile_issues C D src policy observed_at paused quiescent validated u = (r', t)"
      by (auto simp: reconcile_validated_evidence_def sbind_def sreturn_def split: prod.splits sum.splits)
    from intake_ok_trans [OF ok reconcile_issues_ok [OF u this]] show ?thesis by simp
  qed
qed

section \<open>A sample intake\<close>

definition sample_intake_issue :: IssueSnapshot where
  "sample_intake_issue = \<lparr>is_id = 8, is_number = 2, is_open = True, is_is_pull_request = False, is_labels = [''pip''],
     is_assignee_ids = []\<rparr>"

definition sample_intake_snapshot :: IntakeSnapshot where
  "sample_intake_snapshot =
     \<lparr>ins_repository = \<lparr>rs_id = 7, rs_full_name = ''o/r'', rs_default_branch = ''main''\<rparr>,
      ins_issue = sample_intake_issue,
      ins_issue_content = \<lparr>ics_author_id = 6, ics_title = ''t'', ics_body = ''b'', ics_created_at = ''1'',
        ics_updated_at = ''1''\<rparr>,
      ins_label_events = [\<lparr>le_id = 3, le_labeled = True, le_actor_id = 5, le_label = ''pip'', le_created_at = ''1''\<rparr>],
      ins_comments = []\<rparr>"

definition sample_source :: intake_source where
  "sample_source =
     \<lparr>src_claim_issue = (\<lambda>_ _ issue actor. Inr (issue\<lparr>is_assignee_ids := [actor]\<rparr>)),
      src_actor_login = (\<lambda>_. Inr ''pip''), src_discussion_comment = (\<lambda>_ _ _ _ _. Inl InvalidIdentity),
      src_discover = (\<lambda>_ _ _. Inr [sample_intake_issue]), src_intake = (\<lambda>_ _ _. Inr sample_intake_snapshot)\<rparr>"

definition sample_object_wire :: policy_wire where
  "sample_object_wire = sample_wire\<lparr>policy_to_value := (\<lambda>_. JObj [])\<rparr>"

definition sample_short_codec :: codec where
  "sample_short_codec = sample_codec\<lparr>json_to_string := (\<lambda>_. [])\<rparr>"

theorem intake_bounded_witness:
  "\<exists>report t. reconcile_validated_evidence sample_short_codec sample_decoders sample_object_wire sample_source
       sample_repository 9 False [sample_intake_snapshot] (\<lambda>_. False) empty_store = (Inr report, t) \<and>
     air_mutation_count report = 2 \<and>
     intake_ok sample_short_codec sample_decoders sample_repository False [sample_intake_snapshot] empty_store t"
proof -
  let ?run = "reconcile_validated_evidence sample_short_codec sample_decoders sample_object_wire sample_source
       sample_repository 9 False [sample_intake_snapshot] (\<lambda>_. False) empty_store"
  have "map_sum (\<lambda>_. ()) air_mutation_count (fst ?run) = Inr 2" by code_simp
  then obtain report t where run: "?run = (Inr report, t)" "air_mutation_count report = 2"
    by (cases "fst ?run"; cases ?run) auto
  with intake_bounded [OF rtranclp.rtrancl_refl run(1)] show ?thesis by blast
qed

end
