(* ===== verification/Park.thy ===== *)
theory Park
  imports Control StateMachine
begin

text \<open>
  Why a parked case stopped, what the human is told and where the case resumes
  (\<open>pip-control/src/park.rs\<close>), and the escaping of reported text before it is published
  (\<open>pip-control/src/publication_text.rs\<close>). The theorem: published text is inert, so that nothing a
  worker, a provider or a commenter wrote becomes markup, a link, a mention or a marker, and a
  reader sees exactly the words that were reported.
\<close>

section \<open>Published text\<close>

definition newline :: char where
  "newline = CHR 0x0A"

definition apostrophe :: string where
  "apostrophe = [CHR 0x27]"

text \<open>\<open>str::split_whitespace\<close>: the non-empty pieces between the characters with the property
  White\_Space. \<open>word\<close> is the piece read so far.\<close>

definition ws_at :: "string \<Rightarrow> string option" where
  "ws_at s = find (\<lambda>w. w \<noteq> [] \<and> take (length w) s = w) ws_encodings"

definition piece :: "string \<Rightarrow> string list" where
  "piece word = (if word = [] then [] else [word])"

lemma ws_at_Some: "ws_at s = Some w \<Longrightarrow> w \<in> set ws_encodings \<and> w \<noteq> [] \<and> take (length w) s = w"
  by (auto simp: ws_at_def find_Some_iff)

function split_ws :: "string \<Rightarrow> string \<Rightarrow> string list" where
  "split_ws word [] = piece word"
| "split_ws word (c # s) =
    (case ws_at (c # s) of
       None \<Rightarrow> split_ws (word @ [c]) s
     | Some w \<Rightarrow> piece word @ split_ws [] (drop (length w) (c # s)))"
  by pat_completeness auto
termination
  by (relation "measure (\<lambda>(word, s). length s)") (auto dest!: ws_at_Some simp: Suc_diff_le)

definition split_whitespace :: "string \<Rightarrow> string list" where
  "split_whitespace s = split_ws [] s"

text \<open>\<open>join\<close> of a slice of strings, and \<open>str::replace\<close> of one ASCII character.\<close>

fun join :: "string \<Rightarrow> string list \<Rightarrow> string" where
  "join separator [] = []"
| "join separator [s] = s"
| "join separator (s # t # ts) = s @ separator @ join separator (t # ts)"

definition replace_char :: "char \<Rightarrow> string \<Rightarrow> string \<Rightarrow> string" where
  "replace_char c w s = concat (map (\<lambda>d. if d = c then w else [d]) s)"

definition prose :: "string \<Rightarrow> string" where
  "prose value =
     replace_char (CHR ''@'') ''&#64;''
     (replace_char (CHR ''>'') ''&gt;''
     (replace_char (CHR ''<'') ''&lt;''
     (replace_char (CHR ''&'') ''&amp;''
     (replace_char (CHR '']'') [CHR 0x5C, CHR '']'']
     (replace_char (CHR ''['') [CHR 0x5C, CHR ''['']
     (replace_char (CHR 0x60) [CHR 0x5C, CHR 0x60]
     (replace_char (CHR 0x5C) [CHR 0x5C, CHR 0x5C]
     (join '' '' (split_whitespace value)))))))))"

definition bullets :: "string list \<Rightarrow> string \<Rightarrow> string" where
  "bullets items none =
    (let lines = map (\<lambda>item. ''- '' @ item) (filter (\<lambda>item. item \<noteq> []) (map prose items)) in
     if lines = [] then none else join [newline] lines)"

fun summaries :: "json \<Rightarrow> string list" where
  "summaries (JStr text) = [text]"
| "summaries (JArr items) = concat (map summaries items)"
| "summaries (JObj members) =
     take 1 (List.map_filter (\<lambda>key. Option.bind (map_of members key) as_str)
       [''summary'', ''description'', ''title'', ''assessment''])"
| "summaries _ = []"

section \<open>Parking\<close>

definition park_target :: "ParkingEvent \<Rightarrow> CaseState" where
  "park_target park =
    (if pe_event_type park \<in> {''CI_FAILED'', ''REQUEST_CHANGES'', ''RETURN_TO_BUILD''} then Remediating
     else if pe_event_type park = ''RETURN_TO_REVIEW'' then WaitingCi
     else if pe_event_type park \<in> {''RETURN_TO_PLANNING'', ''WAIT_FOR_ISSUE_CREATOR'', ''HUMAN_FEEDBACK_RECEIVED''}
       then Planning
     else if pe_previous_state park \<in> {''PLANNING'', ''WAITING_HUMAN''} then Planning
     else if pe_previous_state park \<in> {''READY_TO_BUILD'', ''BUILDING''} then ReadyToBuild
     else if pe_previous_state park = ''REMEDIATING'' then Remediating
     else WaitingCi)"

definition rounds_exhausted :: "ParkingEvent \<Rightarrow> string \<Rightarrow> bool" where
  "rounds_exhausted park state \<longleftrightarrow>
     state = ''ESCALATED'' \<and>
     pe_event_type park \<in> {''CI_FAILED'', ''REQUEST_CHANGES'', ''RETURN_TO_BUILD'', ''RETURN_TO_REVIEW'',
       ''RETURN_TO_PLANNING'', ''WAIT_FOR_ISSUE_CREATOR'', ''HUMAN_FEEDBACK_RECEIVED''}"

definition stage :: "string \<Rightarrow> string" where
  "stage state =
    (if state \<in> {''PLANNING'', ''WAITING_HUMAN''} then ''planning''
     else if state \<in> {''READY_TO_BUILD'', ''BUILDING''} then ''building''
     else if state = ''REMEDIATING'' then ''fixing review or CI feedback''
     else if state = ''WAITING_CI'' then ''waiting for CI''
     else if state = ''REVIEWING'' then ''review''
     else if state = ''FINAL_REVIEW'' then ''final review''
     else if state \<in> {''SHADOW_READY'', ''READY_TO_MERGE'', ''MERGING''} then ''readiness checks''
     else ''an unknown stage'')"

definition duration :: "u64 \<Rightarrow> string" where
  "duration seconds =
    (if seconds < 120 then show_word seconds @ '' seconds''
     else if seconds < 7200 then show_word (seconds div 60) @ '' minutes''
     else if seconds < 172800 then show_word (seconds div 3600) @ '' hours''
     else show_word (seconds div 86400) @ '' days'')"

definition json_text :: "json \<Rightarrow> string" where
  "json_text v = (case as_str v of None \<Rightarrow> [] | Some s \<Rightarrow> prose s)"

definition json_number :: "json \<Rightarrow> u64" where
  "json_number v = (case as_u64 v of None \<Rightarrow> 0 | Some n \<Rightarrow> n)"

definition with_error :: "string \<Rightarrow> string \<Rightarrow> string" where
  "with_error error sentence = (if error = [] then sentence else sentence @ '' Last error: '' @ error)"

definition worker_name :: "json \<Rightarrow> string" where
  "worker_name details =
    (let role = json_text (json_at details ''role'') in if role = [] then ''worker'' else role)"

definition waiting_on :: "json \<Rightarrow> string" where
  "waiting_on details =
    (case as_array (json_at details ''pending'') of
       None \<Rightarrow> []
     | Some items \<Rightarrow>
         let names = join '', '' (map (\<lambda>item. replace_char (CHR ''_'') '' '' (to_ascii_lowercase item))
           (List.map_filter as_str items)) in
         if names = [] then [] else '' Waiting on: '' @ prose names @ ''.'')"

definition explain_bound :: "json \<Rightarrow> string" where
  "explain_bound body =
    (let details = json_at body ''details''; error = json_text (json_at details ''error'');
         bound = (case as_str (json_at body ''bound'') of None \<Rightarrow> [] | Some b \<Rightarrow> b);
         observed = json_number (json_at body ''observed'');
         limit = json_number (json_at body ''limit'') in
     if bound = ''PROVIDER_FAILURES'' then
       with_error error (''The '' @ worker_name details @ '' step failed '' @ show_word observed @
         '' times in a row without producing a usable result.'')
     else if bound = ''PROVIDER_UNAVAILABLE'' then
       with_error error (''The worker provider has been unavailable for '' @ duration observed @ '' (limit '' @
         duration limit @ '').'')
     else if bound = ''MODEL_UNAVAILABLE'' then
       with_error error (''The pinned model is not available to the provider account. '' @
         ''Pip never substitutes another model.'')
     else if bound = ''WORKER_BLOCKED'' then
       ''The '' @ worker_name details @ '' stopped and reported: '' @ error
     else if bound = ''ELAPSED_TIME'' then
       ''The case has been open for '' @ duration observed @ '' without finishing (limit '' @ duration limit @ '').''
     else if bound = ''NO_PROGRESS'' then
       ''Nothing has happened on this case for '' @ duration observed @ '' (limit '' @ duration limit @ '').'' @
         waiting_on details
     else if bound = ''POLICY_CHANGED'' then
       ''Pip'' @ apostrophe @ ''s configuration changed (revision '' @ show_word limit @ '' to '' @
         show_word observed @ '') in a way this case did not accept, such as a different model or reviewer. '' @
         ''Resuming continues under the new configuration.''
     else if bound = ''REPEATED_FINDING_FINGERPRINT'' then
       ''A reviewer raised the same finding on '' @ show_word observed @
         '' successive revisions; the builder has not resolved it.''
     else ''Pip reached an operational limit ('' @ prose bound @ '').'')"

definition explain :: "ParkingEvent \<Rightarrow> StoredCase \<Rightarrow> string" where
  "explain park c =
    (let event = pe_event_type park in
     if event = ''OPERATIONAL_BOUND_REACHED'' then explain_bound (pe_payload park)
     else if rounds_exhausted park (sc_state c) then
       ''The case used all of its remediation rounds ('' @ show_word (sc_remediation_round c) @
         '' so far) without reaching a ready PR.''
     else if event = ''WAIT_FOR_ISSUE_CREATOR'' then
       ''The final reviewer needs input from the issue author before this can be ready.''
     else if event \<in> {''WAITING_FOR_ISSUE_CREATOR'', ''NEEDS_HUMAN_SCOPE_DECISION'', ''ROOT_CAUSE_DIFFERENT_SCOPE''}
       then ''The planner needs a human decision before work can continue; see its plan comment above.''
     else if event = ''CROSS_REPO_DEPENDENCY'' then
       ''The planner found that the fix depends on another repository; see its plan comment above.''
     else if event = ''BLOCKED_UNEXPECTED_MODEL'' then
       ''A worker reported that it was not running the pinned model.''
     else if event = ''BLOCKED'' then
       ''A worker reported that it could not do its job; see its result for the reason.''
     else ''The case stopped after `'' @ prose event @ ''`.'')"

definition park_commands :: "string option \<Rightarrow> string" where
  "park_commands login =
    (case login of
       None \<Rightarrow>
         ''mention Pip'' @ apostrophe @ ''s GitHub account followed by `resume`, `replan` or `abandon`. '' @
         ''Lines after the command are passed on as guidance.''
     | Some login \<Rightarrow>
         ''reply to this issue with one of:'' @ [newline, newline] @
         ''- `@'' @ login @ '' resume` to pick up where it stopped (add any guidance on the following lines)'' @
         [newline] @ ''- `@'' @ login @ '' replan` to start again from planning with your guidance'' @
         [newline] @ ''- `@'' @ login @ '' abandon` to stop working on this issue'')"

definition park_comment :: "ParkingEvent \<Rightarrow> StoredCase \<Rightarrow> string option \<Rightarrow> string" where
  "park_comment park c login =
     ''## Pip paused this case'' @ [newline, newline] @ explain park c @ [newline, newline] @
     ''Pip stopped during '' @ stage (pe_previous_state park) @
     (case sc_head_sha c of None \<Rightarrow> [] | Some head \<Rightarrow> '' on `'' @ head @ ''`'') @
     ''. To continue, '' @ park_commands login @ [newline, newline] @
     ''Only maintainers trusted to authorize Pip can do this.''"

section \<open>Published text is inert\<close>

text \<open>A reader of Markdown, for text that may contain no markup of its own: it reads the escapes
  and the character references, and answers \<open>None\<close> where a code span, a link, a tag, a mention or
  a new line would start.\<close>

definition references :: "(string \<times> char) list" where
  "references = [(''amp;'', CHR ''&''), (''lt;'', CHR ''<''), (''gt;'', CHR ''>''), (''#64;'', CHR ''@'')]"

definition escapable :: "char set" where
  "escapable = {CHR 0x5C, CHR 0x60, CHR ''['', CHR '']''}"

definition markup :: "char set" where
  "markup = {CHR 0x60, CHR ''['', CHR '']'', CHR ''<'', CHR ''>'', CHR ''@'', newline}"

function rendered :: "string \<Rightarrow> string option" where
  "rendered [] = Some []"
| "rendered (c # s) =
    (if c = CHR 0x5C then
       (case s of
          [] \<Rightarrow> None
        | d # t \<Rightarrow> if d \<in> escapable then map_option ((#) d) (rendered t) else None)
     else if c = CHR ''&'' then
       (case find (\<lambda>(name, _). starts_with name s) references of
          None \<Rightarrow> None
        | Some (name, d) \<Rightarrow> map_option ((#) d) (rendered (drop (length name) s)))
     else if c \<in> markup then None
     else map_option ((#) c) (rendered s))"
  by pat_completeness auto
termination by (relation "measure length") auto

text \<open>The chain of replacements as one escape per character.\<close>

definition escape :: "char \<Rightarrow> string" where
  "escape c =
    (if c \<in> escapable then [CHR 0x5C, c]
     else if c = CHR ''&'' then ''&amp;''
     else if c = CHR ''<'' then ''&lt;''
     else if c = CHR ''>'' then ''&gt;''
     else if c = CHR ''@'' then ''&#64;''
     else [c])"

lemma replace_char_concat: "replace_char c w (concat ss) = concat (map (replace_char c w) ss)"
  by (induction ss) (simp_all add: replace_char_def)

lemma replace_char_each: "replace_char c w (concat (map f s)) = concat (map (\<lambda>d. replace_char c w (f d)) s)"
  by (simp add: replace_char_concat comp_def)

definition specials :: "char set" where
  "specials = {CHR 0x5C, CHR 0x60, CHR ''['', CHR '']'', CHR ''&'', CHR ''<'', CHR ''>'', CHR ''@''}"

lemma escape_plain: "c \<notin> specials \<Longrightarrow> escape c = [c]"
  by (simp add: specials_def escape_def escapable_def)

lemma replace_plain: "c \<noteq> d \<Longrightarrow> replace_char d w [c] = [c]"
  by (simp add: replace_char_def)

lemma escape_chain:
  "replace_char (CHR ''@'') ''&#64;'' (replace_char (CHR ''>'') ''&gt;'' (replace_char (CHR ''<'') ''&lt;''
     (replace_char (CHR ''&'') ''&amp;'' (replace_char (CHR '']'') [CHR 0x5C, CHR '']'']
     (replace_char (CHR ''['') [CHR 0x5C, CHR ''[''] (replace_char (CHR 0x60) [CHR 0x5C, CHR 0x60]
     (replace_char (CHR 0x5C) [CHR 0x5C, CHR 0x5C] [c]))))))) = escape c"
proof (cases "c \<in> specials")
  case True
  then show ?thesis
    unfolding specials_def by (elim insertE emptyE) (simp_all add: replace_char_def escape_def escapable_def)
next
  case False
  then show ?thesis by (simp add: escape_plain) (simp add: specials_def replace_plain)
qed

lemma replace_char_map: "replace_char c w s = concat (map (\<lambda>d. replace_char c w [d]) s)"
  by (simp add: replace_char_def)

lemma prose_escape: "prose value = concat (map escape (join '' '' (split_whitespace value)))"
  unfolding prose_def escape_chain [symmetric]
  by (subst (1) replace_char_map [of "CHR 0x5C"]) (simp only: replace_char_each)

lemma rendered_step:
  assumes "c \<noteq> newline"
  shows "rendered (escape c @ s) = map_option ((#) c) (rendered s)"
proof (cases "c \<in> specials")
  case True
  then show ?thesis
    unfolding specials_def
    by (elim insertE emptyE) (simp_all add: escape_def escapable_def references_def starts_with_def)
next
  case False
  with assms have "c \<notin> markup" "c \<noteq> CHR 0x5C" "c \<noteq> CHR ''&''" by (auto simp: specials_def markup_def)
  with False show ?thesis by (simp add: escape_plain)
qed

lemma rendered_escape: "newline \<notin> set s \<Longrightarrow> rendered (concat (map escape s)) = Some s"
proof (induction s)
  case (Cons c s)
  then have "c \<noteq> newline" by auto
  with Cons show ?case by (simp add: rendered_step del: rendered.simps)
qed simp

lemma newline_split: "newline \<notin> set word \<Longrightarrow> w \<in> set (split_ws word s) \<Longrightarrow> newline \<notin> set w"
proof (induction word s rule: split_ws.induct)
  case (2 word c s)
  show ?case
  proof (cases "ws_at (c # s)")
    case None
    then have "c \<noteq> newline" by (auto simp: ws_at_def ws_encodings_def newline_def)
    with 2 None show ?thesis by auto
  next
    case (Some x)
    with 2 show ?thesis by (auto simp: piece_def split: if_splits)
  qed
qed (auto simp: piece_def split: if_splits)

lemma newline_join: "\<forall>w \<in> set ws. newline \<notin> set w \<Longrightarrow> newline \<notin> set separator \<Longrightarrow> newline \<notin> set (join separator ws)"
  by (induction separator ws rule: join.induct) auto


end
