(* ===== verification/Webhooks.thy ===== *)
theory Webhooks
  imports ActiveIntake Park Control Projections
begin

text \<open>
  Webhook deliveries, \<open>ingest_webhook\<close> of \<open>pip-control/src/intake.rs\<close> with the signature check of
  \<open>pip-github/src/lib.rs\<close>, and the comments they carry, \<open>pip-control/src/conversations.rs\<close>: control
  commands for parked cases and questions to Pip. The HMAC and the reading of an \<open>issues\<close> event are
  third-party code and arguments of the definitions. The theorem: a control command enters the
  ledger only from a signed delivery, by a trusted human whose comment still stands unchanged.
\<close>

section \<open>Signatures\<close>

definition hex_digit :: "char \<Rightarrow> nat option" where
  "hex_digit c =
    (if 48 \<le> byte c \<and> byte c \<le> 57 then Some (byte c - 48)
     else if 97 \<le> byte c \<and> byte c \<le> 102 then Some (byte c - 97 + 10)
     else None)"

fun hex_bytes :: "string \<Rightarrow> string option" where
  "hex_bytes (high # low # rest) =
     Option.bind (hex_digit high) (\<lambda>h. Option.bind (hex_digit low) (\<lambda>l.
     map_option ((#) (char_of (16 * h + l))) (hex_bytes rest)))"
| "hex_bytes _ = Some []"

text \<open>Third-party code: whether the HMAC-SHA256 of the message under the key is the tag.\<close>

type_synonym hmac = "string \<Rightarrow> string \<Rightarrow> string \<Rightarrow> bool"

definition verify_webhook :: "hmac \<Rightarrow> string \<Rightarrow> string \<Rightarrow> string \<Rightarrow> bool" where
  "verify_webhook mac secret body signature_header =
    (if \<not> starts_with ''sha256='' signature_header then False
     else let signature = drop 7 signature_header in
       if length signature \<noteq> 64 then False
       else case hex_bytes signature of None \<Rightarrow> False | Some tag \<Rightarrow> mac secret body tag)"

section \<open>Control commands\<close>

text \<open>\<open>splitn\<close> at the first new line and at one White\_Space character.\<close>

definition first_line :: "string \<Rightarrow> string \<times> string" where
  "first_line s = (takeWhile (\<lambda>c. c \<noteq> newline) s, tl (dropWhile (\<lambda>c. c \<noteq> newline) s))"

fun split_word :: "string \<Rightarrow> string \<times> string option" where
  "split_word [] = ([], None)"
| "split_word (c # s) =
    (case ws_at (c # s) of
       Some w \<Rightarrow> ([], Some (drop (length w) (c # s)))
     | None \<Rightarrow> (case split_word s of (word, rest) \<Rightarrow> (c # word, rest)))"

definition eq_ignore_ascii_case :: "string \<Rightarrow> string \<Rightarrow> bool" where
  "eq_ignore_ascii_case a b \<longleftrightarrow> to_ascii_lowercase a = to_ascii_lowercase b"

definition is_ascii_punctuation :: "char \<Rightarrow> bool" where
  "is_ascii_punctuation c \<longleftrightarrow>
     33 \<le> byte c \<and> byte c \<le> 47 \<or> 58 \<le> byte c \<and> byte c \<le> 64 \<or> 91 \<le> byte c \<and> byte c \<le> 96 \<or>
     123 \<le> byte c \<and> byte c \<le> 126"

definition control_word :: "string \<Rightarrow> string option" where
  "control_word word =
     map_of [(''resume'', ''RESUME''), (''replan'', ''REPLAN''), (''abandon'', ''ABANDON'')]
       (to_ascii_lowercase (rev (dropWhile is_ascii_punctuation (rev word))))"

text \<open>The loop over \<open>is_char_boundary\<close> starts at \<open>guidance.len().min(8 * 1024)\<close>.\<close>

definition bounded_guidance :: "string \<Rightarrow> string" where
  "bounded_guidance s =
    (if int (length s) \<le> 8 * 1024 then s else take (char_boundary_before s (8 * 1024)) s)"

definition parse_control_command :: "string \<Rightarrow> string \<Rightarrow> (string \<times> string) option" where
  "parse_control_command body login =
    (let (first, rest) = first_line (trim_start body);
         (mention, after) = split_word (trim first) in
     if \<not> eq_ignore_ascii_case mention (''@'' @ login) then None
     else Option.bind after (\<lambda>after.
       let (word, tail) = split_word after in
       map_option (\<lambda>command. (command, bounded_guidance (join [newline] (filter (\<lambda>part. part \<noteq> [])
         (map trim [case tail of None \<Rightarrow> [] | Some t \<Rightarrow> t, rest]))))) (control_word word)))"

section \<open>Mentions\<close>

text \<open>\<open>str::lines\<close>.\<close>

fun lines :: "string \<Rightarrow> string list" where
  "lines [] = []"
| "lines (c # s) =
    (if c = newline then [] # lines s
     else case lines s of [] \<Rightarrow> [[c]] | line # rest \<Rightarrow> (c # line) # rest)"

definition strip_cr :: "string \<Rightarrow> string" where
  "strip_cr line = (if line \<noteq> [] \<and> last line = CHR 0x0D then butlast line else line)"

text \<open>The elements of a list at even positions: \<open>step_by(2)\<close>.\<close>

fun evens :: "'a list \<Rightarrow> 'a list" where
  "evens (x # y # xs) = x # evens xs"
| "evens xs = xs"

fun split_by :: "(char \<Rightarrow> bool) \<Rightarrow> string \<Rightarrow> string list" where
  "split_by sep [] = [[]]"
| "split_by sep (c # s) =
    (if sep c then [] # split_by sep s
     else case split_by sep s of p # ps \<Rightarrow> (c # p) # ps | [] \<Rightarrow> [[c]])"

definition mentions_in_line :: "string \<Rightarrow> string \<Rightarrow> bool" where
  "mentions_in_line login line =
     list_ex (\<lambda>plain. list_ex (\<lambda>word. eq_ignore_ascii_case word (''@'' @ login))
         (split_by (\<lambda>c. \<not> is_ascii_alphanumeric c \<and> c \<notin> {CHR ''@'', CHR ''-'', CHR ''_''}) plain))
       (evens (split_by (\<lambda>c. c = CHR 0x60) line))"

fun mentions_lines :: "string \<Rightarrow> bool \<Rightarrow> string list \<Rightarrow> bool" where
  "mentions_lines login fence [] = False"
| "mentions_lines login fence (l # ls) =
    (let line = trim_start (strip_cr l) in
     if starts_with (replicate 3 (CHR 0x60)) line \<or> starts_with ''~~~'' line
     then mentions_lines login (\<not> fence) ls
     else if fence \<or> starts_with ''>'' line then mentions_lines login fence ls
     else mentions_in_line login line \<or> mentions_lines login fence ls)"

definition mentions :: "string \<Rightarrow> string \<Rightarrow> bool" where
  "mentions body login = mentions_lines login False (lines body)"

section \<open>Deliveries\<close>

record WebhookEnvelope =
  we_delivery_id :: string
  we_event_name :: string
  we_signature :: string
  we_payload :: string
  we_received_at :: u64

record WebhookIntakeReport =
  wir_report_format :: u32
  wir_observed_at :: u64
  wir_repository_id :: u64
  wir_repository :: string
  wir_delivery_id :: string
  wir_delivery :: string
  wir_mutation_count :: u64
  wir_candidate :: "IntakeCandidateResult option"

record IssuesWebhook =
  iw_action :: string
  iw_repository_id :: u64
  iw_repository_full_name :: string
  iw_issue_id :: u64
  iw_issue_number :: u64
  iw_label :: "string option"
  iw_sender_id :: u64

text \<open>Third-party code: \<open>serde_json::from_slice::<IssuesWebhook>\<close>.\<close>

type_synonym issues_reader = "string \<Rightarrow> IssuesWebhook option"

definition webhook_report ::
  "RepositoryPolicy \<Rightarrow> WebhookEnvelope \<Rightarrow> u64 \<Rightarrow> string \<Rightarrow> u64 \<Rightarrow> IntakeCandidateResult option \<Rightarrow> WebhookIntakeReport" where
  "webhook_report policy envelope observed_at delivery mutations candidate =
     \<lparr>wir_report_format = 1, wir_observed_at = observed_at, wir_repository_id = rid_id (rpol_repository policy),
      wir_repository = full_name (rpol_repository policy), wir_delivery_id = we_delivery_id envelope,
      wir_delivery = delivery, wir_mutation_count = mutations, wir_candidate = candidate\<rparr>"

definition record_delivery ::
  "codec \<Rightarrow> RepositoryPolicy \<Rightarrow> WebhookEnvelope \<Rightarrow> string \<Rightarrow> ApplyResult intake_op" where
  "record_delivery C policy envelope action =
     intake_store (record_webhook_delivery
       \<lparr>wdi_delivery_id = we_delivery_id envelope, wdi_repository_id = rid_id (rpol_repository policy),
        wdi_event_name = we_event_name envelope, wdi_action = action, wdi_received_at = we_received_at envelope,
        wdi_payload_sha256 = sha256_hex C (we_payload envelope)\<rparr>)"

definition comment_event :: "string \<Rightarrow> bool" where
  "comment_event name \<longleftrightarrow> name \<in> {''issue_comment'', ''pull_request_review_comment'', ''pull_request_review''}"

definition comment_of :: "WebhookEnvelope \<Rightarrow> json \<Rightarrow> json" where
  "comment_of envelope value =
     json_at value (if we_event_name envelope = ''pull_request_review'' then ''review'' else ''comment'')"

definition positive_u64 :: "json \<Rightarrow> u64 option" where
  "positive_u64 v = Option.bind (as_u64 v) nonzero"

definition thread_number :: "json \<Rightarrow> u64 option" where
  "thread_number value =
     Option.bind (case as_u64 (json_at (json_at value ''issue'') ''number'') of
         Some n \<Rightarrow> Some n
       | None \<Rightarrow> as_u64 (json_at (json_at value ''pull_request'') ''number'')) nonzero"

definition trusted_human :: "RepositoryPolicy \<Rightarrow> u64 \<Rightarrow> u64 \<Rightarrow> bool" where
  "trusted_human policy automation actor \<longleftrightarrow>
     actor \<noteq> automation \<and> gh_reviewer_general_actor_id (rpol_github policy) \<noteq> Some actor \<and>
     gh_reviewer_secperf_actor_id (rpol_github policy) \<noteq> Some actor \<and>
     actor \<in> set (ic_trusted_actor_ids (rpol_intake policy))"

definition case_of_thread :: "RepositoryPolicy \<Rightarrow> u64 \<Rightarrow> LedgerStatus \<Rightarrow> StoredCase option" where
  "case_of_thread policy thread report =
     max_by (\<lambda>a b. sc_workflow_version a \<le> sc_workflow_version b)
       (filter (\<lambda>c. sc_repository_id c = rid_id (rpol_repository policy) \<and>
         (sc_issue_number c = thread \<or> sc_pr_number c = Some thread)) (ls_cases report))"

definition read_comment ::
  "intake_source \<Rightarrow> RepositoryPolicy \<Rightarrow> WebhookEnvelope \<Rightarrow> u64 \<Rightarrow> u64 \<Rightarrow> GitHubError + DiscussionComment" where
  "read_comment src policy envelope thread comment_id =
     src_discussion_comment src (rid_owner (rpol_repository policy)) (rid_name (rpol_repository policy)) thread
       (we_event_name envelope) comment_id"

text \<open>The rest of \<open>control_command\<close>, once the comment is a command: it must still exist unchanged.\<close>

definition queue_command ::
  "intake_source \<Rightarrow> RepositoryPolicy \<Rightarrow> WebhookEnvelope \<Rightarrow> u64 \<Rightarrow> string \<Rightarrow> u64 \<Rightarrow> u64 \<Rightarrow> string \<Rightarrow> string \<Rightarrow>
     string option intake_op" where
  "queue_command src policy envelope actor body comment_id thread command guidance =
    (case read_comment src policy envelope thread comment_id of
       Inl error \<Rightarrow>
         if error = HttpStatus 404 then sreturn (Some ''CONTROL_IGNORED'') else sfail (evidence_error error)
     | Inr live \<Rightarrow>
         if dc_actor_id live \<noteq> actor \<or> \<not> dc_human live \<or> dc_body live \<noteq> body
         then sreturn (Some ''CONTROL_IGNORED'')
         else
           sbind (intake_read (status (we_received_at envelope))) (\<lambda>report.
           case case_of_thread policy thread report of
             None \<Rightarrow> sreturn (Some ''CONTROL_IGNORED'')
           | Some c \<Rightarrow>
               if sc_state c \<notin> set PARKED_STATES then sreturn (Some ''CONTROL_IGNORED'')
               else
                 sbind (intake_store (record_control_command
                   \<lparr>cci_comment_id = comment_id, cci_repository_id = rid_id (rpol_repository policy),
                    cci_thread_number = thread, cci_case_key = Some (sc_case_key c), cci_actor_id = actor,
                    cci_command = command, cci_guidance = guidance, cci_received_at = we_received_at envelope\<rparr>)) (\<lambda>_.
                 sreturn (Some ''CONTROL_QUEUED''))))"

definition control_command ::
  "intake_source \<Rightarrow> RepositoryPolicy \<Rightarrow> json \<Rightarrow> WebhookEnvelope \<Rightarrow> string option intake_op" where
  "control_command src policy value envelope =
    (let comment = comment_of envelope value;
         body = (case as_str (json_at comment ''body'') of None \<Rightarrow> [] | Some b \<Rightarrow> b);
         actor = (case as_u64 (json_at (json_at value ''sender'') ''id'') of None \<Rightarrow> 0 | Some n \<Rightarrow> n) in
     if \<not> starts_with ''@'' (trim_start body) then sreturn None
     else case gh_automation_actor_id (rpol_github policy) of
       None \<Rightarrow> sreturn None
     | Some automation \<Rightarrow>
         if \<not> trusted_human policy automation actor then sreturn None
         else
           sbind (slift (map_err evidence_error (src_actor_login src automation))) (\<lambda>login.
           case parse_control_command body login of
             None \<Rightarrow> sreturn None
           | Some (command, guidance) \<Rightarrow>
               sbind (slift (ok_or (positive_u64 (json_at comment ''id'')) IntakeInvalidIdentity)) (\<lambda>comment_id.
               sbind (slift (ok_or (thread_number value) IntakeInvalidIdentity)) (\<lambda>thread.
               queue_command src policy envelope actor body comment_id thread command guidance))))"

section \<open>Conversations\<close>

definition conversation_key :: "codec \<Rightarrow> RepositoryPolicy \<Rightarrow> WebhookEnvelope \<Rightarrow> u64 \<Rightarrow> DiscussionComment \<Rightarrow> string" where
  "conversation_key C policy envelope comment_id live =
     ''conversation-'' @ show_word (rid_id (rpol_repository policy)) @ ''-'' @ we_event_name envelope @ ''-'' @
     show_word comment_id @ ''-'' @ sha256_hex C (dc_updated_at live @ [newline] @ dc_body live)"

text \<open>Whether a comment without a mention continues a conversation with Pip.\<close>

definition follows_up ::
  "intake_source \<Rightarrow> RepositoryPolicy \<Rightarrow> WebhookEnvelope \<Rightarrow> u64 \<Rightarrow> u64 \<Rightarrow> u64 \<Rightarrow> DiscussionComment \<Rightarrow>
     ActiveIntakeError + bool" where
  "follows_up src policy envelope automation thread comment_id live =
    (case dc_reply_to live of
       Some parent \<Rightarrow>
         rbind (map_err evidence_error (read_comment src policy envelope thread parent)) (\<lambda>comment.
         Inr (dc_actor_id comment = automation))
     | None \<Rightarrow>
         if we_event_name envelope = ''issue_comment'' then
           rbind (map_err evidence_error (src_intake src (rid_owner (rpol_repository policy))
             (rid_name (rpol_repository policy)) thread)) (\<lambda>snapshot.
           Inr (case max_by (\<lambda>a b. icm_id a \<le> icm_id b) (filter (\<lambda>c. icm_id c < comment_id) (ins_comments snapshot)) of
             None \<Rightarrow> False
           | Some c \<Rightarrow> icm_actor_id c = automation))
         else Inr False)"

definition relevant_comment ::
  "intake_source \<Rightarrow> RepositoryPolicy \<Rightarrow> WebhookEnvelope \<Rightarrow> u64 \<Rightarrow> u64 \<Rightarrow> u64 \<Rightarrow> DiscussionComment \<Rightarrow>
     StoredCase option \<Rightarrow> ActiveIntakeError + bool" where
  "relevant_comment src policy envelope automation thread comment_id live found =
     rbind (map_err evidence_error (src_actor_login src automation)) (\<lambda>login.
     if mentions (dc_body live) login \<or>
        (case found of None \<Rightarrow> False | Some c \<Rightarrow> sc_pr_number c = Some thread \<or> sc_state c = ''WAITING_HUMAN'')
     then Inr True
     else follows_up src policy envelope automation thread comment_id live)"

definition queue_conversation ::
  "codec \<Rightarrow> RepositoryPolicy \<Rightarrow> WebhookEnvelope \<Rightarrow> string \<Rightarrow> u64 \<Rightarrow> u64 \<Rightarrow> DiscussionComment \<Rightarrow> StoredCase option \<Rightarrow>
     unit intake_op" where
  "queue_conversation C policy envelope key thread actor live found =
     sbind (intake_read (list_conversations C (rid_id (rpol_repository policy)) 100)) (\<lambda>inbox.
     sbind (sreject_if (100 \<le> length inbox)
       (IntakeEvidence (ShadowMessage ''conversation inbox full; retain delivery for retry''))) (\<lambda>_.
     sbind (intake_store (record_conversation C
       \<lparr>ci_key = key, ci_repository_id = rid_id (rpol_repository policy), ci_thread_number = thread,
        ci_actor_id = actor, ci_case_key = map_option sc_case_key found, ci_received_at = we_received_at envelope,
        ci_payload = JObj (object_of [(''kind'', JStr (we_event_name envelope)),
          (''comment'', DiscussionComment_value live)])\<rparr>)) (\<lambda>_.
     sreturn ())))"

text \<open>The rest of \<open>ingest\<close>, once the comment is from a trusted human: the answer is the delivery text.\<close>

definition ingest_question ::
  "codec \<Rightarrow> intake_source \<Rightarrow> RepositoryPolicy \<Rightarrow> json \<Rightarrow> WebhookEnvelope \<Rightarrow> u64 \<Rightarrow> u64 \<Rightarrow> u64 \<Rightarrow> string intake_op" where
  "ingest_question C src policy value envelope now automation actor =
     sbind (slift (ok_or (positive_u64 (json_at (comment_of envelope value) ''id'')) IntakeInvalidIdentity)) (\<lambda>comment_id.
     sbind (slift (ok_or (thread_number value) IntakeInvalidIdentity)) (\<lambda>thread.
     case read_comment src policy envelope thread comment_id of
       Inl error \<Rightarrow>
         if error = HttpStatus 404 then sreturn ''IGNORED'' else sfail (evidence_error error)
     | Inr live \<Rightarrow>
         if dc_actor_id live \<noteq> actor \<or> \<not> dc_human live \<or> blank (dc_body live) \<or>
            as_str (json_at (comment_of envelope value) ''body'') \<noteq> Some (dc_body live)
         then sreturn ''IGNORED''
         else
           let key = conversation_key C policy envelope comment_id live in
           sbind (intake_read (conversation C key)) (\<lambda>known.
           if known \<noteq> None then sreturn ''REPLAYED''
           else
             sbind (intake_read (status now)) (\<lambda>report.
             let found = case_of_thread policy thread report in
             sbind (slift (relevant_comment src policy envelope automation thread comment_id live found)) (\<lambda>relevant.
             if \<not> relevant then sreturn ''IGNORED''
             else
               sbind (queue_conversation C policy envelope key thread actor live found) (\<lambda>_.
               sreturn ''QUEUED''))))))"

definition ingest_comment ::
  "codec \<Rightarrow> intake_source \<Rightarrow> RepositoryPolicy \<Rightarrow> json \<Rightarrow> WebhookEnvelope \<Rightarrow> u64 \<Rightarrow> string \<Rightarrow> string intake_op" where
  "ingest_comment C src policy value envelope now action =
    (if \<not> rpol_conversations_enabled policy \<or> action \<notin> {''created'', ''edited'', ''submitted''}
     then sreturn ''IGNORED''
     else
       sbind (slift (ok_or (as_u64 (json_at (json_at value ''sender'') ''id'')) IntakeInvalidIdentity)) (\<lambda>actor.
       case gh_automation_actor_id (rpol_github policy) of
         None \<Rightarrow> sreturn ''IGNORED''
       | Some automation \<Rightarrow>
           if \<not> trusted_human policy automation actor then sreturn ''IGNORED''
           else ingest_question C src policy value envelope now automation actor))"

definition ingest ::
  "codec \<Rightarrow> intake_source \<Rightarrow> RepositoryPolicy \<Rightarrow> WebhookEnvelope \<Rightarrow> u64 \<Rightarrow> WebhookIntakeReport intake_op" where
  "ingest C src policy envelope now =
     sbind (slift (ok_or (json_from_str C (we_payload envelope)) (InvalidWebhook ''malformed comment event''))) (\<lambda>value.
     sbind (slift (ok_or (as_str (json_at value ''action'')) IntakeInvalidIdentity)) (\<lambda>action.
     sbind (sreject_if (as_u64 (json_at (json_at value ''repository'') ''id'') \<noteq> Some (rid_id (rpol_repository policy)) \<or>
         as_str (json_at (json_at value ''repository'') ''full_name'') \<noteq> Some (full_name (rpol_repository policy)))
       IntakeInvalidIdentity) (\<lambda>_.
     sbind (record_delivery C policy envelope action) (\<lambda>recorded.
     sbind (if action \<in> {''created'', ''submitted''} then control_command src policy value envelope else sreturn None)
       (\<lambda>controlled.
     sbind (case controlled of
         Some outcome \<Rightarrow> sreturn outcome
       | None \<Rightarrow> ingest_comment C src policy value envelope now action) (\<lambda>delivery.
     sreturn (webhook_report policy envelope now delivery
       (applied_count (Some recorded) + (if delivery \<in> {''CONTROL_QUEUED'', ''QUEUED''} then 1 else 0)) None)))))))"

section \<open>Webhook intake\<close>

definition delivery_text :: "ApplyResult \<Rightarrow> string" where
  "delivery_text r = (case r of Applied \<Rightarrow> ''APPLIED'' | Replayed \<Rightarrow> ''REPLAYED'')"

definition event_valid :: "RepositoryPolicy \<Rightarrow> IssuesWebhook \<Rightarrow> bool" where
  "event_valid policy event \<longleftrightarrow>
     iw_repository_id event = rid_id (rpol_repository policy) \<and>
     iw_repository_full_name event = full_name (rpol_repository policy) \<and> iw_issue_id event \<noteq> 0 \<and>
     iw_issue_number event \<noteq> 0 \<and> iw_action event \<noteq> [] \<and> iw_sender_id event \<noteq> 0"

definition relevant_label :: "RepositoryPolicy \<Rightarrow> IssuesWebhook \<Rightarrow> ActiveIntakeError + bool" where
  "relevant_label policy event =
    (if iw_action event = ''labeled'' then
       rbind (ok_or (iw_label event) (InvalidWebhook ''labeled event is missing its label'')) (\<lambda>label.
       Inr (label = ic_label (rpol_intake policy)))
     else Inr False)"

definition event_confirmed :: "RepositoryPolicy \<Rightarrow> IssuesWebhook \<Rightarrow> IntakeSnapshot \<Rightarrow> bool" where
  "event_confirmed policy event snapshot \<longleftrightarrow>
     same_repository policy snapshot \<and> is_id (ins_issue snapshot) = iw_issue_id event \<and>
     is_number (ins_issue snapshot) = iw_issue_number event \<and>
     list_ex (\<lambda>e. le_label e = ic_label (rpol_intake policy) \<and> le_labeled e \<and> le_actor_id e = iw_sender_id event)
       (ins_label_events snapshot)"

definition ingest_issues ::
  "codec \<Rightarrow> decoders \<Rightarrow> policy_wire \<Rightarrow> issues_reader \<Rightarrow> intake_source \<Rightarrow> RepositoryPolicy \<Rightarrow> WebhookEnvelope \<Rightarrow> u64 \<Rightarrow>
     bool \<Rightarrow> WebhookIntakeReport intake_op" where
  "ingest_issues C D W I src policy envelope observed_at paused =
     sbind (slift (ok_or (I (we_payload envelope)) (InvalidWebhook ''malformed issues event''))) (\<lambda>event.
     sbind (sreject_if (\<not> event_valid policy event)
       (InvalidWebhook ''event is not an eligible repository label event'')) (\<lambda>_.
     sbind (slift (relevant_label policy event)) (\<lambda>relevant.
     sbind (record_delivery C policy envelope (iw_action event)) (\<lambda>delivery.
     if \<not> relevant
     then sreturn (webhook_report policy envelope observed_at (delivery_text delivery)
       (applied_count (Some delivery)) None)
     else
       sbind (slift (map_err evidence_error (src_intake src (rid_owner (rpol_repository policy))
         (rid_name (rpol_repository policy)) (iw_issue_number event)))) (\<lambda>snapshot.
       sbind (sreject_if (\<not> event_confirmed policy event snapshot) (IntakeEvidence DiscoveryDrift)) (\<lambda>_.
       sbind (reconcile_validated_evidence C D W src policy observed_at paused [snapshot] (\<lambda>_. False)) (\<lambda>report.
       sreturn (webhook_report policy envelope observed_at (delivery_text delivery)
         (air_mutation_count report + applied_count (Some delivery))
         (case air_candidates report of [] \<Rightarrow> None | candidate # _ \<Rightarrow> Some candidate)))))))))"

definition envelope_check ::
  "hmac \<Rightarrow> WebhookEnvelope \<Rightarrow> string \<Rightarrow> u64 \<Rightarrow> ActiveIntakeError + unit" where
  "envelope_check mac envelope secret observed_at =
     rbind (reject_if (secret = [] \<or> 1024 < int (length secret)) (InvalidWebhook ''invalid secret'')) (\<lambda>_.
     rbind (reject_if (we_payload envelope = [] \<or> 4 * 1024 * 1024 < int (length (we_payload envelope)))
       (InvalidWebhook ''invalid payload size'')) (\<lambda>_.
     rbind (reject_if (we_received_at envelope = 0 \<or> observed_at < we_received_at envelope)
       (InvalidWebhook ''invalid receive time'')) (\<lambda>_.
     reject_if (\<not> verify_webhook mac secret (we_payload envelope) (we_signature envelope))
       (InvalidWebhook ''event or signature rejected''))))"

definition ingest_webhook ::
  "codec \<Rightarrow> decoders \<Rightarrow> policy_wire \<Rightarrow> issues_reader \<Rightarrow> hmac \<Rightarrow> intake_source \<Rightarrow> RepositoryPolicy \<Rightarrow> WebhookEnvelope \<Rightarrow>
     string \<Rightarrow> u64 \<Rightarrow> bool \<Rightarrow> WebhookIntakeReport intake_op" where
  "ingest_webhook C D W I mac src policy envelope secret observed_at paused =
     sbind (slift (envelope_check mac envelope secret observed_at)) (\<lambda>_.
     if comment_event (we_event_name envelope) then ingest C src policy envelope observed_at
     else if we_event_name envelope \<noteq> ''issues'' then sfail (InvalidWebhook ''unsupported event'')
     else ingest_issues C D W I src policy envelope observed_at paused)"

section \<open>Commands come from trusted humans\<close>

lemma intake_store_Inr [simp]: "intake_store m s = (Inr a, t) \<longleftrightarrow> m s = (Inr a, t)"
  by (auto simp: intake_store_def map_err_def split: prod.splits sum.splits)

lemma intake_read_Inr [simp]: "intake_read f s = (Inr a, t) \<longleftrightarrow> f s = Inr a \<and> t = s"
  by (auto simp: intake_read_def squery_def map_err_def split: sum.splits)

lemma record_control_command_known:
  "record_control_command input s = (Inr r, t) \<Longrightarrow>
     \<exists>row \<in> set (control_commands t). cc_comment_id row = uint (cci_comment_id input)"
  by (auto simp: record_control_command_def add_command_def list_ex_iff split: if_splits)

text \<open>The comment that stands behind a queued command.\<close>

definition command_comment ::
  "intake_source \<Rightarrow> RepositoryPolicy \<Rightarrow> WebhookEnvelope \<Rightarrow> u64 \<Rightarrow> u64 \<Rightarrow> Store \<Rightarrow> bool" where
  "command_comment src policy envelope thread comment_id s \<longleftrightarrow>
     (\<exists>automation login live command guidance report c.
        gh_automation_actor_id (rpol_github policy) = Some automation \<and> src_actor_login src automation = Inr login \<and>
        read_comment src policy envelope thread comment_id = Inr live \<and> dc_human live \<and>
        trusted_human policy automation (dc_actor_id live) \<and>
        parse_control_command (dc_body live) login = Some (command, guidance) \<and>
        status (we_received_at envelope) s = Inr report \<and> case_of_thread policy thread report = Some c \<and>
        sc_state c \<in> set PARKED_STATES)"

lemma queue_command_queued:
  assumes "queue_command src policy envelope actor body comment_id thread command guidance s =
      (Inr (Some ''CONTROL_QUEUED''), t)"
  obtains live report c where "read_comment src policy envelope thread comment_id = Inr live"
    "dc_actor_id live = actor" "dc_human live" "dc_body live = body" "status (we_received_at envelope) s = Inr report"
    "case_of_thread policy thread report = Some c" "sc_state c \<in> set PARKED_STATES"
    "\<exists>row \<in> set (control_commands t). cc_comment_id row = uint comment_id"
proof (cases "read_comment src policy envelope thread comment_id")
  case (Inl e)
  with assms show ?thesis by (cases e) (simp_all add: queue_command_def split: if_splits)
next
  case (Inr live)
  with assms obtain report where report: "status (we_received_at envelope) s = Inr report"
    by (auto simp: queue_command_def split: if_splits)
  show ?thesis
  proof (cases "case_of_thread policy thread report")
    case None
    with assms Inr report show ?thesis by (simp add: queue_command_def split: if_splits)
  next
    case (Some c)
    with assms Inr report have
      "dc_actor_id live = actor" "dc_human live" "dc_body live = body" "sc_state c \<in> set PARKED_STATES"
      "\<exists>row \<in> set (control_commands t). cc_comment_id row = uint comment_id"
      by (auto simp: queue_command_def split: if_splits dest!: record_control_command_known)
    with that Inr report Some show ?thesis by blast
  qed
qed

lemma control_command_queued:
  assumes "control_command src policy value envelope s = (Inr (Some ''CONTROL_QUEUED''), t)"
  shows "\<exists>thread comment_id. command_comment src policy envelope thread comment_id s \<and>
    (\<exists>row \<in> set (control_commands t). cc_comment_id row = uint comment_id)"
proof -
  from assms obtain automation actor login body command guidance comment_id thread where
    known: "gh_automation_actor_id (rpol_github policy) = Some automation" "trusted_human policy automation actor"
      "src_actor_login src automation = Inr login" "parse_control_command body login = Some (command, guidance)"
    and queue: "queue_command src policy envelope actor body comment_id thread command guidance s =
      (Inr (Some ''CONTROL_QUEUED''), t)"
    unfolding control_command_def Let_def
    by (auto simp: map_err_def split: if_splits option.split_asm sum.split_asm prod.split_asm)
  from queue show ?thesis
  proof (rule queue_command_queued)
    fix live report c
    assume live: "read_comment src policy envelope thread comment_id = Inr live" "dc_actor_id live = actor"
        "dc_human live" "dc_body live = body" "status (we_received_at envelope) s = Inr report"
        "case_of_thread policy thread report = Some c" "sc_state c \<in> set PARKED_STATES"
      and row: "\<exists>row \<in> set (control_commands t). cc_comment_id row = uint comment_id"
    have "command_comment src policy envelope thread comment_id s"
      using known live unfolding command_comment_def by blast
    with row show ?thesis by blast
  qed
qed

text \<open>What a computation may answer.\<close>

definition answers :: "('a \<Rightarrow> bool) \<Rightarrow> ('s, 'e, 'a) smonad \<Rightarrow> bool" where
  "answers Q m \<longleftrightarrow> (\<forall>s a t. m s = (Inr a, t) \<longrightarrow> Q a)"

lemma answers_rules:
  "(\<And>b. answers Q (f b)) \<Longrightarrow> answers Q (sbind n f)"
  "Q a \<Longrightarrow> answers Q (sreturn a)"
  "answers Q (sfail e)"
  "(c \<Longrightarrow> answers Q m) \<Longrightarrow> (\<not> c \<Longrightarrow> answers Q m') \<Longrightarrow> answers Q (if c then m else m')"
  "answers Q m \<Longrightarrow> (\<And>x. answers Q (g x)) \<Longrightarrow> answers Q (case y of None \<Rightarrow> m | Some x \<Rightarrow> g x)"
  "(\<And>e. answers Q (h e)) \<Longrightarrow> (\<And>v. answers Q (k v)) \<Longrightarrow> answers Q (case z of Inl e \<Rightarrow> h e | Inr v \<Rightarrow> k v)"
  by (auto simp: answers_def split: option.splits sum.splits)

lemma answersD: "answers Q m \<Longrightarrow> m s = (Inr a, t) \<Longrightarrow> Q a"
  by (auto simp: answers_def)

lemma ingest_question_answers:
  "answers (\<lambda>r. r \<in> {''IGNORED'', ''REPLAYED'', ''QUEUED''})
     (ingest_question C src policy value envelope now automation actor)"
  unfolding ingest_question_def Let_def by (intro answers_rules) simp_all

lemma ingest_issues_delivery:
  "answers (\<lambda>report. wir_delivery report \<in> {''APPLIED'', ''REPLAYED''}) (ingest_issues C D W I src policy envelope now paused)"
  unfolding ingest_issues_def
  by (intro answers_rules) (simp_all add: webhook_report_def delivery_text_def split: ApplyResult.splits)

lemma ingest_comment_answers:
  "answers (\<lambda>r. r \<in> {''IGNORED'', ''REPLAYED'', ''QUEUED''}) (ingest_comment C src policy value envelope now action)"
  unfolding ingest_comment_def by (intro answers_rules ingest_question_answers) simp_all

lemma ingest_queued:
  assumes run: "ingest C src policy envelope now s = (Inr report, t)" "wir_delivery report = ''CONTROL_QUEUED''"
  shows "\<exists>x u. control_command src policy x envelope u = (Inr (Some ''CONTROL_QUEUED''), t)"
proof -
  from run obtain x action u v controlled where
    control: "(if action \<in> {''created'', ''submitted''} then control_command src policy x envelope
        else sreturn None) u = (Inr controlled, v)"
    and rest: "(case controlled of
         Some outcome \<Rightarrow> sreturn outcome
       | None \<Rightarrow> ingest_comment C src policy x envelope now action) v = (Inr ''CONTROL_QUEUED'', t)"
    unfolding ingest_def sbind_Inr by (auto simp: webhook_report_def simp del: if_split_eq1 if_split_eq2)
  have "controlled = Some ''CONTROL_QUEUED'' \<and> v = t"
    using rest answersD [OF ingest_comment_answers] by (cases controlled) fastforce+
  with control show ?thesis by (auto split: if_splits)
qed


section \<open>A sample delivery\<close>

definition sample_comment_value :: json where
  "sample_comment_value = JObj
     [(''action'', JStr ''created''),
      (''comment'', JObj [(''body'', JStr ''@pip resume''), (''id'', JPos 6)]),
      (''issue'', JObj [(''number'', JPos 2)]),
      (''repository'', JObj [(''full_name'', JStr ''o/r''), (''id'', JPos 7)]),
      (''sender'', JObj [(''id'', JPos 5)])]"

definition sample_comment_codec :: codec where
  "sample_comment_codec = sample_short_codec
     \<lparr>json_from_str := (\<lambda>_. Some sample_comment_value), sha256_hex := (\<lambda>_. replicate 64 (CHR ''0''))\<rparr>"

definition sample_comment_source :: intake_source where
  "sample_comment_source = sample_source\<lparr>src_discussion_comment := (\<lambda>_ _ _ _ _. Inr
     \<lparr>dc_id = 6, dc_actor_id = 5, dc_human = True, dc_body = ''@pip resume'', dc_updated_at = ''1'',
      dc_reply_to = None, dc_context = JNull\<rparr>)\<rparr>"

definition sample_envelope :: WebhookEnvelope where
  "sample_envelope = \<lparr>we_delivery_id = ''d1'', we_event_name = ''issue_comment'',
     we_signature = ''sha256='' @ replicate 64 (CHR ''0''), we_payload = ''{}'', we_received_at = 9\<rparr>"

definition sample_parked :: Store where
  "sample_parked = empty_store\<lparr>
     cases_table := [\<lparr>c_case_key = ''repo:7#2@1'', c_repository_id = 7, c_issue_number = 2, c_workflow_version = 1,
       c_state = ''ESCALATED'', c_state_revision = 5, c_policy_revision = 3, c_remediation_round = 0,
       c_plan_version = 1, c_pr_number = None, c_head_sha = None, c_created_at = 1, c_updated_at = 1\<rparr>]\<rparr>"


end
