(* ===== verification/Bounds.thy ===== *)
theory Bounds
  imports Results RepositoryPolicies
begin

text \<open>
  The operational limits of a case, \<open>pip-control/src/bounds.rs\<close>, and the selection of cases,
  \<open>pip-control/src/scope.rs\<close>. Every controller cycle looks at the automated cases in scope and
  parks the first one that exceeds a limit, with an event of the state machine. The theorems show
  that an idle answer means that every case in scope is within all limits, and that an escalation
  names a limit that is reached and parks the case.
\<close>

section \<open>Scope\<close>

record RepositoryScope =
  scope_policy :: RepositoryPolicy
  scope_case_key :: "string option"

definition scope_of_policy :: "RepositoryPolicy \<Rightarrow> RepositoryScope" where
  "scope_of_policy p = \<lparr>scope_policy = p, scope_case_key = None\<rparr>"

definition scope_of_case :: "RepositoryPolicy \<Rightarrow> string \<Rightarrow> RepositoryScope" where
  "scope_of_case p case_key = \<lparr>scope_policy = p, scope_case_key = Some case_key\<rparr>"

definition scope_matches :: "RepositoryScope \<Rightarrow> StoredCase \<Rightarrow> bool" where
  "scope_matches scope c \<longleftrightarrow>
     sc_repository_id c = rid_id (rpol_repository (scope_policy scope)) \<and>
     (case scope_case_key scope of None \<Rightarrow> True | Some key \<Rightarrow> key = sc_case_key c)"

definition scope_claim ::
  "codec \<Rightarrow> decoders \<Rightarrow> RepositoryScope \<Rightarrow> string \<Rightarrow> u64 \<Rightarrow> u64 \<Rightarrow> string list \<Rightarrow> ClaimedEffect option store_op" where
  "scope_claim C D scope owner now lease_seconds types =
     claim_repository_case_effect_matching C D (rid_id (rpol_repository (scope_policy scope)))
       (scope_case_key scope) owner now lease_seconds types"

text \<open>The policy a case accepted, as it was recorded.\<close>

definition recorded_policy ::
  "codec \<Rightarrow> policy_wire \<Rightarrow> StoredCase \<Rightarrow> Store \<Rightarrow> (StoreError + PolicyError) + RepositoryPolicy" where
  "recorded_policy C W c s =
     rbind (map_err Inl (accepted_policy C (sc_repository_id c) (sc_policy_revision c) s)) (\<lambda>value.
     map_err Inr (load_repository_policy W (json_to_string C value)))"

definition execution_policy ::
  "codec \<Rightarrow> policy_wire \<Rightarrow> RepositoryPolicy \<Rightarrow> Store \<Rightarrow> StoredCase \<Rightarrow> RepositoryPolicy" where
  "execution_policy C W p s c =
    (if rpol_revision p = sc_policy_revision c then p
     else case recorded_policy C W c s of
            Inl _ \<Rightarrow> p
          | Inr accepted \<Rightarrow>
              (case execution_policy_for W p accepted of None \<Rightarrow> p | Some q \<Rightarrow> q))"

section \<open>Limits\<close>

datatype OperationalBound =
    ElapsedTime
  | ProviderFailures
  | RepeatedFindingFingerprint
  | ProviderUnavailable
  | ModelUnavailable
  | WorkerBlocked
  | NoProgress
  | PolicyChanged

fun OperationalBound_wire :: "OperationalBound \<Rightarrow> string" where
  "OperationalBound_wire ElapsedTime = ''ELAPSED_TIME''"
| "OperationalBound_wire ProviderFailures = ''PROVIDER_FAILURES''"
| "OperationalBound_wire RepeatedFindingFingerprint = ''REPEATED_FINDING_FINGERPRINT''"
| "OperationalBound_wire ProviderUnavailable = ''PROVIDER_UNAVAILABLE''"
| "OperationalBound_wire ModelUnavailable = ''MODEL_UNAVAILABLE''"
| "OperationalBound_wire WorkerBlocked = ''WORKER_BLOCKED''"
| "OperationalBound_wire NoProgress = ''NO_PROGRESS''"
| "OperationalBound_wire PolicyChanged = ''POLICY_CHANGED''"

datatype OperationalBoundsCycle =
    BoundsIdle
  | BoundsEscalated string OperationalBound u64 u64

record BoundObservation =
  bo_bound :: OperationalBound
  bo_observed :: u64
  bo_limit :: u64
  bo_details :: json

datatype OperationalBoundsError =
    BoundsStore StoreError
  | BoundsController ControllerError
  | InvalidCase

definition automated_state :: "string \<Rightarrow> bool" where
  "automated_state state \<longleftrightarrow> state \<in> set [''PLANNING'', ''READY_TO_BUILD'', ''BUILDING'', ''WAITING_CI'',
     ''REVIEWING'', ''REMEDIATING'', ''FINAL_REVIEW'', ''READY_TO_MERGE'', ''MERGING'']"

text \<open>The identity of a finding: who raised it and what it says.\<close>

definition fingerprint :: "codec \<Rightarrow> StoredFinding \<Rightarrow> string" where
  "fingerprint C f = sha256_hex C (json_to_string C (JObj (object_of
     [(''origin_role'', JStr (sf_origin_role f)), (''defect'', json_at (sf_payload f) ''defect''),
      (''consequence'', json_at (sf_payload f) ''consequence''),
      (''corrective_direction'', json_at (sf_payload f) ''corrective_direction'')])))"

definition heads_of :: "codec \<Rightarrow> string \<Rightarrow> StoredFinding list \<Rightarrow> string list" where
  "heads_of C fp fs = remdups (map sf_reviewed_head_sha (filter (\<lambda>f. fingerprint C f = fp) fs))"

definition repeated_finding_heads :: "codec \<Rightarrow> string \<Rightarrow> Store \<Rightarrow> StoreError + u64" where
  "repeated_finding_heads C case_key s =
    (let since = finding_window_start case_key s in
     rbind (immutable_history_for_case C case_key s) (\<lambda>history.
     let fs = filter (\<lambda>f. since \<le> sf_recorded_at f \<and> is_object (sf_payload f)) (ih_findings history) in
     Inr (fold (\<lambda>f m. max (of_nat (length (heads_of C (fingerprint C f) fs))) m) fs 0)))"

section \<open>Checking one case\<close>

text \<open>The checks run in order, the first observation ends them.\<close>

definition or_else :: "'e + 'a option \<Rightarrow> 'e + 'a option \<Rightarrow> 'e + 'a option" where
  "or_else m k = rbind m (\<lambda>found. case found of None \<Rightarrow> k | Some x \<Rightarrow> Inr (Some x))"

definition observe_if :: "bool \<Rightarrow> OperationalBound \<Rightarrow> u64 \<Rightarrow> u64 \<Rightarrow> json \<Rightarrow> BoundObservation option" where
  "observe_if reached bound observed limit details =
    (if reached then Some \<lparr>bo_bound = bound, bo_observed = observed, bo_limit = limit, bo_details = details\<rparr>
     else None)"

definition policy_check :: "RepositoryPolicy \<Rightarrow> StoredCase \<Rightarrow> BoundObservation option" where
  "policy_check p c = observe_if (sc_policy_revision c \<noteq> rpol_revision p) PolicyChanged
     (rpol_revision p) (sc_policy_revision c) (JObj [(''source'', JStr ''controller'')])"

definition last_seen :: "StoredCase \<Rightarrow> Store \<Rightarrow> StoreError + u64" where
  "last_seen c s =
     rbind (controller_running_since (sc_repository_id c) s) (\<lambda>since.
     Inr (max (last_case_activity (sc_case_key c) s) (case since of None \<Rightarrow> 0 | Some t \<Rightarrow> t)))"

definition queued_for_worker :: "string list \<Rightarrow> u64 \<Rightarrow> Store \<Rightarrow> StoreError + bool" where
  "queued_for_worker waiting now s =
    (if ''RUN_DIRECT_WORKER'' \<in> set waiting
     then rbind (live_direct_attempts now s) (\<lambda>live. Inr (0 < live)) else Inr False)"

definition stall_check ::
  "RepositoryPolicy \<Rightarrow> StoredCase \<Rightarrow> u64 \<Rightarrow> Store \<Rightarrow> StoreError + BoundObservation option" where
  "stall_check p c now s =
     rbind (last_seen c s) (\<lambda>last_activity.
     let stalled = saturating_sub now last_activity; waiting = pending_effect_types (sc_case_key c) s in
     rbind (queued_for_worker waiting now s) (\<lambda>queued.
     Inr (observe_if (stall_limit_seconds p \<le> stalled \<and> \<not> queued) NoProgress stalled (stall_limit_seconds p)
       (JObj (object_of [(''source'', JStr ''controller''), (''since'', JPos last_activity),
          (''pending'', json_strings waiting)])))))"

definition work_deadline :: "codec \<Rightarrow> RepositoryPolicy \<Rightarrow> StoredCase \<Rightarrow> u64 \<Rightarrow> Store \<Rightarrow> StoreError + u64" where
  "work_deadline C p c started s =
     rbind (infrastructure_recovery_deadline C (sc_case_key c) s) (\<lambda>recovery.
     Inr (max (saturating_add started (rpol_max_case_elapsed_seconds p))
       (case recovery of None \<Rightarrow> 0 | Some t \<Rightarrow> t)))"

definition elapsed_check ::
  "codec \<Rightarrow> RepositoryPolicy \<Rightarrow> StoredCase \<Rightarrow> u64 \<Rightarrow> Store \<Rightarrow>
     OperationalBoundsError + BoundObservation option" where
  "elapsed_check C p c now s =
     rbind (map_err BoundsStore (work_started_at C (sc_case_key c) s)) (\<lambda>started.
     rbind (ok_or started InvalidCase) (\<lambda>started.
     rbind (map_err BoundsStore (work_deadline C p c started s)) (\<lambda>deadline.
     Inr (observe_if (deadline \<le> now) ElapsedTime (saturating_sub now started)
       (rpol_max_case_elapsed_seconds p) (JObj [(''source'', JStr ''controller'')])))))"

definition failure_check ::
  "RepositoryPolicy \<Rightarrow> StoredCase \<Rightarrow> Store \<Rightarrow> StoreError + BoundObservation option" where
  "failure_check p c s =
     rbind (direct_stage_failure_count (sc_case_key c) s) (\<lambda>failures.
     let limit = ucast (rpol_max_provider_failures p) in
     Inr (observe_if (limit \<le> failures) ProviderFailures failures limit
       (JObj [(''scope'', JStr ''stage''), (''source'', JStr ''direct-worker'')])))"

definition outage_details :: "DirectOutage \<Rightarrow> json" where
  "outage_details out = JObj (object_of
     [(''source'', JStr ''direct-worker''), (''cause'', JStr (do_cause out)),
      (''effect_id'', JStr (do_effect_id out)), (''since'', JPos (do_since out)), (''error'', JStr (do_error out))])"

definition outage_check ::
  "codec \<Rightarrow> RepositoryPolicy \<Rightarrow> StoredCase \<Rightarrow> u64 \<Rightarrow> Store \<Rightarrow> StoreError + BoundObservation option" where
  "outage_check C p c now s =
     rbind (direct_stage_outage C (sc_case_key c) s) (\<lambda>outage.
     case outage of
       None \<Rightarrow> Inr None
     | Some out \<Rightarrow>
         if do_cause out = ''MODEL_UNAVAILABLE''
         then Inr (observe_if True ModelUnavailable 1 1 (outage_details out))
         else
           let seconds = saturating_sub now (do_since out) in
           Inr (observe_if (outage_limit_seconds p \<le> seconds) ProviderUnavailable seconds
             (outage_limit_seconds p) (outage_details out)))"

definition repeat_check ::
  "codec \<Rightarrow> RepositoryPolicy \<Rightarrow> StoredCase \<Rightarrow> Store \<Rightarrow> StoreError + BoundObservation option" where
  "repeat_check C p c s =
     rbind (repeated_finding_heads C (sc_case_key c) s) (\<lambda>repeated.
     let limit = ucast (rpol_max_repeated_finding_fingerprint p) in
     Inr (observe_if (limit \<le> repeated) RepeatedFindingFingerprint repeated limit
       (JObj [(''source'', JStr ''finding-ledger'')])))"

definition watched :: "RepositoryScope \<Rightarrow> StoredCase \<Rightarrow> Store \<Rightarrow> bool" where
  "watched scope c s \<longleftrightarrow>
     scope_matches scope c \<and>
     (automated_state (sc_state c) \<or>
      sc_state c = ''SHADOW_READY'' \<and> pending_effect_types (sc_case_key c) s \<noteq> [])"

definition check_case ::
  "codec \<Rightarrow> RepositoryScope \<Rightarrow> u64 \<Rightarrow> StoredCase \<Rightarrow> Store \<Rightarrow>
     OperationalBoundsError + BoundObservation option" where
  "check_case C scope now c s =
    (if \<not> watched scope c s then Inr None
     else
       let p = scope_policy scope in
       or_else (Inr (policy_check p c))
       (or_else (map_err BoundsStore (stall_check p c now s))
       (or_else (elapsed_check C p c now s)
       (or_else (map_err BoundsStore (failure_check p c s))
       (or_else (map_err BoundsStore (outage_check C p c now s))
       (map_err BoundsStore (repeat_check C p c s)))))))"

section \<open>Escalating\<close>

type_synonym 'a bounds_op = "(Store, OperationalBoundsError, 'a) smonad"

definition bounds_controller :: "'a controller_op \<Rightarrow> 'a bounds_op" where
  "bounds_controller m = (\<lambda>s. case m s of (r, t) \<Rightarrow> (map_err BoundsController r, t))"

definition bound_event_id :: "StoredCase \<Rightarrow> string" where
  "bound_event_id c = ''event-operational-bound-'' @ show_word (sc_repository_id c) @ ''-'' @
     show_word (sc_issue_number c) @ ''-'' @ show_word (sc_workflow_version c) @ ''-'' @
     show_word (sc_state_revision c)"

definition bound_payload :: "BoundObservation \<Rightarrow> json" where
  "bound_payload b = JObj (object_of
     [(''bound'', JStr (OperationalBound_wire (bo_bound b))), (''observed'', JPos (bo_observed b)),
      (''limit'', JPos (bo_limit b)), (''details'', bo_details b)])"

definition bound_command ::
  "StoredCase \<Rightarrow> u64 \<Rightarrow> BoundObservation \<Rightarrow> OperationalBoundsError + WorkflowCommand" where
  "bound_command c now b =
     rbind (nonzero_or InvalidCase (sc_repository_id c)) (\<lambda>repository.
     rbind (nonzero_or InvalidCase (sc_issue_number c)) (\<lambda>issue.
     rbind (nonzero_or InvalidCase (sc_workflow_version c)) (\<lambda>workflow.
     rbind (map_err (\<lambda>_. InvalidCase) (EventId_from_str (bound_event_id c))) (\<lambda>event_id.
     rbind (map_err (\<lambda>_. InvalidCase) (CaseState_from_str (sc_state c))) (\<lambda>state.
     rbind (nonzero_or InvalidCase (sc_state_revision c)) (\<lambda>state_revision.
     rbind (nonzero_or InvalidCase (sc_policy_revision c)) (\<lambda>policy_revision.
     rbind (parse_head InvalidCase (sc_head_sha c)) (\<lambda>head.
     Inr \<lparr>wc_case_id = \<lparr>cid_repository = RepositoryId repository, cid_issue = IssueNumber issue,
        cid_workflow = WorkflowVersion workflow\<rparr>,
      wc_event_id = event_id, wc_observed_at = ObservedAt now, wc_expected_state = state,
      wc_expected_state_revision = StateRevision state_revision,
      wc_accepted_policy_revision = PolicyRevision policy_revision,
      wc_remediation_round = sc_remediation_round c,
      wc_plan_version = map_option PlanVersion (nonzero (sc_plan_version c)),
      wc_pr_number = map_option PullRequestNumber (Option.bind (sc_pr_number c) nonzero),
      wc_head_sha = head, wc_event = OperationalBoundReached, wc_accepted_plan_version = None,
      wc_next_pr_number = None, wc_next_head_sha = None, wc_event_payload = bound_payload b,
      wc_run = None, wc_evidence = [], wc_findings = []\<rparr>))))))))"

definition bound_case_policy ::
  "codec \<Rightarrow> policy_wire \<Rightarrow> RepositoryPolicy \<Rightarrow> StoredCase \<Rightarrow> Store \<Rightarrow> OperationalBoundsError + CasePolicy" where
  "bound_case_policy C W p c s =
    (if sc_policy_revision c = rpol_revision p then Inr (case_policy p)
     else
       rbind (map_err (\<lambda>e. case e of Inl failure \<Rightarrow> BoundsStore failure | Inr _ \<Rightarrow> InvalidCase)
         (recorded_policy C W c s)) (\<lambda>accepted. Inr (case_policy accepted)))"

definition escalate ::
  "codec \<Rightarrow> decoders \<Rightarrow> policy_wire \<Rightarrow> RepositoryPolicy \<Rightarrow> StoredCase \<Rightarrow> u64 \<Rightarrow> BoundObservation \<Rightarrow>
     OperationalBoundsCycle bounds_op" where
  "escalate C D W p c now b =
     sbind (slift (bound_command c now b)) (\<lambda>command.
     sbind (squery (bound_case_policy C W p c)) (\<lambda>policy.
     sbind (bounds_controller (LedgerController_apply C D policy command)) (\<lambda>_.
     sreturn (BoundsEscalated (sc_case_key c) (bo_bound b) (bo_observed b) (bo_limit b)))))"

text \<open>The loop of \<open>enforce_operational_bounds\<close>.\<close>

fun enforce_cases ::
  "codec \<Rightarrow> decoders \<Rightarrow> policy_wire \<Rightarrow> RepositoryScope \<Rightarrow> u64 \<Rightarrow> StoredCase list \<Rightarrow>
     OperationalBoundsCycle bounds_op" where
  "enforce_cases C D W scope now [] = sreturn BoundsIdle"
| "enforce_cases C D W scope now (c # cs) =
     sbind (squery (check_case C scope now c)) (\<lambda>found.
     case found of
       None \<Rightarrow> enforce_cases C D W scope now cs
     | Some b \<Rightarrow> escalate C D W (scope_policy scope) c now b)"

definition enforce_operational_bounds ::
  "codec \<Rightarrow> decoders \<Rightarrow> policy_wire \<Rightarrow> RepositoryScope \<Rightarrow> u64 \<Rightarrow> OperationalBoundsCycle bounds_op" where
  "enforce_operational_bounds C D W scope now =
     sbind (squery (\<lambda>s. map_err BoundsStore (status now s))) (\<lambda>report.
     enforce_cases C D W scope now (sort_key sc_case_key (ls_cases report)))"

definition escalate_case_for_bound ::
  "codec \<Rightarrow> decoders \<Rightarrow> policy_wire \<Rightarrow> RepositoryPolicy \<Rightarrow> string \<Rightarrow> u64 \<Rightarrow> BoundObservation \<Rightarrow>
     OperationalBoundsCycle bounds_op" where
  "escalate_case_for_bound C D W p case_key now b =
     sbind (squery (\<lambda>s. ok_or (query_case case_key s) InvalidCase)) (\<lambda>c.
     sbind (sreject_if (sc_repository_id c \<noteq> rid_id (rpol_repository p) \<or> \<not> automated_state (sc_state c))
       InvalidCase) (\<lambda>_.
     escalate C D W p c now b))"

section \<open>What a command does to its case\<close>

lemma replayed_event:
  assumes "apply_transition C D input fault s = (Inr Replayed, t)"
  shows "t = s \<and> has_event s (ei_event_id (ti_event input))"
proof -
  have "existing_event (ei_event_id (ti_event input)) s \<noteq> None \<and> t = s"
    using assms by (auto simp: apply_transition_def apply_transition_batch_def Let_def
        split: if_splits option.splits prod.splits)
  then show ?thesis by (auto simp: existing_event_def has_event_def list_ex_iff find_Some_iff)
qed

lemma apply_result:
  assumes inv: "ledger_inv s" and run: "LedgerController_apply C D policy w s = (Inr a, t)"
  obtains "t = s" "has_event s (EventId_to_string (wc_event_id w))"
  | c p input n q where "find_case (CaseId_to_string (wc_case_id w)) s = Some c"
    "c_state_revision c = uint (state_revision_get (wc_expected_state_revision w))"
    "effective_policy C policy w s = Inr p" "transition_input p w = Inr input"
    "checked_add (state_revision_get (wc_expected_state_revision w)) 1 = Some n"
    "find_case (CaseId_to_string (wc_case_id w)) t = Some (projected input n q c)"
proof -
  from run obtain p input where p: "effective_policy C policy w s = Inr p"
    and input: "transition_input p w = Inr input" and batch: "apply_transition C D input None s = (Inr a, t)"
    by (auto simp: LedgerController_apply_def)
  note moves = transition_input_moves [OF input]
  have event: "ei_event_id (ti_event input) = EventId_to_string (wc_event_id w)"
    using input by (auto simp: transition_input_def Let_def split: prod.splits)
  show ?thesis
  proof (cases a)
    case Replayed
    with replayed_event [of C D input None s t] batch event that(1) show ?thesis by auto
  next
    case Applied
    with apply_transition_batch_Inr [of C D "[input]" None s a t] batch obtain h where
      one: "apply_one C D None input h s = (Inr (), t)" by (auto simp: apply_transition_def)
    show ?thesis
      by (rule apply_one_find [OF inv one], rule that(2))
        (use moves p input in \<open>auto simp: at_revision_def\<close>)
  qed
qed

section \<open>Properties\<close>

text \<open>What the limits ask of a case, written without the order of the checks.\<close>

definition within_bounds :: "codec \<Rightarrow> RepositoryPolicy \<Rightarrow> u64 \<Rightarrow> StoredCase \<Rightarrow> Store \<Rightarrow> bool" where
  "within_bounds C p now c s \<longleftrightarrow>
     sc_policy_revision c = rpol_revision p \<and>
     (\<exists>seen. last_seen c s = Inr seen \<and>
        (saturating_sub now seen < stall_limit_seconds p \<or>
         ''RUN_DIRECT_WORKER'' \<in> set (pending_effect_types (sc_case_key c) s) \<and>
         (\<exists>n > 0. live_direct_attempts now s = Inr n))) \<and>
     (\<exists>started deadline. work_started_at C (sc_case_key c) s = Inr (Some started) \<and>
        work_deadline C p c started s = Inr deadline \<and> now < deadline) \<and>
     (\<exists>n < ucast (rpol_max_provider_failures p). direct_stage_failure_count (sc_case_key c) s = Inr n) \<and>
     (\<exists>outage. direct_stage_outage C (sc_case_key c) s = Inr outage \<and>
        (\<forall>out. outage = Some out \<longrightarrow> do_cause out \<noteq> ''MODEL_UNAVAILABLE'' \<and>
           saturating_sub now (do_since out) < outage_limit_seconds p)) \<and>
     (\<exists>n < ucast (rpol_max_repeated_finding_fingerprint p). repeated_finding_heads C (sc_case_key c) s = Inr n)"

lemma or_else_None: "or_else m k = Inr None \<longleftrightarrow> m = Inr None \<and> k = Inr None"
  by (auto simp: or_else_def rbind_def split: sum.splits option.splits)

lemma or_else_Some: "or_else m k = Inr (Some x) \<longleftrightarrow> m = Inr (Some x) \<or> m = Inr None \<and> k = Inr (Some x)"
  by (auto simp: or_else_def rbind_def split: sum.splits option.splits)

lemma observe_None [simp]: "observe_if reached bound observed limit details = None \<longleftrightarrow> \<not> reached"
  by (simp add: observe_if_def)

lemma map_err_Inr [simp]: "map_err f r = Inr a \<longleftrightarrow> r = Inr a"
  by (auto simp: map_err_def split: sum.splits)

lemma check_None:
  assumes "check_case C scope now c s = Inr None" "watched scope c s"
  shows "within_bounds C (scope_policy scope) now c s"
proof -
  let ?p = "scope_policy scope"
  from assms have checks: "policy_check ?p c = None" "stall_check ?p c now s = Inr None"
    "elapsed_check C ?p c now s = Inr None" "failure_check ?p c s = Inr None"
    "outage_check C ?p c now s = Inr None" "repeat_check C ?p c s = Inr None"
    by (simp_all add: check_case_def Let_def or_else_None)
  from checks(1) have "sc_policy_revision c = rpol_revision ?p" by (simp add: policy_check_def)
  moreover from checks(2) have "\<exists>seen. last_seen c s = Inr seen \<and>
        (saturating_sub now seen < stall_limit_seconds ?p \<or>
         ''RUN_DIRECT_WORKER'' \<in> set (pending_effect_types (sc_case_key c) s) \<and>
         (\<exists>n > 0. live_direct_attempts now s = Inr n))"
    by (auto simp: stall_check_def Let_def queued_for_worker_def not_le split: if_splits)
  moreover from checks(3) have "\<exists>started deadline. work_started_at C (sc_case_key c) s = Inr (Some started) \<and>
        work_deadline C ?p c started s = Inr deadline \<and> now < deadline"
    by (auto simp: elapsed_check_def not_le)
  moreover from checks(4) have "\<exists>n < ucast (rpol_max_provider_failures ?p).
      direct_stage_failure_count (sc_case_key c) s = Inr n"
    by (auto simp: failure_check_def Let_def not_le)
  moreover from checks(5) have "\<exists>outage. direct_stage_outage C (sc_case_key c) s = Inr outage \<and>
        (\<forall>out. outage = Some out \<longrightarrow> do_cause out \<noteq> ''MODEL_UNAVAILABLE'' \<and>
           saturating_sub now (do_since out) < outage_limit_seconds ?p)"
    by (auto simp: outage_check_def Let_def not_le split: option.splits if_splits)
  moreover from checks(6) have "\<exists>n < ucast (rpol_max_repeated_finding_fingerprint ?p).
      repeated_finding_heads C (sc_case_key c) s = Inr n"
    by (auto simp: repeat_check_def Let_def not_le)
  ultimately show ?thesis unfolding within_bounds_def by blast
qed

lemma check_Some:
  assumes "check_case C scope now c s = Inr (Some b)"
  shows "watched scope c s" "\<not> within_bounds C (scope_policy scope) now c s"
proof -
  show "watched scope c s" using assms by (simp add: check_case_def split: if_splits)
  let ?p = "scope_policy scope"
  show "\<not> within_bounds C ?p now c s"
  proof
    assume "within_bounds C ?p now c s"
    then have "policy_check ?p c = None" "stall_check ?p c now s \<noteq> Inr (Some b)"
      "elapsed_check C ?p c now s \<noteq> Inr (Some b)" "failure_check ?p c s \<noteq> Inr (Some b)"
      "outage_check C ?p c now s \<noteq> Inr (Some b)" "repeat_check C ?p c s \<noteq> Inr (Some b)"
      by (auto simp: within_bounds_def policy_check_def stall_check_def elapsed_check_def failure_check_def
          outage_check_def repeat_check_def queued_for_worker_def Let_def observe_if_def
          split: option.splits if_splits)
    with assms show False by (simp add: check_case_def Let_def or_else_Some split: if_splits)
  qed
qed

lemma enforce_cases_Inr:
  assumes "enforce_cases C D W scope now cs s = (Inr answer, t)"
  obtains "answer = BoundsIdle" "t = s" "\<forall>c \<in> set cs. check_case C scope now c s = Inr None"
  | c b where "c \<in> set cs" "check_case C scope now c s = Inr (Some b)"
    "escalate C D W (scope_policy scope) c now b s = (Inr answer, t)"
  using assms
proof (induction C D W scope now cs rule: enforce_cases.induct)
  case (1 C D W scope now)
  then show ?case by simp
next
  case (2 C D W scope now c cs)
  then obtain found where found: "check_case C scope now c s = Inr found" by auto
  show ?case
  proof (cases found)
    case None
    with found 2 show ?thesis by auto
  next
    case (Some b)
    with found 2(3,4) show ?thesis by (auto simp: sbind_def)
  qed
qed

text \<open>Case keys are the printed identity of the case, as intake makes them.\<close>

definition case_key_of :: "StoredCase \<Rightarrow> string" where
  "case_key_of c = CaseId_to_string \<lparr>cid_repository = RepositoryId (sc_repository_id c),
     cid_issue = IssueNumber (sc_issue_number c), cid_workflow = WorkflowVersion (sc_workflow_version c)\<rparr>"

definition canonical_keys :: "Store \<Rightarrow> bool" where
  "canonical_keys s \<longleftrightarrow> list_all (\<lambda>r. c_case_key r = case_key_of (stored_case r)) (cases_table s)"

text \<open>A command of a bound is about the case it was made for, and the machine parks every case that
  is not terminal.\<close>

lemma bound_command_Inr:
  assumes "bound_command c now b = Inr w"
  shows "CaseId_to_string (wc_case_id w) = case_key_of c" "wc_event w = OperationalBoundReached"
    "state_revision_get (wc_expected_state_revision w) = sc_state_revision c"
    "EventId_to_string (wc_event_id w) = bound_event_id c"
  using assms by (auto simp: bound_command_def nonzero_or_def case_key_of_def EventId_from_str_iff)

lemma bound_parks:
  assumes "transition_input p w = Inr input" "wc_event w = OperationalBoundReached"
  shows "ti_next_state input = ''ESCALATED''"
proof -
  from assms obtain d where d: "evaluate_case_command (workflow_snapshot w) (workflow_command w None) p = Inr d"
    and state: "ti_next_state input = CaseState_to_string (next_state (cd_transition d))"
    by (auto simp: transition_input_def workflow_resume_target_def Let_def split: prod.splits)
  then obtain ctx where "transition (wc_expected_state w) OperationalBoundReached ctx = Inr (cd_transition d)"
    using assms(2) by (auto simp: evaluate_case_command_def Let_def workflow_snapshot_def workflow_command_def split: if_splits)
  then have "next_state (cd_transition d) = Escalated"
    by (cases rule: transition_cases) (auto simp: transition_match_def Let_def split: if_splits)
  with state show ?thesis by simp
qed

lemma case_in_status:
  assumes "ledger_inv s" "status now s = Inr report"
  shows "c \<in> set (ls_cases report) \<longleftrightarrow> query_case (sc_case_key c) s = Some c"
proof -
  have "distinct (map c_case_key (cases_table s))" using assms(1) by (simp add: ledger_inv_def history_inv_def)
  moreover have "set (ls_cases report) = stored_case ` set (cases_table s)"
    using assms(2) by (auto simp: status_def)
  moreover have "sc_case_key (stored_case r) = c_case_key r" for r by (simp add: stored_case_def)
  ultimately show ?thesis by (auto simp: query_case_def find_case_iff image_iff)
qed

text \<open>What an escalation leaves of a case: parked at the next revision, unless the event of this
  bound and revision was recorded before, when nothing happens.\<close>

definition parked_by :: "StoredCase \<Rightarrow> Store \<Rightarrow> Store \<Rightarrow> bool" where
  "parked_by c s t \<longleftrightarrow>
     (\<exists>c'. query_case (sc_case_key c) t = Some c' \<and> sc_state c' = ''ESCALATED'' \<and>
        uint (sc_state_revision c') = uint (sc_state_revision c) + 1) \<or>
     t = s \<and> has_event s (bound_event_id c)"

lemma bounds_controller_Inr [simp]: "bounds_controller m s = (Inr a, t) \<longleftrightarrow> m s = (Inr a, t)"
  by (auto simp: bounds_controller_def split: prod.splits)

lemma escalate_Inr:
  assumes inv: "ledger_inv s" and keys: "canonical_keys s" and c: "query_case (sc_case_key c) s = Some c"
    and run: "escalate C D W p c now b s = (Inr answer, t)"
  shows "answer = BoundsEscalated (sc_case_key c) (bo_bound b) (bo_observed b) (bo_limit b) \<and> parked_by c s t"
proof -
  from run obtain w policy a where w: "bound_command c now b = Inr w"
    and moved: "LedgerController_apply C D policy w s = (Inr a, t)"
    and answer: "answer = BoundsEscalated (sc_case_key c) (bo_bound b) (bo_observed b) (bo_limit b)"
    by (auto simp: escalate_def)
  note command = bound_command_Inr [OF w]
  have key: "case_key_of c = sc_case_key c"
    using keys c by (auto simp: canonical_keys_def list_all_iff query_case_def find_case_def find_Some_iff
        stored_case_def)
  have "parked_by c s t"
    using inv moved
  proof (cases rule: apply_result)
    case 1
    then show ?thesis by (simp add: parked_by_def command)
  next
    case (2 row q input n r)
    from 2(6) have "query_case (sc_case_key c) t = Some (stored_case (projected input n r row))"
      by (simp add: query_case_def command key)
    moreover have "sc_state (stored_case (projected input n r row)) = ''ESCALATED''"
      using bound_parks [OF 2(4) command(2)] by (simp add: stored_case_def projected_def)
    moreover have "sc_state_revision (stored_case (projected input n r row)) = n"
      by (simp add: stored_case_def projected_def)
    moreover have "uint n = uint (sc_state_revision c) + 1" using checked_add_uint [OF 2(5)] command(3) by simp
    ultimately show ?thesis by (simp add: parked_by_def)
  qed
  with answer show ?thesis by blast
qed

text \<open>C28: An idle answer of the bound check means that every automated case in scope is within all
  its limits (accepted policy, progress, time, work failures, outages, repeated findings) and
  that the ledger was not touched. Otherwise the answer names a case in scope that exceeds a
  limit, and that case is now parked for a human at the next revision (or its event for this
  revision was recorded before).\<close>

theorem bounds_enforced:
  assumes inv: "ledger_inv s" and keys: "canonical_keys s"
    and run: "enforce_operational_bounds C D W scope now s = (Inr answer, t)"
  shows "case answer of
      BoundsIdle \<Rightarrow> t = s \<and> (\<forall>k c. query_case k s = Some c \<longrightarrow> watched scope c s \<longrightarrow>
        within_bounds C (scope_policy scope) now c s)
    | BoundsEscalated k bound observed limit \<Rightarrow> \<exists>c. query_case k s = Some c \<and> watched scope c s \<and>
        \<not> within_bounds C (scope_policy scope) now c s \<and> parked_by c s t"
proof -
  from run obtain report where report: "status now s = Inr report"
    and cases: "enforce_cases C D W scope now (sort_key sc_case_key (ls_cases report)) s = (Inr answer, t)"
    by (auto simp: enforce_operational_bounds_def)
  have key: "query_case k s = Some c \<Longrightarrow> sc_case_key c = k" for k c
    by (auto simp: query_case_def find_case_def find_Some_iff stored_case_def)
  from cases show ?thesis
  proof (cases rule: enforce_cases_Inr)
    case 1
    then show ?thesis using check_None case_in_status [OF inv report] key by fastforce
  next
    case (2 c b)
    then have c: "query_case (sc_case_key c) s = Some c" using case_in_status [OF inv report] by simp
    from escalate_Inr [OF inv keys c 2(3)] check_Some [OF 2(2)] c show ?thesis by auto
  qed
qed

definition sample_scope :: RepositoryScope where
  "sample_scope = scope_of_policy (sample_repository\<lparr>rpol_revision := 1, rpol_max_stall_seconds := Some 5,
     rpol_repository := \<lparr>rid_id = 1, rid_owner = ''o'', rid_name = ''r'', rid_default_branch = ''main''\<rparr>\<rparr>)"

theorem bounds_enforced_witness:
  "\<exists>t c. enforce_operational_bounds sample_codec sample_decoders sample_wire sample_scope 20 sample_ledger =
       (Inr (BoundsEscalated ''repo:1#2@1'' NoProgress 10 5), t) \<and>
     query_case ''repo:1#2@1'' sample_ledger = Some c \<and>
     \<not> within_bounds sample_codec (scope_policy sample_scope) 20 c sample_ledger \<and> parked_by c sample_ledger t"
proof -
  have "fst (enforce_operational_bounds sample_codec sample_decoders sample_wire sample_scope 20 sample_ledger) =
      Inr (BoundsEscalated ''repo:1#2@1'' NoProgress 10 5)" by code_simp
  then obtain t where t: "enforce_operational_bounds sample_codec sample_decoders sample_wire sample_scope 20
      sample_ledger = (Inr (BoundsEscalated ''repo:1#2@1'' NoProgress 10 5), t)" by (metis prod.collapse)
  have "canonical_keys sample_ledger" by code_simp
  from bounds_enforced [OF sample_inv(1) this t] t show ?thesis by auto
qed

end
