(* ===== verification/BuildJoins.thy ===== *)
theory BuildJoins
  imports WorkerWire
begin

text \<open>
  How the controller finds the builder result that a publication rests on,
  \<open>pip-control/src/draft_pr.rs\<close> and the joins of \<open>pip-control/src/publication_retry.rs\<close>. Nothing
  a worker says about itself selects a build: the event journal does. The theorems show that the
  source of a publication is the newest build accepted before it, recorded by the builder of
  this case under the current plan, and that its digests are intact.
\<close>

datatype DraftPullRequestError =
    DraftStore StoreError
  | InvalidBuildJoin
  | DraftSerialization

definition payload_matches :: "codec \<Rightarrow> json \<Rightarrow> string \<Rightarrow> bool" where
  "payload_matches C value expected \<longleftrightarrow> sha256_hex C (json_to_string C value) = expected"

section \<open>The accepted plan\<close>

definition plan_of_run :: "codec \<Rightarrow> StoredCase \<Rightarrow> StoredRun \<Rightarrow> WorkerResult \<Rightarrow> PlannerResult option" where
  "plan_of_run C c run result =
    (case result of
       PlannerW plan \<Rightarrow>
         if plr_outcome plan = PlannerOutcome.Proceed \<and> plr_plan_version plan = sc_plan_version c \<and>
            cr_task_id (plr_common plan) = sr_task_id run \<and> payload_matches C (sr_payload run) (sr_payload_sha256 run)
         then Some plan else None
     | _ \<Rightarrow> None)"

definition planned_runs ::
  "codec \<Rightarrow> result_decoders \<Rightarrow> ImmutableCaseHistory \<Rightarrow> StoredCase \<Rightarrow>
     DraftPullRequestError + PlannerResult option list" where
  "planned_runs C R h c =
     rmap (\<lambda>run. rbind (ok_or (WorkerResult_decode R (sr_payload run)) DraftSerialization) (\<lambda>result.
       Inr (plan_of_run C c run result)))
     (filter (\<lambda>run. sr_role run = ''planner'') (ih_runs h))"

definition accepted_plan ::
  "codec \<Rightarrow> result_decoders \<Rightarrow> ImmutableCaseHistory \<Rightarrow> StoredCase \<Rightarrow> DraftPullRequestError + PlannerResult" where
  "accepted_plan C R h c =
     rbind (planned_runs C R h c) (\<lambda>found.
     case List.map_filter (\<lambda>p. p) found of
       [plan] \<Rightarrow> Inr plan
     | _ \<Rightarrow> Inl InvalidBuildJoin)"

definition planned_base ::
  "codec \<Rightarrow> result_decoders \<Rightarrow> ImmutableCaseHistory \<Rightarrow> StoredCase \<Rightarrow> DraftPullRequestError + GitSha" where
  "planned_base C R h c =
     rbind (accepted_plan C R h c) (\<lambda>plan.
     map_err (\<lambda>_. InvalidBuildJoin) (GitSha_from_str (plr_planned_base_sha plan)))"

section \<open>The source of a publication\<close>

definition newest_publication :: "ImmutableCaseHistory \<Rightarrow> StoredEvent option" where
  "newest_publication h = find (\<lambda>e. se_event_type e = ''REVIEW_READY'') (rev (ih_events h))"

definition publication_of :: "StoredEvent \<Rightarrow> json" where
  "publication_of event = json_at (se_payload event) ''publication''"

definition signing_of :: "StoredEvent \<Rightarrow> json" where
  "signing_of event = json_at (publication_of event) ''signing''"

definition signer_valid :: "json \<Rightarrow> bool" where
  "signer_valid signing =
    (case as_str (json_at signing ''signer_fingerprint'') of
       None \<Rightarrow> False
     | Some value \<Rightarrow> starts_with ''SHA256:'' value \<and> 7 < length value)"

definition publication_bound ::
  "codec \<Rightarrow> ImmutableCaseHistory \<Rightarrow> StoredCase \<Rightarrow> bool \<Rightarrow> StoredEvent \<Rightarrow> string \<Rightarrow> bool" where
  "publication_bound C h c is_signed event head \<longleftrightarrow>
     payload_matches C (se_payload event) (se_payload_sha256 event) \<and>
     as_str (json_at (publication_of event) ''head_sha'') = Some head \<and>
     as_u64 (json_at (publication_of event) ''pull_request_number'') = sc_pr_number c \<and>
     (is_signed \<longrightarrow> as_str (json_at (signing_of event) ''head'') = Some head \<and> signer_valid (signing_of event)) \<and>
     (\<not> is_signed \<longrightarrow> signing_of event = JNull) \<and>
     list_ex (\<lambda>v. sv_kind v = ''GITHUB_DRAFT_PULL_REQUEST_PUBLICATION'' \<and> sv_payload v = publication_of event \<and>
       payload_matches C (sv_payload v) (sv_payload_sha256 v)) (ih_evidence h)"

definition signing_heads_valid :: "json \<Rightarrow> bool" where
  "signing_heads_valid signing =
     list_all (\<lambda>field. case as_str (json_at signing field) of
       None \<Rightarrow> False
     | Some value \<Rightarrow> \<not> isl (GitSha_from_str value)) [''source_head'', ''head'', ''tree'', ''parent'']"

definition accepted_build :: "ImmutableCaseHistory \<Rightarrow> StoredEvent \<Rightarrow> StoredEvent option" where
  "accepted_build h event =
     find (\<lambda>e. se_state_revision e < se_state_revision event \<and> se_event_type e = ''BUILD_RECORDED'')
       (rev (ih_events h))"

definition run_of_event :: "ImmutableCaseHistory \<Rightarrow> StoredEvent \<Rightarrow> StoredRun option" where
  "run_of_event h event = find (\<lambda>run. sr_event_id run = se_event_id event) (ih_runs h)"

definition build_recorded :: "codec \<Rightarrow> StoredCase \<Rightarrow> StoredEvent \<Rightarrow> StoredEvent \<Rightarrow> StoredRun \<Rightarrow> bool" where
  "build_recorded C c event accepted run \<longleftrightarrow>
     sr_case_key run = sc_case_key c \<and> sr_role run = ''builder'' \<and>
     as_str (json_at (publication_of event) ''task_id'') = Some (sr_task_id run) \<and>
     sr_payload run = json_at (se_payload event) ''builder_result'' \<and> sr_payload run = se_payload accepted \<and>
     payload_matches C (sr_payload run) (sr_payload_sha256 run) \<and>
     payload_matches C (se_payload accepted) (se_payload_sha256 accepted)"

definition build_fits :: "StoredCase \<Rightarrow> bool \<Rightarrow> StoredEvent \<Rightarrow> StoredRun \<Rightarrow> string \<Rightarrow> BuilderResult \<Rightarrow> bool" where
  "build_fits c is_signed event run head build \<longleftrightarrow>
     cr_task_id (blr_common build) = sr_task_id run \<and> blr_plan_version build = sc_plan_version c \<and>
     blr_outcome build = BuilderOutcome.ReviewReady \<and>
     (is_signed \<longrightarrow> blr_head_sha build = as_str (json_at (signing_of event) ''source_head'') \<and>
        blr_head_sha build \<noteq> Some head) \<and>
     (\<not> is_signed \<longrightarrow> blr_head_sha build = Some head)"

definition publication_source ::
  "codec \<Rightarrow> result_decoders \<Rightarrow> ImmutableCaseHistory \<Rightarrow> StoredCase \<Rightarrow> bool \<Rightarrow>
     DraftPullRequestError + BuilderResult \<times> string" where
  "publication_source C R h c is_signed =
     rbind (ok_or (newest_publication h) InvalidBuildJoin) (\<lambda>event.
     rbind (ok_or (sc_head_sha c) InvalidBuildJoin) (\<lambda>head.
     rbind (reject_if (\<not> publication_bound C h c is_signed event head) InvalidBuildJoin) (\<lambda>_.
     rbind (reject_if (is_signed \<and> \<not> signing_heads_valid (signing_of event)) InvalidBuildJoin) (\<lambda>_.
     rbind (ok_or (accepted_build h event) InvalidBuildJoin) (\<lambda>accepted.
     rbind (ok_or (run_of_event h accepted) InvalidBuildJoin) (\<lambda>run.
     rbind (reject_if (\<not> build_recorded C c event accepted run) InvalidBuildJoin) (\<lambda>_.
     case WorkerResult_decode R (sr_payload run) of
       Some (BuilderW build) \<Rightarrow>
         rbind (reject_if (\<not> build_fits c is_signed event run head build) InvalidBuildJoin) (\<lambda>_.
         Inr (build, se_event_id accepted))
     | _ \<Rightarrow> Inl InvalidBuildJoin)))))))"

definition published_builder ::
  "codec \<Rightarrow> result_decoders \<Rightarrow> ImmutableCaseHistory \<Rightarrow> StoredCase \<Rightarrow>
     DraftPullRequestError + BuilderResult option" where
  "published_builder C R h c =
    (case newest_publication h of
       None \<Rightarrow> Inr None
     | Some event \<Rightarrow>
         if signing_of event = JNull then Inr None
         else rbind (publication_source C R h c True) (\<lambda>(build, _). Inr (Some build)))"

section \<open>A retried publication\<close>

record PublicationRetryRequest =
  prq_case_key :: string
  prq_expected_revision :: u64
  prq_expected_head :: string
  prq_request_id :: string
  prq_reason :: string

definition PublicationRetryRequest_value :: "PublicationRetryRequest \<Rightarrow> json" where
  "PublicationRetryRequest_value r = JObj (object_of
     [(''case_key'', JStr (prq_case_key r)), (''expected_revision'', JPos (prq_expected_revision r)),
      (''expected_head'', JStr (prq_expected_head r)), (''request_id'', JStr (prq_request_id r)),
      (''reason'', JStr (prq_reason r))])"

record Authorization =
  au_schema_version :: u32
  au_operator_uid :: u32
  au_request :: PublicationRetryRequest
  au_build_event_id :: string
  au_parent_head :: string

definition Authorization_value :: "Authorization \<Rightarrow> json" where
  "Authorization_value a = JObj (object_of
     [(''schema_version'', json_u32 (au_schema_version a)), (''operator_uid'', json_u32 (au_operator_uid a)),
      (''request'', PublicationRetryRequest_value (au_request a)), (''build_event_id'', JStr (au_build_event_id a)),
      (''parent_head'', JStr (au_parent_head a))])"

text \<open>Third-party code: \<open>serde_json::from_value::<Authorization>\<close>.\<close>

type_synonym authorization_reader = "json \<Rightarrow> Authorization option"

text \<open>The errors of this module are texts; the model keeps which one, and the error a text was
  made from.\<close>

datatype RetryError =
    Refused string
  | RetryJoin DraftPullRequestError

definition recoverable_source ::
  "codec \<Rightarrow> result_decoders \<Rightarrow> ImmutableCaseHistory \<Rightarrow> StoredCase \<Rightarrow> RetryError + BuilderResult \<times> string" where
  "recoverable_source C R h c =
     rbind (ok_or (newest_publication h) (Refused ''missing publication'')) (\<lambda>event.
     rbind (reject_if (json_at (signing_of event) ''integrated_base'' \<noteq> JNull)
       (Refused ''publication already binds integrated target ancestry'')) (\<lambda>_.
     map_err RetryJoin (publication_source C R h c (signing_of event \<noteq> JNull))))"

definition authorization_bound :: "codec \<Rightarrow> StoredCase \<Rightarrow> StoredEvent \<Rightarrow> Authorization \<Rightarrow> bool" where
  "authorization_bound C c event auth \<longleftrightarrow>
     se_event_type event = ''PUBLICATION_RETRY_AUTHORIZED'' \<and> se_state_revision event = sc_state_revision c \<and>
     payload_matches C (se_payload event) (se_payload_sha256 event) \<and> au_schema_version auth = 1 \<and>
     au_operator_uid auth = 0 \<and> prq_case_key (au_request auth) = sc_case_key c \<and>
     prq_request_id (au_request auth) = se_event_id event \<and>
     checked_add (prq_expected_revision (au_request auth)) 1 = Some (sc_state_revision c) \<and>
     sc_head_sha c = Some (prq_expected_head (au_request auth))"

definition authorized_build ::
  "codec \<Rightarrow> result_decoders \<Rightarrow> authorization_reader \<Rightarrow> ImmutableCaseHistory \<Rightarrow> StoredCase \<Rightarrow> RetryError + BuilderResult \<times> GitSha" where
  "authorized_build C R A h c =
     rbind (ok_or (if ih_events h = [] then None else Some (last (ih_events h)))
       (Refused ''missing recovery authorization'')) (\<lambda>event.
     rbind (ok_or (A (se_payload event)) (RetryJoin DraftSerialization)) (\<lambda>auth.
     rbind (reject_if (\<not> authorization_bound C c event auth) (Refused ''invalid publication recovery binding'')) (\<lambda>_.
     rbind (recoverable_source C R h c) (\<lambda>(build, event_id).
     rbind (map_err RetryJoin (planned_base C R h c)) (\<lambda>parent.
     rbind (reject_if (event_id \<noteq> au_build_event_id auth \<or> GitSha_to_string parent \<noteq> au_parent_head auth)
       (Refused ''publication recovery source changed'')) (\<lambda>_.
     Inr (build, parent)))))))"

section \<open>The build to publish\<close>

definition build_of_event ::
  "codec \<Rightarrow> result_decoders \<Rightarrow> ImmutableCaseHistory \<Rightarrow> StoredCase \<Rightarrow> StoredEvent \<Rightarrow>
     DraftPullRequestError + BuilderResult \<times> GitSha \<times> bool" where
  "build_of_event C R h c event =
     rbind (ok_or (case run_of_event h event of
         None \<Rightarrow> None
       | Some run \<Rightarrow> if sr_role run = ''builder'' \<and> sr_payload_sha256 run = se_payload_sha256 event
           then Some run else None) InvalidBuildJoin) (\<lambda>run.
     rbind (ok_or (WorkerResult_decode R (sr_payload run)) DraftSerialization) (\<lambda>result.
     case result of
       BuilderW build \<Rightarrow>
         if blr_outcome build = BuilderOutcome.ReviewReady \<and> blr_plan_version build = sc_plan_version c \<and>
            cr_task_id (blr_common build) = sr_task_id run
         then rbind (case sc_head_sha c of
                Some head \<Rightarrow> map_err (\<lambda>_. InvalidBuildJoin) (GitSha_from_str head)
              | None \<Rightarrow> planned_base C R h c) (\<lambda>parent. Inr (build, parent, False))
         else Inl InvalidBuildJoin
     | _ \<Rightarrow> Inl InvalidBuildJoin))"

definition active_build ::
  "codec \<Rightarrow> result_decoders \<Rightarrow> authorization_reader \<Rightarrow> StoredCase \<Rightarrow> Store \<Rightarrow>
     DraftPullRequestError + BuilderResult \<times> GitSha \<times> bool" where
  "active_build C R A c s =
     rbind (map_err DraftStore (immutable_history_for_case C (sc_case_key c) s)) (\<lambda>h.
     if ih_events h \<noteq> [] \<and> se_event_type (last (ih_events h)) = ''PUBLICATION_RETRY_AUTHORIZED''
     then rbind (map_err (\<lambda>_. InvalidBuildJoin) (authorized_build C R A h c)) (\<lambda>(build, parent).
       Inr (build, parent, True))
     else if ih_events h \<noteq> [] \<and> se_state_revision (last (ih_events h)) = sc_state_revision c \<and>
        se_event_type (last (ih_events h)) = ''BUILD_RECORDED''
     then build_of_event C R h c (last (ih_events h))
     else Inl InvalidBuildJoin)"

section \<open>Properties\<close>

text \<open>\<open>newest_in P xs x\<close>: \<open>x\<close> is the last entry of \<open>xs\<close> that satisfies \<open>P\<close>.\<close>

definition newest_in :: "('a \<Rightarrow> bool) \<Rightarrow> 'a list \<Rightarrow> 'a \<Rightarrow> bool" where
  "newest_in P xs x \<longleftrightarrow> P x \<and> (\<exists>before after. xs = before @ x # after \<and> (\<forall>y \<in> set after. \<not> P y))"

lemma find_rev_newest: "find P (rev xs) = Some x \<Longrightarrow> newest_in P xs x"
proof (induction xs rule: rev_induct)
  case (snoc y xs)
  show ?case
  proof (cases "P y")
    case True
    with snoc.prems have "y = x" by simp
    with True show ?thesis unfolding newest_in_def by (metis empty_iff list.set(1))
  next
    case False
    with snoc obtain before after where "P x" "xs = before @ x # after" "\<forall>z \<in> set after. \<not> P z"
      by (auto simp: newest_in_def)
    with False have "xs @ [y] = before @ x # (after @ [y])" "\<forall>z \<in> set (after @ [y]). \<not> P z" by auto
    with \<open>P x\<close> show ?thesis unfolding newest_in_def by blast
  qed
qed simp

lemma publication_source_cases:
  assumes "publication_source C R h c is_signed = Inr (build, event_id)"
  obtains event head accepted run where
    "newest_publication h = Some event" "sc_head_sha c = Some head"
    "publication_bound C h c is_signed event head" "is_signed \<longrightarrow> signing_heads_valid (signing_of event)"
    "accepted_build h event = Some accepted" "run_of_event h accepted = Some run"
    "build_recorded C c event accepted run" "WorkerResult_decode R (sr_payload run) = Some (BuilderW build)"
    "build_fits c is_signed event run head build" "event_id = se_event_id accepted"
proof -
  from assms obtain event head accepted run where
    joined: "newest_publication h = Some event" "sc_head_sha c = Some head"
      "publication_bound C h c is_signed event head" "is_signed \<longrightarrow> signing_heads_valid (signing_of event)"
      "accepted_build h event = Some accepted" "run_of_event h accepted = Some run"
      "build_recorded C c event accepted run" and
    decoded: "(case WorkerResult_decode R (sr_payload run) of
         Some (BuilderW build) \<Rightarrow>
           rbind (reject_if (\<not> build_fits c is_signed event run head build) InvalidBuildJoin) (\<lambda>_.
           Inr (build, se_event_id accepted))
       | _ \<Rightarrow> Inl InvalidBuildJoin) = Inr (build, event_id)"
    unfolding publication_source_def by (auto simp del: not_None_eq)
  from decoded have "WorkerResult_decode R (sr_payload run) = Some (BuilderW build)"
      "build_fits c is_signed event run head build" "event_id = se_event_id accepted"
    by (auto split: option.split_asm WorkerResult.split_asm)
  with joined show ?thesis by (rule that)
qed


section \<open>Sample publication\<close>

definition sample_build :: BuilderResult where
  "sample_build =
     \<lparr>blr_common = \<lparr>cr_contract_version = 2, cr_workflow_version = 1,
        cr_case = \<lparr>ci_repository_id = 1, ci_issue_number = 2, ci_workflow_version = 1\<rparr>,
        cr_task_id = ''t1'', cr_role = Builder, cr_requested_model = ''m'', cr_actual_model = ''m'',
        cr_skills_repository_commit = ''c'', cr_started_at_unix = 1, cr_completed_at_unix = 2, cr_evidence = []\<rparr>,
      blr_outcome = BuilderOutcome.ReviewReady, blr_plan_version = 1, blr_build_round = 0,
      blr_head_sha = Some ''b'', blr_local_checks = [], blr_finding_resolutions = []\<rparr>"

definition sample_build_decoders :: result_decoders where
  "sample_build_decoders =
     \<lparr>role_from_value = (\<lambda>v. Some Builder), planner_from_value = (\<lambda>v. None),
      builder_from_value = (\<lambda>v. Some sample_build), review_from_value = (\<lambda>v. None),
      final_from_value = (\<lambda>v. None)\<rparr>"

definition sample_publication :: json where
  "sample_publication = JObj
     [(''head_sha'', JStr ''b''), (''pull_request_number'', JPos 9), (''task_id'', JStr ''t1'')]"

definition sample_build_value :: json where
  "sample_build_value = JObj [(''role'', JStr ''builder'')]"

definition sample_ready_value :: json where
  "sample_ready_value = JObj [(''builder_result'', sample_build_value), (''publication'', sample_publication)]"

definition sample_published :: ImmutableCaseHistory where
  "sample_published =
     \<lparr>ih_events =
        [\<lparr>se_event_id = ''e1'', se_state_revision = 3, se_observed_at = 1, se_event_type = ''BUILD_RECORDED'',
          se_payload = sample_build_value, se_payload_sha256 = put_json sample_build_value\<rparr>,
         \<lparr>se_event_id = ''e2'', se_state_revision = 4, se_observed_at = 2, se_event_type = ''REVIEW_READY'',
          se_payload = sample_ready_value, se_payload_sha256 = put_json sample_ready_value\<rparr>],
      ih_runs = [\<lparr>sr_run_id = ''r1'', sr_case_key = ''k'', sr_event_id = ''e1'', sr_task_id = ''t1'',
        sr_role = ''builder'', sr_payload = sample_build_value,
        sr_payload_sha256 = put_json sample_build_value, sr_accepted_at = 1\<rparr>],
      ih_evidence = [\<lparr>sv_evidence_id = ''v1'', sv_kind = ''GITHUB_DRAFT_PULL_REQUEST_PUBLICATION'',
        sv_source = ''github'', sv_observed_at = 2, sv_payload = sample_publication,
        sv_payload_sha256 = put_json sample_publication\<rparr>],
      ih_findings = [], ih_review_observations = []\<rparr>"

definition sample_published_case :: StoredCase where
  "sample_published_case =
     \<lparr>sc_case_key = ''k'', sc_repository_id = 1, sc_issue_number = 2, sc_workflow_version = 1,
      sc_state = ''REVIEWING'', sc_state_revision = 4, sc_policy_revision = 1, sc_remediation_round = 0,
      sc_plan_version = 1, sc_pr_number = Some 9, sc_head_sha = Some ''b''\<rparr>"


end
