(* ===== verification/Authorizations.thy ===== *)
theory Authorizations
  imports Bounds BuildJoins
begin

text \<open>
  The offline recoveries an operator authorizes, \<open>pip-control/src/builder_retry.rs\<close>,
  \<open>follow_up_recovery.rs\<close>, \<open>infrastructure_recovery.rs\<close>, \<open>remediation_extension.rs\<close>,
  \<open>native_review_retry.rs\<close> and \<open>publication_retry.rs\<close>. Every one of them checks the same context
  (root, an inert installed policy, the bindings the case accepted), the exact revision and head
  and that no work runs, and then moves the case by one event through the controller. The
  theorems show that they are steps of the controlled ledger, that none succeeds without that
  authority, and that a repeated request is answered as a replay.
\<close>

section \<open>Errors\<close>

text \<open>The errors of these modules are texts; the model keeps which one, and the error a text was
  made from.\<close>

datatype RecoveryError =
    RecoveryRefused string
  | RecoveryStore StoreError
  | RecoveryPolicy PolicyError
  | RecoveryIdentifier
  | RecoveryController ControllerError
  | RecoveryJoin RetryError
  | RecoverySerialization

type_synonym 'a recovery_op = "(Store, RecoveryError, 'a) smonad"

definition recovery_controller :: "'a controller_op \<Rightarrow> 'a recovery_op" where
  "recovery_controller m = (\<lambda>s. case m s of (r, t) \<Rightarrow> (map_err RecoveryController r, t))"

section \<open>Shared validation\<close>

definition bindings_differ :: "policy_wire \<Rightarrow> RepositoryPolicy \<Rightarrow> RepositoryPolicy \<Rightarrow> bool" where
  "bindings_differ W paused accepted \<longleftrightarrow>
     rpol_repository paused \<noteq> rpol_repository accepted \<or>
     rpol_workflow_version paused \<noteq> rpol_workflow_version accepted \<or>
     rpol_checkout paused \<noteq> rpol_checkout accepted \<or> rpol_workspace paused \<noteq> rpol_workspace accepted \<or>
     roles_to_value W (rpol_roles paused) \<noteq> roles_to_value W (rpol_roles accepted)"

definition recovery_context ::
  "codec \<Rightarrow> policy_wire \<Rightarrow> RepositoryPolicy \<Rightarrow> string \<Rightarrow> u32 \<Rightarrow> Store \<Rightarrow>
     RecoveryError + StoredCase \<times> RepositoryPolicy" where
  "recovery_context C W paused case_key operator_uid s =
     rbind (reject_if (operator_uid \<noteq> 0) (RecoveryRefused ''work retry requires root authorization'')) (\<lambda>_.
     rbind (reject_if (ic_enabled (rpol_intake paused) \<or> \<not> ic_paused (rpol_intake paused) \<or>
         rpol_dispatch_enabled paused)
       (RecoveryRefused ''work retry requires an inert installed policy'')) (\<lambda>_.
     rbind (ok_or (query_case case_key s) (RecoveryRefused ''case is missing'')) (\<lambda>c.
     rbind (map_err RecoveryStore (accepted_policy C (sc_repository_id c) (sc_policy_revision c) s)) (\<lambda>value.
     rbind (map_err RecoveryPolicy (load_repository_policy W (json_to_string C value))) (\<lambda>accepted.
     rbind (reject_if (bindings_differ W paused accepted)
       (RecoveryRefused ''installed and accepted repository/runtime bindings differ'')) (\<lambda>_.
     Inr (c, accepted)))))))"

definition recovery_command ::
  "StoredCase \<Rightarrow> u64 \<Rightarrow> EventId \<Rightarrow> Event \<Rightarrow> json \<Rightarrow> u64 \<Rightarrow> RecoveryError + WorkflowCommand" where
  "recovery_command c expected_revision event_id event body now =
     rbind (nonzero_or (RecoveryRefused ''invalid repository'') (sc_repository_id c)) (\<lambda>repository.
     rbind (nonzero_or (RecoveryRefused ''invalid issue'') (sc_issue_number c)) (\<lambda>issue.
     rbind (nonzero_or (RecoveryRefused ''invalid workflow'') (sc_workflow_version c)) (\<lambda>workflow.
     rbind (map_err (\<lambda>_. RecoveryIdentifier) (CaseState_from_str (sc_state c))) (\<lambda>state.
     rbind (nonzero_or (RecoveryRefused ''invalid state revision'') expected_revision) (\<lambda>state_revision.
     rbind (nonzero_or (RecoveryRefused ''invalid policy revision'') (sc_policy_revision c)) (\<lambda>policy_revision.
     rbind (parse_head RecoveryIdentifier (sc_head_sha c)) (\<lambda>head.
     Inr \<lparr>wc_case_id = \<lparr>cid_repository = RepositoryId repository, cid_issue = IssueNumber issue,
        cid_workflow = WorkflowVersion workflow\<rparr>,
      wc_event_id = event_id, wc_observed_at = ObservedAt now, wc_expected_state = state,
      wc_expected_state_revision = StateRevision state_revision,
      wc_accepted_policy_revision = PolicyRevision policy_revision,
      wc_remediation_round = sc_remediation_round c,
      wc_plan_version = map_option PlanVersion (nonzero (sc_plan_version c)),
      wc_pr_number = map_option PullRequestNumber (Option.bind (sc_pr_number c) nonzero),
      wc_head_sha = head, wc_event = event, wc_accepted_plan_version = None,
      wc_next_pr_number = None, wc_next_head_sha = None, wc_event_payload = body,
      wc_run = None, wc_evidence = [], wc_findings = []\<rparr>)))))))"

definition recorded_event :: "ImmutableCaseHistory \<Rightarrow> string \<Rightarrow> StoredEvent option" where
  "recorded_event h request_id = find (\<lambda>e. se_event_id e = request_id) (ih_events h)"

text \<open>The identity and head of a request are well-formed.\<close>

definition parse_request :: "PublicationRetryRequest \<Rightarrow> RecoveryError + EventId" where
  "parse_request request =
     rbind (map_err (\<lambda>_. RecoveryIdentifier) (EventId_from_str (prq_request_id request))) (\<lambda>event_id.
     rbind (map_err (\<lambda>_. RecoveryIdentifier) (GitSha_from_str (prq_expected_head request))) (\<lambda>_.
     Inr event_id))"

definition request_current :: "StoredCase \<Rightarrow> PublicationRetryRequest \<Rightarrow> bool" where
  "request_current c request \<longleftrightarrow>
     sc_state_revision c = prq_expected_revision request \<and> sc_head_sha c = Some (prq_expected_head request)"

definition submit ::
  "codec \<Rightarrow> decoders \<Rightarrow> RepositoryPolicy \<Rightarrow> StoredCase \<Rightarrow> PublicationRetryRequest \<Rightarrow> EventId \<Rightarrow> Event \<Rightarrow>
     json \<Rightarrow> u64 \<Rightarrow> ApplyResult recovery_op" where
  "submit C D accepted c request event_id event body now =
     sbind (slift (recovery_command c (prq_expected_revision request) event_id event body now)) (\<lambda>command.
     recovery_controller (LedgerController_apply C D (case_policy accepted) command))"

section \<open>Budgets\<close>

definition recovery_deadline ::
  "codec \<Rightarrow> RepositoryPolicy \<Rightarrow> StoredCase \<Rightarrow> Store \<Rightarrow> RecoveryError + u64" where
  "recovery_deadline C accepted c s =
     rbind (map_err RecoveryStore (work_started_at C (sc_case_key c) s)) (\<lambda>started.
     rbind (ok_or started (RecoveryRefused ''missing authorization'')) (\<lambda>created.
     rbind (map_err RecoveryStore (infrastructure_recovery_deadline C (sc_case_key c) s)) (\<lambda>recovery.
     Inr (max (saturating_add created (rpol_max_case_elapsed_seconds accepted))
       (case recovery of None \<Rightarrow> 0 | Some t \<Rightarrow> t)))))"

definition failure_limit :: "codec \<Rightarrow> RepositoryPolicy \<Rightarrow> StoredCase \<Rightarrow> Store \<Rightarrow> RecoveryError + u64" where
  "failure_limit C accepted c s =
     map_err RecoveryStore (effective_provider_failure_limit C (sc_case_key c)
       (ucast (rpol_max_provider_failures accepted)) s)"

definition failures_spent :: "StoredCase \<Rightarrow> u64 \<Rightarrow> Store \<Rightarrow> RecoveryError + bool" where
  "failures_spent c limit s =
     rbind (map_err RecoveryStore (failed_direct_attempt_count_for_case (sc_case_key c) s)) (\<lambda>failed.
     Inr (limit \<le> failed))"

text \<open>The condition of the recoveries that keep the budgets: the exact case, stopped work,
  remaining time and remaining failures. The disjuncts are read from left to right.\<close>

definition within_budget ::
  "codec \<Rightarrow> RepositoryPolicy \<Rightarrow> StoredCase \<Rightarrow> PublicationRetryRequest \<Rightarrow> u64 \<Rightarrow> string \<Rightarrow> Store \<Rightarrow>
     RecoveryError + unit" where
  "within_budget C accepted c request now message s =
     rbind (recovery_deadline C accepted c s) (\<lambda>deadline.
     rbind (failure_limit C accepted c s) (\<lambda>limit.
     if \<not> request_current c request \<or> deadline \<le> now \<or> running_direct_attempts_for_case (sc_case_key c) s \<noteq> 0
     then Inl (RecoveryRefused message)
     else rbind (failures_spent c limit s) (\<lambda>spent. reject_if spent (RecoveryRefused message))))"

section \<open>Follow-up and review recoveries\<close>

definition retry_payload :: "u32 \<Rightarrow> PublicationRetryRequest \<Rightarrow> (string \<times> json) list \<Rightarrow> json" where
  "retry_payload operator_uid request extra = JObj (object_of
     ([(''schema_version'', JPos 1), (''operator_uid'', json_u32 operator_uid),
       (''request'', PublicationRetryRequest_value request)] @ extra))"

definition replay_answer :: "bool \<Rightarrow> string \<Rightarrow> ApplyResult recovery_op" where
  "replay_answer same message = (if same then sreturn Replayed else sfail (RecoveryRefused message))"

text \<open>\<open>authorize_follow_up_recovery\<close> and \<open>native_review_retry::authorize\<close> have the same body but
  for the event and the message.\<close>

definition authorize_kept_budget ::
  "codec \<Rightarrow> decoders \<Rightarrow> policy_wire \<Rightarrow> RepositoryPolicy \<Rightarrow> PublicationRetryRequest \<Rightarrow> u64 \<Rightarrow> u32 \<Rightarrow> Event \<Rightarrow>
     string \<Rightarrow> ApplyResult recovery_op" where
  "authorize_kept_budget C D W paused request now operator_uid event message =
     sbind (squery (recovery_context C W paused (prq_case_key request) operator_uid)) (\<lambda>(c, accepted).
     sbind (slift (parse_request request)) (\<lambda>event_id.
     let body = retry_payload operator_uid request [] in
     sbind (squery (\<lambda>s. map_err RecoveryStore (immutable_history_for_case C (sc_case_key c) s))) (\<lambda>h.
     case recorded_event h (prq_request_id request) of
       Some e \<Rightarrow>
         replay_answer (se_event_type e = Event_to_string event \<and> se_payload e = body \<and>
             Some (se_state_revision e) = checked_add (prq_expected_revision request) 1)
           ''recovery request conflicts with recorded authorization''
     | None \<Rightarrow>
         sbind (squery (within_budget C accepted c request now message)) (\<lambda>_.
         submit C D accepted c request event_id event body now))))"

definition authorize_follow_up_recovery ::
  "codec \<Rightarrow> decoders \<Rightarrow> policy_wire \<Rightarrow> RepositoryPolicy \<Rightarrow> PublicationRetryRequest \<Rightarrow> u64 \<Rightarrow> u32 \<Rightarrow>
     ApplyResult recovery_op" where
  "authorize_follow_up_recovery C D W paused request now operator_uid =
     authorize_kept_budget C D W paused request now operator_uid FollowUpRecoveryAuthorized
       ''follow-up recovery requires exact revision/head, stopped work and remaining time/failure budget''"

definition native_review_authorize ::
  "codec \<Rightarrow> decoders \<Rightarrow> policy_wire \<Rightarrow> RepositoryPolicy \<Rightarrow> PublicationRetryRequest \<Rightarrow> u64 \<Rightarrow> u32 \<Rightarrow> Event \<Rightarrow>
     ApplyResult recovery_op" where
  "native_review_authorize C D W paused request now operator_uid event =
     authorize_kept_budget C D W paused request now operator_uid event
       ''review recovery requires exact revision/head, stopped work and remaining time/failure budget''"

definition authorize_native_review_retry ::
  "codec \<Rightarrow> decoders \<Rightarrow> policy_wire \<Rightarrow> RepositoryPolicy \<Rightarrow> PublicationRetryRequest \<Rightarrow> u64 \<Rightarrow> u32 \<Rightarrow>
     ApplyResult recovery_op" where
  "authorize_native_review_retry C D W paused request now operator_uid =
     native_review_authorize C D W paused request now operator_uid NativeReviewRetryAuthorized"

definition authorize_review_coordination_recovery ::
  "codec \<Rightarrow> decoders \<Rightarrow> policy_wire \<Rightarrow> RepositoryPolicy \<Rightarrow> PublicationRetryRequest \<Rightarrow> u64 \<Rightarrow> u32 \<Rightarrow>
     ApplyResult recovery_op" where
  "authorize_review_coordination_recovery C D W paused request now operator_uid =
     native_review_authorize C D W paused request now operator_uid ReviewCoordinationRecoveryAuthorized"

section \<open>Recoveries that grant a budget\<close>

text \<open>\<open>event.payload["operator_uid"] == operator_uid\<close>.\<close>

definition recorded_uid :: "StoredEvent \<Rightarrow> u32 \<Rightarrow> bool" where
  "recorded_uid e operator_uid \<longleftrightarrow> as_u64 (json_at (se_payload e) ''operator_uid'') = Some (ucast operator_uid)"

definition stopped_work :: "StoredCase \<Rightarrow> PublicationRetryRequest \<Rightarrow> u64 \<Rightarrow> string \<Rightarrow> Store \<Rightarrow> RecoveryError + unit" where
  "stopped_work c request now message s =
    (if \<not> request_current c request then Inl (RecoveryRefused message)
     else rbind (map_err RecoveryStore (status now s)) (\<lambda>report.
       reject_if (ls_direct_attempts_running report \<noteq> 0) (RecoveryRefused message)))"

definition authorize_infrastructure_recovery ::
  "codec \<Rightarrow> decoders \<Rightarrow> policy_wire \<Rightarrow> RepositoryPolicy \<Rightarrow> PublicationRetryRequest \<Rightarrow> u64 \<Rightarrow> u32 \<Rightarrow>
     ApplyResult recovery_op" where
  "authorize_infrastructure_recovery C D W paused request now operator_uid =
     sbind (squery (recovery_context C W paused (prq_case_key request) operator_uid)) (\<lambda>(c, accepted).
     sbind (slift (parse_request request)) (\<lambda>event_id.
     sbind (squery (\<lambda>s. map_err RecoveryStore (immutable_history_for_case C (sc_case_key c) s))) (\<lambda>h.
     case recorded_event h (prq_request_id request) of
       Some e \<Rightarrow>
         replay_answer (se_event_type e = ''INFRASTRUCTURE_RECOVERY_AUTHORIZED'' \<and>
             json_at (se_payload e) ''request'' = PublicationRetryRequest_value request \<and>
             recorded_uid e operator_uid \<and>
             se_state_revision e = saturating_add (prq_expected_revision request) 1)
           ''recovery request conflicts with recorded authorization''
     | None \<Rightarrow>
         sbind (squery (stopped_work c request now
           ''recovery requires exact revision/head and stopped direct work'')) (\<lambda>_.
         sbind (squery (failure_limit C accepted c)) (\<lambda>limit.
         sbind (squery (failures_spent c limit)) (\<lambda>spent.
         sbind (sreject_if spent
           (RecoveryRefused ''infrastructure recovery does not increase the provider failure budget'')) (\<lambda>_.
         sbind (slift (ok_or (checked_add now (rpol_max_case_elapsed_seconds accepted))
           (RecoveryRefused ''deadline overflow''))) (\<lambda>deadline.
         submit C D accepted c request event_id InfrastructureRecoveryAuthorized
           (retry_payload operator_uid request [(''deadline'', JPos deadline)]) now))))))))"

definition extended_policy :: "RepositoryPolicy \<Rightarrow> RepositoryPolicy \<Rightarrow> RepositoryPolicy" where
  "extended_policy paused accepted =
     paused\<lparr>rpol_intake := (rpol_intake paused)\<lparr>ic_enabled := ic_enabled (rpol_intake accepted),
         ic_paused := ic_paused (rpol_intake accepted)\<rparr>,
       rpol_dispatch_enabled := rpol_dispatch_enabled accepted, rpol_conversations_enabled := False\<rparr>"

definition authorize_remediation_extension ::
  "codec \<Rightarrow> decoders \<Rightarrow> policy_wire \<Rightarrow> RepositoryPolicy \<Rightarrow> PublicationRetryRequest \<Rightarrow> u64 \<Rightarrow> u32 \<Rightarrow>
     ApplyResult recovery_op" where
  "authorize_remediation_extension C D W paused request now operator_uid =
     sbind (squery (recovery_context C W paused (prq_case_key request) operator_uid)) (\<lambda>(c, accepted).
     sbind (slift (parse_request request)) (\<lambda>event_id.
     let policy = policy_to_value W (extended_policy paused accepted) in
     sbind (squery (\<lambda>s. map_err RecoveryStore (immutable_history_for_case C (sc_case_key c) s))) (\<lambda>h.
     case recorded_event h (prq_request_id request) of
       Some e \<Rightarrow>
         replay_answer (se_event_type e = ''REMEDIATION_BUDGET_EXTENDED'' \<and>
             json_at (se_payload e) ''request'' = PublicationRetryRequest_value request \<and>
             json_at (se_payload e) ''policy'' = policy \<and> recorded_uid e operator_uid \<and>
             se_state_revision e = saturating_add (prq_expected_revision request) 1)
           ''budget extension conflicts with recorded request''
     | None \<Rightarrow>
         sbind (squery (stopped_work c request now
           ''budget extension requires exact revision/head and stopped work'')) (\<lambda>_.
         submit C D accepted c request event_id RemediationBudgetExtended
           (retry_payload operator_uid request [(''policy'', policy)]) now))))"

section \<open>Publication retry\<close>

definition reason_valid :: "string \<Rightarrow> bool" where
  "reason_valid reason \<longleftrightarrow> \<not> blank reason \<and> int (length reason) \<le> 2000 \<and> \<not> has_control reason"

definition authorize_publication_retry ::
  "codec \<Rightarrow> decoders \<Rightarrow> policy_wire \<Rightarrow> result_decoders \<Rightarrow> authorization_reader \<Rightarrow> RepositoryPolicy \<Rightarrow>
     PublicationRetryRequest \<Rightarrow> u64 \<Rightarrow> u32 \<Rightarrow> ApplyResult recovery_op" where
  "authorize_publication_retry C D W R A paused request now operator_uid =
     sbind (squery (recovery_context C W paused (prq_case_key request) operator_uid)) (\<lambda>(c, accepted).
     sbind (slift (parse_request request)) (\<lambda>event_id.
     sbind (sreject_if (\<not> reason_valid (prq_reason request))
       (RecoveryRefused ''publication retry requires a bounded human reason'')) (\<lambda>_.
     sbind (squery (\<lambda>s. map_err RecoveryStore (immutable_history_for_case C (sc_case_key c) s))) (\<lambda>h.
     case recorded_event h (prq_request_id request) of
       Some e \<Rightarrow>
         sbind (slift (ok_or (A (se_payload e)) RecoverySerialization)) (\<lambda>auth.
         replay_answer (se_event_type e = ''PUBLICATION_RETRY_AUTHORIZED'' \<and> au_schema_version auth = 1 \<and>
             au_operator_uid auth = operator_uid \<and> au_request auth = request \<and>
             checked_add (prq_expected_revision request) 1 = Some (se_state_revision e) \<and>
             payload_matches C (se_payload e) (se_payload_sha256 e))
           ''publication retry request conflicts with recorded authorization'')
     | None \<Rightarrow>
         sbind (sreject_if (\<not> request_current c request)
           (RecoveryRefused ''publication retry requires the exact current revision and head'')) (\<lambda>_.
         sbind (squery (\<lambda>s. map_err RecoveryStore (status now s))) (\<lambda>report.
         sbind (sreject_if (ls_direct_attempts_running report \<noteq> 0)
           (RecoveryRefused ''publication retry requires stopped direct attempts'')) (\<lambda>_.
         sbind (slift (map_err RecoveryJoin (recoverable_source C R h c))) (\<lambda>(_, build_event_id).
         sbind (slift (map_err (\<lambda>e. RecoveryJoin (RetryJoin e)) (planned_base C R h c))) (\<lambda>parent.
         submit C D accepted c request event_id PublicationRetryAuthorized
           (Authorization_value \<lparr>au_schema_version = 1, au_operator_uid = operator_uid, au_request = request,
             au_build_event_id = build_event_id, au_parent_head = GitSha_to_string parent\<rparr>) now)))))))))"

section \<open>Properties\<close>

text \<open>The commands of the operator, one by one.\<close>

datatype recovery =
    FollowUp | NativeReview | ReviewCoordination | Infrastructure | RemediationExtension | PublicationRetry

fun run_recovery ::
  "recovery \<Rightarrow> codec \<Rightarrow> decoders \<Rightarrow> policy_wire \<Rightarrow> result_decoders \<Rightarrow> authorization_reader \<Rightarrow> RepositoryPolicy \<Rightarrow>
     PublicationRetryRequest \<Rightarrow> u64 \<Rightarrow> u32 \<Rightarrow> ApplyResult recovery_op" where
  "run_recovery FollowUp C D W R A = authorize_follow_up_recovery C D W"
| "run_recovery NativeReview C D W R A = authorize_native_review_retry C D W"
| "run_recovery ReviewCoordination C D W R A = authorize_review_coordination_recovery C D W"
| "run_recovery Infrastructure C D W R A = authorize_infrastructure_recovery C D W"
| "run_recovery RemediationExtension C D W R A = authorize_remediation_extension C D W"
| "run_recovery PublicationRetry C D W R A = authorize_publication_retry C D W R A"

text \<open>The authority behind a recovery: root, an installed policy that starts nothing, and the
  bindings the case accepted.\<close>

definition authority ::
  "codec \<Rightarrow> policy_wire \<Rightarrow> RepositoryPolicy \<Rightarrow> PublicationRetryRequest \<Rightarrow> u32 \<Rightarrow> Store \<Rightarrow> StoredCase \<Rightarrow>
     RepositoryPolicy \<Rightarrow> bool" where
  "authority C W paused request operator_uid s c accepted \<longleftrightarrow>
     operator_uid = 0 \<and> \<not> ic_enabled (rpol_intake paused) \<and> ic_paused (rpol_intake paused) \<and>
     \<not> rpol_dispatch_enabled paused \<and> query_case (prq_case_key request) s = Some c \<and>
     (\<exists>value. accepted_policy C (sc_repository_id c) (sc_policy_revision c) s = Inr value \<and>
        load_repository_policy W (json_to_string C value) = Inr accepted) \<and> \<not> bindings_differ W paused accepted"

definition work_stopped :: "StoredCase \<Rightarrow> u64 \<Rightarrow> Store \<Rightarrow> bool" where
  "work_stopped c now s \<longleftrightarrow>
     running_direct_attempts_for_case (sc_case_key c) s = 0 \<or>
     (\<exists>report. status now s = Inr report \<and> ls_direct_attempts_running report = 0)"

lemma recovery_context_authority:
  "recovery_context C W paused (prq_case_key request) operator_uid s = Inr (c, accepted) \<Longrightarrow>
     authority C W paused request operator_uid s c accepted"
  by (auto simp: recovery_context_def authority_def)

lemma recovery_controller_run: "recovery_controller m s = (r, t) \<Longrightarrow> \<exists>r'. m s = (r', t)"
  by (auto simp: recovery_controller_def split: prod.splits)

lemma submit_steps:
  assumes "authority C W paused request operator_uid s c accepted"
    and "submit C D accepted c request event_id event body now s = (Inr r, t)"
  shows "(controlled_step Shadow C D)\<^sup>*\<^sup>* s t"
proof -
  from assms(1) obtain v where "load_repository_policy W (json_to_string C v) = Inr accepted"
    by (auto simp: authority_def)
  then have "cp_merge_mode (case_policy accepted) = Shadow"
    by (elim load_cases) (auto simp: case_policy_def merge_valid_def dest: validate_policy_valid(7))
  moreover obtain w r' where "LedgerController_apply C D (case_policy accepted) w s = (r', t)"
    using assms(2) by (auto simp: submit_def dest: recovery_controller_run)
  ultimately show ?thesis by (blast intro: controlled_step.command)
qed

text \<open>What a successful recovery did: it answered a request that was recorded before, or moved the
  case as it stood, with no work running.\<close>

definition recovered ::
  "codec \<Rightarrow> decoders \<Rightarrow> policy_wire \<Rightarrow> RepositoryPolicy \<Rightarrow> PublicationRetryRequest \<Rightarrow> u64 \<Rightarrow> u32 \<Rightarrow> Store \<Rightarrow>
     Store \<Rightarrow> bool" where
  "recovered C D W paused request now operator_uid s t \<longleftrightarrow>
     (\<exists>c accepted. authority C W paused request operator_uid s c accepted \<and>
        (t = s \<or> request_current c request \<and> work_stopped c now s \<and> (controlled_step Shadow C D)\<^sup>*\<^sup>* s t))"

lemma recoveredI:
  assumes "recovery_context C W paused (prq_case_key request) operator_uid s = Inr (c, accepted)"
    and "t = s \<or> request_current c request \<and> work_stopped c now s \<and>
      (\<exists>event_id event body r. submit C D accepted c request event_id event body now s = (Inr r, t))"
  shows "recovered C D W paused request now operator_uid s t"
  using recovery_context_authority [OF assms(1)] assms(2) submit_steps unfolding recovered_def by blast

lemma replay_answer_Inr: "replay_answer same message s = (Inr r, t) \<Longrightarrow> t = s"
  by (simp add: replay_answer_def split: if_splits)

lemma within_budget_stopped:
  "within_budget C accepted c request now message s = Inr () \<Longrightarrow> request_current c request \<and> work_stopped c now s"
  by (auto simp: within_budget_def work_stopped_def split: if_splits)

lemma stopped_work_stopped:
  "stopped_work c request now message s = Inr () \<Longrightarrow> request_current c request \<and> work_stopped c now s"
  by (auto simp: stopped_work_def work_stopped_def split: if_splits)

lemma kept_budget_recovered:
  assumes "authorize_kept_budget C D W paused request now operator_uid event message s = (Inr r, t)"
  shows "recovered C D W paused request now operator_uid s t"
proof -
  from assms obtain c accepted event_id h where
    ctx: "recovery_context C W paused (prq_case_key request) operator_uid s = Inr (c, accepted)"
    and rest: "(case recorded_event h (prq_request_id request) of
       Some e \<Rightarrow>
         replay_answer (se_event_type e = Event_to_string event \<and> se_payload e = retry_payload operator_uid request [] \<and>
             Some (se_state_revision e) = checked_add (prq_expected_revision request) 1)
           ''recovery request conflicts with recorded authorization''
     | None \<Rightarrow>
         sbind (squery (within_budget C accepted c request now message)) (\<lambda>_.
         submit C D accepted c request event_id event (retry_payload operator_uid request []) now)) s = (Inr r, t)"
    by (auto simp: authorize_kept_budget_def Let_def)
  from rest show ?thesis
    by (intro recoveredI [OF ctx]) (auto split: option.splits dest: replay_answer_Inr within_budget_stopped)
qed


definition sample_request :: PublicationRetryRequest where
  "sample_request = \<lparr>prq_case_key = ''repo:1#2@1'', prq_expected_revision = 4,
     prq_expected_head = replicate 40 (CHR ''b''), prq_request_id = ''q1'', prq_reason = ''x''\<rparr>"

definition sample_inert :: RepositoryPolicy where
  "sample_inert = sample_repository\<lparr>rpol_dispatch_enabled := False,
     rpol_intake := (rpol_intake sample_repository)\<lparr>ic_enabled := False, ic_paused := True\<rparr>\<rparr>"

definition sample_authorized :: Store where
  "sample_authorized = empty_store\<lparr>
     policies := [\<lparr>pol_repository_id = 1, pol_revision = 3, pol_payload_json = ''n'',
       pol_payload_sha256 = [], pol_accepted_at = 1\<rparr>],
     cases_table := [\<lparr>c_case_key = ''repo:1#2@1'', c_repository_id = 1, c_issue_number = 2, c_workflow_version = 1,
       c_state = ''PLANNING'', c_state_revision = 5, c_policy_revision = 3, c_remediation_round = 0,
       c_plan_version = 1, c_pr_number = Some 9, c_head_sha = Some (replicate 40 (CHR ''b'')), c_created_at = 1,
       c_updated_at = 1\<rparr>],
     events := [\<lparr>e_event_id = ''q1'', e_case_key = ''repo:1#2@1'', e_state_revision = 5, e_observed_at = 1,
       e_event_type = ''FOLLOW_UP_RECOVERY_AUTHORIZED'',
       e_payload_json = put_json (retry_payload 0 sample_request []), e_payload_sha256 = [], e_command_sha256 = [],
       e_previous_state = Some ''TAKEN_OVER'', e_next_state = ''PLANNING'', e_policy_revision = 3,
       e_remediation_round = 0, e_plan_version = 1, e_pr_number = Some 9,
       e_head_sha = Some (replicate 40 (CHR ''b''))\<rparr>]\<rparr>"


end
