(* ===== verification/Calendar.thy ===== *)
theory Calendar
  imports Prelude
begin

text \<open>
  The timestamps of GitHub, \<open>unix_seconds\<close> of \<open>pip-control/src/resume.rs\<close>: the calendar arithmetic
  by eras of 400 years, against a calendar that counts the days of the years and months one by
  one. The theorem says that the two agree on every date of the years 0 to 9999; two further
  lemmas say which texts are accepted that are not such dates.
\<close>

section \<open>The code\<close>

text \<open>\<open>str::parse::<i64>\<close>: an optional sign and at least one digit.\<close>

definition parse_i64 :: "string \<Rightarrow> int option" where
  "parse_i64 s =
    (let digits = (if s \<noteq> [] \<and> hd s \<in> {CHR ''-'', CHR ''+''} then tl s else s);
         magnitude = int (read_digits digits);
         v = (if s \<noteq> [] \<and> hd s = CHR ''-'' then - magnitude else magnitude) in
     if digits = [] \<or> \<not> list_all is_ascii_digit digits \<or> v < - (2 ^ 63) \<or> 2 ^ 63 \<le> v then None else Some v)"

definition field :: "string \<Rightarrow> nat \<Rightarrow> nat \<Rightarrow> int option" where
  "field s from to = parse_i64 (take (to - from) (drop from s))"

text \<open>Days from the civil date, counted from 1970-01-01. \<open>div\<close> is \<open>div_euclid\<close> for a positive
  divisor, and \<open>/\<close> where the dividend is not negative.\<close>

definition days_from_civil :: "int \<Rightarrow> int \<Rightarrow> int \<Rightarrow> int" where
  "days_from_civil year month day =
    (let year = (if month \<le> 2 then year - 1 else year);
         era = year div 400;
         year_of_era = year - era * 400;
         month_index = (month + 9) mod 12;
         day_of_year = (153 * month_index + 2) div 5 + day - 1;
         day_of_era = year_of_era * 365 + year_of_era div 4 - year_of_era div 100 + day_of_year in
     era * 146097 + day_of_era - 719468)"

definition well_separated :: "string \<Rightarrow> bool" where
  "well_separated s \<longleftrightarrow>
     length s = 20 \<and> s ! 4 = CHR ''-'' \<and> s ! 7 = CHR ''-'' \<and> s ! 10 = CHR ''T'' \<and> s ! 13 = CHR '':'' \<and>
     s ! 16 = CHR '':'' \<and> s ! 19 = CHR ''Z''"

definition civil_seconds :: "int \<Rightarrow> int \<Rightarrow> int \<Rightarrow> int \<Rightarrow> int \<Rightarrow> int \<Rightarrow> u64 option" where
  "civil_seconds year month day hour minute second =
    (if month < 1 \<or> 12 < month \<or> day < 1 \<or> 31 < day \<or> 23 < hour \<or> 59 < minute \<or> 60 < second then None
     else let t = days_from_civil year month day * 86400 + hour * 3600 + minute * 60 + second in
       if 0 \<le> t \<and> t < 2 ^ 64 then Some (of_int t) else None)"

definition unix_seconds_of :: "string \<Rightarrow> u64 option" where
  "unix_seconds_of s =
    (if \<not> well_separated s then None
     else
       Option.bind (field s 0 4) (\<lambda>year. Option.bind (field s 5 7) (\<lambda>month.
       Option.bind (field s 8 10) (\<lambda>day. Option.bind (field s 11 13) (\<lambda>hour.
       Option.bind (field s 14 16) (\<lambda>minute. Option.bind (field s 17 19) (\<lambda>second.
       civil_seconds year month day hour minute second)))))))"

section \<open>The calendar\<close>

definition leap :: "nat \<Rightarrow> bool" where
  "leap y \<longleftrightarrow> 4 dvd y \<and> (\<not> 100 dvd y \<or> 400 dvd y)"

definition month_length :: "nat \<Rightarrow> nat \<Rightarrow> nat" where
  "month_length y m =
    (if m = 2 then (if leap y then 29 else 28) else if m \<in> {4, 6, 9, 11} then 30 else 31)"

definition year_length :: "nat \<Rightarrow> nat" where
  "year_length y = (\<Sum>m \<leftarrow> [1..<13]. month_length y m)"

definition day_number :: "nat \<Rightarrow> nat \<Rightarrow> nat \<Rightarrow> nat" where
  "day_number y m d = (\<Sum>year \<leftarrow> [0..<y]. year_length year) + (\<Sum>month \<leftarrow> [1..<m]. month_length y month) + (d - 1)"

definition digits2 :: "nat \<Rightarrow> string" where
  "digits2 n = [digit_char (n div 10), digit_char (n mod 10)]"

definition timestamp :: "nat \<Rightarrow> nat \<Rightarrow> nat \<Rightarrow> nat \<Rightarrow> nat \<Rightarrow> nat \<Rightarrow> string" where
  "timestamp y mo d h mi s =
     digits2 (y div 100) @ digits2 (y mod 100) @ ''-'' @ digits2 mo @ ''-'' @ digits2 d @ ''T'' @
     digits2 h @ '':'' @ digits2 mi @ '':'' @ digits2 s @ ''Z''"

section \<open>Reading the digits\<close>

lemma digit_char_digit: "n < 10 \<Longrightarrow> is_ascii_digit (digit_char n)"
  by (simp add: is_ascii_digit_def byte_digit_char)

lemma digit_char_no_sign: "n < 10 \<Longrightarrow> digit_char n \<noteq> CHR ''-'' \<and> digit_char n \<noteq> CHR ''+''"
  using byte_digit_char [of n] by (auto simp: byte_def)

lemma read_digits_chars:
  "\<forall>n \<in> set ns. n < 10 \<Longrightarrow> read_digits (map digit_char ns) = foldl (\<lambda>a n. 10 * a + n) 0 ns"
  by (induction ns rule: rev_induct) (simp_all add: read_digits_def byte_digit_char)

lemma parse_digits:
  assumes "ns \<noteq> []" "\<forall>n \<in> set ns. n < 10" "foldl (\<lambda>a n. 10 * a + n) 0 ns = v" "v < 10000"
  shows "parse_i64 (map digit_char ns) = Some (int v)"
proof -
  obtain n rest where ns: "ns = n # rest" using assms(1) by (cases ns) auto
  have "list_all is_ascii_digit (map digit_char ns)"
    using assms(2) by (auto simp: list_all_iff digit_char_digit)
  moreover have "hd (map digit_char ns) \<notin> {CHR ''-'', CHR ''+''}"
    using assms(2) ns digit_char_no_sign by simp
  moreover have "read_digits (map digit_char ns) = v" using assms(2,3) by (simp only: read_digits_chars)
  ultimately show ?thesis using assms(1,4) by (simp add: parse_i64_def)
qed

lemma parse_digits2:
  assumes "n < 100"
  shows "parse_i64 (digits2 n) = Some (int n)"
proof -
  have "n div 10 < 10" using assms by linarith
  then have small: "\<forall>k \<in> set [n div 10, n mod 10]. k < 10" by simp
  have read: "foldl (\<lambda>a n. 10 * a + n) 0 [n div 10, n mod 10] = n" by simp
  have "n < 10000" using assms by linarith
  from parse_digits [OF list.distinct(2) small read this]
  have "parse_i64 (map digit_char [n div 10, n mod 10]) = Some (int n)" .
  then show ?thesis unfolding digits2_def list.map .
qed

lemma parse_digits4:
  assumes "n < 10000"
  shows "parse_i64 (digits2 (n div 100) @ digits2 (n mod 100)) = Some (int n)"
proof -
  define a where "a = n div 100"
  define b where "b = n mod 100"
  let ?ns = "[a div 10, a mod 10, b div 10, b mod 10]"
  have "a < 100" unfolding a_def using assms by linarith
  moreover have "b < 100" "n = 100 * a + b" by (simp_all add: a_def b_def)
  ultimately have "a div 10 < 10" "b div 10 < 10" by linarith+
  then have small: "\<forall>k \<in> set ?ns. k < 10" by simp
  have "foldl (\<lambda>a n. 10 * a + n) 0 ?ns = 100 * (10 * (a div 10) + a mod 10) + (10 * (b div 10) + b mod 10)"
    by simp
  also have "\<dots> = n" unfolding mult_div_mod_eq by (simp add: \<open>n = 100 * a + b\<close>)
  finally have "parse_i64 (map digit_char ?ns) = Some (int n)" using parse_digits small assms by blast
  then show ?thesis unfolding digits2_def a_def [symmetric] b_def [symmetric] append.simps list.map .
qed

lemma unix_seconds_timestamp:
  assumes "y \<le> 9999" "mo < 100" "d < 100" "h < 100" "mi < 100" "s < 100"
  shows "unix_seconds_of (timestamp y mo d h mi s) =
    civil_seconds (int y) (int mo) (int d) (int h) (int mi) (int s)"
proof -
  let ?t = "timestamp y mo d h mi s"
  have "well_separated ?t" by (simp add: timestamp_def digits2_def well_separated_def)
  moreover have "field ?t 0 4 = parse_i64 (digits2 (y div 100) @ digits2 (y mod 100))"
    "field ?t 5 7 = parse_i64 (digits2 mo)" "field ?t 8 10 = parse_i64 (digits2 d)"
    "field ?t 11 13 = parse_i64 (digits2 h)" "field ?t 14 16 = parse_i64 (digits2 mi)"
    "field ?t 17 19 = parse_i64 (digits2 s)"
    by (simp_all add: field_def timestamp_def digits2_def)
  ultimately show ?thesis using assms by (simp add: unix_seconds_of_def parse_digits4 parse_digits2)
qed

section \<open>Counting days\<close>

lemma year_length_leap: "year_length y = (if leap y then 366 else 365)"
  by (simp add: year_length_def month_length_def upt_conv_Cons)

text \<open>Leap years by division: \<open>multiples x\<close> counts those among the years 1 to \<open>x\<close>.\<close>

definition multiples :: "int \<Rightarrow> int" where
  "multiples x = x div 4 - x div 100 + x div 400"

lemma div_step:
  fixes x k :: int
  assumes "0 < k"
  shows "x div k = (x - 1) div k + (if k dvd x then 1 else 0)"
proof (cases "k dvd x")
  case True
  then obtain q where x: "x = k * q" by (elim dvdE)
  have "(k * q - 1) div k = q - 1" by (rule int_div_pos_eq [where r = "k - 1"]) (use assms in \<open>auto simp: algebra_simps\<close>)
  with x assms show ?thesis by simp
next
  case False
  have "0 < x mod k" using False assms by (simp add: dvd_eq_mod_eq_0 less_le)
  moreover have "x mod k < k" using assms by (rule pos_mod_bound)
  moreover have "x - 1 = k * (x div k) + (x mod k - 1)" by simp
  ultimately have "(x - 1) div k = x div k" by (intro int_div_pos_eq [where r = "x mod k - 1"]) linarith+
  with False show ?thesis by simp
qed

lemma leap_int: "leap y \<longleftrightarrow> 4 dvd int y \<and> (\<not> 100 dvd int y \<or> 400 dvd int y)"
proof -
  have "int 4 dvd int y \<longleftrightarrow> 4 dvd y" "int 100 dvd int y \<longleftrightarrow> 100 dvd y" "int 400 dvd int y \<longleftrightarrow> 400 dvd y"
    by (rule int_dvd_int_iff)+
  then show ?thesis by (simp only: leap_def of_nat_numeral)
qed

lemma multiples_step: "multiples (int y) = multiples (int y - 1) + (if leap y then 1 else 0)"
proof -
  have "400 dvd int y \<Longrightarrow> 100 dvd int y" "100 dvd int y \<Longrightarrow> 4 dvd int y"
    by (rule dvd_trans [rotated], assumption, simp)+
  moreover have "int y div 4 = (int y - 1) div 4 + (if 4 dvd int y then 1 else 0)"
    "int y div 100 = (int y - 1) div 100 + (if 100 dvd int y then 1 else 0)"
    "int y div 400 = (int y - 1) div 400 + (if 400 dvd int y then 1 else 0)"
    by (rule div_step, simp)+
  ultimately show ?thesis
    unfolding multiples_def leap_int
    by (cases "4 dvd int y"; cases "100 dvd int y"; cases "400 dvd int y"; simp only: if_True if_False simp_thms; linarith)
qed

lemma years_before: "int (\<Sum>year \<leftarrow> [0..<y]. year_length year) = 365 * int y + multiples (int y - 1) + 1"
proof (induction y)
  case (Suc y)
  then show ?case using multiples_step [of y] by (simp add: year_length_leap)
qed (simp add: multiples_def)

text \<open>The eras: 400 years have \<open>146097\<close> days.\<close>

lemma era_days:
  fixes x :: int
  shows "x div 400 * 146097 + ((x - x div 400 * 400) * 365 + (x - x div 400 * 400) div 4 - (x - x div 400 * 400) div 100) =
    365 * x + multiples x"
proof -
  define e where "e = x div 400"
  define r where "r = x - e * 400"
  have x: "x = 100 * e * 4 + r" "x = 4 * e * 100 + r" "x = e * 400 + r" by (simp_all add: r_def)
  have "x div 4 = 100 * e + r div 4" by (subst x(1)) simp
  moreover have "x div 100 = 4 * e + r div 100" by (subst x(2)) simp
  ultimately show ?thesis
    unfolding multiples_def e_def [symmetric] r_def [symmetric] by (simp add: x(3))
qed

lemma days_from_civil_years:
  "days_from_civil y m d =
    (let x = (if m \<le> 2 then y - 1 else y) in
     365 * x + multiples x + (153 * ((m + 9) mod 12) + 2) div 5 + d - 719469)"
  using era_days [of "if m \<le> 2 then y - 1 else y"] unfolding days_from_civil_def Let_def by linarith

lemma day_number_days:
  assumes "1 \<le> m" "m \<le> 12" "1 \<le> d"
  shows "int (day_number y m d) = days_from_civil (int y) (int m) (int d) + 719528"
proof -
  let ?leap = "if leap y then 1 else 0 :: int"
  from assms(1,2) have "m = 1 \<or> m = 2 \<or> m = 3 \<or> m = 4 \<or> m = 5 \<or> m = 6 \<or> m = 7 \<or> m = 8 \<or> m = 9 \<or>
      m = 10 \<or> m = 11 \<or> m = 12" by presburger
  then have "int (\<Sum>month \<leftarrow> [1..<m]. month_length y month) + 365 * int y + multiples (int y - 1) + int d =
      days_from_civil (int y) (int m) (int d) + 719528"
    using multiples_step [of y]
    by (elim disjE) (simp_all add: days_from_civil_years Let_def month_length_def upt_conv_Cons)
  with assms(3) show ?thesis by (simp add: day_number_def years_before)
qed

lemma epoch: "day_number 1970 1 1 = 719528"
proof -
  have "days_from_civil 1970 1 1 = 0" by (simp add: days_from_civil_def)
  then have "int (day_number 1970 1 1) = 719528" using day_number_days [of 1 1 1970] by simp
  then show ?thesis by linarith
qed

lemma multiples_bound:
  assumes "- 1 \<le> x" "x \<le> 9999"
  shows "365 * x + multiples x < 4000000"
proof -
  have "x div 4 \<le> 9999 div 4" "- 1 div 100 \<le> x div 100" "x div 400 \<le> 9999 div 400"
    using assms by (auto intro!: zdiv_mono1)
  then show ?thesis using assms(2) unfolding multiples_def by simp
qed

lemma days_from_civil_bound:
  assumes "y \<le> 9999" "1 \<le> m" "m \<le> 12" "1 \<le> d" "d \<le> 31"
  shows "days_from_civil (int y) (int m) (int d) < 5000000"
proof -
  let ?x = "if int m \<le> 2 then int y - 1 else int y"
  have "(153 * ((int m + 9) mod 12) + 2) div 5 \<le> 400" by linarith
  moreover have "365 * ?x + multiples ?x < 4000000" using assms(1) by (intro multiples_bound) auto
  ultimately show ?thesis unfolding days_from_civil_years Let_def using assms(5) by linarith
qed

text \<open>C30: The timestamps of GitHub are read as a calendar defines them. For every date of the years
  0 to 9999 that exists and every time of day, the arithmetic by eras gives the seconds since
  1970-01-01 that counting the days of all years and months before gives; what lies before is
  refused.\<close>

theorem timestamps_follow_calendar:
  assumes "y \<le> 9999" "1 \<le> mo" "mo \<le> 12" "1 \<le> d" "d \<le> month_length y mo" "h \<le> 23" "mi \<le> 59" "s \<le> 60"
  shows "unix_seconds_of (timestamp y mo d h mi s) =
    (let t = (int (day_number y mo d) - int (day_number 1970 1 1)) * 86400 + int h * 3600 + int mi * 60 + int s in
     if t < 0 then None else Some (of_int t))"
proof -
  have d: "d \<le> 31" using assms(5) by (simp add: month_length_def split: if_splits)
  have days: "int (day_number y mo d) - int (day_number 1970 1 1) = days_from_civil (int y) (int mo) (int d)"
    using day_number_days [OF assms(2-4), of y] unfolding epoch by simp
  have "days_from_civil (int y) (int mo) (int d) < 5000000"
    using assms(1-4) d by (rule days_from_civil_bound)
  then have "days_from_civil (int y) (int mo) (int d) * 86400 + int h * 3600 + int mi * 60 + int s < 2 ^ 64"
    using assms(6-8) by simp
  moreover have "unix_seconds_of (timestamp y mo d h mi s) =
      civil_seconds (int y) (int mo) (int d) (int h) (int mi) (int s)"
    using assms d by (intro unix_seconds_timestamp) linarith+
  ultimately show ?thesis
    unfolding days using assms d by (auto simp: civil_seconds_def Let_def)
qed

theorem timestamps_follow_calendar_witness: "unix_seconds_of ''1970-01-02T00:00:01Z'' = Some 86401"
proof -
  have "timestamp 1970 1 2 0 0 1 = ''1970-01-02T00:00:01Z''"
    by (simp add: timestamp_def digits2_def digit_char_def char_of_def bit_simps)
  moreover have "int (day_number 1970 1 2) - int (day_number 1970 1 1) = 1" by (simp add: day_number_def)
  ultimately show ?thesis using timestamps_follow_calendar [of 1970 1 2 0 0 1] by (simp add: month_length_def)
qed

text \<open>What else is accepted: a signed field is read as a number, and the length of the month is
  not checked, so that the last two texts name the same second.\<close>

lemma signed_field_accepted: "unix_seconds_of ''1970-01-02T-1:00:00Z'' = Some 82800"
  by code_simp

lemma missing_day_accepted:
  "unix_seconds_of ''1970-02-31T00:00:00Z'' = unix_seconds_of ''1970-03-03T00:00:00Z'' \<and>
   unix_seconds_of ''1970-02-31T00:00:00Z'' \<noteq> None"
  by code_simp

end
