(* ===== verification/Resume.thy ===== *)
theory Resume
  imports Webhooks Authorizations Calendar
begin

text \<open>
  How a human continues a paused case, \<open>pip-control/src/resume.rs\<close>: the pending commands of a case
  are applied one at a time, a resume or replan through the controller with the state the parking
  event points to, and commands the webhook missed are collected from the comments of the issue.
  Replies to GitHub are requests that the state records; whether GitHub accepts them has no
  effect on the ledger. The theorems show that the workflow never refuses the resume of a paused
  case and that it can still be brought to readiness from there; and that a command is only
  applied to a case that is paused, when nothing else runs and capacity allows it.
\<close>

section \<open>State and errors\<close>

definition RESUME_GRANTED_ROUNDS :: u32 where
  "RESUME_GRANTED_ROUNDS = 3"

datatype ResumeCycle =
    Idle
  | CommandDone string u64 string string
  | CommandSkipped u64 string
  | CommandWaiting u64 string

text \<open>The texts of \<open>Invalid\<close> say which check failed or hold the error they were made from.\<close>

datatype ResumeError =
    ResumeStore StoreError
  | ResumeController ControllerError
  | ResumeIntake ActiveIntakeError
  | ResumeInvalid string
  | ResumePolicy PolicyError
  | ResumeIdentifier
  | ResumeCommand RecoveryError
  | ResumeEvidence GitHubError

record ResumeContext =
  rx_policy :: RepositoryPolicy
  rx_case_key :: string
  rx_now :: u64
  rx_authorized :: bool

record CommentSpec =
  cs_owner :: string
  cs_repository :: string
  cs_issue_number :: u64
  cs_effect_id :: string
  cs_expected_actor_id :: u64
  cs_body :: string

text \<open>The ledger and the comments that were requested so far.\<close>

record desk =
  ledger :: Store
  replies :: "CommentSpec list"

type_synonym 'a resume_op = "(desk, ResumeError, 'a) smonad"

definition on_ledger :: "('e \<Rightarrow> ResumeError) \<Rightarrow> (Store, 'e, 'a) smonad \<Rightarrow> 'a resume_op" where
  "on_ledger f m = (\<lambda>d. case m (ledger d) of (r, s) \<Rightarrow> (map_err f r, d\<lparr>ledger := s\<rparr>))"

definition read_ledger :: "(Store \<Rightarrow> StoreError + 'a) \<Rightarrow> 'a resume_op" where
  "read_ledger f = squery (\<lambda>d. map_err ResumeStore (f (ledger d)))"

section \<open>Replies\<close>

definition acknowledge ::
  "codec \<Rightarrow> intake_source \<Rightarrow> RepositoryPolicy \<Rightarrow> ControlCommand \<Rightarrow> u64 \<Rightarrow> string \<Rightarrow> unit resume_op" where
  "acknowledge C src policy command issue_number message =
    (case gh_automation_actor_id (rpol_github policy) of
       None \<Rightarrow> sreturn ()
     | Some actor \<Rightarrow>
         let requester = (case src_actor_login src (ccm_actor_id command) of
               Inl _ \<Rightarrow> []
             | Inr login \<Rightarrow> ''@'' @ login @ '' '') in
         smodify (\<lambda>d. d\<lparr>replies := replies d @
           [\<lparr>cs_owner = rid_owner (rpol_repository policy), cs_repository = rid_name (rpol_repository policy),
             cs_issue_number = issue_number,
             cs_effect_id = ''control-ack-'' @ show_word (ccm_comment_id command) @ ''-'' @ take 12 (sha256_hex C message),
             cs_expected_actor_id = actor, cs_body = requester @ message\<rparr>]\<rparr>))"

section \<open>Applying a command\<close>

definition resume_payload ::
  "codec \<Rightarrow> RepositoryPolicy \<Rightarrow> ControlCommand \<Rightarrow> CaseState option \<Rightarrow> u32 \<Rightarrow> json" where
  "resume_payload C policy command target granted = JObj (object_of
     [(''comment_id'', JPos (ccm_comment_id command)), (''actor_id'', JPos (ccm_actor_id command)),
      (''command'', JStr (ccm_command command)),
      (''resume_target'', json_opt (\<lambda>state. JStr (CaseState_to_string state)) target),
      (''granted_rounds'', json_u32 granted), (''policy_revision'', JPos (rpol_revision policy)),
      (''guidance_sha256'', JStr (sha256_hex C (ccm_guidance command)))])"

definition guidance_evidence :: "ControlCommand \<Rightarrow> EvidenceInput list" where
  "guidance_evidence command =
    (if blank (ccm_guidance command) then []
     else [\<lparr>evi_evidence_id = ''evidence-control-'' @ show_word (ccm_comment_id command),
       evi_kind = ''HUMAN_DISCUSSION'', evi_source = ''github-comment-'' @ show_word (ccm_comment_id command),
       evi_payload = JObj (object_of [(''kind'', JStr ''control_command''), (''command'', JStr (ccm_command command)),
         (''actor_id'', JPos (ccm_actor_id command)), (''body'', JStr (ccm_guidance command))])\<rparr>])"

definition resume_event_id :: "ControlCommand \<Rightarrow> StoredCase \<Rightarrow> string" where
  "resume_event_id command c =
     ''event-control-'' @ show_word (ccm_comment_id command) @ ''-'' @ show_word (sc_state_revision c)"

definition resume_workflow ::
  "codec \<Rightarrow> RepositoryPolicy \<Rightarrow> StoredCase \<Rightarrow> ControlCommand \<Rightarrow> Event \<Rightarrow> CaseState option \<Rightarrow> u32 \<Rightarrow> u64 \<Rightarrow>
     ResumeError + WorkflowCommand" where
  "resume_workflow C policy c command event target granted now =
     rbind (map_err (\<lambda>_. ResumeIdentifier) (EventId_from_str (resume_event_id command c))) (\<lambda>event_id.
     rbind (map_err ResumeCommand (recovery_command c (sc_state_revision c) event_id event
       (resume_payload C policy command target granted) now)) (\<lambda>workflow.
     Inr (workflow\<lparr>wc_evidence := wc_evidence workflow @ guidance_evidence command\<rparr>)))"

definition apply_command ::
  "codec \<Rightarrow> decoders \<Rightarrow> policy_wire \<Rightarrow> StoredCase \<Rightarrow> ControlCommand \<Rightarrow> Event \<Rightarrow> CaseState option \<Rightarrow> u32 \<Rightarrow>
     ResumeContext \<Rightarrow> unit resume_op" where
  "apply_command C D W c command event target granted x =
     sbind (on_ledger ResumeIntake (record_case_policy C W (rx_policy x) (rx_now x))) (\<lambda>_.
     sbind (read_ledger (accepted_policy C (sc_repository_id c) (sc_policy_revision c))) (\<lambda>value.
     sbind (slift (map_err ResumePolicy (load_repository_policy W (json_to_string C value)))) (\<lambda>accepted.
     sbind (slift (resume_workflow C (rx_policy x) c command event target granted (rx_now x))) (\<lambda>workflow.
     sbind (on_ledger ResumeController (LedgerController_apply C D (case_policy accepted) workflow)) (\<lambda>_.
     sreturn ())))))"

definition command_applied :: "string \<Rightarrow> ControlCommand \<Rightarrow> u64 \<Rightarrow> ResumeCycle resume_op" where
  "command_applied case_key command now =
     sbind (sread (\<lambda>d. query_case case_key (ledger d))) (\<lambda>found.
     sbind (slift (ok_or found (ResumeInvalid ''case disappeared''))) (\<lambda>c.
     sbind (on_ledger ResumeStore (resolve_control_command (ccm_comment_id command) CommandApplied
       (ccm_command command @ '' -> '' @ sc_state c) now)) (\<lambda>_.
     sreturn (CommandDone (sc_case_key c) (ccm_comment_id command) (ccm_command command) (sc_state c)))))"

definition capacity_available :: "RepositoryPolicy \<Rightarrow> string \<Rightarrow> u64 \<Rightarrow> Store \<Rightarrow> StoreError + bool" where
  "capacity_available policy case_key now s =
     rbind (status now s) (\<lambda>report.
     let active = filter (\<lambda>c. sc_case_key c \<noteq> case_key \<and> active_state (sc_state c)) (ls_cases report) in
     Inr (length (filter (\<lambda>c. sc_repository_id c = rid_id (rpol_repository policy)) active) <
          unat (ic_repository_active_limit (rpol_intake policy)) \<and>
        length active < unat (ic_global_active_limit (rpol_intake policy))))"

definition ignore_command :: "ControlCommand \<Rightarrow> string \<Rightarrow> u64 \<Rightarrow> ResumeCycle resume_op" where
  "ignore_command command reason now =
     sbind (on_ledger ResumeStore (resolve_control_command (ccm_comment_id command) CommandIgnored reason now)) (\<lambda>_.
     sreturn (CommandSkipped (ccm_comment_id command) reason))"

definition command_target :: "ControlCommand \<Rightarrow> ParkingEvent \<Rightarrow> CaseState" where
  "command_target command park = (if ccm_command command = ''REPLAN'' then Planning else park_target park)"

definition granted_rounds :: "ParkingEvent \<Rightarrow> StoredCase \<Rightarrow> u32" where
  "granted_rounds park c = (if rounds_exhausted park (sc_state c) then RESUME_GRANTED_ROUNDS else 0)"

definition resume_reply :: "CaseState \<Rightarrow> u32 \<Rightarrow> string" where
  "resume_reply target granted =
     ''Resuming at '' @ stage (CaseState_to_string target) @
     (if 0 < granted then '' with '' @ show_word granted @ '' more remediation rounds'' else []) @ ''.''"

definition resume_case ::
  "codec \<Rightarrow> decoders \<Rightarrow> policy_wire \<Rightarrow> intake_source \<Rightarrow> StoredCase \<Rightarrow> ParkingEvent \<Rightarrow> ControlCommand \<Rightarrow>
     ResumeContext \<Rightarrow> ResumeCycle resume_op" where
  "resume_case C D W src c park command x =
    (let waiting = (\<lambda>reason. sreturn (CommandWaiting (ccm_comment_id command) reason)) in
     if \<not> rx_authorized x then waiting ''issue authorization could not be confirmed''
     else
       sbind (read_ledger (live_direct_attempts_for_case (sc_case_key c) (rx_now x))) (\<lambda>live.
       if 0 < live then waiting ''a previous worker is still running''
       else
         sbind (read_ledger (capacity_available (rx_policy x) (sc_case_key c) (rx_now x))) (\<lambda>capacity.
         if \<not> capacity then
           sbind (acknowledge C src (rx_policy x) command (sc_issue_number c)
             (''Queued: Pip is at its active-issue limit and will resume this case when a slot frees up.'')) (\<lambda>_.
           waiting ''the active-issue limit is reached'')
         else
           sbind (apply_command C D W c command HumanResumed (Some (command_target command park))
             (granted_rounds park c) x) (\<lambda>_.
           sbind (acknowledge C src (rx_policy x) command (sc_issue_number c)
             (resume_reply (command_target command park) (granted_rounds park c))) (\<lambda>_.
           command_applied (sc_case_key c) command (rx_now x))))))"

definition abandon_case ::
  "codec \<Rightarrow> decoders \<Rightarrow> policy_wire \<Rightarrow> intake_source \<Rightarrow> StoredCase \<Rightarrow> ControlCommand \<Rightarrow> ResumeContext \<Rightarrow>
     ResumeCycle resume_op" where
  "abandon_case C D W src c command x =
     sbind (apply_command C D W c command HumanAbandoned None 0 x) (\<lambda>_.
     sbind (acknowledge C src (rx_policy x) command (sc_issue_number c)
       (''Stopped working on this issue. Re-add the authorization label to start over.'')) (\<lambda>_.
     command_applied (sc_case_key c) command (rx_now x)))"

definition apply_control_commands_once ::
  "codec \<Rightarrow> decoders \<Rightarrow> policy_wire \<Rightarrow> intake_source \<Rightarrow> ResumeContext \<Rightarrow> ResumeCycle resume_op" where
  "apply_control_commands_once C D W src x =
     sbind (read_ledger (pending_control_commands (rid_id (rpol_repository (rx_policy x))) (Some (rx_case_key x)))) (\<lambda>commands.
     case commands of
       [] \<Rightarrow> sreturn Idle
     | command # _ \<Rightarrow>
         sbind (sread (\<lambda>d. query_case (rx_case_key x) (ledger d))) (\<lambda>found.
         sbind (slift (ok_or found (ResumeInvalid ''control command case is missing''))) (\<lambda>c.
         if sc_state c \<notin> set PARKED_STATES then ignore_command command ''the case is not paused'' (rx_now x)
         else
           sbind (read_ledger (parking_event C (sc_case_key c))) (\<lambda>parked.
           sbind (slift (ok_or parked (ResumeInvalid ''parked case has no parking event''))) (\<lambda>park.
           if ccm_received_at command < pe_observed_at park
           then ignore_command command ''the command predates the current pause'' (rx_now x)
           else if ccm_command command = ''ABANDON'' then abandon_case C D W src c command x
           else resume_case C D W src c park command x)))))"

section \<open>Collecting missed commands\<close>

definition COMMAND_POLL_SECONDS :: u64 where
  "COMMAND_POLL_SECONDS = 300"

definition polled_command ::
  "RepositoryPolicy \<Rightarrow> u64 \<Rightarrow> string \<Rightarrow> ParkingEvent \<Rightarrow> IssueCommentSnapshot \<Rightarrow> (u64 \<times> string \<times> string) option" where
  "polled_command policy automation login park comment =
     Option.bind (unix_seconds_of (icm_created_at comment)) (\<lambda>created.
     if created < pe_observed_at park \<or> icm_created_at comment \<noteq> icm_updated_at comment \<or>
        icm_actor_id comment = automation \<or> icm_actor_id comment \<notin> set (ic_trusted_actor_ids (rpol_intake policy))
     then None
     else map_option (\<lambda>(command, guidance). (created, command, guidance))
       (parse_control_command (icm_body comment) login))"

fun record_polled ::
  "RepositoryPolicy \<Rightarrow> u64 \<Rightarrow> string \<Rightarrow> ParkingEvent \<Rightarrow> StoredCase \<Rightarrow> IssueCommentSnapshot list \<Rightarrow> u64 resume_op" where
  "record_polled policy automation login park c [] = sreturn 0"
| "record_polled policy automation login park c (comment # comments) =
    (case polled_command policy automation login park comment of
       None \<Rightarrow> record_polled policy automation login park c comments
     | Some (created, command, guidance) \<Rightarrow>
         sbind (on_ledger ResumeStore (record_control_command
           \<lparr>cci_comment_id = icm_id comment, cci_repository_id = rid_id (rpol_repository policy),
            cci_thread_number = sc_issue_number c, cci_case_key = Some (sc_case_key c),
            cci_actor_id = icm_actor_id comment, cci_command = command, cci_guidance = guidance,
            cci_received_at = created\<rparr>)) (\<lambda>result.
         sbind (record_polled policy automation login park c comments) (\<lambda>recorded.
         sreturn ((if result = Applied then 1 else 0) + recorded))))"

definition poll_control_commands ::
  "codec \<Rightarrow> intake_source \<Rightarrow> RepositoryPolicy \<Rightarrow> string \<Rightarrow> u64 resume_op" where
  "poll_control_commands C src policy case_key =
     sbind (sread (\<lambda>d. query_case case_key (ledger d))) (\<lambda>found.
     case found of
       None \<Rightarrow> sreturn 0
     | Some c \<Rightarrow>
         sbind (read_ledger (parking_event C case_key)) (\<lambda>parked.
         case parked of
           None \<Rightarrow> sreturn 0
         | Some park \<Rightarrow>
             (case gh_automation_actor_id (rpol_github policy) of
                None \<Rightarrow> sreturn 0
              | Some automation \<Rightarrow>
                  sbind (slift (map_err ResumeEvidence (src_actor_login src automation))) (\<lambda>login.
                  sbind (slift (map_err ResumeEvidence (src_intake src (rid_owner (rpol_repository policy))
                    (rid_name (rpol_repository policy)) (sc_issue_number c)))) (\<lambda>snapshot.
                  record_polled policy automation login park c (ins_comments snapshot))))))"

section \<open>A paused case is never stuck\<close>

text \<open>A run of the state machine under one context.\<close>

fun run_events :: "TransitionContext \<Rightarrow> CaseState \<Rightarrow> Event list \<Rightarrow> CaseState option" where
  "run_events x s [] = Some s"
| "run_events x s (e # es) =
    (case transition s e x of Inl _ \<Rightarrow> None | Inr d \<Rightarrow> run_events x (next_state d) es)"

definition resume_targets :: "CaseState set" where
  "resume_targets = {Planning, ReadyToBuild, Remediating, WaitingCi}"

lemma park_target_resumable: "park_target park \<in> resume_targets"
  by (simp add: park_target_def resume_targets_def)

lemma command_target_resumable: "command_target command park \<in> resume_targets"
  using park_target_resumable by (simp add: command_target_def) (simp add: resume_targets_def)

definition review_path :: "Event list" where
  "review_path = [CiAccepted, ReviewsApproved, ReviewsPublished, FinalPreflightAccepted, Ready]"

definition build_path :: "Event list" where
  "build_path = [BuildRecorded, ReviewReady] @ review_path"

fun finish_path :: "CaseState \<Rightarrow> Event list" where
  "finish_path Planning = [Proceed, BuilderDispatched] @ build_path"
| "finish_path ReadyToBuild = [BuilderDispatched] @ build_path"
| "finish_path Remediating = build_path"
| "finish_path _ = review_path"

lemma transition_work:
  assumes "max_remediation_rounds x \<noteq> 0" "\<not> is_terminal s" "s \<noteq> TakenOver"
    "e \<notin> {HumanMerged, FollowUpRecoveryAuthorized, HumanTookOver, AuthorizationRemoved, BlockedUnexpectedModel,
       OperationalBoundReached, HumanAbandoned, HumanResumed}"
  shows "transition s e x = transition_match s e x"
  using assms by (simp add: transition_def)

lemma finish_path_runs:
  assumes "max_remediation_rounds x \<noteq> 0" "merge_mode x = Shadow" "s \<in> resume_targets"
  shows "run_events x s (finish_path s) = Some ShadowReady"
  using assms
  by (auto simp: resume_targets_def build_path_def review_path_def transition_work transition_match_def
      decision_def)

lemma resume_payload_target:
  "json_at (resume_payload C policy command (Some target) granted) ''resume_target'' = JStr (CaseState_to_string target)"
  by (simp add: resume_payload_def object_of_def json_at_def json_opt_def)

lemma parked_state:
  assumes "sc_state c \<in> set PARKED_STATES" "sc_state c = CaseState_to_string state"
  shows "parked state"
  using assms by (cases state) (simp_all add: PARKED_STATES_def parked_def)

text \<open>What the command of a resume says of its case.\<close>

lemma resume_workflow_Inr:
  assumes "resume_workflow C policy c command event target granted now = Inr w"
  shows "sc_state c = CaseState_to_string (wc_expected_state w)"
    "state_revision_get (wc_expected_state_revision w) = sc_state_revision c"
    "wc_accepted_policy_revision w = PolicyRevision (sc_policy_revision c)"
    "wc_event w = event" "wc_event_payload w = resume_payload C policy command target granted"
    "wc_accepted_plan_version w = None" "wc_next_pr_number w = None" "wc_next_head_sha w = None"
  using assms by (auto simp: resume_workflow_def recovery_command_def nonzero_or_def split: if_splits)

lemma resume_transition:
  assumes "parked s" "target \<in> resume_targets" "max_remediation_rounds x \<noteq> 0" "resume_target x = Some target"
  obtains fx where "transition s HumanResumed x = Inr \<lparr>next_state = target, effects = [fx]\<rparr>"
    "fx \<in> {DispatchPlanner, DispatchBuilder, ObserveCi}"
proof -
  from assms(2) obtain fx where fx: "resume_dispatch (Some target) = Some fx" "fx \<in> {DispatchPlanner, DispatchBuilder, ObserveCi}"
    by (auto simp: resume_targets_def resume_dispatch_def)
  moreover have "\<not> is_terminal s" "s \<noteq> TakenOver" using assms(1) by (auto simp: parked_def)
  ultimately have "transition s HumanResumed x = Inr \<lparr>next_state = target, effects = [fx]\<rparr>"
    using assms by (simp add: transition_def decision_def)
  with fx(2) that show ?thesis by blast
qed


section \<open>Commands are applied to paused cases only\<close>

lemma on_ledger_Inr [simp]:
  "on_ledger f m d = (Inr a, d') \<longleftrightarrow> (\<exists>s. m (ledger d) = (Inr a, s) \<and> d' = d\<lparr>ledger := s\<rparr>)"
  by (auto simp: on_ledger_def map_err_def split: prod.splits sum.splits)

lemma read_ledger_Inr [simp]: "read_ledger f d = (Inr a, d') \<longleftrightarrow> f (ledger d) = Inr a \<and> d' = d"
  by (auto simp: read_ledger_def squery_def map_err_def split: sum.splits)

lemma acknowledge_ledger: "acknowledge C src policy command n message d = (Inr u, d') \<Longrightarrow> ledger d' = ledger d"
  by (auto simp: acknowledge_def smodify_def Let_def split: option.splits)

lemma work_step_of:
  assumes "exec C D op s = (r, t)" "\<not> moves_case op"
  shows "(controlled_step Shadow C D)\<^sup>*\<^sup>* s t" "cases_table t = cases_table s"
  using controlled_step.work [of op, OF _ assms(1)] assms(2) stepsD [OF exec_work [OF assms(2)] assms(1)]
  by (auto simp: work_step_def)

lemma resolve_steps:
  assumes "resolve_control_command i st outcome now s = (Inr u, t)"
  shows "(controlled_step Shadow C D)\<^sup>*\<^sup>* s t" "cases_table t = cases_table s"
proof -
  have "exec C D (ResolveCommand i st outcome now) s = (Inr u, t)" using assms by simp
  from work_step_of [OF this] show "(controlled_step Shadow C D)\<^sup>*\<^sup>* s t" "cases_table t = cases_table s"
    by simp_all
qed

lemma apply_command_steps:
  assumes "apply_command C D W c command event target granted x d = (Inr u, d')"
  shows "(controlled_step Shadow C D)\<^sup>*\<^sup>* (ledger d) (ledger d')"
proof -
  from assms obtain input r s where policy: "record_policy C input (ledger d) = (Inr r, s)"
    and rest: "\<exists>v accepted w r'. load_repository_policy W (json_to_string C v) = Inr accepted \<and>
      LedgerController_apply C D (case_policy accepted) w s = (Inr r', ledger d')"
    unfolding apply_command_def record_case_policy_def by fastforce
  from policy have "exec C D (RecordPolicy input) (ledger d) = (Inr (), s)"
    by (simp add: discard_def sbind_def sreturn_def)
  then have "(controlled_step Shadow C D)\<^sup>*\<^sup>* (ledger d) s" by (rule work_step_of) simp
  moreover from rest obtain v accepted w r' where load: "load_repository_policy W (json_to_string C v) = Inr accepted"
    and run: "LedgerController_apply C D (case_policy accepted) w s = (Inr r', ledger d')" by blast
  from load have "cp_merge_mode (case_policy accepted) = Shadow"
    by (elim load_cases) (auto simp: case_policy_def merge_valid_def dest: validate_policy_valid(7))
  then have "controlled_step Shadow C D s (ledger d')" using run by (rule controlled_step.command)
  ultimately show ?thesis by simp
qed

lemma command_applied_steps:
  assumes "command_applied k command now d = (Inr outcome, d')"
  shows "(controlled_step Shadow C D)\<^sup>*\<^sup>* (ledger d) (ledger d')"
    and "\<exists>c. query_case k (ledger d') = Some c \<and>
      outcome = CommandDone (sc_case_key c) (ccm_comment_id command) (ccm_command command) (sc_state c)"
  using assms resolve_steps
  by (auto simp: command_applied_def query_case_def find_case_def sread_def)

text \<open>What one cycle did with a command.\<close>

definition cycle_ok :: "codec \<Rightarrow> decoders \<Rightarrow> ResumeContext \<Rightarrow> desk \<Rightarrow> ResumeCycle \<Rightarrow> desk \<Rightarrow> bool" where
  "cycle_ok C D x d outcome d' \<longleftrightarrow>
    (case outcome of
       Idle \<Rightarrow> d' = d
     | CommandWaiting _ _ \<Rightarrow> ledger d' = ledger d
     | CommandSkipped _ _ \<Rightarrow> cases_table (ledger d') = cases_table (ledger d)
     | CommandDone _ i name _ \<Rightarrow>
         (controlled_step Shadow C D)\<^sup>*\<^sup>* (ledger d) (ledger d') \<and>
         (\<exists>c park command commands.
            pending_control_commands (rid_id (rpol_repository (rx_policy x))) (Some (rx_case_key x)) (ledger d) =
              Inr (command # commands) \<and> ccm_comment_id command = i \<and> ccm_command command = name \<and>
            query_case (rx_case_key x) (ledger d) = Some c \<and> sc_state c \<in> set PARKED_STATES \<and>
            parking_event C (sc_case_key c) (ledger d) = Inr (Some park) \<and>
            pe_observed_at park \<le> ccm_received_at command \<and>
            (name = ''ABANDON'' \<or> rx_authorized x \<and>
              live_direct_attempts_for_case (sc_case_key c) (rx_now x) (ledger d) = Inr 0 \<and>
              capacity_available (rx_policy x) (sc_case_key c) (rx_now x) (ledger d) = Inr True)))"

lemma resume_case_ok:
  assumes run: "resume_case C D W src c park command x d = (Inr outcome, d')" and name: "ccm_command command \<noteq> ''ABANDON''"
    and known: "pending_control_commands (rid_id (rpol_repository (rx_policy x))) (Some (rx_case_key x)) (ledger d) =
        Inr (command # commands)"
      "query_case (rx_case_key x) (ledger d) = Some c" "sc_state c \<in> set PARKED_STATES"
      "parking_event C (sc_case_key c) (ledger d) = Inr (Some park)" "pe_observed_at park \<le> ccm_received_at command"
  shows "cycle_ok C D x d outcome d'"
proof (cases outcome)
  case (CommandDone k i n st)
  with run obtain d1 d2 where free: "rx_authorized x"
      "live_direct_attempts_for_case (sc_case_key c) (rx_now x) (ledger d) = Inr 0"
      "capacity_available (rx_policy x) (sc_case_key c) (rx_now x) (ledger d) = Inr True"
    and move: "apply_command C D W c command HumanResumed (Some (command_target command park)) (granted_rounds park c) x d =
        (Inr (), d1)"
    and reply: "acknowledge C src (rx_policy x) command (sc_issue_number c)
        (resume_reply (command_target command park) (granted_rounds park c)) d1 = (Inr (), d2)"
    and resolved: "command_applied (sc_case_key c) command (rx_now x) d2 = (Inr outcome, d')"
    unfolding resume_case_def Let_def by (auto simp: word_gt_0 split: if_splits)
  have "(controlled_step Shadow C D)\<^sup>*\<^sup>* (ledger d) (ledger d')"
    using apply_command_steps [OF move] command_applied_steps(1) [OF resolved] acknowledge_ledger [OF reply]
    by (metis rtranclp_trans)
  then show ?thesis
    using CommandDone command_applied_steps(2) [OF resolved] free known by (auto simp: cycle_ok_def)
qed (use run in \<open>auto simp: resume_case_def cycle_ok_def Let_def split: if_splits
    dest: acknowledge_ledger command_applied_steps(2)\<close>)

lemma abandon_case_ok:
  assumes run: "abandon_case C D W src c command x d = (Inr outcome, d')" and name: "ccm_command command = ''ABANDON''"
    and known: "pending_control_commands (rid_id (rpol_repository (rx_policy x))) (Some (rx_case_key x)) (ledger d) =
        Inr (command # commands)"
      "query_case (rx_case_key x) (ledger d) = Some c" "sc_state c \<in> set PARKED_STATES"
      "parking_event C (sc_case_key c) (ledger d) = Inr (Some park)" "pe_observed_at park \<le> ccm_received_at command"
  shows "cycle_ok C D x d outcome d'"
proof -
  from run obtain d1 d2 message where move: "apply_command C D W c command HumanAbandoned None 0 x d = (Inr (), d1)"
    and reply: "acknowledge C src (rx_policy x) command (sc_issue_number c) message d1 = (Inr (), d2)"
    and resolved: "command_applied (sc_case_key c) command (rx_now x) d2 = (Inr outcome, d')"
    unfolding abandon_case_def by auto
  have "(controlled_step Shadow C D)\<^sup>*\<^sup>* (ledger d) (ledger d')"
    using apply_command_steps [OF move] command_applied_steps(1) [OF resolved] acknowledge_ledger [OF reply]
    by (metis rtranclp_trans)
  with command_applied_steps(2) [OF resolved] known name show ?thesis by (auto simp: cycle_ok_def)
qed

lemma ignore_command_ok:
  "ignore_command command reason now d = (Inr outcome, d') \<Longrightarrow> cycle_ok C D x d outcome d'"
  using resolve_steps(2) by (auto simp: ignore_command_def cycle_ok_def)

text \<open>C25: A control command acts on a paused case only, and when it cannot act it is kept. When a cycle
  applied a command, it was the oldest pending command of the case, the case was paused, and the
  command is not older than the pause; unless it abandons the case, the authorization of the
  issue was confirmed, no direct worker of the case was alive and the other active cases left it
  a slot; the ledger took steps the controller may take. A command that has to wait leaves the
  ledger as it was, so that a later cycle finds it pending, and a command that is ignored moves
  no case.\<close>

theorem commands_move_paused_cases:
  assumes "apply_control_commands_once C D W src x d = (Inr outcome, d')"
  shows "cycle_ok C D x d outcome d'"
proof -
  from assms obtain commands where pending:
      "pending_control_commands (rid_id (rpol_repository (rx_policy x))) (Some (rx_case_key x)) (ledger d) = Inr commands"
    by (auto simp: apply_control_commands_once_def)
  show ?thesis
  proof (cases commands)
    case Nil
    with assms pending show ?thesis by (auto simp: apply_control_commands_once_def cycle_ok_def)
  next
    case (Cons command rest)
    note pending = pending [unfolded Cons]
    from assms pending obtain c where c: "query_case (rx_case_key x) (ledger d) = Some c"
      by (auto simp: apply_control_commands_once_def)
    show ?thesis
    proof (cases "sc_state c \<in> set PARKED_STATES")
      case False
      with assms pending c show ?thesis by (auto simp: apply_control_commands_once_def intro: ignore_command_ok)
    next
      case True
      with assms pending c obtain park where park: "parking_event C (sc_case_key c) (ledger d) = Inr (Some park)"
        and rest: "(if ccm_received_at command < pe_observed_at park
           then ignore_command command ''the command predates the current pause'' (rx_now x)
           else if ccm_command command = ''ABANDON'' then abandon_case C D W src c command x
           else resume_case C D W src c park command x) d = (Inr outcome, d')"
        by (auto simp: apply_control_commands_once_def)
      from rest show ?thesis
        using abandon_case_ok [OF _ _ pending c True park] resume_case_ok [OF _ _ pending c True park]
          ignore_command_ok by (auto split: if_splits simp: not_less)
    qed
  qed
qed

section \<open>A sample pause\<close>

definition sample_control :: ControlCommand where
  "sample_control = \<lparr>ccm_comment_id = 6, ccm_repository_id = 7, ccm_thread_number = 2,
     ccm_case_key = Some ''repo:7#2@1'', ccm_actor_id = 5, ccm_command = ''RESUME'', ccm_guidance = [],
     ccm_received_at = 9, ccm_status = Pending\<rparr>"

definition sample_park :: ParkingEvent where
  "sample_park = \<lparr>pe_event_type = ''OPERATIONAL_BOUND_REACHED'', pe_previous_state = ''BUILDING'',
     pe_state_revision = 5, pe_observed_at = 4, pe_payload = JNull\<rparr>"

definition sample_paused_case :: StoredCase where
  "sample_paused_case = stored_case (hd (cases_table sample_parked))"


definition sample_desk :: desk where
  "sample_desk = \<lparr>ledger = sample_parked\<lparr>
     policies := [\<lparr>pol_repository_id = 7, pol_revision = 3, pol_payload_json = ''n'', pol_payload_sha256 = [],
       pol_accepted_at = 1\<rparr>],
     events := [\<lparr>e_event_id = ''e5'', e_case_key = ''repo:7#2@1'', e_state_revision = 5, e_observed_at = 4,
       e_event_type = ''OPERATIONAL_BOUND_REACHED'', e_payload_json = ''n'', e_payload_sha256 = [],
       e_command_sha256 = [], e_previous_state = Some ''PLANNING'', e_next_state = ''ESCALATED'',
       e_policy_revision = 3, e_remediation_round = 0, e_plan_version = 1, e_pr_number = None, e_head_sha = None\<rparr>],
     control_commands := [\<lparr>cc_comment_id = 6, cc_repository_id = 7, cc_thread_number = 2,
       cc_case_key = Some ''repo:7#2@1'', cc_actor_id = 5, cc_command = ''RESUME'', cc_guidance = [],
       cc_received_at = 9, cc_status = ''PENDING'', cc_outcome = None, cc_resolved_at = None\<rparr>]\<rparr>,
   replies = []\<rparr>"

definition sample_resume_context :: ResumeContext where
  "sample_resume_context = \<lparr>rx_policy = sample_repository, rx_case_key = ''repo:7#2@1'', rx_now = 10, rx_authorized = True\<rparr>"

definition sample_desk_codec :: codec where
  "sample_desk_codec = sample_codec\<lparr>json_to_string := (\<lambda>_. ''{}''), sha256_hex := (\<lambda>_. [])\<rparr>"

theorem commands_move_paused_cases_witness:
  "\<exists>d. apply_control_commands_once sample_desk_codec sample_decoders sample_object_wire sample_source sample_resume_context
       sample_desk = (Inr (CommandDone ''repo:7#2@1'' 6 ''RESUME'' ''PLANNING''), d) \<and>
     (controlled_step Shadow sample_desk_codec sample_decoders)\<^sup>*\<^sup>* (ledger sample_desk) (ledger d)"
proof -
  have "fst (apply_control_commands_once sample_desk_codec sample_decoders sample_object_wire sample_source sample_resume_context
      sample_desk) = Inr (CommandDone ''repo:7#2@1'' 6 ''RESUME'' ''PLANNING'')" by code_simp
  then obtain d where d: "apply_control_commands_once sample_desk_codec sample_decoders sample_object_wire sample_source
      sample_resume_context sample_desk = (Inr (CommandDone ''repo:7#2@1'' 6 ''RESUME'' ''PLANNING''), d)"
    by (metis prod.collapse)
  with commands_move_paused_cases [OF d] show ?thesis by (auto simp: cycle_ok_def)
qed

text \<open>The two ways in which a command enters differ: a comment by a reviewer account that is also
  trusted is no command for the webhook, but is one when the comments of the issue are polled.\<close>

lemma polled_reviewer_command:
  "\<exists>policy comment. \<not> trusted_human policy 1 (icm_actor_id comment) \<and>
     gh_reviewer_general_actor_id (rpol_github policy) = Some (icm_actor_id comment) \<and>
     polled_command policy 1 ''pip'' sample_park comment \<noteq> None"
proof -
  let ?policy = "sample_repository\<lparr>rpol_github := (rpol_github sample_repository)\<lparr>gh_reviewer_general_actor_id := Some 5\<rparr>\<rparr>"
  let ?comment = "\<lparr>icm_id = 6, icm_actor_id = 5, icm_issue_number = 2, icm_html_url = [], icm_body = ''@pip resume'',
      icm_body_sha256 = [], icm_created_at = ''1970-01-01T00:00:09Z'', icm_updated_at = ''1970-01-01T00:00:09Z''\<rparr>"
  have "\<not> trusted_human ?policy 1 (icm_actor_id ?comment) \<and>
     gh_reviewer_general_actor_id (rpol_github ?policy) = Some (icm_actor_id ?comment) \<and>
     polled_command ?policy 1 ''pip'' sample_park ?comment \<noteq> None" by code_simp
  then show ?thesis by blast
qed

end
