(* ===== verification/Spec2Isabelle.thy ===== *)
theory Spec2Isabelle
  imports StateMachine Intake Revision ExactHead Contracts Transitions LedgerRuns Flow Results RepositoryPolicies Resume
begin

text \<open>
  \<^bold>\<open>Pip, the issue-to-pull-request controller.\<close> The program watches GitHub issues, admits the
  authorized ones as \<^emph>\<open>cases\<close>, lets workers plan, build and review, and parks a case for a human when
  it cannot go on. Its crates, under \<open>src/crates\<close>, and how they interact:

  \<^item> \<open>pip-core\<close> decides: identifiers, the state machine of a case, eligibility of an issue, commands
    against a revision, readiness of an exact head. It has no state and no effects.
  \<^item> \<open>pip-contracts\<close> is the vocabulary between controller and workers.
  \<^item> \<open>pip-store\<close> is the event-sourced SQLite ledger: append-only history, the projection of the
    current case, an outbox of effects under leases, attempts of direct workers, projections of
    external tasks, conversations and control commands.
  \<^item> \<open>pip-controller\<close> turns a decision of \<open>pip-core\<close> into one ledger transition, schedules the
    workers of a claimed effect and ingests their results.
  \<^item> \<open>pip-control\<close> is the process around it: policy file, intake, webhooks, bounds, recoveries,
    human commands. \<open>pip-github\<close>, \<open>pip-hermes\<close> and \<open>pip-executor\<close> are its hands.

  \<^bold>\<open>Style of the model.\<close> A struct is a \<open>record\<close>, an enum a \<open>datatype\<close>, \<open>u32\<close> and \<open>u64\<close> are words of that
  width with checked and saturating operations written out, a \<open>String\<close> is the list of its bytes.
  A fallible function returns a sum, \<open>Inl\<close> the error. A method on \<open>&mut Store\<close> is a value of
  \<open>('s, 'e, 'a) smonad\<close> (theory \<open>Prelude\<close>), a function from the state to the answer and the next state;
  an SQL transaction keeps its state only when it commits, so that a failed operation and an
  injected fault leave the ledger as it was. A table is the list of its rows in \<open>rowid\<close> order; keys,
  checks, foreign keys and triggers of the schema are tests of the row-level writes.

  \<^bold>\<open>Theories.\<close>

  \<^item> \<open>Prelude\<close>, \<open>Json\<close>: integers, texts, error and state monads, the locales \<open>frame_relation\<close> and
    \<open>row_relation\<close> (what an operation keeps is kept by sequences of operations), JSON values.
  \<^item> \<open>Domain\<close>, \<open>StateMachine\<close>, \<open>Intake\<close>, \<open>Revision\<close>, \<open>ExactHead\<close>: the modules of \<open>pip-core\<close>. Shown: a terminal
    state is left only by two bookkeeping corrections, readiness follows build, CI and review of the
    same build, shadow mode dispatches no merge; an eligible issue has the label from a trusted actor;
    a command is accepted exactly when it is current; a head is ready exactly when all evidence
    accepts it.
  \<^item> \<open>Contracts\<close>, \<open>WorkerWire\<close>: the results of \<open>pip-contracts\<close>, their validation, their binding to a task
    and their JSON form.
  \<^item> \<open>Ledger\<close>, \<open>LedgerInputs\<close>, \<open>DispatchIntents\<close>, \<open>Recovery\<close>, \<open>Transitions\<close>, \<open>Outbox\<close>, \<open>DirectAttempts\<close>,
    \<open>Conversations\<close>, \<open>Control\<close>, \<open>Projections\<close>, \<open>Records\<close>: the store, one theory per group of operations.
    Shown: a batch applied twice writes once, a failed operation writes nothing, repair restores the
    projection, stale commands are refused, older effects are superseded, the oldest free effect is
    claimed, cool-downs double and are capped, failure budgets count, a rejected result is retried at
    most as often as the policy says.
  \<^item> \<open>LedgerRuns\<close>: every writing operation as one \<open>ledger_op\<close>, the reachable ledgers and their invariants:
    projection and history agree, leases are exclusive, what is settled stays settled.
  \<^item> \<open>Controller\<close>, \<open>Flow\<close>: \<open>LedgerController\<close> and its abstract specification, a system of cases without a
    ledger; the locale \<open>simulation\<close> carries safety from the specification to the ledger.
  \<^item> \<open>RolePolicies\<close>, \<open>Scheduling\<close>, \<open>Results\<close>: \<open>scheduling.rs\<close> and \<open>results.rs\<close> of \<open>pip-controller\<close>: well-formed
    policies, the jobs of a dispatch, evidence bundles without loss, ingestion that credits a task
    once, and the review cohort against a declarative reading.
  \<^item> \<open>RepositoryPolicies\<close>, \<open>Bounds\<close>: the policy file with its views, the policy an accepted case runs
    under, and the operational limits.
  \<^item> \<open>BuildJoins\<close>, \<open>Authorizations\<close>: which recorded build a publication rests on, and the recoveries an
    operator may authorize.
  \<^item> \<open>GitHubEvidence\<close>, \<open>ActiveIntake\<close>, \<open>Webhooks\<close>: what is read from GitHub, shadow and live intake,
    deliveries, control commands and conversations.
  \<^item> \<open>Calendar\<close>, \<open>Park\<close>, \<open>Resume\<close>: timestamps, the comment on a paused case with the escaping of reported
    text, and the commands that continue or abandon a case. Shown: a timestamp is what the calendar
    says, published text is inert, commands move paused cases only, and a paused case can always
    be resumed and reach readiness.

  \<^bold>\<open>Parameters.\<close> Code that is not part of the repository is an argument of the definitions that use it,
  and what they rely on is a named hypothesis with a witness: \<open>codec\<close> (text of a JSON value and back,
  SHA-256, the JSON functions of SQLite), \<open>decoders\<close>, \<open>result_decoders\<close>, \<open>policy_wire\<close>, \<open>authorization_reader\<close>
  and \<open>issues_reader\<close> (derived serde readers), \<open>hmac\<close>, and \<open>intake_source\<close>, the trait that the GitHub client
  implements. \<open>quiescent\<close> of intake is the caller's closure.

  \<^bold>\<open>Termination.\<close> There is no fuel. Loops are structural recursion over the list that the source
  iterates, or a \<open>function\<close> with a measure on the rest of the text; every operation is total.

  \<^bold>\<open>Not modelled.\<close> Opening, migrating and backing up database files; the REST client, the Hermes queue
  and the executor of processes and checkouts; the cycles of \<open>pip-control\<close> that interleave those with
  one command of the ledger (draft pull requests, plan and review comments, CI observation, takeover,
  final preflight, dispatch); the command line, installation and the webhook socket. They consist
  of calls whose answers the repository does not define; the ledger operations, commands, joins and
  decisions they rest on are modelled.
\<close>

section \<open>Where the code differs from its comments\<close>

text \<open>\<open>with_hermes_scratch_root\<close> refuses \<open>CurDir\<close> components, but the components of a path never show a
  dot in its middle.\<close>

lemma scratch_root_keeps_dot:
  "with_hermes_scratch_root ''/a/./b'' (policy\<lparr>wp_workspace := ''/w''\<rparr>) \<noteq> Inl InvalidPolicy"
  by (simp add: with_hermes_scratch_root_def) code_simp

text \<open>A remediation extension keeps the conversation model that intake removes from a case policy.\<close>

lemma extension_keeps_conversation_model:
  "rpol_conversation_model (extended_policy paused accepted) = rpol_conversation_model paused"
  by (simp add: extended_policy_def)

end
